(* ===== verification/Prelude.thy ===== *)
theory Prelude
  imports Main "HOL-Library.Sublist"
begin

text \<open>
  Shared vocabulary of the development: JavaScript values, the conversions and comparisons of
  the language that the portal's code uses, and generic list and string lemmas.

  Numbers are integers here (ids, counts, versions, status codes); the utilities that compute
  with fractions are not modelled.  Strings are lists of UTF-8 code units.
\<close>

named_theorems promise_simps \<open>evaluation rules of the promise calculus\<close>

section \<open>JavaScript values\<close>

datatype js =
    JUndef
  | JNull
  | JBool bool
  | JNum int
  | JNaN
  | JStr string
  | JArr "js list"
  | JObj "(string \<times> js) list"

abbreviation type_error :: js where
  "type_error \<equiv> JObj [(''name'', JStr ''TypeError'')]"

text \<open>Property access.  \<open>null\<close> and \<open>undefined\<close> have no properties: reading one throws, which is
  \<open>None\<close> here.  A property that is not there reads as \<open>undefined\<close>.\<close>

definition lookup :: "string \<Rightarrow> (string \<times> js) list \<Rightarrow> js" where
  "lookup k kvs = (case map_of kvs k of None \<Rightarrow> JUndef | Some v \<Rightarrow> v)"

fun getp :: "js \<Rightarrow> string \<Rightarrow> js option" where
  "getp JUndef k = None"
| "getp JNull k = None"
| "getp (JObj kvs) k = Some (lookup k kvs)"
| "getp (JArr xs) k = Some (if k = ''length'' then JNum (int (length xs)) else JUndef)"
| "getp (JStr s) k = Some (if k = ''length'' then JNum (int (length s)) else JUndef)"
| "getp _ k = Some JUndef"

text \<open>Property access on a value that is known to be an object.\<close>

definition fld :: "js \<Rightarrow> string \<Rightarrow> js" where
  "fld o' k = (case getp o' k of None \<Rightarrow> JUndef | Some v \<Rightarrow> v)"

text \<open>Writing a property keeps the insertion order of the keys.\<close>

fun put_key :: "string \<Rightarrow> js \<Rightarrow> (string \<times> js) list \<Rightarrow> (string \<times> js) list" where
  "put_key k v [] = [(k, v)]"
| "put_key k v ((k', v') # kvs) =
     (if k = k' then (k, v) # kvs else (k', v') # put_key k v kvs)"

fun set_fld :: "js \<Rightarrow> string \<Rightarrow> js \<Rightarrow> js" where
  "set_fld (JObj kvs) k v = JObj (put_key k v kvs)"
| "set_fld x k v = x"

fun has_own :: "js \<Rightarrow> string \<Rightarrow> bool" where
  "has_own (JObj kvs) k \<longleftrightarrow> k \<in> fst ` set kvs"
| "has_own _ k \<longleftrightarrow> False"

text \<open>\<open>xs[0]\<close>: out of range reads as \<open>undefined\<close>.\<close>

fun index0 :: "js \<Rightarrow> js" where
  "index0 (JArr (x # xs)) = x"
| "index0 _ = JUndef"

fun truthy :: "js \<Rightarrow> bool" where
  "truthy JUndef = False"
| "truthy JNull = False"
| "truthy (JBool b) = b"
| "truthy (JNum n) = (n \<noteq> 0)"
| "truthy JNaN = False"
| "truthy (JStr s) = (s \<noteq> [])"
| "truthy (JArr xs) = True"
| "truthy (JObj kvs) = True"

fun is_array :: "js \<Rightarrow> bool" where
  "is_array (JArr xs) = True"
| "is_array _ = False"

fun is_object :: "js \<Rightarrow> bool" where
  "is_object (JObj kvs) = True"
| "is_object _ = False"

fun elems :: "js \<Rightarrow> js list" where
  "elems (JArr xs) = xs"
| "elems _ = []"

section \<open>Numbers as decimal text, text as numbers\<close>

definition digit_char :: "nat \<Rightarrow> char" where
  "digit_char d = char_of (48 + d)"

fun show_nat :: "nat \<Rightarrow> string" where
  "show_nat n = (if n < 10 then [digit_char n] else show_nat (n div 10) @ [digit_char (n mod 10)])"

declare show_nat.simps [simp del]

definition show_int :: "int \<Rightarrow> string" where
  "show_int i = (if i < 0 then ''-'' @ show_nat (nat (- i)) else show_nat (nat i))"

definition is_digit :: "char \<Rightarrow> bool" where
  "is_digit c \<longleftrightarrow> 48 \<le> (of_char c :: nat) \<and> (of_char c :: nat) \<le> 57"

definition digit_val :: "char \<Rightarrow> nat" where
  "digit_val c = of_char c - 48"

definition read_nat :: "string \<Rightarrow> nat" where
  "read_nat s = foldl (\<lambda>n c. 10 * n + digit_val c) 0 s"

definition is_space :: "char \<Rightarrow> bool" where
  "is_space c \<longleftrightarrow> (of_char c :: nat) \<in> {9, 10, 11, 12, 13, 32}"

text \<open>\<open>parseInt\<close> reads the longest prefix that is a decimal numeral, and gives \<open>NaN\<close> when
  there is none.\<close>

definition parse_int_str :: "string \<Rightarrow> js" where
  "parse_int_str s =
     (let s1 = dropWhile is_space s;
          neg = (s1 \<noteq> [] \<and> hd s1 = CHR ''-'');
          s2 = (if s1 \<noteq> [] \<and> (hd s1 = CHR ''-'' \<or> hd s1 = CHR ''+'') then tl s1 else s1);
          ds = takeWhile is_digit s2
      in if ds = [] then JNaN
         else JNum (if neg then - int (read_nat ds) else int (read_nat ds)))"

fun to_str :: "js \<Rightarrow> string" and to_str_list :: "js list \<Rightarrow> string" where
  "to_str JUndef = ''undefined''"
| "to_str JNull = ''null''"
| "to_str (JBool b) = (if b then ''true'' else ''false'')"
| "to_str (JNum n) = show_int n"
| "to_str JNaN = ''NaN''"
| "to_str (JStr s) = s"
| "to_str (JArr xs) = to_str_list xs"
| "to_str (JObj kvs) = ''[object Object]''"
| "to_str_list [] = []"
| "to_str_list [x] = (case x of JUndef \<Rightarrow> [] | JNull \<Rightarrow> [] | _ \<Rightarrow> to_str x)"
| "to_str_list (x # y # xs) =
     (case x of JUndef \<Rightarrow> [] | JNull \<Rightarrow> [] | _ \<Rightarrow> to_str x) @ '','' @ to_str_list (y # xs)"

definition parse_int :: "js \<Rightarrow> js" where
  "parse_int v = parse_int_str (to_str v)"

text \<open>Unary plus and comparison use the number a text stands for: surrounding blanks are
  dropped, the empty text is 0, and a text that is not a decimal integer is \<open>NaN\<close>.\<close>

definition str_to_num :: "string \<Rightarrow> js" where
  "str_to_num s =
     (let s1 = rev (dropWhile is_space (rev (dropWhile is_space s)));
          s2 = (if s1 \<noteq> [] \<and> (hd s1 = CHR ''-'' \<or> hd s1 = CHR ''+'') then tl s1 else s1)
      in if s1 = [] then JNum 0
         else if s2 \<noteq> [] \<and> list_all is_digit s2 then parse_int_str s1 else JNaN)"

section \<open>Loose equality\<close>

fun prim_num :: "js \<Rightarrow> js" where
  "prim_num (JBool b) = JNum (if b then 1 else 0)"
| "prim_num (JStr s) = str_to_num s"
| "prim_num v = v"

text \<open>The operator \<open>==\<close> on primitive values: \<open>undefined\<close> and \<open>null\<close> are equal to each other
  and to nothing else; two texts compare as texts; otherwise both sides are read as numbers.
  Objects and arrays have an identity that is not modelled and compare unequal here; the code
  modelled never compares them.\<close>

fun nullish :: "js \<Rightarrow> bool" where
  "nullish JUndef = True"
| "nullish JNull = True"
| "nullish _ = False"

fun num_eq :: "js \<Rightarrow> js \<Rightarrow> bool" where
  "num_eq (JNum a) (JNum b) = (a = b)"
| "num_eq _ _ = False"

fun js_eq :: "js \<Rightarrow> js \<Rightarrow> bool" where
  "js_eq (JStr a) (JStr b) = (a = b)"
| "js_eq a b = (if nullish a \<or> nullish b then nullish a \<and> nullish b
               else num_eq (prim_num a) (prim_num b))"

lemma js_eq_str [simp]: "js_eq (JStr a) (JStr b) \<longleftrightarrow> a = b"
  by simp

lemma js_eq_nullish: "nullish a \<Longrightarrow> js_eq a b \<longleftrightarrow> nullish b"
  by (cases a; cases b) auto

section \<open>Lemmas\<close>

lemma lookup_Nil [simp]: "lookup k [] = JUndef"
  by (simp add: lookup_def)

lemma lookup_Cons [simp]: "lookup k ((k', v) # kvs) = (if k = k' then v else lookup k kvs)"
  by (simp add: lookup_def)

lemma fld_obj [simp]: "fld (JObj kvs) k = lookup k kvs"
  by (simp add: fld_def)

lemma getp_obj_iff: "is_object v \<Longrightarrow> getp v k = Some (fld v k)"
  by (cases v) auto

lemma lookup_put_key: "lookup k (put_key k' v kvs) = (if k = k' then v else lookup k kvs)"
  by (induction kvs) auto

lemma fld_set_fld [simp]:
  "is_object x \<Longrightarrow> fld (set_fld x k v) k' = (if k = k' then v else fld x k')"
  by (cases x) (auto simp: lookup_put_key)

lemma is_object_set_fld [simp]: "is_object (set_fld x k v) = is_object x"
  by (cases x) auto

lemma has_own_set_fld: "is_object x \<Longrightarrow> has_own (set_fld x k v) k"
proof (cases x)
  case (JObj kvs)
  have "k \<in> fst ` set (put_key k v kvs)"
    by (induction kvs) force+
  then show ?thesis using JObj by simp
qed auto

lemma has_own_set_other: "has_own x j \<Longrightarrow> has_own (set_fld x k v) j"
proof (cases x)
  case (JObj kvs)
  have "j \<in> fst ` set kvs \<Longrightarrow> j \<in> fst ` set (put_key k v kvs)"
    by (induction kvs) force+
  then show "has_own x j \<Longrightarrow> ?thesis" using JObj by simp
qed auto

lemma of_char_digit_char [simp]: "d < 10 \<Longrightarrow> (of_char (digit_char d) :: nat) = 48 + d"
  by (simp add: digit_char_def)

lemma is_digit_digit_char [simp]: "d < 10 \<Longrightarrow> is_digit (digit_char d)"
  by (simp add: is_digit_def)

lemma digit_val_digit_char [simp]: "d < 10 \<Longrightarrow> digit_val (digit_char d) = d"
  by (simp add: digit_val_def)

lemma show_nat_digits: "list_all is_digit (show_nat n)"
proof (induction n rule: show_nat.induct)
  case (1 n)
  then show ?case by (subst show_nat.simps) auto
qed

lemma show_nat_nonempty [simp]: "show_nat n \<noteq> []"
  by (subst show_nat.simps) simp

lemma show_nat_small: "n < 10 \<Longrightarrow> show_nat n = [digit_char n]"
  by (subst show_nat.simps) simp

lemma show_nat_step: "10 \<le> n \<Longrightarrow> show_nat n = show_nat (n div 10) @ [digit_char (n mod 10)]"
  by (subst show_nat.simps) simp

lemma read_nat_snoc: "read_nat (s @ [c]) = 10 * read_nat s + digit_val c"
  by (simp add: read_nat_def)

lemma read_show_nat [simp]: "read_nat (show_nat n) = n"
proof (induction n rule: show_nat.induct)
  case (1 n)
  show ?case
  proof (cases "n < 10")
    case True
    then show ?thesis by (subst show_nat.simps) (simp add: read_nat_def)
  next
    case False
    then have "read_nat (show_nat n) = read_nat (show_nat (n div 10) @ [digit_char (n mod 10)])"
      by (subst show_nat.simps) simp
    also have "\<dots> = 10 * (n div 10) + n mod 10"
      using 1 False by (simp add: read_nat_snoc)
    finally show ?thesis by simp
  qed
qed

lemma is_digit_not_space: "is_digit c \<Longrightarrow> \<not> is_space c"
  by (auto simp: is_digit_def is_space_def)

lemma is_digit_not_sign: "is_digit c \<Longrightarrow> c \<noteq> CHR ''-'' \<and> c \<noteq> CHR ''+''"
  by (auto simp: is_digit_def)

text \<open>Reading a numeral back: \<open>parseInt\<close> inverts the decimal text of a natural number.\<close>

lemma parse_int_show_nat: "parse_int_str (show_nat n) = JNum (int n)"
proof -
  obtain c cs where c: "show_nat n = c # cs" by (cases "show_nat n") auto
  then have ds: "is_digit c" "list_all is_digit cs"
    using show_nat_digits [of n] by auto
  have tw: "takeWhile is_digit (c # cs) = c # cs"
    using ds by (metis list.pred_inject(2) list.pred_set takeWhile_eq_all_conv)
  have dw: "dropWhile is_space (c # cs) = c # cs"
    using ds is_digit_not_space by simp
  have "read_nat (c # cs) = n" using c read_show_nat [of n] by simp
  then show ?thesis
    using c tw dw is_digit_not_sign [OF ds(1)] by (simp add: parse_int_str_def Let_def)
qed

end
