(* ===== verification/Dates.thy ===== *)
theory Dates
  imports Prelude
begin

text \<open>
  Dates as text (\<open>common/service/utils/DateUtils.js\<close>): the calendar of the language's \<open>Date\<close>, the
  scanner of masks, the flags it replaces, \<open>dateFormat\<close> and its masks.

  A time is a number of milliseconds since 1970-01-01 UTC, an unbounded integer.  What the browser
  knows and the code does not (the time zone, the clock, how \<open>Date\<close> reads a text) are the fields
  of \<open>clock\<close>, which nothing writes.  The portal formats in UTC; formatting in local time is
  modelled as well.
\<close>

section \<open>The calendar of Date\<close>

definition msPerDay :: int where
  "msPerDay = 86400000"

text \<open>The day on which a year starts, counted from 1970-01-01 (ECMAScript's \<open>DayFromYear\<close>).\<close>

definition day_from_year :: "int \<Rightarrow> int" where
  "day_from_year y =
     365 * (y - 1970) + (y - 1969) div 4 - (y - 1901) div 100 + (y - 1601) div 400"

definition leap :: "int \<Rightarrow> bool" where
  "leap y \<longleftrightarrow> y mod 4 = 0 \<and> (y mod 100 \<noteq> 0 \<or> y mod 400 = 0)"

text \<open>The year of a day: the one that has begun and whose successor has not.  The estimate by the
  mean length of a year is off by one at most.\<close>

definition year_of_day :: "int \<Rightarrow> int" where
  "year_of_day n =
     (let y = 1970 + (400 * n) div 146097 in
      if n < day_from_year y then y - 1
      else if day_from_year (y + 1) \<le> n then y + 1
      else y)"

definition month_start :: "bool \<Rightarrow> nat \<Rightarrow> int" where
  "month_start lp m =
     [0, 31, 59, 90, 120, 151, 181, 212, 243, 273, 304, 334, 365] ! m +
     (if lp \<and> 2 \<le> m then 1 else 0)"

definition month_of :: "bool \<Rightarrow> int \<Rightarrow> nat" where
  "month_of lp k = length (takeWhile (\<lambda>m. month_start lp m \<le> k) [1..<12])"

record date =
  fullYear :: int
  month :: nat
  dayOfMonth :: int
  weekDay :: nat
  hours :: int
  minutes :: int
  seconds :: int
  millis :: int

text \<open>\<open>getUTCFullYear\<close>, \<open>getUTCMonth\<close>, \<open>getUTCDate\<close>, \<open>getUTCDay\<close> and so on, of a time.\<close>

definition utc_date :: "int \<Rightarrow> date" where
  "utc_date t =
     (let n = t div msPerDay;
          y = year_of_day n;
          k = n - day_from_year y;
          m = month_of (leap y) k
      in \<lparr>fullYear = y, month = m, dayOfMonth = k - month_start (leap y) m + 1,
          weekDay = nat ((n + 4) mod 7), hours = (t div 3600000) mod 24,
          minutes = (t div 60000) mod 60, seconds = (t div 1000) mod 60, millis = t mod 1000\<rparr>)"

text \<open>What the browser adds: the offset of the time zone in minutes (\<open>getTimezoneOffset\<close>, positive
  to the west), the names of time zones that the code's \<open>timezone\<close> expression finds in the text of
  a date, the present, and how \<open>Date\<close> reads a text.\<close>

record clock =
  zoneOffset :: "int \<Rightarrow> int"
  zoneNames :: "int \<Rightarrow> string list"
  present :: int
  parseDate :: "string \<Rightarrow> int option"

definition local_date :: "clock \<Rightarrow> int \<Rightarrow> date" where
  "local_date c t = utc_date (t - 60000 * zoneOffset c t)"

section \<open>Flags\<close>

text \<open>\<open>pad(val, len)\<close>: zeros on the left up to the length; the length is 2 unless given.\<close>

definition pad :: "nat \<Rightarrow> string \<Rightarrow> string" where
  "pad len v = replicate (len - length v) (CHR ''0'') @ v"

definition dayNames :: "string list" where
  "dayNames = [''Sun'', ''Mon'', ''Tue'', ''Wed'', ''Thu'', ''Fri'', ''Sat'',
     ''Sunday'', ''Monday'', ''Tuesday'', ''Wednesday'', ''Thursday'', ''Friday'', ''Saturday'']"

definition monthNames :: "string list" where
  "monthNames = [''Jan'', ''Feb'', ''Mar'', ''Apr'', ''May'', ''Jun'', ''Jul'', ''Aug'', ''Sep'',
     ''Oct'', ''Nov'', ''Dec'',
     ''January'', ''February'', ''March'', ''April'', ''May'', ''June'', ''July'', ''August'',
     ''September'', ''October'', ''November'', ''December'']"

text \<open>\<open>timezoneClip\<close> removes everything but signs, digits and capital letters.\<close>

definition zone_char :: "char \<Rightarrow> bool" where
  "zone_char c \<longleftrightarrow> c = CHR ''-'' \<or> c = CHR ''+'' \<or> is_digit c \<or>
     (65 \<le> (of_char c :: nat) \<and> (of_char c :: nat) \<le> 90)"

definition zone_text :: "string list \<Rightarrow> string" where
  "zone_text names = filter zone_char (if names = [] then [] else last names)"

text \<open>\<open>["th", "st", "nd", "rd"][d % 10 > 3 ? 0 : (d % 100 - d % 10 != 10) * d % 10]\<close>; the
  multiplication binds no weaker than the remainder.\<close>

definition ordinal :: "int \<Rightarrow> string" where
  "ordinal d =
     [''th'', ''st'', ''nd'', ''rd''] !
       (if 3 < d mod 10 then 0
        else nat (((if d mod 100 - d mod 10 \<noteq> 10 then 1 else 0) * d) mod 10))"

definition twelve :: "int \<Rightarrow> int" where
  "twelve h = (if h mod 12 = 0 then 12 else h mod 12)"

text \<open>\<open>L\<close>: \<open>Math.round(L / 10)\<close> rounds halves up.\<close>

definition hundredths :: "int \<Rightarrow> int" where
  "hundredths l = (if 99 < l then (l + 5) div 10 else l)"

definition offset_text :: "int \<Rightarrow> string" where
  "offset_text off =
     (if 0 < off then ''-'' else ''+'') @
     pad 4 (show_int (\<bar>off\<bar> div 60 * 100 + \<bar>off\<bar> mod 60))"

definition flag :: "date \<Rightarrow> int \<Rightarrow> string \<Rightarrow> string \<Rightarrow> string option" where
  "flag x off zone k =
     map_of
       [(''d'', show_int (dayOfMonth x)),
        (''dd'', pad 2 (show_int (dayOfMonth x))),
        (''ddd'', dayNames ! weekDay x),
        (''dddd'', dayNames ! (weekDay x + 7)),
        (''m'', show_int (int (month x) + 1)),
        (''mm'', pad 2 (show_int (int (month x) + 1))),
        (''mmm'', monthNames ! month x),
        (''mmmm'', monthNames ! (month x + 12)),
        (''yy'', drop 2 (show_int (fullYear x))),
        (''yyyy'', show_int (fullYear x)),
        (''h'', show_int (twelve (hours x))),
        (''hh'', pad 2 (show_int (twelve (hours x)))),
        (''H'', show_int (hours x)),
        (''HH'', pad 2 (show_int (hours x))),
        (''M'', show_int (minutes x)),
        (''MM'', pad 2 (show_int (minutes x))),
        (''s'', show_int (seconds x)),
        (''ss'', pad 2 (show_int (seconds x))),
        (''l'', pad 3 (show_int (millis x))),
        (''L'', pad 2 (show_int (hundredths (millis x)))),
        (''t'', if hours x < 12 then ''a'' else ''p''),
        (''tt'', if hours x < 12 then ''am'' else ''pm''),
        (''T'', if hours x < 12 then ''A'' else ''P''),
        (''TT'', if hours x < 12 then ''AM'' else ''PM''),
        (''Z'', zone),
        (''o'', offset_text off),
        (''S'', ordinal (dayOfMonth x))] k"

section \<open>The scanner\<close>

text \<open>How many characters of a text the expression \<open>token\<close> matches at its start:
  \<open>d{1,4}|m{1,4}|yy(?:yy)?|([HhMsTt])\1?|[LloSZ]|"[^"]*"|'[^']*'\<close>; 0 when it does not match.\<close>

definition run_length :: "char \<Rightarrow> string \<Rightarrow> nat" where
  "run_length c s = length (takeWhile (\<lambda>x. x = c) s)"

definition quoted_length :: "char \<Rightarrow> string \<Rightarrow> nat" where
  "quoted_length q s =
     (let n = length (takeWhile (\<lambda>x. x \<noteq> q) s) in if n < length s then n + 2 else 0)"

fun token_length :: "string \<Rightarrow> nat" where
  "token_length [] = 0"
| "token_length (c # s) =
     (if c = CHR ''d'' \<or> c = CHR ''m'' then min 4 (run_length c (c # s))
      else if c = CHR ''y''
        then (let n = run_length c (c # s) in if 4 \<le> n then 4 else if 2 \<le> n then 2 else 0)
      else if c \<in> set ''HhMsTt'' then min 2 (run_length c (c # s))
      else if c \<in> set ''LloSZ'' then 1
      else if c = CHR ''\"'' \<or> c = CHR 0x27 then quoted_length c s
      else 0)"

text \<open>The replacement of a token: its flag, or else the text between its quotes.\<close>

definition replace_token :: "(string \<Rightarrow> string option) \<Rightarrow> string \<Rightarrow> string" where
  "replace_token f tok =
     (case f tok of Some v \<Rightarrow> v | None \<Rightarrow> take (length tok - 2) (drop 1 tok))"

function expand_mask :: "(string \<Rightarrow> string option) \<Rightarrow> string \<Rightarrow> string" where
  "expand_mask f [] = []"
| "expand_mask f (c # s) =
     (let n = token_length (c # s) in
      if n = 0 then c # expand_mask f s
      else replace_token f (take n (c # s)) @ expand_mask f (drop n (c # s)))"
  by pat_completeness auto
termination by (relation "measure (\<lambda>(f, s). length s)") (auto simp del: token_length.simps)

section \<open>dateFormat\<close>

definition masks :: "(string \<times> string) list" where
  "masks =
     [(''default'', ''ddd mmm dd yyyy HH:MM:ss''),
      (''shortDate'', ''m/d/yy''),
      (''mediumDate'', ''mmm d, yyyy''),
      (''longDate'', ''mmmm d, yyyy''),
      (''fullDate'', ''dddd, mmmm d, yyyy''),
      (''shortTime'', ''h:MM TT''),
      (''mediumTime'', ''h:MM:ss TT''),
      (''longTime'', ''h:MM:ss TT Z''),
      (''isoDate'', ''yyyy-mm-dd''),
      (''isoTime'', ''HH:MM:ss''),
      (''isoDateTime'', ''yyyy-mm-dd'' @ [CHR 0x27] @ ''T'' @ [CHR 0x27] @ ''HH:MM:ss''),
      (''isoUtcDateTime'', ''UTC:yyyy-mm-dd'' @ [CHR 0x27] @ ''T'' @ [CHR 0x27] @ ''HH:MM:ss'' @
         [CHR 0x27] @ ''Z'' @ [CHR 0x27])]"

text \<open>\<open>dF.masks[mask] || mask || dF.masks["default"]\<close>; the masks are looked up among the object's
  own properties.\<close>

definition mask_text :: "js \<Rightarrow> string" where
  "mask_text v =
     (case map_of masks (to_str v) of
        Some m \<Rightarrow> m
      | None \<Rightarrow> if truthy v then to_str v else ''ddd mmm dd yyyy HH:MM:ss'')"

text \<open>\<open>new Date(v)\<close> and its time value; \<open>None\<close> is an invalid date.  Times are limited to 100 million
  days from 1970.\<close>

fun time_value :: "clock \<Rightarrow> js \<Rightarrow> int option" where
  "time_value c (JNum n) = (if \<bar>n\<bar> \<le> 8640000000000000 then Some n else None)"
| "time_value c (JBool b) = Some (if b then 1 else 0)"
| "time_value c JNull = Some 0"
| "time_value c JUndef = None"
| "time_value c JNaN = None"
| "time_value c v = parseDate c (to_str v)"

definition format_time :: "clock \<Rightarrow> int \<Rightarrow> string \<Rightarrow> bool \<Rightarrow> string" where
  "format_time c t m utc =
     (let utc' = (utc \<or> take 4 m = ''UTC:'');
          m' = (if take 4 m = ''UTC:'' then drop 4 m else m);
          x = (if utc' then utc_date t else local_date c t);
          off = (if utc' then 0 else zoneOffset c t);
          zone = (if utc' then ''UTC'' else zone_text (zoneNames c t))
      in expand_mask (flag x off zone) m')"

text \<open>\<open>dateFormat(date, mask, utc)\<close>.  A text without a digit that is given alone is a mask for the
  present.  \<open>None\<close> is the \<open>SyntaxError\<close> that an invalid date throws.\<close>

definition dateFormat :: "clock \<Rightarrow> js \<Rightarrow> js option \<Rightarrow> js \<Rightarrow> string option" where
  "dateFormat c d m utc =
     (if \<not> truthy d then Some ''''
      else
        (let alone = (m = None \<and> (case d of JStr s \<Rightarrow> \<not> list_ex is_digit s | _ \<Rightarrow> False));
             m' = (if alone then d else (case m of None \<Rightarrow> JUndef | Some v \<Rightarrow> v));
             t = (if alone then Some (present c) else time_value c d)
         in map_option (\<lambda>t. format_time c t (mask_text m') (truthy utc)) t))"

section \<open>The calendar loses nothing\<close>

lemma div_bounds:
  fixes a b :: int
  assumes "0 < b"
  shows "b * (a div b) \<le> a" and "a < b * (a div b) + b"
proof -
  have "a = b * (a div b) + a mod b" by simp
  moreover have "0 \<le> a mod b" "a mod b < b" using assms by simp_all
  ultimately show "b * (a div b) \<le> a" and "a < b * (a div b) + b" by linarith+
qed

lemma div_succ:
  fixes a b :: int
  assumes "1 < b"
  shows "(a + 1) div b = a div b + (if (a + 1) mod b = 0 then 1 else 0)"
proof -
  define r where "r = a mod b"
  have r: "0 \<le> r" "r < b" using assms by (simp_all add: r_def)
  have a: "a + 1 = (r + 1) + (a div b) * b" by (simp add: r_def)
  have "(a + 1) div b = a div b + (r + 1) div b"
    unfolding a using assms by (subst div_mult_self1) auto
  moreover have "(a + 1) mod b = (r + 1) mod b" unfolding a by simp
  moreover have "(r + 1) div b = (if (r + 1) mod b = 0 then 1 else 0)"
    using r assms by (cases "r + 1 = b") (auto simp: div_pos_pos_trivial)
  ultimately show ?thesis by simp
qed

lemma day_from_year_bounds:
  "146097 * (y - 1970) - 800 \<le> 400 * day_from_year y"
  "400 * day_from_year y \<le> 146097 * (y - 1970) + 800"
  using div_bounds [of 4 "y - 1969"] div_bounds [of 100 "y - 1901"] div_bounds [of 400 "y - 1601"]
  unfolding day_from_year_def by simp_all

lemma year_of_day_bounds:
  "day_from_year (year_of_day n) \<le> n \<and> n < day_from_year (year_of_day n + 1)"
proof -
  define y where "y = 1970 + (400 * n) div 146097"
  have e: "146097 * (y - 1970) \<le> 400 * n" "400 * n < 146097 * (y - 1969)"
    using div_bounds [of 146097 "400 * n"] by (simp_all add: y_def)
  have lo: "day_from_year (y - 1) \<le> n"
    using e day_from_year_bounds [of "y - 1"] by simp
  have hi: "n < day_from_year (y + 2)"
    using e day_from_year_bounds [of "y + 2"] by simp
  have eq: "year_of_day n =
    (if n < day_from_year y then y - 1 else if day_from_year (y + 1) \<le> n then y + 1 else y)"
    unfolding year_of_day_def y_def Let_def by (rule refl)
  have "y + 1 + 1 = y + 2" "y - 1 + 1 = y" by simp_all
  then show ?thesis unfolding eq using lo hi by (simp only: split: if_splits) (auto simp: not_less)
qed

lemma mod_shift: "(y - c) mod b = 0 \<longleftrightarrow> y mod b = 0" if "c mod b = 0" for y b c :: int
proof -
  have "(y - c) mod b = (y mod b - c mod b) mod b" by (simp add: mod_diff_eq)
  then show ?thesis using that by simp
qed

lemma leap_years:
  fixes y :: int
  shows "y mod 100 = 0 \<Longrightarrow> y mod 4 = 0" and "y mod 400 = 0 \<Longrightarrow> y mod 100 = 0"
proof -
  show "y mod 4 = 0" if "y mod 100 = 0"
  proof -
    have "y mod 100 mod 4 = y mod 4" by (rule mod_mod_cancel) simp
    then show ?thesis using that by simp
  qed
  show "y mod 100 = 0" if "y mod 400 = 0"
  proof -
    have "y mod 400 mod 100 = y mod 100" by (rule mod_mod_cancel) simp
    then show ?thesis using that by simp
  qed
qed

lemma div_year:
  fixes y :: int
  assumes "1 < b" "c mod b = 0" "c' = c + 1"
  shows "(y + 1 - c') div b = (y - c') div b + (if y mod b = 0 then 1 else 0)"
proof -
  have e: "y + 1 - c' = (y - c') + 1" "(y - c') + 1 = y - c" using assms(3) by simp_all
  show ?thesis
    unfolding e(1) div_succ [OF assms(1)] unfolding e(2) mod_shift [OF assms(2)] by (rule refl)
qed

lemma year_length: "day_from_year (y + 1) = day_from_year y + (if leap y then 366 else 365)"
proof -
  have gen: "(b \<longrightarrow> a) \<Longrightarrow> (c \<longrightarrow> b) \<Longrightarrow>
      d + 365 + (if a then 1 else 0) - (if b then 1 else 0) + (if c then 1 else 0) =
      d + (if a \<and> (\<not> b \<or> c) then 366 else 365)" for a b c and d :: int
    by (cases a; cases b; cases c) simp_all
  have sum: "365 * (y + 1 - 1970) + (p + i) - (q + j) + (r + k) =
      365 * (y - 1970) + p - q + r + 365 + i - j + k" for p q r i j k :: int
    by simp
  have d4: "(y + 1 - 1969) div 4 = (y - 1969) div 4 + (if y mod 4 = 0 then 1 else 0)"
    by (rule div_year [where c = 1968]) simp_all
  have d100: "(y + 1 - 1901) div 100 = (y - 1901) div 100 + (if y mod 100 = 0 then 1 else 0)"
    by (rule div_year [where c = 1900]) simp_all
  have d400: "(y + 1 - 1601) div 400 = (y - 1601) div 400 + (if y mod 400 = 0 then 1 else 0)"
    by (rule div_year [where c = 1600]) simp_all
  have "day_from_year (y + 1) = day_from_year y + 365 + (if y mod 4 = 0 then 1 else 0) -
      (if y mod 100 = 0 then 1 else 0) + (if y mod 400 = 0 then 1 else 0)"
    unfolding day_from_year_def d4 d100 d400 by (rule sum)
  also have "\<dots> = day_from_year y + (if leap y then 366 else 365)"
    unfolding leap_def by (rule gen) (use leap_years [of y] in blast)+
  finally show ?thesis .
qed

lemma month_start_values:
  "month_start lp 0 = 0"
  "month_start lp 1 = 31" "month_start lp (Suc 0) = 31"
  "month_start lp 2 = 59 + (if lp then 1 else 0)"
  "month_start lp 3 = 90 + (if lp then 1 else 0)"
  "month_start lp 4 = 120 + (if lp then 1 else 0)"
  "month_start lp 5 = 151 + (if lp then 1 else 0)"
  "month_start lp 6 = 181 + (if lp then 1 else 0)"
  "month_start lp 7 = 212 + (if lp then 1 else 0)"
  "month_start lp 8 = 243 + (if lp then 1 else 0)"
  "month_start lp 9 = 273 + (if lp then 1 else 0)"
  "month_start lp 10 = 304 + (if lp then 1 else 0)"
  "month_start lp 11 = 334 + (if lp then 1 else 0)"
  "month_start lp 12 = 365 + (if lp then 1 else 0)"
  by (simp_all add: month_start_def)

lemma month_of_bounds:
  assumes "0 \<le> k" "k < (if lp then 366 else 365)"
  shows "month_of lp k < 12 \<and> month_start lp (month_of lp k) \<le> k \<and>
    k < month_start lp (month_of lp k + 1)"
proof -
  define P where "P = (\<lambda>m. month_start lp m \<le> k)"
  define n where "n = length (takeWhile P [1..<12])"
  have n: "month_of lp k = n" by (simp add: month_of_def P_def n_def)
  have le: "n \<le> 11" using length_takeWhile_le [of P "[1..<12]"] by (simp add: n_def)
  have below: "month_start lp n \<le> k"
  proof (cases n)
    case 0
    then show ?thesis using assms(1) by (simp add: month_start_values)
  next
    case (Suc j)
    then have j: "j < length (takeWhile P [1..<12])" by (simp add: n_def)
    then have "P (takeWhile P [1..<12] ! j)" by (metis nth_mem set_takeWhileD)
    moreover have "takeWhile P [1..<12] ! j = [1..<12] ! j" by (rule takeWhile_nth [OF j])
    moreover have "[1..<12] ! j = n" using le Suc by simp
    ultimately show ?thesis by (simp add: P_def)
  qed
  have above: "k < month_start lp (n + 1)"
  proof (cases "n = 11")
    case True
    then show ?thesis using assms(2) by (auto simp: month_start_values split: if_splits)
  next
    case False
    then have "n < length [1..<12]" using le by simp
    then have "\<not> P ([1..<12] ! n)" unfolding n_def by (rule nth_length_takeWhile)
    then show ?thesis using False le by (simp add: P_def)
  qed
  show ?thesis using n le below above by simp
qed

lemma month_length:
  "m < 12 \<Longrightarrow> month_start lp (m + 1) \<le> month_start lp m + 31"
  by (auto simp: numeral_eq_Suc less_Suc_eq month_start_def)

lemma length_show_nat:
  "n < 10 \<Longrightarrow> length (show_nat n) = 1"
  "10 \<le> n \<Longrightarrow> n < 100 \<Longrightarrow> length (show_nat n) = 2"
  "100 \<le> n \<Longrightarrow> n < 1000 \<Longrightarrow> length (show_nat n) = 3"
  "1000 \<le> n \<Longrightarrow> n < 10000 \<Longrightarrow> length (show_nat n) = 4"
  by (simp_all add: show_nat_small show_nat_step)

lemma show_int_pos: "0 \<le> i \<Longrightarrow> show_int i = show_nat (nat i)"
  by (simp add: show_int_def)

lemma read_nat_zeros: "read_nat (replicate k (CHR ''0'') @ s) = read_nat s"
  by (induction k) (simp_all add: read_nat_def digit_val_def)

lemma pad_two:
  assumes "0 \<le> i" "i < 100"
  shows "length (pad 2 (show_int i)) = 2" "int (read_nat (pad 2 (show_int i))) = i"
proof -
  have n: "nat i < 100" using assms by simp
  show "length (pad 2 (show_int i)) = 2"
    using n length_show_nat(1) [of "nat i"] length_show_nat(2) [of "nat i"] assms
    by (cases "nat i < 10") (auto simp: pad_def show_int_pos)
  show "int (read_nat (pad 2 (show_int i))) = i"
    using assms by (simp add: pad_def show_int_pos read_nat_zeros)
qed

text \<open>The time that the fields of a date stand for.\<close>

definition time_of_date :: "date \<Rightarrow> int" where
  "time_of_date x =
     (day_from_year (fullYear x) + month_start (leap (fullYear x)) (month x) + dayOfMonth x - 1) *
       msPerDay + hours x * 3600000 + minutes x * 60000 + seconds x * 1000 + millis x"

lemma day_in_year:
  "0 \<le> n - day_from_year (year_of_day n)"
  "n - day_from_year (year_of_day n) < (if leap (year_of_day n) then 366 else 365)"
  using year_of_day_bounds [of n] year_length [of "year_of_day n"] by auto

lemma ms_split:
  fixes t :: int
  shows "t = t div 86400000 * 86400000 + (t div 3600000) mod 24 * 3600000 +
    (t div 60000) mod 60 * 60000 + (t div 1000) mod 60 * 1000 + t mod 1000"
proof -
  have a: "t div 60000 = t div 1000 div 60" "t div 3600000 = t div 1000 div 60 div 60"
    "t div 86400000 = t div 1000 div 60 div 60 div 24"
    by (simp_all add: zdiv_zmult2_eq [symmetric])
  define s where "s = t div 1000"
  define m where "m = s div 60"
  define h where "h = m div 60"
  have "t = 1000 * s + t mod 1000" by (simp add: s_def)
  moreover have "s = 60 * m + s mod 60" by (simp add: m_def)
  moreover have "m = 60 * h + m mod 60" by (simp add: h_def)
  moreover have "h = 24 * (h div 24) + h mod 24" by simp
  ultimately have "t = h div 24 * 86400000 + h mod 24 * 3600000 + m mod 60 * 60000 +
      s mod 60 * 1000 + t mod 1000"
    by linarith
  then show ?thesis unfolding a s_def m_def h_def .
qed

text \<open>No time is lost: the fields of a date determine it.\<close>

lemma time_of_utc_date: "time_of_date (utc_date t) = t"
proof -
  define n where "n = t div msPerDay"
  define y where "y = year_of_day n"
  define m where "m = month_of (leap y) (n - day_from_year y)"
  have d: "utc_date t = \<lparr>fullYear = y, month = m,
      dayOfMonth = n - day_from_year y - month_start (leap y) m + 1,
      weekDay = nat ((n + 4) mod 7), hours = (t div 3600000) mod 24,
      minutes = (t div 60000) mod 60, seconds = (t div 1000) mod 60, millis = t mod 1000\<rparr>"
    by (simp add: utc_date_def Let_def n_def y_def m_def)
  have "time_of_date (utc_date t) = n * msPerDay + (t div 3600000) mod 24 * 3600000 +
      (t div 60000) mod 60 * 60000 + (t div 1000) mod 60 * 1000 + t mod 1000"
    unfolding time_of_date_def d by simp
  also have "\<dots> = t" unfolding n_def msPerDay_def by (rule ms_split [symmetric])
  finally show ?thesis .
qed

text \<open>The fields are in range, so no name is looked up that the tables do not have.\<close>

lemma utc_date_ranges:
  "month (utc_date t) < 12" "weekDay (utc_date t) < 7"
  "1 \<le> dayOfMonth (utc_date t)" "dayOfMonth (utc_date t) \<le> 31"
  "0 \<le> hours (utc_date t)" "hours (utc_date t) < 24"
  "0 \<le> minutes (utc_date t)" "minutes (utc_date t) < 60"
  "0 \<le> seconds (utc_date t)" "seconds (utc_date t) < 60"
  "0 \<le> millis (utc_date t)" "millis (utc_date t) < 1000"
proof -
  define n where "n = t div msPerDay"
  define y where "y = year_of_day n"
  define k where "k = n - day_from_year y"
  define m where "m = month_of (leap y) k"
  have d: "utc_date t = \<lparr>fullYear = y, month = m,
      dayOfMonth = k - month_start (leap y) m + 1,
      weekDay = nat ((n + 4) mod 7), hours = (t div 3600000) mod 24,
      minutes = (t div 60000) mod 60, seconds = (t div 1000) mod 60, millis = t mod 1000\<rparr>"
    by (simp add: utc_date_def Let_def n_def y_def m_def k_def)
  have m: "m < 12" "month_start (leap y) m \<le> k" "k < month_start (leap y) (m + 1)"
    using month_of_bounds [of k "leap y"] day_in_year [of n] by (simp_all add: m_def k_def y_def)
  show "month (utc_date t) < 12" "1 \<le> dayOfMonth (utc_date t)" "dayOfMonth (utc_date t) \<le> 31"
    using m month_length [OF m(1), of "leap y"] by (simp_all add: d)
  have "(n + 4) mod 7 < 7" by simp
  then show "weekDay (utc_date t) < 7" by (simp add: d)
  show "0 \<le> hours (utc_date t)" "hours (utc_date t) < 24"
    "0 \<le> minutes (utc_date t)" "minutes (utc_date t) < 60"
    "0 \<le> seconds (utc_date t)" "seconds (utc_date t) < 60"
    "0 \<le> millis (utc_date t)" "millis (utc_date t) < 1000"
    by (simp_all add: d)
qed

lemma day_from_year_mono: "a \<le> b \<Longrightarrow> day_from_year a \<le> day_from_year b"
proof (induction b rule: int_ge_induct)
  case (step i)
  then show ?case using year_length [of i] by (simp split: if_splits)
qed simp

lemma year_range:
  assumes "0 \<le> t" "t < 253402300800000"
  shows "1970 \<le> fullYear (utc_date t) \<and> fullYear (utc_date t) < 10000"
proof -
  define n where "n = t div msPerDay"
  have y: "fullYear (utc_date t) = year_of_day n" by (simp add: utc_date_def Let_def n_def)
  have n: "0 \<le> n" "n < 2932897"
    using assms by (simp_all add: n_def msPerDay_def pos_imp_zdiv_nonneg_iff div_less_iff_less_mult)
  have "\<not> year_of_day n < 1970"
  proof
    assume "year_of_day n < 1970"
    then have "day_from_year (year_of_day n + 1) \<le> day_from_year 1970"
      by (intro day_from_year_mono) simp
    then show False using year_of_day_bounds [of n] n by (simp add: day_from_year_def)
  qed
  moreover have "\<not> 10000 \<le> year_of_day n"
  proof
    assume "10000 \<le> year_of_day n"
    then have "day_from_year 10000 \<le> day_from_year (year_of_day n)" by (rule day_from_year_mono)
    then show False using year_of_day_bounds [of n] n by (simp add: day_from_year_def)
  qed
  ultimately show ?thesis using y by simp
qed

section \<open>Text that reads back\<close>

text \<open>Reading the mask \<open>yyyy-mm-dd HH:MM:ss\<close> back, column by column: the second it names.\<close>

definition column :: "nat \<Rightarrow> nat \<Rightarrow> string \<Rightarrow> int" where
  "column i n s = int (read_nat (take n (drop i s)))"

definition read_stamp :: "string \<Rightarrow> int" where
  "read_stamp s =
     time_of_date
       \<lparr>fullYear = column 0 4 s, month = nat (column 5 2 s - 1), dayOfMonth = column 8 2 s,
        weekDay = 0, hours = column 11 2 s, minutes = column 14 2 s, seconds = column 17 2 s,
        millis = 0\<rparr> div 1000"

lemma column_skip: "length p = i \<Longrightarrow> length v = n \<Longrightarrow> column i n (p @ v @ r) = int (read_nat v)"
  by (simp add: column_def)

lemma expand_token:
  "token_length (c # s) = n \<Longrightarrow> n \<noteq> 0 \<Longrightarrow>
     expand_mask f (c # s) = replace_token f (take n (c # s)) @ expand_mask f (drop n (c # s))"
  by (simp add: Let_def del: token_length.simps)

lemma expand_char: "token_length (c # s) = 0 \<Longrightarrow> expand_mask f (c # s) = c # expand_mask f s"
  by (simp add: Let_def del: token_length.simps)

lemma stamp_text:
  "expand_mask (flag x off z) ''yyyy-mm-dd HH:MM:ss'' =
     show_int (fullYear x) @ ''-'' @ pad 2 (show_int (int (month x) + 1)) @ ''-'' @
     pad 2 (show_int (dayOfMonth x)) @ '' '' @ pad 2 (show_int (hours x)) @ '':'' @
     pad 2 (show_int (minutes x)) @ '':'' @ pad 2 (show_int (seconds x))"
  by (simp add: Let_def run_length_def replace_token_def flag_def)

lemma columns:
  assumes "length y = 4" "length a = 2" "length b = 2" "length c = 2" "length d = 2" "length e = 2"
    and s: "s = y @ ''-'' @ a @ ''-'' @ b @ '' '' @ c @ '':'' @ d @ '':'' @ e"
  shows "column 0 4 s = int (read_nat y)" "column 5 2 s = int (read_nat a)"
    "column 8 2 s = int (read_nat b)" "column 11 2 s = int (read_nat c)"
    "column 14 2 s = int (read_nat d)" "column 17 2 s = int (read_nat e)"
  using assms(1-6) by (simp_all add: s column_def)

lemma whole_second: "time_of_date (x\<lparr>millis := 0, weekDay := w\<rparr>) = time_of_date x - millis x"
  by (simp add: time_of_date_def)

lemma utc_millis: "millis (utc_date t) = t mod 1000"
  by (simp add: utc_date_def Let_def)

lemma read_stamp_text:
  assumes "1000 \<le> fullYear (utc_date t)" "fullYear (utc_date t) < 10000"
  shows "read_stamp (expand_mask (flag (utc_date t) off z) ''yyyy-mm-dd HH:MM:ss'') = t div 1000"
proof -
  define x where "x = utc_date t"
  have y: "length (show_int (fullYear x)) = 4" "int (read_nat (show_int (fullYear x))) = fullYear x"
    using assms length_show_nat(4) [of "nat (fullYear x)"] by (simp_all add: show_int_pos x_def)
  note r = utc_date_ranges [of t, folded x_def]
  define s where "s = expand_mask (flag x off z) ''yyyy-mm-dd HH:MM:ss''"
  have mo: "0 \<le> int (month x) + 1" "int (month x) + 1 < 100" using r(1) by simp_all
  have da: "0 \<le> dayOfMonth x" "dayOfMonth x < 100" using r(3,4) by simp_all
  have ho: "0 \<le> hours x" "hours x < 100" using r(5,6) by simp_all
  have mi: "0 \<le> minutes x" "minutes x < 100" using r(7,8) by simp_all
  have se: "0 \<le> seconds x" "seconds x < 100" using r(9,10) by simp_all
  note cs = columns [OF y(1) pad_two(1) [OF mo] pad_two(1) [OF da] pad_two(1) [OF ho]
      pad_two(1) [OF mi] pad_two(1) [OF se] s_def [unfolded stamp_text]]
  have "read_stamp s = time_of_date (x\<lparr>millis := 0, weekDay := 0\<rparr>) div 1000"
    unfolding read_stamp_def cs y(2) pad_two(2) [OF mo] pad_two(2) [OF da] pad_two(2) [OF ho]
      pad_two(2) [OF mi] pad_two(2) [OF se]
    by (cases x) simp
  also have "\<dots> = (t - t mod 1000) div 1000"
    unfolding whole_second using time_of_utc_date [of t] by (simp add: x_def utc_millis)
  also have "\<dots> = t div 1000" by (simp add: minus_mod_eq_mult_div)
  finally show ?thesis by (simp add: s_def x_def)
qed

section \<open>Ordinals, quoted text and tokens\<close>

lemma days_of_month: "1 \<le> (d::int) \<Longrightarrow> d \<le> 31 \<Longrightarrow> d \<in> set [1..31]"
  by simp

text \<open>The suffixes of English: th for 11 to 13, else by the last digit.\<close>

lemma ordinal_suffix:
  assumes "1 \<le> d" "d \<le> 31"
  shows "ordinal d =
    (if d \<in> {11, 12, 13} then ''th'' else if d mod 10 = 1 then ''st''
     else if d mod 10 = 2 then ''nd'' else if d mod 10 = 3 then ''rd'' else ''th'')"
proof -
  have "\<forall>d\<in>set [1..31]. ordinal d =
    (if d \<in> {11, 12, 13} then ''th'' else if d mod 10 = 1 then ''st''
     else if d mod 10 = 2 then ''nd'' else if d mod 10 = 3 then ''rd'' else ''th'')"
    by code_simp
  then show ?thesis using days_of_month [OF assms] by blast
qed

text \<open>The token \<open>L\<close> takes three digits in the last five milliseconds of a second, and prints the
  milliseconds themselves in the first hundred.\<close>

lemma hundredths_digits:
  assumes "0 \<le> l" "l < 1000"
  shows "length (pad 2 (show_int (hundredths l))) = (if 995 \<le> l then 3 else 2)"
proof -
  define h where "h = hundredths l"
  have h: "0 \<le> h" "h < 100 \<longleftrightarrow> l < 995" "h \<le> 100"
    using assms div_bounds [of 10 "l + 5"] unfolding h_def hundredths_def by (auto split: if_splits)
  then show ?thesis
    using pad_two(1) [of h] length_show_nat(3) [of "nat h"]
    by (auto simp: h_def [symmetric] pad_def show_int_pos)
qed

lemma hundredths_collide: "hundredths 50 = hundredths 500"
  by (simp add: hundredths_def)

text \<open>What the scanner takes for a token is a flag, or is quoted.\<close>

lemma run_take: "take (run_length c s) s = replicate (run_length c s) c"
proof -
  have "takeWhile (\<lambda>x. x = c) s = replicate (run_length c s) c"
    unfolding run_length_def by (rule replicate_eqI) (auto dest: set_takeWhileD)
  then show ?thesis unfolding run_length_def by (metis takeWhile_eq_take)
qed

lemma run_take_min: "take (min k (run_length c s)) s = replicate (min k (run_length c s)) c"
proof -
  have "take (min k (run_length c s)) s = take k (take (run_length c s) s)" by simp
  then show ?thesis by (simp add: run_take)
qed

definition flag_names :: "string list" where
  "flag_names = [''d'', ''dd'', ''ddd'', ''dddd'', ''m'', ''mm'', ''mmm'', ''mmmm'', ''yy'', ''yyyy'',
     ''h'', ''hh'', ''H'', ''HH'', ''M'', ''MM'', ''s'', ''ss'', ''l'', ''L'', ''t'', ''tt'', ''T'',
     ''TT'', ''Z'', ''o'', ''S'']"

lemma flag_named: "k \<in> set flag_names \<Longrightarrow> \<exists>v. flag x off z k = Some v"
proof -
  assume k: "k \<in> set flag_names"
  have "list_all (\<lambda>k. flag x off z k \<noteq> None) flag_names"
    by (simp add: flag_names_def flag_def)
  then show ?thesis using k by (auto simp: list_all_iff)
qed

lemma tokens_are_flags:
  assumes "token_length s = n" "n \<noteq> 0"
  shows "(\<exists>v. flag x off z (take n s) = Some v) \<or>
    (2 \<le> n \<and> (hd s = CHR ''\"'' \<or> hd s = CHR 0x27) \<and> last (take n s) = hd s)"
proof (cases s)
  case Nil
  then show ?thesis using assms by simp
next
  case (Cons c r)
  have pos: "1 \<le> run_length c (c # r)" by (simp add: run_length_def)
  have rep: "take k (c # r) = replicate k c" if "k = min j (run_length c (c # r))" for k j
    using run_take_min that by metis
  consider "c = CHR ''d'' \<or> c = CHR ''m''" "n = min 4 (run_length c (c # r))"
    | "c = CHR ''y''" "n = 4 \<or> n = 2" "n \<le> run_length c (c # r)"
    | "c \<in> set ''HhMsTt''" "n = min 2 (run_length c (c # r))"
    | "c \<in> set ''LloSZ''" "n = 1"
    | "c = CHR ''\"'' \<or> c = CHR 0x27" "n = quoted_length c r"
    using assms Cons by (auto simp: Let_def split: if_splits)
  then show ?thesis
  proof cases
    case 1
    have "take n (c # r) = replicate n c" "n \<in> {1, 2, 3, 4}"
      using rep [OF 1(2)] 1(2) pos by auto
    then have "take n s \<in> set flag_names"
      using 1(1) Cons by (auto simp: flag_names_def numeral_eq_Suc)
    then show ?thesis by (blast dest: flag_named)
  next
    case 2
    have "n = min n (run_length c (c # r))" using 2 by simp
    then have "take n (c # r) = replicate n c" by (rule rep)
    then have "take n s \<in> set flag_names"
      using 2(1,2) Cons by (auto simp: flag_names_def numeral_eq_Suc)
    then show ?thesis by (blast dest: flag_named)
  next
    case 3
    have "take n (c # r) = replicate n c" "n \<in> {1, 2}"
      using rep [OF 3(2)] 3(2) pos by auto
    then have "take n s \<in> set flag_names"
      using 3(1) Cons by (auto simp: flag_names_def numeral_eq_Suc)
    then show ?thesis by (blast dest: flag_named)
  next
    case 4
    then have "take n s \<in> set flag_names" using Cons by (auto simp: flag_names_def)
    then show ?thesis by (blast dest: flag_named)
  next
    case 5
    define j where "j = length (takeWhile (\<lambda>x. x \<noteq> c) r)"
    have j: "j < length r" "n = j + 2"
      using 5(2) assms(2) by (auto simp: quoted_length_def Let_def j_def split: if_splits)
    then have "r ! j = c" unfolding j_def using nth_length_takeWhile [of "\<lambda>x. x \<noteq> c" r] by blast
    moreover have "last (take n (c # r)) = r ! j"
      using j by (cases r) (auto simp: last_conv_nth)
    ultimately show ?thesis using 5(1) j Cons by auto
  qed
qed

section \<open>Properties\<close>

text \<open>C23. The expiration dates of DNSSEC keys read back: between 1970 and 9999, \<open>dateFormat\<close> with
  the mask of that page gives a blank and a text whose columns determine the second.\<close>

theorem expiry_dates_read_back:
  assumes "0 < t" "t < 253402300800000"
  shows "\<exists>s. dateFormat c (JNum t) (Some (JStr ''UTC: yyyy-mm-dd HH:MM:ss'')) u = Some (CHR '' '' # s) \<and>
    read_stamp s = t div 1000"
proof -
  have y: "1000 \<le> fullYear (utc_date t)" "fullYear (utc_date t) < 10000"
    using year_range [of t] assms by simp_all
  have m: "mask_text (JStr ''UTC: yyyy-mm-dd HH:MM:ss'') = ''UTC: yyyy-mm-dd HH:MM:ss''"
    by (simp add: mask_text_def masks_def)
  have "format_time c t ''UTC: yyyy-mm-dd HH:MM:ss'' v =
      CHR '' '' # expand_mask (flag (utc_date t) 0 ''UTC'') ''yyyy-mm-dd HH:MM:ss''" for v
  proof -
    have "take 4 ''UTC: yyyy-mm-dd HH:MM:ss'' = ''UTC:''"
      "drop 4 ''UTC: yyyy-mm-dd HH:MM:ss'' = CHR '' '' # ''yyyy-mm-dd HH:MM:ss''" by simp_all
    moreover have "expand_mask f (CHR '' '' # s) = CHR '' '' # expand_mask f s" for f s
      by (rule expand_char) simp
    ultimately show ?thesis by (simp only: format_time_def Let_def if_True simp_thms)
  qed
  then show ?thesis
    using assms read_stamp_text [OF y] by (simp add: dateFormat_def m del: expand_mask.simps)
qed

theorem expiry_dates_read_back_witness:
  "\<exists>s. dateFormat \<lparr>zoneOffset = \<lambda>_. 420, zoneNames = \<lambda>_. [], present = 0, parseDate = \<lambda>_. None\<rparr>
     (JNum 1502323261123) (Some (JStr ''UTC: yyyy-mm-dd HH:MM:ss'')) JUndef = Some (CHR '' '' # s) \<and>
   read_stamp s = 1502323261"
  using expiry_dates_read_back [of 1502323261123] by simp

end
