(* ===== verification/Platform.thy ===== *)
theory Platform
  imports Prelude
begin

text \<open>
  The platform the portal runs on: the promises it chains, the client libraries it calls and the
  browser state it reads and writes.

  The answers of everything outside the repository are parameters: what Traffic Ops answers to a
  call (\<open>srv\<close>, a function of all the calls made so far), what the user answers in a dialog
  (\<open>ask\<close>), which of several outstanding responses arrives first (\<open>pick\<close>), and how the router
  reads and prints URLs (\<open>parseUrl\<close>, \<open>urlOf\<close>, \<open>stateUrl\<close>).  They are fields of the world that
  no operation writes.  Calls are logged as they are made on the client library: the development
  says which call the portal makes, not which bytes the library sends.
\<close>

section \<open>Calls, answers and the world\<close>

datatype outcome = Fulfilled js | Rejected js | Pending

text \<open>A Restangular path, as it is built up by \<open>all\<close>, \<open>service\<close> and \<open>one\<close>.\<close>

datatype seg = All string | One string js

datatype call =
    RGetList "seg list" js
  | RGet "seg list" js
  | RPost "seg list" js
  | RPut js
  | RRemove "seg list"
  | RCustomPost "seg list" string js
  | RCustomGet "seg list" string
  | HGet string js
  | HPost string js
  | HPut string js
  | HDelete string

datatype response = Ok js | Err js

datatype answer = Close js | Dismiss js

record location =
  path :: string
  search :: "(string \<times> string) list"

text \<open>What the code leaves to \<open>$timeout\<close>: the callbacks of the response interceptor.\<close>

datatype timer = ShowLater js | RedirectLater js string

text \<open>A response whose handler nobody waits for (the change log counter).\<close>

datatype background = LogCount call

record world =
  srv :: "call list \<Rightarrow> call \<Rightarrow> response"
  ask :: "string \<Rightarrow> js \<Rightarrow> js \<Rightarrow> answer"
  pick :: "nat \<Rightarrow> nat"
  apiRoot :: string
  parseUrl :: "string \<Rightarrow> location"
  urlOf :: "location \<Rightarrow> string"
  stateUrl :: "string \<Rightarrow> string"
  sent :: "call list"
  asked :: "(string \<times> js \<times> js) list"
  messages :: js
  queue :: "js list"
  userLoaded :: bool
  userUser :: js
  userUserId :: js
  headerUser :: js
  properties :: js
  propertiesLoaded :: bool
  newLogCount :: js
  logInterval :: "nat option"
  intervals :: "nat list"
  nextInterval :: nat
  backlog :: "background list"
  timers :: "timer list"
  loc :: location
  shown :: location
  stateName :: string
  reloads :: nat
  scrolls :: nat
  events :: "string list"
  scope :: "string \<Rightarrow> js"

section \<open>Promises\<close>

text \<open>
  A promise is what is left to do when the event loop gets to it; an operation runs its
  synchronous part at once and returns a promise.  \<open>Pending\<close> is a promise that nobody will ever
  settle.
\<close>

type_synonym later = "world \<Rightarrow> outcome \<times> world"
type_synonym op = "world \<Rightarrow> later \<times> world"

definition run :: "op \<Rightarrow> later" where
  "run p w = (case p w of (l, w') \<Rightarrow> l w')"

definition ret :: "js \<Rightarrow> op" where
  "ret v w = (\<lambda>w'. (Fulfilled v, w'), w)"

definition throw :: "js \<Rightarrow> op" where
  "throw e w = (\<lambda>w'. (Rejected e, w'), w)"

definition never :: op where
  "never w = (\<lambda>w'. (Pending, w'), w)"

text \<open>A synchronous effect.\<close>

definition eff :: "(world \<Rightarrow> world) \<Rightarrow> op" where
  "eff f w = (\<lambda>w'. (Fulfilled JUndef, w'), f w)"

definition with_world :: "(world \<Rightarrow> op) \<Rightarrow> op" where
  "with_world f w = f w w"

text \<open>Statements in sequence: the synchronous parts of both run now; the value is the second's.\<close>

definition seq :: "op \<Rightarrow> op \<Rightarrow> op" where
  "seq p q w =
     (case p w of (l1, w1) \<Rightarrow> (case q w1 of (l2, w2) \<Rightarrow> (\<lambda>w. l2 (snd (l1 w)), w2)))"

text \<open>\<open>p.then(ok, bad)\<close>: a handler runs when the promise is settled, and the promise of the
  handler is the promise of the whole.\<close>

definition then2 :: "op \<Rightarrow> (js \<Rightarrow> op) \<Rightarrow> (js \<Rightarrow> op) \<Rightarrow> op" where
  "then2 p ok bad w =
     (case p w of (l, w1) \<Rightarrow>
        (\<lambda>w. case l w of
               (Fulfilled v, w') \<Rightarrow> run (ok v) w'
             | (Rejected e, w') \<Rightarrow> run (bad e) w'
             | (Pending, w') \<Rightarrow> (Pending, w'), w1))"

definition then1 :: "op \<Rightarrow> (js \<Rightarrow> op) \<Rightarrow> op" where
  "then1 p ok = then2 p ok throw"

text \<open>
  The deferred idiom: \<open>var request = $q.defer(); p.then(ok, bad); return request.promise\<close>.  The
  handlers settle the deferred (or fail to: a handler that throws, or one that never calls
  \<open>resolve\<close> or \<open>reject\<close>, leaves it pending).
\<close>

definition deferred :: "op \<Rightarrow> (js \<Rightarrow> later) \<Rightarrow> (js \<Rightarrow> later) \<Rightarrow> op" where
  "deferred p ok bad w =
     (case p w of (l, w1) \<Rightarrow>
        (\<lambda>w. case l w of
               (Fulfilled v, w') \<Rightarrow> ok v w'
             | (Rejected e, w') \<Rightarrow> bad e w'
             | (Pending, w') \<Rightarrow> (Pending, w'), w1))"

definition resolve :: "js \<Rightarrow> later" where
  "resolve v w = (Fulfilled v, w)"

definition reject :: "js \<Rightarrow> later" where
  "reject e w = (Rejected e, w)"

definition unsettled :: later where
  "unsettled w = (Pending, w)"

text \<open>Reading a property that may throw: in a promise handler the exception rejects the handler's
  promise; in a deferred's handler it leaves the deferred unsettled.\<close>

definition deref :: "js \<Rightarrow> string \<Rightarrow> (js \<Rightarrow> op) \<Rightarrow> op" where
  "deref v k f = (case getp v k of None \<Rightarrow> throw type_error | Some x \<Rightarrow> f x)"

definition deref_later :: "js \<Rightarrow> string \<Rightarrow> (js \<Rightarrow> later) \<Rightarrow> later" where
  "deref_later v k f = (case getp v k of None \<Rightarrow> unsettled | Some x \<Rightarrow> f x)"

text \<open>\<open>$q.all\<close>.  The operations have already run their synchronous parts; their responses arrive
  in an order that \<open>pick\<close> chooses.  The whole is fulfilled with all values when each is fulfilled,
  and rejected when one is rejected.\<close>

fun start_all :: "op list \<Rightarrow> world \<Rightarrow> later list \<times> world" where
  "start_all [] w = ([], w)"
| "start_all (p # ps) w =
     (case p w of (l, w1) \<Rightarrow> (case start_all ps w1 of (ls, w2) \<Rightarrow> (l # ls, w2)))"

function settle_any :: "(nat \<times> later) list \<Rightarrow> world \<Rightarrow> (nat \<times> outcome) list \<times> world" where
  "settle_any ls w =
     (if ls = [] then ([], w)
      else (let i = pick w (length ls) mod length ls in
            case (snd (ls ! i)) w of
              (r, w1) \<Rightarrow>
                (case settle_any (take i ls @ drop (Suc i) ls) w1 of
                   (rs, w2) \<Rightarrow> ((fst (ls ! i), r) # rs, w2))))"
  by pat_completeness auto
termination
proof (relation "measure (\<lambda>(ls, w). length ls)")
  fix ls :: "(nat \<times> later) list" and w :: world and i :: nat
  assume "ls \<noteq> []" and "i = pick w (length ls) mod length ls"
  then have "i < length ls" by simp
  then show "((take i ls @ drop (Suc i) ls, x), ls, w) \<in> measure (\<lambda>(ls, w). length ls)" for x
    by simp
qed simp

declare settle_any.simps [simp del]

definition outcome_of :: "(nat \<times> outcome) list \<Rightarrow> nat \<Rightarrow> outcome" where
  "outcome_of rs i = (case map_of rs i of Some r \<Rightarrow> r | None \<Rightarrow> Pending)"

fun is_rejected :: "outcome \<Rightarrow> bool" where
  "is_rejected (Rejected e) = True"
| "is_rejected _ = False"

fun is_fulfilled :: "outcome \<Rightarrow> bool" where
  "is_fulfilled (Fulfilled v) = True"
| "is_fulfilled _ = False"

fun value_of :: "outcome \<Rightarrow> js" where
  "value_of (Fulfilled v) = v"
| "value_of (Rejected e) = e"
| "value_of Pending = JUndef"

text \<open>\<open>rs\<close> lists the outcomes in the order of arrival, numbered by position in the argument.\<close>

definition all_outcome :: "nat \<Rightarrow> (nat \<times> outcome) list \<Rightarrow> outcome" where
  "all_outcome n rs =
     (case find (\<lambda>(i, r). is_rejected r) rs of
        Some (i, r) \<Rightarrow> r
      | None \<Rightarrow>
          (if list_all (\<lambda>(i, r). is_fulfilled r) rs
           then Fulfilled (JArr (map (\<lambda>i. value_of (outcome_of rs i)) [0..<n]))
           else Pending))"

definition join_all :: "later list \<Rightarrow> later" where
  "join_all ls w =
     (case settle_any (zip [0..<length ls] ls) w of
        (rs, w') \<Rightarrow> (all_outcome (length ls) rs, w'))"

definition q_all :: "op list \<Rightarrow> op" where
  "q_all ps w = (case start_all ps w of (ls, w1) \<Rightarrow> (join_all ls, w1))"

section \<open>Evaluation rules\<close>

lemma run_ret [simp, promise_simps]: "run (ret v) w = (Fulfilled v, w)"
  by (simp add: run_def ret_def)

lemma run_throw [simp, promise_simps]: "run (throw e) w = (Rejected e, w)"
  by (simp add: run_def throw_def)

lemma run_never [simp, promise_simps]: "run never w = (Pending, w)"
  by (simp add: run_def never_def)

lemma run_eff [simp, promise_simps]: "run (eff f) w = (Fulfilled JUndef, f w)"
  by (simp add: run_def eff_def)

lemma run_with_world [simp, promise_simps]: "run (with_world f) w = run (f w) w"
  by (simp add: run_def with_world_def)

lemma run_then2 [promise_simps]:
  "run (then2 p ok bad) w =
     (case run p w of
        (Fulfilled v, w') \<Rightarrow> run (ok v) w'
      | (Rejected e, w') \<Rightarrow> run (bad e) w'
      | (Pending, w') \<Rightarrow> (Pending, w'))"
  by (simp add: run_def then2_def split: prod.splits)

lemma run_then1 [promise_simps]:
  "run (then1 p ok) w =
     (case run p w of
        (Fulfilled v, w') \<Rightarrow> run (ok v) w'
      | (Rejected e, w') \<Rightarrow> (Rejected e, w')
      | (Pending, w') \<Rightarrow> (Pending, w'))"
  by (simp add: then1_def run_then2 split: prod.splits outcome.splits)

lemma run_deferred [promise_simps]:
  "run (deferred p ok bad) w =
     (case run p w of
        (Fulfilled v, w') \<Rightarrow> ok v w'
      | (Rejected e, w') \<Rightarrow> bad e w'
      | (Pending, w') \<Rightarrow> (Pending, w'))"
  by (simp add: run_def deferred_def split: prod.splits)

lemma run_seq_eff [simp, promise_simps]: "run (seq (eff f) q) w = run q (f w)"
  by (simp add: run_def seq_def eff_def split: prod.splits)

lemma run_deref [promise_simps]:
  "run (deref v k f) w =
     (case getp v k of None \<Rightarrow> (Rejected type_error, w) | Some x \<Rightarrow> run (f x) w)"
  by (simp add: deref_def split: option.splits)

lemma deref_later_eq [promise_simps]:
  "deref_later v k f w = (case getp v k of None \<Rightarrow> (Pending, w) | Some x \<Rightarrow> f x w)"
  by (simp add: deref_later_def unsettled_def split: option.splits)

lemma settled_eqs [simp, promise_simps]:
  "resolve v w = (Fulfilled v, w)"
  "reject e w = (Rejected e, w)"
  "unsettled w = (Pending, w)"
  by (simp_all add: resolve_def reject_def unsettled_def)

text \<open>The laws of chaining: a fulfilled promise hands its value on, and chains associate.\<close>

lemma then2_ret: "run (then2 (ret v) ok bad) = run (ok v)"
  by (rule ext) (simp add: run_then2)

lemma then1_assoc:
  "run (then1 (then1 p f) g) = run (then1 p (\<lambda>v. then1 (f v) g))"
  by (rule ext) (simp add: run_then1 split: prod.splits outcome.splits)

lemma then1_ret_right: "run (then1 p ret) = run p"
  by (rule ext) (simp add: run_then1 split: prod.splits outcome.splits)

text \<open>The number of outcomes \<open>settle_any\<close> reports, and which.\<close>

lemma settle_any_length: "length (fst (settle_any ls w)) = length ls"
proof (induction ls w rule: settle_any.induct)
  case (1 ls w)
  show ?case
  proof (cases "ls = []")
    case True
    then show ?thesis by (simp add: settle_any.simps)
  next
    case False
    define i where "i = pick w (length ls) mod length ls"
    have i: "i < length ls" using False by (simp add: i_def)
    obtain r w1 where r: "snd (ls ! i) w = (r, w1)" by fastforce
    obtain rs w2 where rs: "settle_any (take i ls @ drop (Suc i) ls) w1 = (rs, w2)" by fastforce
    have "length rs = length (take i ls @ drop (Suc i) ls)"
      using "1.IH" [OF False i_def] r rs by (metis fst_conv)
    then show ?thesis
      using False i r rs by (subst settle_any.simps) (simp add: i_def [symmetric])
  qed
qed

section \<open>The location and the event loop\<close>

text \<open>\<open>$location\<close>: writing it changes the target; the events fire when the loop turns.\<close>

definition set_url :: "string \<Rightarrow> world \<Rightarrow> world" where
  "set_url u w = w\<lparr>loc := parseUrl w u\<rparr>"

definition set_path :: "string \<Rightarrow> world \<Rightarrow> world" where
  "set_path p w = w\<lparr>loc := (loc w)\<lparr>path := p\<rparr>\<rparr>"

definition append_path :: "string \<Rightarrow> world \<Rightarrow> world" where
  "append_path p w = set_path (path (loc w) @ p) w"

definition set_search :: "(string \<times> string) list \<Rightarrow> world \<Rightarrow> world" where
  "set_search qs w = w\<lparr>loc := (loc w)\<lparr>search := qs\<rparr>\<rparr>"

definition drop_search :: "string \<Rightarrow> world \<Rightarrow> world" where
  "drop_search k w = set_search (filter (\<lambda>(k', v). k' \<noteq> k) (search (loc w))) w"

text \<open>\<open>$state\<close>: going to a state also moves the location to the state's URL.\<close>

definition state_go :: "string \<Rightarrow> world \<Rightarrow> world" where
  "state_go s w = set_url (stateUrl w s) (w\<lparr>stateName := s\<rparr>)"

definition state_reload :: "world \<Rightarrow> world" where
  "state_reload w = w\<lparr>reloads := Suc (reloads w)\<rparr>"

definition anchor_scroll :: "world \<Rightarrow> world" where
  "anchor_scroll w = w\<lparr>scrolls := Suc (scrolls w)\<rparr>"

definition set_scope :: "string \<Rightarrow> js \<Rightarrow> world \<Rightarrow> world" where
  "set_scope k v w = w\<lparr>scope := (scope w)(k := v)\<rparr>"

text \<open>\<open>$interval\<close> hands out a fresh timer; cancelling removes it.\<close>

definition interval_start :: "world \<Rightarrow> nat \<times> world" where
  "interval_start w =
     (nextInterval w,
      w\<lparr>intervals := nextInterval w # intervals w, nextInterval := Suc (nextInterval w)\<rparr>)"

definition interval_cancel :: "nat \<Rightarrow> world \<Rightarrow> world" where
  "interval_cancel i w = w\<lparr>intervals := filter (\<lambda>j. j \<noteq> i) (intervals w)\<rparr>"

text \<open>The contract of a piece of code that owns an interval: it holds the number of the timer it
  started, cancels that timer and forgets the number before it starts another, and so runs at most
  one.\<close>

locale interval_owner =
  fixes running :: "'s \<Rightarrow> nat list"
    and held :: "'s \<Rightarrow> nat option"
    and create :: "'s \<Rightarrow> 's"
    and kill :: "'s \<Rightarrow> 's"
  assumes held_kill: "held (kill s) = None"
    and running_kill:
      "running (kill s) =
         (case held s of None \<Rightarrow> running s | Some i \<Rightarrow> filter (\<lambda>j. j \<noteq> i) (running s))"
    and create_one: "\<exists>i. held (create s) = Some i \<and> running (create s) = i # running (kill s)"
begin

definition owned :: "'s \<Rightarrow> bool" where
  "owned s \<longleftrightarrow> running s = (case held s of None \<Rightarrow> [] | Some i \<Rightarrow> [i])"

lemma owned_kill: "owned s \<Longrightarrow> owned (kill s)"
  by (auto simp: owned_def held_kill running_kill split: option.splits)

lemma none_after_kill: "owned s \<Longrightarrow> running (kill s) = []"
  by (auto simp: owned_def running_kill split: option.splits)

lemma owned_create: "owned s \<Longrightarrow> owned (create s)"
  using create_one [of s] none_after_kill [of s] by (auto simp: owned_def)

lemma one_after_create: "owned s \<Longrightarrow> length (running (create s)) = 1"
  using create_one [of s] none_after_kill [of s] by auto

lemma at_most_one: "owned s \<Longrightarrow> length (running s) \<le> 1"
  by (auto simp: owned_def split: option.splits)

lemma create_again: "owned s \<Longrightarrow> length (running (create (create s))) = 1"
  by (simp add: one_after_create owned_create)

end

definition send :: "call \<Rightarrow> world \<Rightarrow> world" where
  "send c w = w\<lparr>sent := sent w @ [c]\<rparr>"

lemmas location_defs =
  set_url_def set_path_def append_path_def set_search_def drop_search_def state_go_def
  state_reload_def anchor_scroll_def set_scope_def send_def

section \<open>A portal that has just started\<close>

text \<open>A world for concrete inputs: nothing sent, nothing asked, nobody logged in; URLs without
  query parameters.\<close>

definition start_world :: "(call list \<Rightarrow> call \<Rightarrow> response) \<Rightarrow> (string \<Rightarrow> js \<Rightarrow> js \<Rightarrow> answer) \<Rightarrow> world" where
  "start_world server user =
     \<lparr>srv = server, ask = user, pick = (\<lambda>n. 0), apiRoot = ''/api/1.3/'',
      parseUrl = (\<lambda>u. \<lparr>path = u, search = []\<rparr>), urlOf = path, stateUrl = (\<lambda>s. ''/''),
      sent = [], asked = [], messages = JObj [(''loaded'', JBool False), (''content'', JArr [])],
      queue = [], userLoaded = False, userUser = JObj [], userUserId = JUndef,
      headerUser = JObj [], properties = JObj [], propertiesLoaded = False, newLogCount = JNum 0,
      logInterval = None, intervals = [], nextInterval = 0, backlog = [], timers = [],
      loc = \<lparr>path = ''/'', search = []\<rparr>, shown = \<lparr>path = ''/'', search = []\<rparr>,
      stateName = ''trafficPortal.public.login'', reloads = 0, scrolls = 0, events = [],
      scope = (\<lambda>_. JUndef)\<rparr>"

definition accept_all :: "call list \<Rightarrow> call \<Rightarrow> response" where
  "accept_all calls c = Ok (JObj [(''response'', JArr []), (''data'', JObj [])])"

definition refuse_all :: "call list \<Rightarrow> call \<Rightarrow> response" where
  "refuse_all calls c =
     Err (JObj [(''status'', JNum 400),
       (''data'', JObj [(''alerts'', JArr [JObj [(''level'', JStr ''error''), (''text'', JStr ''no'')]])])])"

definition close_all :: "string \<Rightarrow> js \<Rightarrow> js \<Rightarrow> answer" where
  "close_all controller params collection = Close JUndef"

definition dismiss_deletes :: "string \<Rightarrow> js \<Rightarrow> js \<Rightarrow> answer" where
  "dismiss_deletes controller params collection =
     (if controller = ''DialogDeleteController'' then Dismiss (JStr ''cancel'') else Close JUndef)"

lemma start_world_sel [simp]:
  "srv (start_world s u) = s" "ask (start_world s u) = u" "sent (start_world s u) = []"
  "apiRoot (start_world s u) = ''/api/1.3/''" "userUser (start_world s u) = JObj []"
  "reloads (start_world s u) = 0" "loc (start_world s u) = \<lparr>path = ''/'', search = []\<rparr>"
  "shown (start_world s u) = \<lparr>path = ''/'', search = []\<rparr>" "queue (start_world s u) = []"
  "asked (start_world s u) = []" "timers (start_world s u) = []" "pick (start_world s u) = (\<lambda>n. 0)"
  "urlOf (start_world s u) = path" "parseUrl (start_world s u) = (\<lambda>u. \<lparr>path = u, search = []\<rparr>)"
  "intervals (start_world s u) = []" "logInterval (start_world s u) = None"
  "scope (start_world s u) = (\<lambda>_. JUndef)" "stateName (start_world s u) = ''trafficPortal.public.login''"
  by (simp_all add: start_world_def)

end
