(* ===== verification/Models.thy ===== *)
theory Models
  imports Platform
begin

text \<open>
  The portal's client-side models (\<open>common/models/\<close>): the message board, the current user, the
  properties, the change log counter with its poller, and what the models do when the location
  changes.
\<close>

section \<open>Messages (MessageModel.js)\<close>

text \<open>\<open>messages\<close> is the object on display, \<open>{loaded, content}\<close>; \<open>queue\<close> holds what is to be
  displayed after a location change.\<close>

definition message_box :: "bool \<Rightarrow> js \<Rightarrow> js" where
  "message_box b c = JObj [(''loaded'', JBool b), (''content'', c)]"

definition setMessages :: "js \<Rightarrow> bool \<Rightarrow> world \<Rightarrow> world" where
  "setMessages messagesArray delay w =
     (if \<not> is_array messagesArray then w
      else if delay then
        w\<lparr>queue := message_box True messagesArray # tl (queue w)\<rparr>
      else
        w\<lparr>messages := message_box True messagesArray, queue := []\<rparr>)"

definition resetMessages :: "world \<Rightarrow> world" where
  "resetMessages w = w\<lparr>messages := message_box False (JArr [])\<rparr>"

text \<open>\<open>_.without(content, message)\<close>: the message object is identified by its position; on the
  empty object \<open>{}\<close> there is no content and the result is the empty list.\<close>

definition removeMessage :: "nat \<Rightarrow> world \<Rightarrow> world" where
  "removeMessage i w =
     (let xs = elems (fld (messages w) ''content'')
      in w\<lparr>messages := set_fld (messages w) ''content'' (JArr (take i xs @ drop (Suc i) xs))\<rparr>)"

definition onLocationChangeStart :: "world \<Rightarrow> world" where
  "onLocationChangeStart w = resetMessages w"

definition onLocationChangeSuccess :: "world \<Rightarrow> world" where
  "onLocationChangeSuccess w =
     (case queue w of
        [] \<Rightarrow> w\<lparr>messages := JObj []\<rparr>
      | m # q \<Rightarrow> w\<lparr>messages := m, queue := q\<rparr>)"

definition location_changed :: "world \<Rightarrow> world" where
  "location_changed w = onLocationChangeSuccess (onLocationChangeStart w)"

text \<open>One turn of the event loop: when the location is no longer the one shown, the router fires
  both events and the new location is the one shown.\<close>

definition digest :: "world \<Rightarrow> world" where
  "digest w =
     (if loc w = shown w then w else location_changed (w\<lparr>shown := loc w\<rparr>))"

abbreviation displayed :: "world \<Rightarrow> js" where
  "displayed w \<equiv> fld (messages w) ''content''"

definition alert :: "string \<Rightarrow> string \<Rightarrow> js" where
  "alert level txt = JObj [(''level'', JStr level), (''text'', JStr txt)]"

definition success :: "string \<Rightarrow> js" where
  "success txt = JArr [alert ''success'' txt]"

definition error_alert :: "string \<Rightarrow> js" where
  "error_alert txt = JArr [alert ''error'' txt]"

lemmas message_defs =
  setMessages_def resetMessages_def removeMessage_def onLocationChangeStart_def
  onLocationChangeSuccess_def location_changed_def message_box_def

lemma is_array_success [simp]: "is_array (success t)"
  by (simp add: success_def)

lemma is_array_error_alert [simp]: "is_array (error_alert t)"
  by (simp add: error_alert_def)

subsection \<open>The board's contract\<close>

text \<open>What the services rely on: a message shown now is visible until the location changes, a
  message for the next page leaves the display alone and is what the next page shows.\<close>

locale message_board =
  fixes post :: "js \<Rightarrow> bool \<Rightarrow> 's \<Rightarrow> 's"
    and moved :: "'s \<Rightarrow> 's"
    and visible :: "'s \<Rightarrow> js"
    and waiting :: "'s \<Rightarrow> js list"
    and ok :: "'s \<Rightarrow> bool"
  assumes post_now: "is_array m \<Longrightarrow> visible (post m False s) = m \<and> waiting (post m False s) = []"
    and post_next: "is_array m \<Longrightarrow> ok s \<Longrightarrow>
          visible (post m True s) = visible s \<and> waiting (post m True s) = [m]"
    and post_other: "\<not> is_array m \<Longrightarrow> post m d s = s"
    and moved_waiting: "ok s \<Longrightarrow> waiting s = [m] \<Longrightarrow> visible (moved s) = m \<and> waiting (moved s) = []"
    and moved_empty: "ok s \<Longrightarrow> waiting s = [] \<Longrightarrow> visible (moved s) = JUndef \<and> waiting (moved s) = []"
    and ok_post: "ok s \<Longrightarrow> ok (post m d s)"
    and ok_moved: "ok s \<Longrightarrow> ok (moved s)"
    and ok_waiting: "ok s \<Longrightarrow> length (waiting s) \<le> 1"
begin

lemma shown_after_move: "is_array m \<Longrightarrow> ok s \<Longrightarrow> visible (moved (post m True s)) = m"
  using post_next ok_post moved_waiting by blast

lemma lost_after_move: "is_array m \<Longrightarrow> ok s \<Longrightarrow> visible (moved (post m False s)) = JUndef"
  using post_now ok_post moved_empty by blast

lemma last_delayed_wins:
  "is_array m \<Longrightarrow> is_array m' \<Longrightarrow> ok s \<Longrightarrow> visible (moved (post m' True (post m True s))) = m'"
  using shown_after_move ok_post by blast

lemma now_drops_delayed:
  "is_array m \<Longrightarrow> is_array m' \<Longrightarrow> ok s \<Longrightarrow>
     visible (moved (post m' False (post m True s))) = JUndef"
  using lost_after_move ok_post by blast

lemma gone_after_second_move:
  assumes "ok s" shows "visible (moved (moved s)) = JUndef"
proof (cases "waiting s")
  case Nil
  then show ?thesis using assms moved_empty ok_moved by blast
next
  case (Cons m ms)
  then have "waiting s = [m]" using ok_waiting [OF assms] by simp
  then show ?thesis using assms moved_waiting moved_empty ok_moved by blast
qed

end

definition queue_ok :: "world \<Rightarrow> bool" where
  "queue_ok w \<longleftrightarrow> length (queue w) \<le> 1"

definition waiting_messages :: "world \<Rightarrow> js list" where
  "waiting_messages w = map (\<lambda>m. fld m ''content'') (queue w)"

lemma queue_ok_set: "queue_ok w \<Longrightarrow> queue_ok (setMessages m d w)"
  by (cases "queue w") (auto simp: queue_ok_def setMessages_def)

lemma queue_ok_moved: "queue_ok w \<Longrightarrow> queue_ok (location_changed w)"
  by (cases "queue w")
     (auto simp: queue_ok_def location_changed_def onLocationChangeStart_def
        onLocationChangeSuccess_def resetMessages_def)

interpretation board: message_board setMessages location_changed
    "\<lambda>w. fld (messages w) ''content''" waiting_messages queue_ok
proof unfold_locales
  fix m w
  show "is_array m \<Longrightarrow> displayed (setMessages m False w) = m \<and>
          waiting_messages (setMessages m False w) = []"
    by (simp add: setMessages_def message_box_def waiting_messages_def)
  show "is_array m \<Longrightarrow> queue_ok w \<Longrightarrow> displayed (setMessages m True w) = displayed w \<and>
          waiting_messages (setMessages m True w) = [m]"
    by (cases "queue w")
       (auto simp: setMessages_def message_box_def waiting_messages_def queue_ok_def)
  show "\<not> is_array m \<Longrightarrow> setMessages m d w = w" for d
    by (simp add: setMessages_def)
  show "queue_ok w \<Longrightarrow> waiting_messages w = [m] \<Longrightarrow>
          displayed (location_changed w) = m \<and> waiting_messages (location_changed w) = []"
    by (auto simp: message_defs waiting_messages_def)
  show "queue_ok w \<Longrightarrow> waiting_messages w = [] \<Longrightarrow>
          displayed (location_changed w) = JUndef \<and> waiting_messages (location_changed w) = []"
    by (auto simp: message_defs waiting_messages_def)
  show "queue_ok w \<Longrightarrow> queue_ok (setMessages m d w)" for d by (rule queue_ok_set)
  show "queue_ok w \<Longrightarrow> queue_ok (location_changed w)" by (rule queue_ok_moved)
  show "queue_ok w \<Longrightarrow> length (waiting_messages w) \<le> 1"
    by (simp add: queue_ok_def waiting_messages_def)
qed

subsection \<open>Every sequence of events\<close>

datatype message_event =
    Set js bool
  | Remove nat
  | ChangeStart
  | ChangeSuccess

fun message_step :: "message_event \<Rightarrow> world \<Rightarrow> world" where
  "message_step (Set m d) w = setMessages m d w"
| "message_step (Remove i) w = removeMessage i w"
| "message_step ChangeStart w = onLocationChangeStart w"
| "message_step ChangeSuccess w = onLocationChangeSuccess w"

definition message_run :: "message_event list \<Rightarrow> world \<Rightarrow> world" where
  "message_run es w = fold message_step es w"

lemma queue_ok_step: "queue_ok w \<Longrightarrow> queue_ok (message_step e w)"
proof (cases e)
  case (Set m d)
  then show "queue_ok w \<Longrightarrow> ?thesis" by (simp add: queue_ok_set)
next
  case ChangeSuccess
  then show "queue_ok w \<Longrightarrow> ?thesis"
    by (cases "queue w") (auto simp: queue_ok_def onLocationChangeSuccess_def)
qed (auto simp: queue_ok_def removeMessage_def Let_def onLocationChangeStart_def resetMessages_def)

lemma queue_ok_run: "queue_ok w \<Longrightarrow> queue_ok (message_run es w)"
  unfolding message_run_def by (induction es arbitrary: w) (auto simp: queue_ok_step)

text \<open>An event that neither posts messages nor completes a location change leaves the queue
  alone.\<close>

fun quiet :: "message_event \<Rightarrow> bool" where
  "quiet (Set m d) = (\<not> is_array m)"
| "quiet ChangeSuccess = False"
| "quiet _ = True"

lemma queue_quiet: "quiet e \<Longrightarrow> queue (message_step e w) = queue w"
  by (cases e) (auto simp: message_defs Let_def)

lemma queue_quiet_run: "list_all quiet es \<Longrightarrow> queue (message_run es w) = queue w"
  unfolding message_run_def by (induction es arbitrary: w) (auto simp: queue_quiet)

section \<open>Properties and user (PropertiesModel.js, UserModel.js)\<close>

definition setProperties :: "js \<Rightarrow> world \<Rightarrow> world" where
  "setProperties ps w = w\<lparr>properties := ps, propertiesLoaded := True\<rparr>"

text \<open>\<open>$broadcast\<close>: the event is recorded, and the listeners of the repository run.\<close>

definition record_event :: "string \<Rightarrow> world \<Rightarrow> world" where
  "record_event e w = w\<lparr>events := events w @ [e]\<rparr>"

text \<open>The header keeps its own copy of the user, refreshed on this event (HeaderController.js).\<close>

definition onUserUpdated :: "world \<Rightarrow> world" where
  "onUserUpdated w = w\<lparr>headerUser := userUser w\<rparr>"

definition setUser :: "js \<Rightarrow> world \<Rightarrow> world" where
  "setUser userData w =
     onUserUpdated (record_event ''userModel::userUpdated''
       (w\<lparr>userLoaded := True, userUser := userData\<rparr>))"

definition resetUser :: "world \<Rightarrow> world" where
  "resetUser w =
     onUserUpdated (record_event ''userModel::userUpdated''
       (w\<lparr>userLoaded := False, userUserId := JNum 0, userUser := JObj []\<rparr>))"

section \<open>The change log counter (ChangeLogModel.js)\<close>

text \<open>The count is fetched through \<open>changeLogService.getNewLogCount\<close>; the call is made at once
  and its response is handled by the event loop (\<open>receiveLogCount\<close>).\<close>

definition logCountCall :: "world \<Rightarrow> call" where
  "logCountCall w = HGet (apiRoot w @ ''logs/newcount'') JUndef"

definition getNewLogCount :: "world \<Rightarrow> world" where
  "getNewLogCount w =
     (let c = logCountCall w in (send c w)\<lparr>backlog := backlog w @ [LogCount c]\<rparr>)"

definition receiveLogCount :: "js \<Rightarrow> world \<Rightarrow> world" where
  "receiveLogCount result w =
     (case getp result ''data'' of
        None \<Rightarrow> w
      | Some d \<Rightarrow>
          (case getp d ''response'' of
             None \<Rightarrow> w
           | Some r \<Rightarrow>
               (case getp r ''newLogcount'' of
                  None \<Rightarrow> w
                | Some n \<Rightarrow> w\<lparr>newLogCount := n\<rparr>)))"

definition killChangeLogInterval :: "world \<Rightarrow> world" where
  "killChangeLogInterval w =
     (case logInterval w of
        None \<Rightarrow> w
      | Some i \<Rightarrow> (interval_cancel i w)\<lparr>logInterval := None\<rparr>)"

definition createChangeLogInterval :: "world \<Rightarrow> world" where
  "createChangeLogInterval w =
     (case interval_start (killChangeLogInterval w) of
        (i, w') \<Rightarrow> w'\<lparr>logInterval := Some i\<rparr>)"

definition onLogin :: "world \<Rightarrow> world" where
  "onLogin w = createChangeLogInterval (getNewLogCount w)"

definition onExit :: "world \<Rightarrow> world" where
  "onExit w = killChangeLogInterval w"

definition onGetChangeLogs :: "world \<Rightarrow> world" where
  "onGetChangeLogs w = w\<lparr>newLogCount := JNum 0\<rparr>"

definition initChangeLogModel :: "world \<Rightarrow> world" where
  "initChangeLogModel w =
     (if userLoaded w then createChangeLogInterval (getNewLogCount w) else w)"

text \<open>The broadcasts the services make, each with its listeners.\<close>

definition broadcast_login :: "world \<Rightarrow> world" where
  "broadcast_login w = onLogin (record_event ''authService::login'' w)"

definition broadcast_exit :: "world \<Rightarrow> world" where
  "broadcast_exit w = onExit (record_event ''trafficPortal::exit'' w)"

definition broadcast_getChangeLogs :: "world \<Rightarrow> world" where
  "broadcast_getChangeLogs w =
     onGetChangeLogs (record_event ''changeLogService::getChangeLogs'' w)"

lemmas changelog_defs =
  getNewLogCount_def logCountCall_def killChangeLogInterval_def createChangeLogInterval_def
  onLogin_def onExit_def onGetChangeLogs_def initChangeLogModel_def interval_start_def
  interval_cancel_def send_def record_event_def broadcast_login_def broadcast_exit_def
  broadcast_getChangeLogs_def

interpretation change_log: interval_owner intervals logInterval createChangeLogInterval
    killChangeLogInterval
  by unfold_locales
    (auto simp: killChangeLogInterval_def createChangeLogInterval_def interval_start_def
      interval_cancel_def split: option.splits)

text \<open>The poller's invariant: the timers that run are those the model knows of, so there is at
  most one, and fresh numbers are not in use.\<close>

definition poller_inv :: "world \<Rightarrow> bool" where
  "poller_inv w \<longleftrightarrow>
     intervals w = (case logInterval w of None \<Rightarrow> [] | Some i \<Rightarrow> [i]) \<and>
     (\<forall>i. logInterval w = Some i \<longrightarrow> i < nextInterval w)"

datatype poller_event = Login | Exit | ReadLogs | Tick | Count js

fun poller_step :: "poller_event \<Rightarrow> world \<Rightarrow> world" where
  "poller_step Login w = broadcast_login w"
| "poller_step Exit w = broadcast_exit w"
| "poller_step ReadLogs w = broadcast_getChangeLogs w"
| "poller_step Tick w = (if intervals w = [] then w else getNewLogCount w)"
| "poller_step (Count r) w = receiveLogCount r w"

definition poller_run :: "poller_event list \<Rightarrow> world \<Rightarrow> world" where
  "poller_run es w = fold poller_step es w"

lemma receiveLogCount_frame:
  "intervals (receiveLogCount r w) = intervals w"
  "logInterval (receiveLogCount r w) = logInterval w"
  "nextInterval (receiveLogCount r w) = nextInterval w"
  "sent (receiveLogCount r w) = sent w"
  by (simp_all add: receiveLogCount_def split: option.splits)

lemma poller_inv_step: "poller_inv w \<Longrightarrow> poller_inv (poller_step e w)"
  by (cases e)
     (auto simp: poller_inv_def changelog_defs Let_def receiveLogCount_frame split: option.splits)

lemma poller_inv_run: "poller_inv w \<Longrightarrow> poller_inv (poller_run es w)"
  unfolding poller_run_def by (induction es arbitrary: w) (auto simp: poller_inv_step)

lemma poller_owned: "poller_inv w \<Longrightarrow> change_log.owned w"
  by (simp add: poller_inv_def change_log.owned_def)

lemma poller_one: "poller_inv w \<Longrightarrow> length (intervals w) \<le> 1"
  by (rule change_log.at_most_one) (rule poller_owned)

section \<open>Properties\<close>

text \<open>However messages are posted and removed and however the location changes, at most one
  set of messages waits for the next page.\<close>

lemma at_most_one_waiting:
  assumes "length (queue w) \<le> 1"
  shows "length (queue (message_run es w)) \<le> 1"
  using queue_ok_run [of w es] assms by (simp add: queue_ok_def)

text \<open>C12. Messages posted for the next page are what the next page shows, whatever is removed from
  the display and however often a location change is only started in between.\<close>

theorem delayed_messages_are_shown:
  assumes "is_array m" "list_all quiet es"
  shows "displayed (location_changed (message_run es (setMessages m True w))) = m"
proof -
  have "queue (message_run es (setMessages m True w)) = queue (setMessages m True w)"
    by (rule queue_quiet_run) (rule assms(2))
  then show ?thesis
    using assms(1)
    by (simp add: location_changed_def onLocationChangeSuccess_def onLocationChangeStart_def
        resetMessages_def setMessages_def message_box_def)
qed

theorem delayed_messages_are_shown_witness:
  "displayed (location_changed (message_run [Remove 0, ChangeStart, Set JNull True]
     (setMessages (success ''CDN deleted'') True (start_world accept_all close_all)))) =
   success ''CDN deleted''"
  by (rule delayed_messages_are_shown) simp_all

text \<open>Messages shown at once are gone after the next location change, and with them any that
  were waiting.\<close>

lemma immediate_messages_are_lost:
  assumes "is_array m" "length (queue w) \<le> 1"
  shows "displayed (location_changed (setMessages m False w)) = JUndef \<and>
    queue (setMessages m False w) = []"
  using board.lost_after_move [OF assms(1)] assms by (simp add: queue_ok_def setMessages_def)

text \<open>C27. However logins, exits, ticks and answers follow each other, the change log is polled by
  at most one timer, and by none after an exit.\<close>

theorem one_poller:
  assumes "poller_inv w"
  shows "length (intervals (poller_run es w)) \<le> 1 \<and>
    intervals (broadcast_exit (poller_run es w)) = []"
proof -
  have inv: "poller_inv (poller_run es w)" using assms by (rule poller_inv_run)
  then have "poller_inv (record_event ''trafficPortal::exit'' (poller_run es w))"
    by (simp add: poller_inv_def record_event_def)
  then have "intervals (broadcast_exit (poller_run es w)) = []"
    unfolding broadcast_exit_def onExit_def by (intro change_log.none_after_kill poller_owned)
  then show ?thesis using poller_one [OF inv] by simp
qed

theorem one_poller_witness:
  "intervals (broadcast_exit (poller_run [Login, Login, Tick, Exit, Login]
     (start_world accept_all close_all))) = []"
proof -
  have "poller_inv (start_world accept_all close_all)" by (simp add: poller_inv_def)
  from one_poller [OF this] show ?thesis by blast
qed

end
