(* ===== verification/Uri.thy ===== *)
theory Uri
  imports Prelude
begin

text \<open>
  The language's \<open>encodeURIComponent\<close> and \<open>decodeURIComponent\<close> on UTF-8 code units, as the portal
  uses them to carry the page a user wanted through the login page.
\<close>

definition unreserved :: "char \<Rightarrow> bool" where
  "unreserved c \<longleftrightarrow>
     (let n = (of_char c :: nat) in
        (48 \<le> n \<and> n \<le> 57) \<or> (65 \<le> n \<and> n \<le> 90) \<or> (97 \<le> n \<and> n \<le> 122) \<or>
        c \<in> set ''-_.!~*'' \<or> n \<in> {39, 40, 41})"

definition hex_char :: "nat \<Rightarrow> char" where
  "hex_char d = (if d < 10 then char_of (48 + d) else char_of (55 + d))"

definition hex_val :: "char \<Rightarrow> nat option" where
  "hex_val c =
     (let n = (of_char c :: nat) in
        if 48 \<le> n \<and> n \<le> 57 then Some (n - 48)
        else if 65 \<le> n \<and> n \<le> 70 then Some (n - 55)
        else if 97 \<le> n \<and> n \<le> 102 then Some (n - 87)
        else None)"

definition escape :: "char \<Rightarrow> string" where
  "escape c =
     (if unreserved c then [c]
      else [CHR ''%'', hex_char (of_char c div 16), hex_char (of_char c mod 16)])"

definition encodeURIComponent :: "string \<Rightarrow> string" where
  "encodeURIComponent s = concat (map escape s)"

text \<open>\<open>None\<close> is the \<open>URIError\<close> of a \<open>%\<close> that is not followed by two hexadecimal digits.  Octets
  that are not UTF-8 are not told apart.\<close>

fun decodeURIComponent :: "string \<Rightarrow> string option" where
  "decodeURIComponent [] = Some []"
| "decodeURIComponent (c # cs) =
     (if c = CHR ''%'' then
        (case cs of
           a # b # cs' \<Rightarrow>
             (case hex_val a of
                None \<Rightarrow> None
              | Some x \<Rightarrow>
                  (case hex_val b of
                     None \<Rightarrow> None
                   | Some y \<Rightarrow> map_option ((#) (char_of (16 * x + y))) (decodeURIComponent cs')))
         | _ \<Rightarrow> None)
      else map_option ((#) c) (decodeURIComponent cs))"

lemma hex_val_hex_char: "d < 16 \<Longrightarrow> hex_val (hex_char d) = Some d"
  by (auto simp: hex_val_def hex_char_def Let_def)

lemma high_digit: "(of_char (c :: char) :: nat) div 16 < 16"
proof -
  have "(of_char c :: nat) < 16 * 16"
    using nat_of_char_less_256 [of c] by simp
  then show ?thesis by (rule less_mult_imp_div_less)
qed

lemma decode_escape:
  "decodeURIComponent (escape c @ s) = map_option ((#) c) (decodeURIComponent s)"
proof (cases "unreserved c")
  case True
  then have "c \<noteq> CHR ''%''" by (auto simp: unreserved_def)
  then show ?thesis using True by (simp add: escape_def)
next
  case False
  have d: "(of_char c :: nat) div 16 < 16" by (rule high_digit)
  have m: "(of_char c :: nat) mod 16 < 16" by simp
  have "char_of (16 * (of_char c div 16) + (of_char c mod 16 :: nat)) = c"
    by simp
  then show ?thesis
    using False d m by (simp add: escape_def hex_val_hex_char)
qed

lemma decode_encode_append:
  "decodeURIComponent (encodeURIComponent s @ t) = map_option ((@) s) (decodeURIComponent t)"
proof (induction s)
  case Nil
  then show ?case
    by (simp add: encodeURIComponent_def option.map_ident_strong)
next
  case (Cons c s)
  then show ?case
    by (simp add: encodeURIComponent_def decode_escape option.map_comp comp_def)
qed

lemma decode_encode: "decodeURIComponent (encodeURIComponent s) = Some s"
  using decode_encode_append [of s "[]"] by simp

text \<open>What is encoded stands in a query value: no separator of a URL survives.\<close>

lemma escape_safe: "x \<in> set (escape c) \<Longrightarrow> unreserved x \<or> x = CHR ''%''"
proof -
  have *: "unreserved (hex_char d)" if "d < 16" for d :: nat
    using that by (auto simp: unreserved_def hex_char_def Let_def)
  have d: "(of_char c :: nat) div 16 < 16" by (rule high_digit)
  assume "x \<in> set (escape c)"
  then show ?thesis using * [OF d] * [of "of_char c mod 16"]
    by (auto simp: escape_def split: if_splits)
qed

lemma encode_safe: "x \<in> set (encodeURIComponent s) \<Longrightarrow> unreserved x \<or> x = CHR ''%''"
  by (auto simp: encodeURIComponent_def dest: escape_safe)

lemma encode_no_separator:
  "x \<in> set (encodeURIComponent s) \<Longrightarrow> x \<notin> set ''?&=#/''"
  using encode_safe [of x s] by (auto simp: unreserved_def)

end
