(* ===== verification/Http.thy ===== *)
theory Http
  imports Models Uri
begin

text \<open>
  The HTTP layer: the two interceptors of \<open>app.js\<close> (what every Restangular answer and every failed
  response goes through), the callbacks the failure interceptor leaves to \<open>$timeout\<close>, and the thin
  \<open>httpService\<close>.
\<close>

section \<open>The response interceptor of Restangular (app.js)\<close>

text \<open>\<open>xs[0]\<close> on the response; \<open>None\<close> is the \<open>TypeError\<close> on \<open>null\<close>.\<close>

fun first_of :: "js \<Rightarrow> js option" where
  "first_of JUndef = None"
| "first_of JNull = None"
| "first_of (JArr xs) = Some (case xs of [] \<Rightarrow> JUndef | x # _ \<Rightarrow> x)"
| "first_of (JStr s) = Some (case s of [] \<Rightarrow> JUndef | c # _ \<Rightarrow> JStr [c])"
| "first_of (JObj kvs) = Some (lookup ''0'' kvs)"
| "first_of _ = Some JUndef"

definition responseInterceptor :: "js \<Rightarrow> string \<Rightarrow> js option" where
  "responseInterceptor data operation =
     (case getp data ''response'' of
        None \<Rightarrow> None
      | Some r \<Rightarrow>
          (if r \<noteq> JUndef then
             (if operation = ''getList'' then Some r else first_of r)
           else Some data))"

section \<open>The failure interceptor (app.js, authInterceptor)\<close>

fun matches_5xx :: "string \<Rightarrow> bool" where
  "matches_5xx [a, b, c] = (a = CHR ''5'' \<and> is_digit b \<and> c \<in> set ''01356789'')"
| "matches_5xx _ = False"

definition rejection_alerts :: "js \<Rightarrow> js" where
  "rejection_alerts rejection =
     (case getp (fld rejection ''data'') ''alerts'' of None \<Rightarrow> JArr [] | Some a \<Rightarrow> a)"

definition search_param :: "string \<Rightarrow> world \<Rightarrow> js" where
  "search_param k w =
     (case map_of (search (loc w)) k of None \<Rightarrow> JUndef | Some v \<Rightarrow> JStr v)"

definition add_timer :: "timer \<Rightarrow> world \<Rightarrow> world" where
  "add_timer t w = w\<lparr>timers := timers w @ [t]\<rparr>"

definition onRejection :: "js \<Rightarrow> world \<Rightarrow> world" where
  "onRejection rejection w =
     (let url = urlOf w (loc w);
          alerts = rejection_alerts rejection;
          status = fld rejection ''status''
      in if status = JNum 401 then
           (let w1 = resetUser (broadcast_exit w)
            in if url = ''/'' \<or> truthy (search_param ''redirect'' w1)
               then setMessages alerts False w1
               else add_timer (RedirectLater alerts url) w1)
         else if status = JNum 403 \<or> status = JNum 404 then add_timer (ShowLater alerts) w
         else if matches_5xx (to_str status) then
           add_timer (ShowLater (error_alert
             (to_str status @ '': '' @ to_str (fld rejection ''statusText'')))) w
         else w)"

text \<open>The interceptor hands the rejection on.  (A rejection without a status makes
  \<open>rejection.status.toString()\<close> throw; \<open>$http\<close> always sets one.)\<close>

definition responseError :: "js \<Rightarrow> later" where
  "responseError rejection w =
     (if nullish (fld rejection ''status'') then (Rejected type_error, w)
      else (Rejected rejection, onRejection rejection w))"

text \<open>What the timeouts do when they fire, each in its own turn of the event loop.\<close>

fun fire_timer :: "timer \<Rightarrow> world \<Rightarrow> world" where
  "fire_timer (ShowLater a) w = setMessages a False w"
| "fire_timer (RedirectLater a url) w =
     set_search [(''redirect'', encodeURIComponent url)] (set_url ''/'' (setMessages a True w))"

definition run_timers :: "world \<Rightarrow> world" where
  "run_timers w = fold (\<lambda>t w. digest (fire_timer t w)) (timers w) (digest (w\<lparr>timers := []\<rparr>))"

section \<open>Calls\<close>

text \<open>The response of a call arrives in a new turn of the event loop.\<close>

definition answer_call :: "call \<Rightarrow> later" where
  "answer_call c w =
     (let w1 = digest w in
        (case srv w1 (sent w1) c of
           Ok v \<Rightarrow> (Fulfilled v, w1)
         | Err f \<Rightarrow> responseError f w1))"

definition http :: "call \<Rightarrow> op" where
  "http c w = (answer_call c, send c w)"

definition rest :: "string \<Rightarrow> call \<Rightarrow> op" where
  "rest operation c =
     deferred (http c)
       (\<lambda>data. case responseInterceptor data operation of
                 None \<Rightarrow> unsettled
               | Some v \<Rightarrow> resolve v)
       reject"

definition rest_getList :: "seg list \<Rightarrow> js \<Rightarrow> op" where
  "rest_getList p q = rest ''getList'' (RGetList p q)"

definition rest_get :: "seg list \<Rightarrow> js \<Rightarrow> op" where
  "rest_get p q = rest ''get'' (RGet p q)"

definition rest_post :: "seg list \<Rightarrow> js \<Rightarrow> op" where
  "rest_post p x = rest ''post'' (RPost p x)"

definition rest_put :: "js \<Rightarrow> op" where
  "rest_put x = rest ''put'' (RPut x)"

definition rest_remove :: "seg list \<Rightarrow> op" where
  "rest_remove p = rest ''remove'' (RRemove p)"

definition rest_customPOST :: "seg list \<Rightarrow> string \<Rightarrow> js \<Rightarrow> op" where
  "rest_customPOST p sub x = rest ''post'' (RCustomPost p sub x)"

definition rest_customGET :: "seg list \<Rightarrow> string \<Rightarrow> op" where
  "rest_customGET p sub = rest ''get'' (RCustomGet p sub)"

text \<open>\<open>ENV.api['root'] + ...\<close>\<close>

definition api :: "(string \<Rightarrow> call) \<Rightarrow> string \<Rightarrow> op" where
  "api c u = with_world (\<lambda>w. http (c (apiRoot w @ u)))"

section \<open>HttpService.js\<close>

definition httpService_get :: "string \<Rightarrow> op" where
  "httpService_get resource = deferred (http (HGet resource JUndef)) resolve reject"

definition httpService_post :: "string \<Rightarrow> js \<Rightarrow> op" where
  "httpService_post resource payload = deferred (http (HPost resource payload)) resolve reject"

definition httpService_put :: "string \<Rightarrow> js \<Rightarrow> op" where
  "httpService_put resource payload =
     deferred (http (HPut resource payload)) (\<lambda>result. deref_later result ''response'' resolve) reject"

definition httpService_delete :: "string \<Rightarrow> op" where
  "httpService_delete resource =
     deferred (http (HDelete resource)) (\<lambda>result. deref_later result ''response'' resolve) reject"

section \<open>The event loop\<close>

text \<open>The responses nobody waits for (\<open>getNewLogCount\<close>, through \<open>httpService.get\<close>).\<close>

fun deliver :: "background \<Rightarrow> world \<Rightarrow> world" where
  "deliver (LogCount c) w =
     (case answer_call c w of
        (Fulfilled r, w1) \<Rightarrow> receiveLogCount r w1
      | (_, w1) \<Rightarrow> w1)"

definition run_backlog :: "world \<Rightarrow> world" where
  "run_backlog w = fold deliver (backlog w) (w\<lparr>backlog := []\<rparr>)"

text \<open>An operation run to the end of its last turn.\<close>

definition settle :: "op \<Rightarrow> world \<Rightarrow> outcome \<times> world" where
  "settle p w = (case run p w of (r, w') \<Rightarrow> (r, digest w'))"

section \<open>Lemmas\<close>

lemma run_http [promise_simps]: "run (http c) w = answer_call c (send c w)"
  by (simp add: run_def http_def)

text \<open>Fields that neither the location events nor the failure interceptor write.\<close>

lemma digest_frame [simp]:
  "srv (digest w) = srv w" "ask (digest w) = ask w" "pick (digest w) = pick w"
  "apiRoot (digest w) = apiRoot w" "parseUrl (digest w) = parseUrl w"
  "urlOf (digest w) = urlOf w" "stateUrl (digest w) = stateUrl w"
  "sent (digest w) = sent w" "asked (digest w) = asked w"
  "userUser (digest w) = userUser w" "userLoaded (digest w) = userLoaded w"
  "loc (digest w) = loc w" "shown (digest w) = loc w"
  "reloads (digest w) = reloads w" "timers (digest w) = timers w"
  "scope (digest w) = scope w" "events (digest w) = events w" "stateName (digest w) = stateName w"
  "scrolls (digest w) = scrolls w" "backlog (digest w) = backlog w"
  "properties (digest w) = properties w"
  by (simp_all add: digest_def message_defs split: list.splits)

lemma digest_idle: "loc w = shown w \<Longrightarrow> digest w = w"
  by (simp add: digest_def)

lemma digest_digest [simp]: "digest (digest w) = digest w"
  by (rule digest_idle) simp

lemma setMessages_frame [simp]:
  "srv (setMessages m d w) = srv w" "ask (setMessages m d w) = ask w"
  "pick (setMessages m d w) = pick w" "apiRoot (setMessages m d w) = apiRoot w"
  "parseUrl (setMessages m d w) = parseUrl w" "urlOf (setMessages m d w) = urlOf w"
  "stateUrl (setMessages m d w) = stateUrl w" "sent (setMessages m d w) = sent w"
  "asked (setMessages m d w) = asked w" "userUser (setMessages m d w) = userUser w"
  "userLoaded (setMessages m d w) = userLoaded w" "loc (setMessages m d w) = loc w"
  "shown (setMessages m d w) = shown w" "reloads (setMessages m d w) = reloads w"
  "timers (setMessages m d w) = timers w" "scope (setMessages m d w) = scope w"
  "events (setMessages m d w) = events w" "stateName (setMessages m d w) = stateName w"
  "scrolls (setMessages m d w) = scrolls w" "backlog (setMessages m d w) = backlog w"
  "properties (setMessages m d w) = properties w"
  by (simp_all add: setMessages_def)

lemma send_frame [simp]:
  "srv (send c w) = srv w" "ask (send c w) = ask w" "pick (send c w) = pick w"
  "apiRoot (send c w) = apiRoot w" "parseUrl (send c w) = parseUrl w"
  "urlOf (send c w) = urlOf w" "stateUrl (send c w) = stateUrl w"
  "sent (send c w) = sent w @ [c]" "asked (send c w) = asked w"
  "messages (send c w) = messages w" "queue (send c w) = queue w"
  "userUser (send c w) = userUser w" "userLoaded (send c w) = userLoaded w"
  "loc (send c w) = loc w" "shown (send c w) = shown w" "reloads (send c w) = reloads w"
  "timers (send c w) = timers w" "scope (send c w) = scope w" "events (send c w) = events w"
  "stateName (send c w) = stateName w" "scrolls (send c w) = scrolls w"
  "backlog (send c w) = backlog w" "properties (send c w) = properties w"
  by (simp_all add: send_def)

lemma resetUser_frame [simp]:
  "srv (resetUser w) = srv w" "ask (resetUser w) = ask w" "pick (resetUser w) = pick w"
  "apiRoot (resetUser w) = apiRoot w" "parseUrl (resetUser w) = parseUrl w"
  "urlOf (resetUser w) = urlOf w" "stateUrl (resetUser w) = stateUrl w"
  "sent (resetUser w) = sent w" "asked (resetUser w) = asked w"
  "messages (resetUser w) = messages w" "queue (resetUser w) = queue w"
  "loc (resetUser w) = loc w" "shown (resetUser w) = shown w" "reloads (resetUser w) = reloads w"
  "timers (resetUser w) = timers w" "scope (resetUser w) = scope w"
  "userLoaded (resetUser w) = False" "userUser (resetUser w) = JObj []"
  "stateName (resetUser w) = stateName w" "scrolls (resetUser w) = scrolls w"
  "backlog (resetUser w) = backlog w" "properties (resetUser w) = properties w"
  by (simp_all add: resetUser_def onUserUpdated_def record_event_def)

lemma broadcast_exit_frame [simp]:
  "srv (broadcast_exit w) = srv w" "ask (broadcast_exit w) = ask w"
  "pick (broadcast_exit w) = pick w" "apiRoot (broadcast_exit w) = apiRoot w"
  "parseUrl (broadcast_exit w) = parseUrl w" "urlOf (broadcast_exit w) = urlOf w"
  "stateUrl (broadcast_exit w) = stateUrl w" "sent (broadcast_exit w) = sent w"
  "asked (broadcast_exit w) = asked w" "messages (broadcast_exit w) = messages w"
  "queue (broadcast_exit w) = queue w" "loc (broadcast_exit w) = loc w"
  "shown (broadcast_exit w) = shown w" "reloads (broadcast_exit w) = reloads w"
  "timers (broadcast_exit w) = timers w" "scope (broadcast_exit w) = scope w"
  "userLoaded (broadcast_exit w) = userLoaded w" "userUser (broadcast_exit w) = userUser w"
  "stateName (broadcast_exit w) = stateName w" "scrolls (broadcast_exit w) = scrolls w"
  "backlog (broadcast_exit w) = backlog w" "properties (broadcast_exit w) = properties w"
  by (simp_all add: broadcast_exit_def onExit_def killChangeLogInterval_def interval_cancel_def
        record_event_def split: option.splits)

lemma add_timer_frame [simp]:
  "srv (add_timer t w) = srv w" "ask (add_timer t w) = ask w" "pick (add_timer t w) = pick w"
  "apiRoot (add_timer t w) = apiRoot w" "parseUrl (add_timer t w) = parseUrl w"
  "urlOf (add_timer t w) = urlOf w" "stateUrl (add_timer t w) = stateUrl w"
  "sent (add_timer t w) = sent w" "asked (add_timer t w) = asked w"
  "messages (add_timer t w) = messages w" "queue (add_timer t w) = queue w"
  "loc (add_timer t w) = loc w" "shown (add_timer t w) = shown w"
  "reloads (add_timer t w) = reloads w" "timers (add_timer t w) = timers w @ [t]"
  "scope (add_timer t w) = scope w" "userLoaded (add_timer t w) = userLoaded w"
  "userUser (add_timer t w) = userUser w" "stateName (add_timer t w) = stateName w"
  "scrolls (add_timer t w) = scrolls w" "backlog (add_timer t w) = backlog w"
  "events (add_timer t w) = events w" "properties (add_timer t w) = properties w"
  by (simp_all add: add_timer_def)

lemma onRejection_frame [simp]:
  "srv (onRejection f w) = srv w" "ask (onRejection f w) = ask w"
  "pick (onRejection f w) = pick w" "apiRoot (onRejection f w) = apiRoot w"
  "parseUrl (onRejection f w) = parseUrl w" "urlOf (onRejection f w) = urlOf w"
  "stateUrl (onRejection f w) = stateUrl w" "sent (onRejection f w) = sent w"
  "asked (onRejection f w) = asked w" "loc (onRejection f w) = loc w"
  "shown (onRejection f w) = shown w" "reloads (onRejection f w) = reloads w"
  "scope (onRejection f w) = scope w" "stateName (onRejection f w) = stateName w"
  "scrolls (onRejection f w) = scrolls w" "backlog (onRejection f w) = backlog w"
  "properties (onRejection f w) = properties w"
  by (simp_all add: onRejection_def Let_def)

text \<open>A call and its answer: the call is logged once, and the location does not move.\<close>

lemma run_http_Ok:
  "srv w (sent w @ [c]) c = Ok v \<Longrightarrow> run (http c) w = (Fulfilled v, digest (send c w))"
  by (simp add: run_http answer_call_def)

lemma run_http_Err:
  "srv w (sent w @ [c]) c = Err f \<Longrightarrow> run (http c) w = responseError f (digest (send c w))"
  by (simp add: run_http answer_call_def)

lemma run_http_frame:
  assumes "run (http c) w = (r, w')"
  shows "sent w' = sent w @ [c]" "loc w' = loc w" "shown w' = loc w" "srv w' = srv w"
    "ask w' = ask w" "pick w' = pick w" "reloads w' = reloads w" "asked w' = asked w"
    "apiRoot w' = apiRoot w" "urlOf w' = urlOf w" "parseUrl w' = parseUrl w"
    "scope w' = scope w" "stateName w' = stateName w" "scrolls w' = scrolls w" "r \<noteq> Pending"
  using assms
  by (auto simp: run_http answer_call_def responseError_def Let_def split: response.splits if_splits)

end
