(* ===== verification/Services.thy ===== *)
theory Services
  imports Http
begin

text \<open>
  The resource services of \<open>common/api/\<close> that list, read, create, update and delete one kind of
  resource, one definition per method.  Each returns the promise the code returns: a mutation
  posts its message to the message board in the handlers it attaches, so that the promise a
  caller gets is fulfilled with \<open>undefined\<close> whether the server accepted the call or not.
\<close>

section \<open>The handlers the services attach\<close>

text \<open>\<open>locationUtils.navigateToPath\<close> (LocationUtils.js).\<close>

definition navigateToPath :: "string \<Rightarrow> op" where
  "navigateToPath p = eff (set_url p)"

text \<open>\<open>messageModel.setMessages([ { level: 'success', text: txt } ], delay)\<close>.\<close>

definition say :: "string \<Rightarrow> bool \<Rightarrow> op" where
  "say txt delay = eff (setMessages (success txt) delay)"

text \<open>\<open>function(fault) { messageModel.setMessages(fault.data.alerts, delay); }\<close>.\<close>

definition fault_alerts :: "bool \<Rightarrow> js \<Rightarrow> op" where
  "fault_alerts delay fault =
     deref fault ''data'' (\<lambda>d. deref d ''alerts'' (\<lambda>a. eff (setMessages a delay)))"

section \<open>ASNService.js\<close>

definition getASNs :: "js \<Rightarrow> op" where
  "getASNs queryParams = rest_getList [All ''asns''] queryParams"

definition getASN :: "js \<Rightarrow> op" where
  "getASN i = rest_get [One ''asns'' i] JUndef"

definition createASN :: "js \<Rightarrow> op" where
  "createASN asn =
     then2 (rest_post [All ''asns''] asn)
       (\<lambda>_. seq (say ''ASN created'' True) (navigateToPath ''/asns''))
       (fault_alerts False)"

definition updateASN :: "js \<Rightarrow> op" where
  "updateASN asn = then2 (rest_put asn) (\<lambda>_. say ''ASN updated'' False) (fault_alerts False)"

definition deleteASN :: "js \<Rightarrow> op" where
  "deleteASN i =
     then2 (rest_remove [One ''asns'' i]) (\<lambda>_. say ''ASN deleted'' True) (fault_alerts True)"

section \<open>CacheGroupService.js\<close>

definition getCacheGroups :: "js \<Rightarrow> op" where
  "getCacheGroups queryParams = rest_getList [All ''cachegroups''] queryParams"

definition getCacheGroup :: "js \<Rightarrow> op" where
  "getCacheGroup i = rest_get [One ''cachegroups'' i] JUndef"

definition createCacheGroup :: "js \<Rightarrow> op" where
  "createCacheGroup cacheGroup =
     then2 (rest_post [All ''cachegroups''] cacheGroup)
       (\<lambda>_. seq (say ''CacheGroup created'' True) (navigateToPath ''/cache-groups''))
       (fault_alerts False)"

definition updateCacheGroup :: "js \<Rightarrow> op" where
  "updateCacheGroup cacheGroup =
     then2 (rest_put cacheGroup) (\<lambda>_. say ''Cache group updated'' False) (fault_alerts False)"

definition deleteCacheGroup :: "js \<Rightarrow> op" where
  "deleteCacheGroup i =
     then2 (rest_remove [One ''cachegroups'' i])
       (\<lambda>_. say ''Cache group deleted'' True) (fault_alerts True)"

definition queueCacheGroupUpdates :: "js \<Rightarrow> js \<Rightarrow> op" where
  "queueCacheGroupUpdates cgId cdnId =
     then2 (rest_customPOST [One ''cachegroups'' cgId] ''queue_update''
              (JObj [(''action'', JStr ''queue''), (''cdnId'', cdnId)]))
       (\<lambda>_. say ''Queued cache group server updates'' False) (fault_alerts False)"

definition clearCacheGroupUpdates :: "js \<Rightarrow> js \<Rightarrow> op" where
  "clearCacheGroupUpdates cgId cdnId =
     then2 (rest_customPOST [One ''cachegroups'' cgId] ''queue_update''
              (JObj [(''action'', JStr ''dequeue''), (''cdnId'', cdnId)]))
       (\<lambda>_. say ''Cleared cache group server updates'' False) (fault_alerts False)"

definition getParameterCacheGroups :: "js \<Rightarrow> op" where
  "getParameterCacheGroups paramId =
     rest_getList [One ''parameters'' paramId, All ''cachegroups''] JUndef"

text \<open>\<open>deferred.resolve(result.data.response)\<close>, the success handler of most deferreds.\<close>

definition resolve_response :: "js \<Rightarrow> later" where
  "resolve_response result =
     deref_later result ''data'' (\<lambda>d. deref_later d ''response'' resolve)"

text \<open>\<open>function() { request.reject(); }\<close>.\<close>

definition reject_undefined :: "js \<Rightarrow> later" where
  "reject_undefined fault = reject JUndef"

definition getCacheGroupHealth :: op where
  "getCacheGroupHealth =
     deferred (api (\<lambda>u. HGet u JUndef) ''cdns/health'') resolve_response reject"

section \<open>DivisionService.js\<close>

definition getDivisions :: "js \<Rightarrow> op" where
  "getDivisions queryParams = rest_getList [All ''divisions''] queryParams"

definition getDivision :: "js \<Rightarrow> op" where
  "getDivision i = rest_get [One ''divisions'' i] JUndef"

definition createDivision :: "js \<Rightarrow> op" where
  "createDivision division =
     then2 (rest_post [All ''divisions''] division)
       (\<lambda>_. seq (say ''Division created'' True) (navigateToPath ''/divisions''))
       (fault_alerts False)"

definition updateDivision :: "js \<Rightarrow> op" where
  "updateDivision division =
     then2 (rest_put division) (\<lambda>_. say ''Division updated'' False) (fault_alerts False)"

definition deleteDivision :: "js \<Rightarrow> op" where
  "deleteDivision i =
     then2 (rest_remove [One ''divisions'' i])
       (\<lambda>_. say ''Division deleted'' True) (fault_alerts True)"

section \<open>ParameterService.js\<close>

definition getParameters :: "js \<Rightarrow> op" where
  "getParameters queryParams = rest_getList [All ''parameters''] queryParams"

definition getParameter :: "js \<Rightarrow> op" where
  "getParameter i = rest_get [One ''parameters'' i] JUndef"

definition createParameter :: "js \<Rightarrow> op" where
  "createParameter parameter =
     then2 (rest_post [All ''parameters''] parameter)
       (\<lambda>_. seq (say ''Parameter created'' True) (navigateToPath ''/parameters''))
       (fault_alerts False)"

definition updateParameter :: "js \<Rightarrow> op" where
  "updateParameter parameter =
     then2 (rest_put parameter) (\<lambda>_. say ''Parameter updated'' False) (fault_alerts False)"

definition deleteParameter :: "js \<Rightarrow> op" where
  "deleteParameter i =
     then2 (rest_remove [One ''parameters'' i])
       (\<lambda>_. say ''Parameter deleted'' True) (fault_alerts True)"

definition getProfileParameters :: "js \<Rightarrow> op" where
  "getProfileParameters profileId =
     rest_getList [One ''profiles'' profileId, All ''parameters''] JUndef"

definition getProfileUnassignedParams :: "js \<Rightarrow> op" where
  "getProfileUnassignedParams profileId =
     rest_getList [One ''profiles'' profileId, All ''unassigned_parameters''] JUndef"

definition getCacheGroupUnassignedParams :: "js \<Rightarrow> op" where
  "getCacheGroupUnassignedParams cgId =
     rest_getList [One ''cachegroups'' cgId, All ''unassigned_parameters''] JUndef"

section \<open>PhysLocationService.js\<close>

definition getPhysLocations :: "js \<Rightarrow> op" where
  "getPhysLocations queryParams = rest_getList [All ''phys_locations''] queryParams"

definition getPhysLocation :: "js \<Rightarrow> op" where
  "getPhysLocation i = rest_get [One ''phys_locations'' i] JUndef"

definition createPhysLocation :: "js \<Rightarrow> op" where
  "createPhysLocation physLocation =
     then2 (rest_post [All ''phys_locations''] physLocation)
       (\<lambda>_. seq (say ''Physical location created'' True) (navigateToPath ''/phys-locations''))
       (fault_alerts False)"

definition updatePhysLocation :: "js \<Rightarrow> op" where
  "updatePhysLocation physLocation =
     then2 (rest_put physLocation)
       (\<lambda>_. say ''Physical location updated'' False) (fault_alerts False)"

definition deletePhysLocation :: "js \<Rightarrow> op" where
  "deletePhysLocation i =
     then2 (rest_remove [One ''phys_locations'' i])
       (\<lambda>_. say ''Physical location deleted'' True) (fault_alerts True)"

section \<open>RegionService.js\<close>

definition getRegions :: "js \<Rightarrow> op" where
  "getRegions queryParams = rest_getList [All ''regions''] queryParams"

definition getRegion :: "js \<Rightarrow> op" where
  "getRegion i = rest_get [One ''regions'' i] JUndef"

definition createRegion :: "js \<Rightarrow> op" where
  "createRegion region =
     then2 (rest_post [All ''regions''] region)
       (\<lambda>_. say ''Region created'' True) (fault_alerts False)"

definition updateRegion :: "js \<Rightarrow> op" where
  "updateRegion region =
     then2 (rest_put region) (\<lambda>_. say ''Region updated'' False) (fault_alerts False)"

definition deleteRegion :: "js \<Rightarrow> op" where
  "deleteRegion i =
     then2 (rest_remove [One ''regions'' i])
       (\<lambda>_. say ''Region deleted'' True) (fault_alerts True)"

section \<open>RoleService.js\<close>

definition getRoles :: "js \<Rightarrow> op" where
  "getRoles queryParams = rest_getList [All ''roles''] queryParams"

definition getRole :: "js \<Rightarrow> op" where
  "getRole i = rest_get [One ''roles'' i] JUndef"

definition updateRole :: "js \<Rightarrow> op" where
  "updateRole role =
     then2 (rest_put role) (\<lambda>_. say ''Role updated'' False) (fault_alerts False)"

definition deleteRole :: "js \<Rightarrow> op" where
  "deleteRole i =
     then2 (rest_remove [One ''roles'' i]) (\<lambda>_. say ''Role deleted'' True) (fault_alerts True)"

section \<open>StatusService.js\<close>

definition getStatuses :: "js \<Rightarrow> op" where
  "getStatuses queryParams = rest_getList [All ''statuses''] queryParams"

definition getStatus :: "js \<Rightarrow> op" where
  "getStatus i = rest_get [One ''statuses'' i] JUndef"

definition createStatus :: "js \<Rightarrow> op" where
  "createStatus status =
     then2 (rest_post [All ''statuses''] status)
       (\<lambda>_. seq (say ''Status created'' True) (navigateToPath ''/statuses''))
       (fault_alerts False)"

definition updateStatus :: "js \<Rightarrow> op" where
  "updateStatus status =
     then2 (rest_put status) (\<lambda>_. say ''Status updated'' False) (fault_alerts False)"

definition deleteStatus :: "js \<Rightarrow> op" where
  "deleteStatus i =
     then2 (rest_remove [One ''statuses'' i])
       (\<lambda>_. say ''Status deleted'' True) (fault_alerts True)"

section \<open>TenantService.js\<close>

definition getTenants :: "js \<Rightarrow> op" where
  "getTenants queryParams = rest_getList [All ''tenants''] queryParams"

definition getTenant :: "js \<Rightarrow> op" where
  "getTenant i = rest_get [One ''tenants'' i] JUndef"

text \<open>The failure of a creation is queued for the next page here, unlike in the other services.\<close>

definition createTenant :: "js \<Rightarrow> op" where
  "createTenant tenant =
     then2 (rest_post [All ''tenants''] tenant)
       (\<lambda>_. say ''Tenant created'' True) (fault_alerts True)"

definition updateTenant :: "js \<Rightarrow> op" where
  "updateTenant tenant =
     then2 (rest_put tenant) (\<lambda>_. say ''Tenant updated'' False) (fault_alerts False)"

definition deleteTenant :: "js \<Rightarrow> op" where
  "deleteTenant i =
     then2 (rest_remove [One ''tenants'' i])
       (\<lambda>_. say ''Tenant deleted'' True) (fault_alerts True)"

section \<open>TypeService.js\<close>

definition getTypes :: "js \<Rightarrow> op" where
  "getTypes queryParams = rest_getList [All ''types''] queryParams"

definition getType :: "js \<Rightarrow> op" where
  "getType i = rest_get [One ''types'' i] JUndef"

definition createType :: "js \<Rightarrow> op" where
  "createType type =
     then2 (rest_post [All ''types''] type)
       (\<lambda>_. seq (say ''Type created'' True) (navigateToPath ''/types''))
       (fault_alerts False)"

definition updateType :: "js \<Rightarrow> op" where
  "updateType type =
     then2 (rest_put type) (\<lambda>_. say ''Type updated'' False) (fault_alerts False)"

definition deleteType :: "js \<Rightarrow> op" where
  "deleteType i =
     then2 (rest_remove [One ''types'' i]) (\<lambda>_. say ''Type deleted'' True) (fault_alerts True)"

section \<open>DeliveryServiceRegexService.js\<close>

definition getDeliveryServiceRegexes :: "js \<Rightarrow> op" where
  "getDeliveryServiceRegexes dsId =
     rest_getList [One ''deliveryservices'' dsId, All ''regexes''] JUndef"

definition getDeliveryServiceRegex :: "js \<Rightarrow> js \<Rightarrow> op" where
  "getDeliveryServiceRegex dsId regexId =
     rest_get [One ''deliveryservices'' dsId, One ''regexes'' regexId] JUndef"

definition createDeliveryServiceRegex :: "js \<Rightarrow> js \<Rightarrow> op" where
  "createDeliveryServiceRegex dsId regex =
     then2 (rest_post [One ''deliveryservices'' dsId, All ''regexes''] regex)
       (\<lambda>_. seq (say ''Regex created'' True)
              (navigateToPath (''/delivery-services/'' @ to_str dsId @ ''/regexes'')))
       (fault_alerts False)"

definition updateDeliveryServiceRegex :: "js \<Rightarrow> op" where
  "updateDeliveryServiceRegex regex =
     then2 (rest_put regex) (\<lambda>_. say ''Regex updated'' False) (fault_alerts False)"

definition deleteDeliveryServiceRegex :: "js \<Rightarrow> js \<Rightarrow> op" where
  "deleteDeliveryServiceRegex dsId regexId =
     then2 (rest_remove [One ''deliveryservices'' dsId, One ''regexes'' regexId])
       (\<lambda>_. say ''Regex deleted'' True) (fault_alerts True)"

section \<open>ProfileService.js\<close>

definition getProfiles :: "js \<Rightarrow> op" where
  "getProfiles queryParams = rest_getList [All ''profiles''] queryParams"

definition getProfile :: "js \<Rightarrow> js \<Rightarrow> op" where
  "getProfile i queryParams = rest_get [One ''profiles'' i] queryParams"

definition createProfile :: "js \<Rightarrow> op" where
  "createProfile profile =
     then2 (rest_post [All ''profiles''] profile)
       (\<lambda>_. seq (say ''Profile created'' True) (navigateToPath ''/profiles''))
       (fault_alerts False)"

definition updateProfile :: "js \<Rightarrow> op" where
  "updateProfile profile =
     then2 (rest_put profile) (\<lambda>_. say ''Profile updated'' False) (fault_alerts False)"

definition deleteProfile :: "js \<Rightarrow> op" where
  "deleteProfile i =
     then2 (rest_remove [One ''profiles'' i])
       (\<lambda>_. say ''Profile deleted'' True) (fault_alerts True)"

definition getParameterProfiles :: "js \<Rightarrow> op" where
  "getParameterProfiles paramId =
     rest_getList [One ''parameters'' paramId, All ''profiles''] JUndef"

definition getParamUnassignedProfiles :: "js \<Rightarrow> op" where
  "getParamUnassignedProfiles paramId =
     rest_getList [One ''parameters'' paramId, All ''unassigned_profiles''] JUndef"

text \<open>\<open>messageModel.setMessages(result.data.alerts, delay)\<close>.\<close>

definition result_alerts :: "bool \<Rightarrow> js \<Rightarrow> op" where
  "result_alerts delay result =
     deref result ''data'' (\<lambda>d. deref d ''alerts'' (\<lambda>a. eff (setMessages a delay)))"

text \<open>\<open>locationUtils.navigateToPath('/profiles/' + result.data.response.id)\<close>.\<close>

definition go_to_profile :: "js \<Rightarrow> op" where
  "go_to_profile result =
     deref result ''data'' (\<lambda>d. deref d ''response'' (\<lambda>r. deref r ''id'' (\<lambda>i.
       navigateToPath (''/profiles/'' @ to_str i))))"

definition cloneProfile :: "string \<Rightarrow> string \<Rightarrow> op" where
  "cloneProfile sourceName cloneName =
     then2 (api (\<lambda>u. HPost u JUndef) (''profiles/name/'' @ cloneName @ ''/copy/'' @ sourceName))
       (\<lambda>result. then1 (result_alerts True result) (\<lambda>_. go_to_profile result))
       (fault_alerts False)"

definition exportProfile :: "js \<Rightarrow> op" where
  "exportProfile i =
     deferred (api (\<lambda>u. HGet u JUndef) (''profiles/'' @ to_str i @ ''/export''))
       (\<lambda>result. deref_later result ''data'' resolve) reject"

definition importProfile :: "js \<Rightarrow> op" where
  "importProfile importJSON =
     then2 (api (\<lambda>u. HPost u importJSON) ''profiles/import'')
       (\<lambda>result. then1 (result_alerts True result) (\<lambda>_. go_to_profile result))
       (fault_alerts False)"

section \<open>ServerService.js\<close>

definition getServers :: "js \<Rightarrow> op" where
  "getServers queryParams = rest_getList [All ''servers''] queryParams"

definition getServer :: "js \<Rightarrow> op" where
  "getServer i = rest_get [One ''servers'' i] JUndef"

definition createServer :: "js \<Rightarrow> op" where
  "createServer server =
     then2 (rest_post [All ''servers''] server)
       (\<lambda>response. seq (say ''Server created'' True)
          (deref response ''id'' (\<lambda>i. navigateToPath (''/servers/'' @ to_str i))))
       (fault_alerts False)"

definition updateServer :: "js \<Rightarrow> op" where
  "updateServer server =
     then2 (rest_put server) (\<lambda>_. say ''Server updated'' False) (fault_alerts False)"

definition deleteServer :: "js \<Rightarrow> op" where
  "deleteServer i =
     then2 (rest_remove [One ''servers'' i])
       (\<lambda>_. say ''Server deleted'' True) (fault_alerts True)"

definition getServerConfigFiles :: "js \<Rightarrow> op" where
  "getServerConfigFiles i = rest_customGET [One ''servers'' i] ''configfiles/ats''"

definition getServerConfigFile :: "string \<Rightarrow> op" where
  "getServerConfigFile url =
     deferred (http (HGet url JUndef)) (\<lambda>result. deref_later result ''data'' resolve)
       reject_undefined"

definition getDeliveryServiceServers :: "js \<Rightarrow> op" where
  "getDeliveryServiceServers dsId =
     rest_getList [One ''deliveryservices'' dsId, All ''servers''] JUndef"

definition getUnassignedDeliveryServiceServers :: "js \<Rightarrow> op" where
  "getUnassignedDeliveryServiceServers dsId =
     rest_getList [One ''deliveryservices'' dsId, All ''servers/unassigned''] JUndef"

definition getEligibleDeliveryServiceServers :: "js \<Rightarrow> op" where
  "getEligibleDeliveryServiceServers dsId =
     rest_getList [One ''deliveryservices'' dsId, All ''servers/eligible''] JUndef"

definition assignDeliveryServices :: "js \<Rightarrow> js \<Rightarrow> bool \<Rightarrow> bool \<Rightarrow> op" where
  "assignDeliveryServices server dsIds replace delay =
     then2 (rest_post [All (''servers/'' @ to_str (fld server ''id'') @
              ''/deliveryservices?replace='' @ to_str (JBool replace))] dsIds)
       (\<lambda>_. say (to_str (fld dsIds ''length'') @ '' delivery services assigned to '' @
              to_str (fld server ''hostName'') @ ''.'' @ to_str (fld server ''domainName'')) delay)
       (fault_alerts False)"

definition queueServerUpdates :: "js \<Rightarrow> op" where
  "queueServerUpdates i =
     then2 (rest_customPOST [One ''servers'' i] ''queue_update''
              (JObj [(''action'', JStr ''queue'')]))
       (\<lambda>_. say ''Queued server updates'' False) (fault_alerts False)"

definition clearServerUpdates :: "js \<Rightarrow> op" where
  "clearServerUpdates i =
     then2 (rest_customPOST [One ''servers'' i] ''queue_update''
              (JObj [(''action'', JStr ''dequeue'')]))
       (\<lambda>_. say ''Cleared server updates'' False) (fault_alerts False)"

definition getEdgeStatusCount :: op where
  "getEdgeStatusCount =
     deferred (api (\<lambda>u. HGet u JUndef) ''servers/status?type=EDGE'') resolve_response
       reject_undefined"

definition getCacheStats :: op where
  "getCacheStats =
     deferred (api (\<lambda>u. HGet u JUndef) ''caches/stats'') resolve_response reject_undefined"

definition getCacheChecks :: op where
  "getCacheChecks =
     deferred (api (\<lambda>u. HGet u JUndef) ''servers/checks'') resolve_response reject_undefined"

definition updateServerStatus :: "js \<Rightarrow> js \<Rightarrow> op" where
  "updateServerStatus i payload =
     deferred (api (\<lambda>u. HPut u payload) (''servers/'' @ to_str i @ ''/status'')) resolve reject"

end
