(* ===== verification/PortalServices.thy ===== *)
theory PortalServices
  imports Services
begin

text \<open>
  The remaining services of \<open>common/api/\<close>: CDNs and snapshots, assignments of parameters,
  statistics and change logs, delivery services, and delivery service requests.
\<close>

section \<open>More shapes of handlers\<close>

definition after :: "(world \<Rightarrow> world) \<Rightarrow> later \<Rightarrow> later" where
  "after f k w = k (f w)"

text \<open>\<open>messageModel.setMessages(fault.data.alerts, delay); \<dots>\<close> in a deferred's handler.\<close>

definition alerts_then :: "bool \<Rightarrow> later \<Rightarrow> js \<Rightarrow> later" where
  "alerts_then delay k fault =
     deref_later fault ''data'' (\<lambda>d. deref_later d ''alerts'' (\<lambda>a. after (setMessages a delay) k))"

text \<open>A promise that a handler starts and does not return: the handler's own promise does not
  wait for it, and it cannot fail the handler.\<close>

definition detach :: "op \<Rightarrow> op" where
  "detach p w = (case p w of (l, w1) \<Rightarrow> (\<lambda>w. (Fulfilled JUndef, snd (l w)), w1))"

section \<open>CDNService.js\<close>

text \<open>There is a CDN called \<open>ALL\<close> that is not one; it is listed on request only.\<close>

definition getCDNs :: "bool \<Rightarrow> op" where
  "getCDNs all =
     deferred (api (\<lambda>u. HGet u JUndef) ''cdns'')
       (\<lambda>result. deref_later result ''data'' (\<lambda>d. deref_later d ''response'' (\<lambda>r.
          resolve (if all then r
                   else JArr (filter (\<lambda>cdn. \<not> js_eq (fld cdn ''name'') (JStr ''ALL'')) (elems r))))))
       reject_undefined"

definition getCDN :: "js \<Rightarrow> op" where
  "getCDN i = rest_get [One ''cdns'' i] JUndef"

definition createCDN :: "js \<Rightarrow> op" where
  "createCDN cdn =
     then2 (rest_post [All ''cdns''] cdn)
       (\<lambda>_. seq (say ''CDN created'' True) (navigateToPath ''/cdns'')) (fault_alerts False)"

definition updateCDN :: "js \<Rightarrow> op" where
  "updateCDN cdn = then2 (rest_put cdn) (\<lambda>_. say ''CDN updated'' False) (fault_alerts False)"

definition deleteCDN :: "js \<Rightarrow> op" where
  "deleteCDN i =
     then2 (rest_remove [One ''cdns'' i]) (\<lambda>_. say ''CDN deleted'' True) (fault_alerts True)"

definition queueCDNUpdates :: "js \<Rightarrow> op" where
  "queueCDNUpdates i =
     then2 (rest_customPOST [One ''cdns'' i] ''queue_update''
              (JObj [(''action'', JStr ''queue'')]))
       (\<lambda>_. say ''Queued CDN server updates'' False) (fault_alerts False)"

definition clearCDNUpdates :: "js \<Rightarrow> op" where
  "clearCDNUpdates i =
     then2 (rest_customPOST [One ''cdns'' i] ''queue_update''
              (JObj [(''action'', JStr ''dequeue'')]))
       (\<lambda>_. say ''Cleared CDN server updates'' False) (fault_alerts False)"

definition getCapacity :: op where
  "getCapacity =
     deferred (api (\<lambda>u. HGet u JUndef) ''cdns/capacity'') resolve_response reject_undefined"

definition getRoutingMethods :: op where
  "getRoutingMethods =
     deferred (api (\<lambda>u. HGet u JUndef) ''cdns/routing'') resolve_response reject_undefined"

definition getCurrentStats :: op where
  "getCurrentStats =
     deferred (api (\<lambda>u. HGet u JUndef) ''current_stats'') resolve_response reject_undefined"

definition getCurrentSnapshot :: "string \<Rightarrow> op" where
  "getCurrentSnapshot cdnName =
     deferred (api (\<lambda>u. HGet u JUndef) (''cdns/'' @ cdnName @ ''/snapshot''))
       resolve_response reject_undefined"

definition getNewSnapshot :: "string \<Rightarrow> op" where
  "getNewSnapshot cdnName =
     deferred (api (\<lambda>u. HGet u JUndef) (''cdns/'' @ cdnName @ ''/snapshot/new''))
       resolve_response reject_undefined"

text \<open>Neither handler settles the deferred.\<close>

definition snapshot :: "js \<Rightarrow> op" where
  "snapshot cdn =
     deferred (api (\<lambda>u. HPut u JUndef) (''cdns/'' @ to_str (fld cdn ''id'') @ ''/snapshot''))
       (\<lambda>_. after (setMessages (success ''Snapshot performed'') True)
              (after (set_url (''/cdns/'' @ to_str (fld cdn ''id''))) unsettled))
       (alerts_then False unsettled)"

definition getDNSSECKeys :: "string \<Rightarrow> op" where
  "getDNSSECKeys cdnName =
     deferred (api (\<lambda>u. HGet u JUndef) (''cdns/name/'' @ cdnName @ ''/dnsseckeys''))
       resolve_response reject_undefined"

definition generateDNSSECKeys :: "js \<Rightarrow> op" where
  "generateDNSSECKeys dnssecKeysRequest =
     deferred (api (\<lambda>u. HPost u dnssecKeysRequest) ''cdns/dnsseckeys/generate'')
       resolve (alerts_then False (reject JUndef))"

section \<open>CacheGroupParameterService.js, ProfileParameterService.js\<close>

definition getCacheGroupParameters :: "js \<Rightarrow> op" where
  "getCacheGroupParameters cachegroupId =
     rest_getList [One ''cachegroups'' cachegroupId, All ''parameters''] JUndef"

definition unlinkCacheGroupParameter :: "js \<Rightarrow> js \<Rightarrow> op" where
  "unlinkCacheGroupParameter cgId paramId =
     then2 (with_world (\<lambda>w. httpService_delete
              (apiRoot w @ ''cachegroupparameters/'' @ to_str cgId @ ''/'' @ to_str paramId)))
       (\<lambda>_. say ''Cachegroup and parameter were unlinked.'' False) (fault_alerts True)"

definition linkCacheGroupParameters :: "js \<Rightarrow> op" where
  "linkCacheGroupParameters cgParamMappings =
     then2 (rest_post [All ''cachegroupparameters''] cgParamMappings)
       (\<lambda>_. say ''Parameters linked to cache group'' False) (fault_alerts False)"

definition unlinkProfileParameter :: "js \<Rightarrow> js \<Rightarrow> op" where
  "unlinkProfileParameter profileId paramId =
     then2 (with_world (\<lambda>w. httpService_delete
              (apiRoot w @ ''profileparameters/'' @ to_str profileId @ ''/'' @ to_str paramId)))
       (\<lambda>_. say ''Profile and parameter were unlinked.'' False) (fault_alerts True)"

definition linkProfileParameters :: "js \<Rightarrow> js \<Rightarrow> op" where
  "linkProfileParameters profileId params =
     then2 (rest_post [All ''profileparameter'']
              (JObj [(''profileId'', profileId), (''paramIds'', params), (''replace'', JBool True)]))
       (\<lambda>_. say ''Parameters linked to profile'' False) (fault_alerts False)"

definition linkParamProfiles :: "js \<Rightarrow> js \<Rightarrow> op" where
  "linkParamProfiles paramId profiles =
     then2 (rest_post [All ''parameterprofile'']
              (JObj [(''paramId'', paramId), (''profileIds'', profiles), (''replace'', JBool True)]))
       (\<lambda>_. say ''Profiles linked to parameter'' False) (fault_alerts False)"

section \<open>CacheStatsService.js, ChangeLogService.js\<close>

text \<open>The dates are the texts of \<open>start.seconds(00).format()\<close> and \<open>end.seconds(00).format()\<close>.\<close>

definition cache_stats_params :: "string \<Rightarrow> string \<Rightarrow> string \<Rightarrow> string \<Rightarrow> js" where
  "cache_stats_params cdnName metricType startDate endDate =
     JObj [(''params'', JObj [(''cdnName'', JStr cdnName), (''metricType'', JStr metricType),
       (''startDate'', JStr startDate), (''endDate'', JStr endDate)])]"

definition getBandwidth :: "string \<Rightarrow> string \<Rightarrow> string \<Rightarrow> op" where
  "getBandwidth cdnName startDate endDate =
     deferred (api (\<lambda>u. HGet u (cache_stats_params cdnName ''bandwidth'' startDate endDate))
       ''cache_stats'') resolve_response reject_undefined"

definition getConnections :: "string \<Rightarrow> string \<Rightarrow> string \<Rightarrow> op" where
  "getConnections cdnName startDate endDate =
     deferred (api (\<lambda>u. HGet u (cache_stats_params cdnName ''connections'' startDate endDate))
       ''cache_stats'') resolve_response reject_undefined"

text \<open>The service method the change log model polls with; \<open>httpService.get\<close> drops its second
  argument, \<open>{ ignoreLoadingBar: true }\<close>.\<close>

definition changeLogService_getNewLogCount :: op where
  "changeLogService_getNewLogCount =
     with_world (\<lambda>w. httpService_get (apiRoot w @ ''logs/newcount''))"

definition getChangeLogs :: "js \<Rightarrow> op" where
  "getChangeLogs queryParams =
     seq (eff broadcast_getChangeLogs) (rest_getList [All ''logs''] queryParams)"

section \<open>DeliveryServiceService.js\<close>

definition getDeliveryServices :: "js \<Rightarrow> op" where
  "getDeliveryServices queryParams = rest_getList [All ''deliveryservices''] queryParams"

definition getDeliveryService :: "js \<Rightarrow> op" where
  "getDeliveryService i = rest_get [One ''deliveryservices'' i] JUndef"

definition ds_path :: "js \<Rightarrow> js \<Rightarrow> string" where
  "ds_path i t = ''/delivery-services/'' @ to_str i @ ''?type='' @ to_str t"

definition createDeliveryService :: "js \<Rightarrow> op" where
  "createDeliveryService ds =
     then2 (rest_post [All ''deliveryservices''] ds)
       (\<lambda>response. seq
          (say (''Delivery Service [ '' @ to_str (fld ds ''xmlId'') @ '' ] created'') True)
          (deref response ''id'' (\<lambda>i. deref response ''type'' (\<lambda>t. navigateToPath (ds_path i t)))))
       (fault_alerts False)"

text \<open>Neither handler settles the deferred.\<close>

definition updateDeliveryService :: "js \<Rightarrow> bool \<Rightarrow> op" where
  "updateDeliveryService ds delay =
     deferred (api (\<lambda>u. HPut u ds) (''deliveryservices/'' @ to_str (fld ds ''id'')))
       (\<lambda>response. deref_later response ''data'' (\<lambda>d. deref_later d ''response'' (\<lambda>r.
          case first_of r of
            None \<Rightarrow> unsettled
          | Some response2 \<Rightarrow>
              after (setMessages (success
                (''Delivery Service [ '' @ to_str (fld ds ''xmlId'') @ '' ] updated'')) delay)
                (deref_later response2 ''id'' (\<lambda>i. deref_later response2 ''type'' (\<lambda>t.
                   after (set_url (ds_path i t)) unsettled))))))
       (alerts_then False unsettled)"

definition deleteDeliveryService :: "js \<Rightarrow> bool \<Rightarrow> op" where
  "deleteDeliveryService ds delay =
     then2 (rest_remove [One ''deliveryservices'' (fld ds ''id'')])
       (\<lambda>_. say (''Delivery service [ '' @ to_str (fld ds ''xmlId'') @ '' ] deleted'') delay)
       (fault_alerts True)"

definition getServerDeliveryServices :: "js \<Rightarrow> op" where
  "getServerDeliveryServices serverId =
     rest_getList [One ''servers'' serverId, All ''deliveryservices''] JUndef"

definition getDeliveryServiceTargets :: "js \<Rightarrow> op" where
  "getDeliveryServiceTargets dsId = rest_getList [One ''steering'' dsId, All ''targets''] JUndef"

definition getDeliveryServiceTarget :: "js \<Rightarrow> js \<Rightarrow> op" where
  "getDeliveryServiceTarget dsId targetId =
     rest_get [One ''steering'' dsId, One ''targets'' targetId] JUndef"

definition targets_path :: "js \<Rightarrow> string" where
  "targets_path dsId = ''/delivery-services/'' @ to_str dsId @ ''/targets''"

definition updateDeliveryServiceTarget :: "js \<Rightarrow> js \<Rightarrow> js \<Rightarrow> op" where
  "updateDeliveryServiceTarget dsId targetId target =
     deferred (api (\<lambda>u. HPut u target)
         (''steering/'' @ to_str dsId @ ''/targets/'' @ to_str targetId))
       (\<lambda>_. after (setMessages (success ''Steering target updated'') False)
              (after (set_url (targets_path dsId)) unsettled))
       (alerts_then False unsettled)"

definition createDeliveryServiceTarget :: "js \<Rightarrow> js \<Rightarrow> op" where
  "createDeliveryServiceTarget dsId target =
     then2 (rest_post [One ''steering'' dsId, All ''targets''] target)
       (\<lambda>_. seq (say ''Steering target created'' True) (navigateToPath (targets_path dsId)))
       (fault_alerts False)"

definition deleteDeliveryServiceTarget :: "js \<Rightarrow> js \<Rightarrow> op" where
  "deleteDeliveryServiceTarget dsId targetId =
     then2 (rest_remove [One ''steering'' dsId, One ''targets'' targetId])
       (\<lambda>_. seq (say ''Steering target deleted'' True) (navigateToPath (targets_path dsId)))
       (fault_alerts True)"

definition getUserDeliveryServices :: "js \<Rightarrow> op" where
  "getUserDeliveryServices userId =
     rest_getList [One ''users'' userId, All ''deliveryservices''] JUndef"

definition deleteDeliveryServiceServer :: "js \<Rightarrow> js \<Rightarrow> op" where
  "deleteDeliveryServiceServer dsId serverId =
     then2 (with_world (\<lambda>w. httpService_delete
              (apiRoot w @ ''deliveryservice_server/'' @ to_str dsId @ ''/'' @ to_str serverId)))
       (\<lambda>_. say ''Delivery service and server were unlinked.'' False) (fault_alerts True)"

definition assignDeliveryServiceServers :: "js \<Rightarrow> js \<Rightarrow> op" where
  "assignDeliveryServiceServers dsId servers =
     then2 (rest_post [All ''deliveryserviceserver'']
              (JObj [(''dsId'', dsId), (''servers'', servers), (''replace'', JBool True)]))
       (\<lambda>_. say ''Servers linked to delivery service'' False) (fault_alerts False)"

section \<open>DeliveryServiceRequestService.js\<close>

definition getDeliveryServiceRequests :: "js \<Rightarrow> op" where
  "getDeliveryServiceRequests queryParams =
     rest_getList [All ''deliveryservice_requests''] queryParams"

definition createDeliveryServiceRequest :: "js \<Rightarrow> bool \<Rightarrow> op" where
  "createDeliveryServiceRequest dsRequest delay =
     then2 (rest_post [All ''deliveryservice_requests''] dsRequest)
       (\<lambda>_. seq (say (''Created request to '' @ to_str (fld dsRequest ''changeType'') @ '' the '' @
                      to_str (fld (fld dsRequest ''deliveryService'') ''xmlId'') @
                      '' delivery service'') delay)
              (navigateToPath ''/delivery-service-requests''))
       (fault_alerts False)"

definition updateDeliveryServiceRequest :: "js \<Rightarrow> js \<Rightarrow> op" where
  "updateDeliveryServiceRequest i dsRequest =
     deferred (api (\<lambda>u. HPut u dsRequest) (''deliveryservice_requests/'' @ to_str i))
       (\<lambda>_. resolve JUndef) (alerts_then False (reject JUndef))"

definition deleteDeliveryServiceRequest :: "js \<Rightarrow> bool \<Rightarrow> op" where
  "deleteDeliveryServiceRequest i delay =
     then2 (rest_remove [One ''deliveryservice_requests'' i])
       (\<lambda>_. seq (say ''Delivery service request deleted'' delay)
              (navigateToPath ''/delivery-service-requests''))
       (fault_alerts False)"

definition assign_call :: "js \<Rightarrow> js \<Rightarrow> string \<Rightarrow> call" where
  "assign_call i userId root =
     HPut (root @ ''deliveryservice_requests/'' @ to_str i @ ''/assign'')
       (JObj [(''id'', i), (''assigneeId'', userId)])"

definition assignDeliveryServiceRequest :: "js \<Rightarrow> js \<Rightarrow> op" where
  "assignDeliveryServiceRequest i userId =
     deferred (with_world (\<lambda>w. http (assign_call i userId (apiRoot w))))
       (\<lambda>_. resolve JUndef) (alerts_then False (reject JUndef))"

definition status_call :: "js \<Rightarrow> string \<Rightarrow> string \<Rightarrow> call" where
  "status_call i status root =
     HPut (root @ ''deliveryservice_requests/'' @ to_str i @ ''/status'')
       (JObj [(''id'', i), (''status'', JStr status)])"

definition updateDeliveryServiceRequestStatus :: "js \<Rightarrow> string \<Rightarrow> op" where
  "updateDeliveryServiceRequestStatus i status =
     deferred (with_world (\<lambda>w. http (status_call i status (apiRoot w))))
       (\<lambda>_. resolve JUndef) (alerts_then False (reject JUndef))"

end
