(* ===== verification/UserServices.thy ===== *)
theory UserServices
  imports PortalServices
begin

text \<open>
  Users and sessions (\<open>AuthService.js\<close>, \<open>UserService.js\<close>), and the small services that only
  fetch.
\<close>

section \<open>AuthService.js\<close>

abbreviation uri_error :: js where
  "uri_error \<equiv> JObj [(''name'', JStr ''URIError'')]"

definition login_redirect :: op where
  "login_redirect =
     with_world (\<lambda>w.
       case decodeURIComponent (to_str (search_param ''redirect'' w)) of
         None \<Rightarrow> throw uri_error
       | Some redirect \<Rightarrow>
           (if redirect \<noteq> ''undefined''
            then seq (eff (drop_search ''redirect'')) (eff (set_url redirect))
            else eff (set_url ''/dashboard'')))"

definition login :: "string \<Rightarrow> string \<Rightarrow> op" where
  "login username password =
     seq (eff resetUser)
       (then2 (with_world (\<lambda>w. httpService_post (apiRoot w @ ''user/login'')
                 (JObj [(''u'', JStr username), (''p'', JStr password)])))
          (\<lambda>result. seq (eff broadcast_login) login_redirect)
          (\<lambda>fault. ret JUndef))"

definition tokenLogin :: "string \<Rightarrow> op" where
  "tokenLogin token =
     seq (eff resetUser)
       (deferred (api (\<lambda>u. HPost u (JObj [(''t'', JStr token)])) ''user/login/token'')
          (\<lambda>_. resolve JUndef) reject_undefined)"

definition logout :: op where
  "logout =
     seq (eff resetUser)
       (then1 (with_world (\<lambda>w. httpService_post (apiRoot w @ ''user/logout'') JUndef))
          (\<lambda>result. seq (eff broadcast_exit)
             (with_world (\<lambda>w.
                if stateName w = ''trafficPortal.public.login''
                then deref result ''alerts'' (\<lambda>a. seq (eff (setMessages a False)) (ret result))
                else deref result ''alerts'' (\<lambda>a. seq (eff (setMessages a True))
                       (seq (eff (state_go ''trafficPortal.public.login'')) (ret result)))))))"

section \<open>UserService.js\<close>

definition getCurrentUser :: op where
  "getCurrentUser =
     deferred (api (\<lambda>u. HGet u JUndef) ''user/current'')
       (\<lambda>result. deref_later result ''data'' (\<lambda>d. deref_later d ''response'' (\<lambda>r.
          after (setUser r) (resolve r))))
       reject"

definition resetPassword :: "js \<Rightarrow> op" where
  "resetPassword email =
     then2 (api (\<lambda>u. HPost u (JObj [(''email'', email)])) ''user/reset_password'')
       (result_alerts False) (fault_alerts False)"

definition getUsers :: "js \<Rightarrow> op" where
  "getUsers queryParams = rest_getList [All ''users''] queryParams"

definition getUser :: "js \<Rightarrow> op" where
  "getUser i = rest_get [One ''users'' i] JUndef"

definition createUser :: "js \<Rightarrow> op" where
  "createUser user =
     then2 (rest_post [All ''users''] user)
       (\<lambda>_. seq (say ''User created'' True) (navigateToPath ''/users'')) (fault_alerts False)"

text \<open>Updating the user one is logged in as also updates the session's copy.\<close>

definition refresh_own_user :: "js \<Rightarrow> world \<Rightarrow> world" where
  "refresh_own_user user w =
     (if js_eq (fld (userUser w) ''id'') (fld user ''id'') then setUser user w else w)"

definition updateUser :: "js \<Rightarrow> op" where
  "updateUser user =
     then2 (api (\<lambda>u. HPut u user) (''users/'' @ to_str (fld user ''id'')))
       (\<lambda>result. seq (eff (refresh_own_user user)) (result_alerts False result))
       (fault_alerts False)"

definition updateCurrentUser :: "js \<Rightarrow> op" where
  "updateCurrentUser user =
     then2 (api (\<lambda>u. HPost u (JObj [(''user'', user)])) ''user/current/update'')
       (\<lambda>_. seq (eff (setUser user)) (say ''Current user updated'' False))
       (\<lambda>_. eff (setMessages (error_alert ''Current user updated failed'') False))"

definition getUnassignedUserDeliveryServices :: "js \<Rightarrow> op" where
  "getUnassignedUserDeliveryServices userId =
     deferred (api (\<lambda>u. HGet u JUndef) (''user/'' @ to_str userId @ ''/deliveryservices/available''))
       resolve_response reject"

definition deleteUserDeliveryService :: "js \<Rightarrow> js \<Rightarrow> op" where
  "deleteUserDeliveryService userId dsId =
     then2 (with_world (\<lambda>w. httpService_delete
              (apiRoot w @ ''deliveryservice_user/'' @ to_str dsId @ ''/'' @ to_str userId)))
       (\<lambda>_. say ''User and delivery service were unlinked.'' False) (fault_alerts True)"

definition assignUserDeliveryServices :: "js \<Rightarrow> js \<Rightarrow> op" where
  "assignUserDeliveryServices userId deliveryServices =
     then2 (rest_post [All ''deliveryservice_user'']
              (JObj [(''userId'', userId), (''deliveryServices'', deliveryServices),
                     (''replace'', JBool True)]))
       (\<lambda>_. say ''Delivery services linked to user'' False) (fault_alerts False)"

definition registerUser :: "js \<Rightarrow> op" where
  "registerUser registration =
     then2 (api (\<lambda>u. HPost u registration) ''users/register'')
       (result_alerts False) (fault_alerts False)"

section \<open>JobService.js, RegexService.js, StaticDnsEntryService.js, ToolsService.js\<close>

definition getJobs :: "js \<Rightarrow> op" where
  "getJobs queryParams = rest_getList [All ''jobs''] queryParams"

definition createJob :: "js \<Rightarrow> op" where
  "createJob job = rest_post [All ''user/current/jobs''] job"

definition getRegexes :: "js \<Rightarrow> op" where
  "getRegexes dsId = rest_getList [All ''deliveryservices_regexes''] (JObj [(''dsId'', dsId)])"

definition getStaticDnsEntries :: "js \<Rightarrow> op" where
  "getStaticDnsEntries queryParams = rest_getList [All ''staticdnsentries''] queryParams"

definition getOSVersions :: op where
  "getOSVersions =
     deferred (api (\<lambda>u. HGet u JUndef) ''osversions'') resolve_response reject_undefined"

definition generateISO :: "js \<Rightarrow> op" where
  "generateISO isoSpec =
     deferred (api (\<lambda>u. HPost u isoSpec) ''isos'') resolve_response (alerts_then False (reject JUndef))"

section \<open>TrafficPortalService.js\<close>

definition getReleaseVersionInfo :: op where
  "getReleaseVersionInfo = deferred (http (HGet ''traffic_portal_release.json'' JUndef)) resolve reject"

text \<open>There is no failure handler: when the file cannot be read the promise stays pending.\<close>

definition getProperties :: op where
  "getProperties =
     deferred (http (HGet ''traffic_portal_properties.json'' JUndef))
       (\<lambda>result. deref_later result ''data'' (\<lambda>d. deref_later d ''properties'' resolve))
       (\<lambda>_. unsettled)"

text \<open>What the root state resolves before any page is shown (app.js).\<close>

definition resolve_properties :: op where
  "resolve_properties = then1 getProperties (\<lambda>result. eff (setProperties result))"

end
