(* ===== verification/Dialogs.thy ===== *)
theory Dialogs
  imports UserServices
begin

text \<open>
  Modal dialogs (\<open>common/modules/dialog/\<close>).  Opening one is logged in \<open>asked\<close> with its controller,
  parameters and collection; the user's answer (the oracle \<open>ask\<close>) arrives in a later turn of the
  event loop.  What the dialog's controller makes of the answer is modelled here.
\<close>

section \<open>Opening a dialog\<close>

definition open_modal :: "string \<Rightarrow> js \<Rightarrow> js \<Rightarrow> op" where
  "open_modal controller params collection w =
     (\<lambda>w. case ask w controller params collection of
            Close v \<Rightarrow> (Fulfilled v, digest w)
          | Dismiss e \<Rightarrow> (Rejected e, digest w),
      w\<lparr>asked := asked w @ [(controller, params, collection)]\<rparr>)"

text \<open>\<open>{ title: title, message: message }\<close> and \<open>{ title: title, key: key }\<close>.  A
  \<open>labelFunction\<close> only chooses the text shown for an item and is left out.\<close>

definition message_params :: "string \<Rightarrow> string \<Rightarrow> js" where
  "message_params title msg = JObj [(''title'', JStr title), (''message'', JStr msg)]"

definition key_params :: "string \<Rightarrow> js \<Rightarrow> js" where
  "key_params title key = JObj [(''title'', JStr title), (''key'', key)]"

section \<open>The dialogs\<close>

text \<open>\<open>DialogConfirmController\<close>, \<open>DialogConfirmEnterController\<close>, \<open>DialogDeleteController\<close>: they
  close without a value.\<close>

definition dialog_confirm :: "js \<Rightarrow> op" where
  "dialog_confirm params =
     then1 (open_modal ''DialogConfirmController'' params JUndef) (\<lambda>_. ret JUndef)"

definition dialog_confirm_enter :: "js \<Rightarrow> op" where
  "dialog_confirm_enter params =
     then1 (open_modal ''DialogConfirmEnterController'' params JUndef) (\<lambda>_. ret JUndef)"

definition dialog_delete :: "js \<Rightarrow> op" where
  "dialog_delete params =
     then1 (open_modal ''DialogDeleteController'' params JUndef) (\<lambda>_. ret JUndef)"

definition dialog_input :: "js \<Rightarrow> op" where
  "dialog_input params = open_modal ''DialogInputController'' params JUndef"

definition dialog_reset :: op where
  "dialog_reset = open_modal ''DialogResetController'' JUndef JUndef"

text \<open>\<open>DialogSelectController\<close>: the answer is the id chosen in the form; the dialog closes with the
  first item of the collection that has it (\<open>undefined\<close> when there is none).\<close>

definition find_by_id :: "js list \<Rightarrow> js \<Rightarrow> js" where
  "find_by_id collection selectedItemId =
     (case find (\<lambda>item. num_eq (parse_int (fld item ''id'')) (parse_int selectedItemId)) collection of
        None \<Rightarrow> JUndef
      | Some item \<Rightarrow> item)"

definition dialog_select :: "js \<Rightarrow> js \<Rightarrow> op" where
  "dialog_select params collection =
     then1 (open_modal ''DialogSelectController'' params collection)
       (\<lambda>selectedItemId. ret (find_by_id (elems collection) selectedItemId))"

text \<open>A collection that is itself a promise is awaited before the dialog opens; when it is
  rejected the dialog does not open and its result is rejected.\<close>

definition dialog_select_from :: "js \<Rightarrow> op \<Rightarrow> op" where
  "dialog_select_from params collection = then1 collection (dialog_select params)"

fun select_label :: "js \<Rightarrow> js \<Rightarrow> js" where
  "select_label params item =
     (if truthy (fld params ''label'') then fld item (to_str (fld params ''label''))
      else fld item ''name'')"

text \<open>\<open>DialogCompareController\<close> closes with the items selected.\<close>

definition dialog_compare :: "js \<Rightarrow> op \<Rightarrow> op" where
  "dialog_compare params collection =
     then1 collection (open_modal ''DialogCompareController'' params)"

text \<open>\<open>DialogSelectStatusController\<close>: the answer is the form's content, the chosen id and the
  offline reason.  Without a matching status \<open>select\<close> throws and the dialog stays open.\<close>

definition status_answer :: "js list \<Rightarrow> js \<Rightarrow> js option" where
  "status_answer statuses form =
     (let selectedStatus = find_by_id statuses (fld form ''selectedStatusId'')
      in if selectedStatus = JUndef then None
         else Some (JObj [(''id'', fld selectedStatus ''id''), (''name'', fld selectedStatus ''name''),
                (''offlineReason'', fld form ''offlineReason'')]))"

definition dialog_select_status :: "js \<Rightarrow> op \<Rightarrow> op" where
  "dialog_select_status server statuses =
     then1 statuses (\<lambda>ss.
       then1 (open_modal ''DialogSelectStatusController'' server ss)
         (\<lambda>form. case status_answer (elems ss) form of None \<Rightarrow> never | Some s \<Rightarrow> ret s))"

definition contains :: "string \<Rightarrow> string \<Rightarrow> bool" where
  "contains s sub \<longleftrightarrow> sublist sub s"

definition needsUpdates :: "js \<Rightarrow> bool" where
  "needsUpdates server \<longleftrightarrow>
     contains (to_str (fld server ''type'')) ''EDGE'' \<or> contains (to_str (fld server ''type'')) ''MID''"

definition offline :: "js list \<Rightarrow> js \<Rightarrow> bool" where
  "offline statuses selectedStatusId =
     (let selectedStatus = find_by_id statuses selectedStatusId
      in truthy selectedStatus \<and>
         (js_eq (fld selectedStatus ''name'') (JStr ''ADMIN_DOWN'') \<or>
          js_eq (fld selectedStatus ''name'') (JStr ''OFFLINE'')))"

text \<open>\<open>DialogImportController.import\<close>: the parser is the platform's, its result the argument
  (\<open>None\<close> is the \<open>SyntaxError\<close>).  The dialog closes with the value, or is cancelled with an
  error on the board.\<close>

definition dialog_import_result :: "js option \<Rightarrow> op" where
  "dialog_import_result parsed =
     (case parsed of
        None \<Rightarrow> seq (eff (setMessages (error_alert
                  ''Invalid JSON. Please validate your import JSON.'') False))
                 (throw (JStr ''cancel''))
      | Some v \<Rightarrow> ret v)"

definition dialog_import :: "(string \<Rightarrow> js option) \<Rightarrow> js \<Rightarrow> op" where
  "dialog_import parse params =
     then1 (open_modal ''DialogImportController'' params JUndef)
       (\<lambda>txt. dialog_import_result (parse (to_str txt)))"

section \<open>Evaluation\<close>

text \<open>\<open>result.then(function(v) { ... }, function () { /* do nothing */ })\<close>.\<close>

definition on_close :: "op \<Rightarrow> (js \<Rightarrow> op) \<Rightarrow> op" where
  "on_close p f = then2 p f (\<lambda>_. ret JUndef)"

definition note_asked :: "string \<Rightarrow> js \<Rightarrow> js \<Rightarrow> world \<Rightarrow> world" where
  "note_asked controller params collection w =
     w\<lparr>asked := asked w @ [(controller, params, collection)]\<rparr>"

lemma note_asked_frame [simp]:
  "srv (note_asked c p x w) = srv w" "ask (note_asked c p x w) = ask w"
  "pick (note_asked c p x w) = pick w" "apiRoot (note_asked c p x w) = apiRoot w"
  "parseUrl (note_asked c p x w) = parseUrl w" "urlOf (note_asked c p x w) = urlOf w"
  "stateUrl (note_asked c p x w) = stateUrl w" "sent (note_asked c p x w) = sent w"
  "messages (note_asked c p x w) = messages w" "queue (note_asked c p x w) = queue w"
  "loc (note_asked c p x w) = loc w" "shown (note_asked c p x w) = shown w"
  "reloads (note_asked c p x w) = reloads w" "timers (note_asked c p x w) = timers w"
  "scope (note_asked c p x w) = scope w" "userUser (note_asked c p x w) = userUser w"
  "scrolls (note_asked c p x w) = scrolls w" "backlog (note_asked c p x w) = backlog w"
  "asked (note_asked c p x w) = asked w @ [(c, p, x)]"
  "stateName (note_asked c p x w) = stateName w"
  by (simp_all add: note_asked_def)

lemma run_open_modal [promise_simps]:
  "run (open_modal c p x) w =
     (case ask w c p x of
        Close v \<Rightarrow> (Fulfilled v, digest (note_asked c p x w))
      | Dismiss e \<Rightarrow> (Rejected e, digest (note_asked c p x w)))"
  by (simp add: run_def open_modal_def note_asked_def split: answer.splits)

lemma run_on_close [promise_simps]:
  "run (on_close p f) w =
     (case run p w of
        (Fulfilled v, w') \<Rightarrow> run (f v) w'
      | (Rejected e, w') \<Rightarrow> (Fulfilled JUndef, w')
      | (Pending, w') \<Rightarrow> (Pending, w'))"
  by (simp add: on_close_def run_then2 split: prod.splits outcome.splits)

lemma run_detach [promise_simps]: "run (detach p) w = (Fulfilled JUndef, snd (run p w))"
  by (simp add: run_def detach_def split: prod.splits)

lemma run_dialog_confirm [promise_simps]:
  "run (dialog_confirm p) w =
     (case ask w ''DialogConfirmController'' p JUndef of
        Close v \<Rightarrow> (Fulfilled JUndef, digest (note_asked ''DialogConfirmController'' p JUndef w))
      | Dismiss e \<Rightarrow> (Rejected e, digest (note_asked ''DialogConfirmController'' p JUndef w)))"
  by (simp add: dialog_confirm_def run_then1 run_open_modal split: answer.splits)

lemma run_dialog_delete [promise_simps]:
  "run (dialog_delete p) w =
     (case ask w ''DialogDeleteController'' p JUndef of
        Close v \<Rightarrow> (Fulfilled JUndef, digest (note_asked ''DialogDeleteController'' p JUndef w))
      | Dismiss e \<Rightarrow> (Rejected e, digest (note_asked ''DialogDeleteController'' p JUndef w)))"
  by (simp add: dialog_delete_def run_then1 run_open_modal split: answer.splits)

lemma run_dialog_select [promise_simps]:
  "run (dialog_select p x) w =
     (case ask w ''DialogSelectController'' p x of
        Close v \<Rightarrow> (Fulfilled (find_by_id (elems x) v),
                    digest (note_asked ''DialogSelectController'' p x w))
      | Dismiss e \<Rightarrow> (Rejected e, digest (note_asked ''DialogSelectController'' p x w)))"
  by (simp add: dialog_select_def run_then1 run_open_modal split: answer.splits)

text \<open>The dialog closes with an item of the collection whose id reads as the number chosen.\<close>

lemma find_by_id_sound:
  "find_by_id xs i = x \<Longrightarrow> x \<noteq> JUndef \<Longrightarrow>
     x \<in> set xs \<and> num_eq (parse_int (fld x ''id'')) (parse_int i)"
  by (auto simp: find_by_id_def find_Some_iff split: option.splits)

section \<open>Statements that start a promise\<close>

text \<open>\<open>p.then(function() { ... })\<close> as a statement: nobody waits for it.\<close>

definition when_done :: "op \<Rightarrow> op \<Rightarrow> op" where
  "when_done p q = detach (then1 p (\<lambda>_. q))"

definition when_result :: "op \<Rightarrow> (js \<Rightarrow> op) \<Rightarrow> op" where
  "when_result p f = detach (then1 p f)"

definition refresh :: op where
  "refresh = eff state_reload"

lemma run_when_done:
  "run (when_done p q) w =
     (case run p w of
        (Fulfilled v, w') \<Rightarrow> (Fulfilled JUndef, snd (run q w'))
      | (Rejected e, w') \<Rightarrow> (Fulfilled JUndef, w')
      | (Pending, w') \<Rightarrow> (Fulfilled JUndef, w'))"
  by (simp add: when_done_def run_detach run_then1 split: prod.splits outcome.splits)

lemma run_refresh [simp]: "run refresh w = (Fulfilled JUndef, state_reload w)"
  by (simp add: refresh_def)

lemma state_reload_frame [simp]:
  "sent (state_reload w) = sent w" "loc (state_reload w) = loc w"
  "reloads (state_reload w) = Suc (reloads w)" "asked (state_reload w) = asked w"
  "messages (state_reload w) = messages w"
  by (simp_all add: state_reload_def)

end
