(* ===== verification/FederationServices.thy ===== *)
theory FederationServices
  imports PortalServices
begin

text \<open>
  Federations (\<open>FederationService.js\<close>, \<open>FederationResolverService.js\<close>): creating one chains two
  assignments, made side by side, whose results the code joins with \<open>$q.all\<close>.
\<close>

section \<open>FederationService.js\<close>

definition getCDNFederations :: "js \<Rightarrow> op" where
  "getCDNFederations cdnName = rest_getList [One ''cdns'' cdnName, All ''federations''] JUndef"

definition getCDNFederation :: "js \<Rightarrow> js \<Rightarrow> op" where
  "getCDNFederation cdnName fedId =
     rest_get [One ''cdns'' cdnName, One ''federations'' fedId] JUndef"

definition assignFederationUsers :: "js \<Rightarrow> js \<Rightarrow> bool \<Rightarrow> op" where
  "assignFederationUsers fedId userIds replace =
     then2 (api (\<lambda>u. HPost u (JObj [(''userIds'', userIds), (''replace'', JBool replace)]))
              (''federations/'' @ to_str fedId @ ''/users''))
       (\<lambda>_. say ''Users linked to federation'' False) (fault_alerts False)"

definition assignFederationDeliveryServices :: "js \<Rightarrow> js \<Rightarrow> bool \<Rightarrow> op" where
  "assignFederationDeliveryServices fedId dsIds replace =
     then2 (api (\<lambda>u. HPost u (JObj [(''dsIds'', dsIds), (''replace'', JBool replace)]))
              (''federations/'' @ to_str fedId @ ''/deliveryservices''))
       (\<lambda>_. say ''Delivery services linked to federation'' False) (fault_alerts False)"

definition federation_path :: "js \<Rightarrow> js \<Rightarrow> string" where
  "federation_path cdnId fedId =
     ''/cdns/'' @ to_str cdnId @ ''/federations/'' @ to_str fedId"

text \<open>The part of \<open>createFederation\<close> that follows the creation: both assignments, then the alerts
  of the creation and the new federation's page.\<close>

definition assign_new_federation :: "js \<Rightarrow> js \<Rightarrow> js \<Rightarrow> js \<Rightarrow> op" where
  "assign_new_federation cdn fed newFedId alerts =
     then2 (q_all [assignFederationUsers newFedId (JArr [fld fed ''userId'']) False,
                   assignFederationDeliveryServices newFedId (JArr [fld fed ''dsId'']) False])
       (\<lambda>_. seq (eff (setMessages alerts True))
              (navigateToPath (federation_path (fld cdn ''id'') newFedId)))
       (\<lambda>_. ret JUndef)"

definition createFederation :: "js \<Rightarrow> js \<Rightarrow> op" where
  "createFederation cdn fed =
     then2 (api (\<lambda>u. HPost u fed) (''cdns/'' @ to_str (fld cdn ''name'') @ ''/federations''))
       (\<lambda>result. deref result ''data'' (\<lambda>d. deref d ''response'' (\<lambda>r. deref r ''id'' (\<lambda>newFedId.
          deref d ''alerts'' (\<lambda>alerts.
            detach (assign_new_federation cdn fed newFedId alerts))))))
       (fault_alerts False)"

definition updateFederation :: "js \<Rightarrow> op" where
  "updateFederation fed =
     then2 (rest_put fed)
       (\<lambda>_. detach (then1
          (assignFederationDeliveryServices (fld fed ''id'') (JArr [fld fed ''dsId'']) True)
          (\<lambda>_. say ''Federation updated'' False)))
       (fault_alerts False)"

definition deleteFederation :: "js \<Rightarrow> js \<Rightarrow> op" where
  "deleteFederation cdnId fedId =
     then2 (rest_remove [One ''cdns'' cdnId, One ''federations'' fedId])
       (\<lambda>_. say ''Federation deleted'' True) (fault_alerts True)"

definition getFederationUsers :: "js \<Rightarrow> op" where
  "getFederationUsers fedId = rest_getList [One ''federations'' fedId, All ''users''] JUndef"

definition deleteFederationUser :: "js \<Rightarrow> js \<Rightarrow> op" where
  "deleteFederationUser fedId userId =
     then2 (with_world (\<lambda>w. httpService_delete
              (apiRoot w @ ''federations/'' @ to_str fedId @ ''/users/'' @ to_str userId)))
       (\<lambda>_. say ''Federation and user were unlinked.'' False) (fault_alerts True)"

definition getFederationDeliveryServices :: "js \<Rightarrow> op" where
  "getFederationDeliveryServices fedId =
     rest_getList [One ''federations'' fedId, All ''deliveryservices''] JUndef"

definition deleteFederationDeliveryService :: "js \<Rightarrow> js \<Rightarrow> op" where
  "deleteFederationDeliveryService fedId dsId =
     then2 (with_world (\<lambda>w. httpService_delete
              (apiRoot w @ ''federations/'' @ to_str fedId @ ''/deliveryservices/'' @ to_str dsId)))
       (\<lambda>_. say ''Federation and delivery service were unlinked.'' False) (fault_alerts False)"

definition getFederationFederationResolvers :: "js \<Rightarrow> op" where
  "getFederationFederationResolvers fedId =
     rest_getList [One ''federations'' fedId, All ''federation_resolvers''] JUndef"

section \<open>FederationResolverService.js\<close>

definition createFederationResolver :: "js \<Rightarrow> op" where
  "createFederationResolver fedResolver =
     deferred (api (\<lambda>u. HPost u fedResolver) ''federation_resolvers'') resolve_response reject"

definition deleteFederationResolver :: "js \<Rightarrow> op" where
  "deleteFederationResolver fedResId =
     then2 (rest_remove [One ''federation_resolvers'' fedResId])
       (\<lambda>_. say ''Federation resolver deleted'' False) (fault_alerts True)"

definition assignFederationResolvers :: "js \<Rightarrow> js \<Rightarrow> bool \<Rightarrow> op" where
  "assignFederationResolvers fedId fedResIds replace =
     then2 (api (\<lambda>u. HPost u (JObj [(''fedResolverIds'', fedResIds), (''replace'', JBool replace)]))
              (''federations/'' @ to_str fedId @ ''/federation_resolvers''))
       (\<lambda>_. say (to_str (fld fedResIds ''length'') @ '' resolver(s) assigned to federation'') False)
       (fault_alerts False)"

end
