(* ===== verification/KeyServices.thy ===== *)
theory KeyServices
  imports PortalServices
begin

text \<open>
  Key material of delivery services (\<open>DeliveryServiceSslKeysService.js\<close>,
  \<open>DeliveryServiceUrlSigKeysService.js\<close>, \<open>DeliveryServiceUriSigningKeysService.js\<close>) and the forms that
  drive the SSL services.  The objects the services write into belong to their callers: they are
  entries of the scope, named by the slot they are in.
\<close>

section \<open>SSL keys\<close>

fun inc :: "js \<Rightarrow> js" where
  "inc (JNum n) = JNum (n + 1)"
| "inc _ = JNaN"

text \<open>\<open>if (sslKeys.hasOwnProperty('version')) parseInt(sslKeys.version) + 1 else 1\<close>.\<close>

definition next_version :: "js \<Rightarrow> js" where
  "next_version sslKeys =
     (if has_own sslKeys ''version'' then inc (parse_int (fld sslKeys ''version'')) else JNum 1)"

definition generate_form :: "js \<Rightarrow> js \<Rightarrow> js \<Rightarrow> js" where
  "generate_form deliveryService sslKeys form =
     set_fld (set_fld (set_fld (set_fld form
       ''version'' (next_version sslKeys))
       ''cdn'' (fld deliveryService ''cdnName''))
       ''deliveryservice'' (fld deliveryService ''xmlId''))
       ''key'' (fld deliveryService ''xmlId'')"

definition generateSslKeys :: "js \<Rightarrow> js \<Rightarrow> string \<Rightarrow> op" where
  "generateSslKeys deliveryService sslKeys slot =
     with_world (\<lambda>w0. let form = generate_form deliveryService sslKeys (scope w0 slot) in
       seq (eff (set_scope slot form))
         (deferred (api (\<lambda>u. HPost u form) ''deliveryservices/sslkeys/generate'')
            (\<lambda>result. after (setMessages (success (''SSL Keys generated and updated for '' @
                               to_str (fld deliveryService ''xmlId''))) True)
                        (resolve_response result))
            (\<lambda>fault. alerts_then False (reject fault) fault)))"

definition add_form :: "js \<Rightarrow> js \<Rightarrow> js" where
  "add_form deliveryService sslKeys =
     (let k1 = set_fld sslKeys ''key'' (fld deliveryService ''xmlId'');
          k2 = set_fld k1 ''version'' (next_version k1);
          k3 = set_fld k2 ''cdn'' (fld deliveryService ''cdnName'')
      in set_fld k3 ''deliveryservice'' (fld deliveryService ''xmlId''))"

definition addSslKeys :: "string \<Rightarrow> js \<Rightarrow> op" where
  "addSslKeys slot deliveryService =
     with_world (\<lambda>w0. let form = add_form deliveryService (scope w0 slot) in
       seq (eff (set_scope slot form))
         (deferred (api (\<lambda>u. HPost u form) ''deliveryservices/sslkeys/add'')
            (\<lambda>result. after (setMessages (success (''SSL Keys updated for '' @
                               to_str (fld deliveryService ''xmlId''))) False)
                        (resolve_response result))
            (\<lambda>fault. alerts_then False (reject fault) fault)))"

definition getSslKeys :: "js \<Rightarrow> op" where
  "getSslKeys deliveryService =
     deferred (api (\<lambda>u. HGet u JUndef) (''deliveryservices/xmlId/'' @
                 to_str (fld deliveryService ''xmlId'') @ ''/sslkeys?decode=true''))
       resolve_response (\<lambda>fault. alerts_then True (reject fault) fault)"

section \<open>URL signature keys, URI signing keys\<close>

text \<open>\<open>messageModel.setMessages(result.data.alerts, false); request.resolve();\<close>.\<close>

definition show_and_resolve :: "js \<Rightarrow> later" where
  "show_and_resolve result =
     deref_later result ''data'' (\<lambda>d. deref_later d ''alerts'' (\<lambda>a.
       after (setMessages a False) (resolve JUndef)))"

definition generateUrlSigKeys :: "string \<Rightarrow> op" where
  "generateUrlSigKeys dsXmlId =
     deferred (api (\<lambda>u. HPost u JUndef)
         (''deliveryservices/xmlId/'' @ dsXmlId @ ''/urlkeys/generate''))
       show_and_resolve (alerts_then False (reject JUndef))"

definition copyUrlSigKeys :: "string \<Rightarrow> string \<Rightarrow> op" where
  "copyUrlSigKeys dsXmlId copyFromXmlId =
     deferred (api (\<lambda>u. HPost u JUndef)
         (''deliveryservices/xmlId/'' @ dsXmlId @ ''/urlkeys/copyFromXmlId/'' @ copyFromXmlId))
       show_and_resolve (alerts_then False (reject JUndef))"

definition getDeliveryServiceUrlSigKeys :: "js \<Rightarrow> op" where
  "getDeliveryServiceUrlSigKeys dsId =
     deferred (api (\<lambda>u. HGet u JUndef) (''deliveryservices/'' @ to_str dsId @ ''/urlkeys''))
       resolve_response (alerts_then False (reject JUndef))"

definition getKeys :: "js \<Rightarrow> op" where
  "getKeys i = rest_get [One ''deliveryservices'' i, One ''urisignkeys'' JUndef] JUndef"

definition setKeys :: "js \<Rightarrow> js \<Rightarrow> op" where
  "setKeys i newKeys = rest_post [One ''deliveryservices'' i, All ''urisignkeys''] newKeys"

section \<open>The default host name of a certificate\<close>

text \<open>
  \<open>setSSLKeys\<close> and \<open>setSSLRequest\<close> propose the host of the first example URL, with its first
  label replaced by \<open>*\<close> for HTTP delivery services.  \<open>split\<close> and \<open>join\<close> are the language's.
\<close>

fun split_at :: "char \<Rightarrow> string \<Rightarrow> string list" where
  "split_at sep [] = [[]]"
| "split_at sep (c # cs) =
     (if c = sep then [] # split_at sep cs
      else (case split_at sep cs of [] \<Rightarrow> [[c]] | p # ps \<Rightarrow> (c # p) # ps))"

fun join_with :: "string \<Rightarrow> string list \<Rightarrow> string" where
  "join_with sep [] = []"
| "join_with sep [p] = p"
| "join_with sep (p # q # ps) = p @ sep @ join_with sep (q # ps)"

text \<open>\<open>url.split("://")[1]\<close>: the text between the first and the second separator, and
  \<open>undefined\<close> where there is no separator.\<close>

fun until_sep :: "string \<Rightarrow> string \<Rightarrow> string" where
  "until_sep sep [] = []"
| "until_sep sep (c # cs) = (if prefix sep (c # cs) then [] else c # until_sep sep cs)"

fun after_sep :: "string \<Rightarrow> string \<Rightarrow> string option" where
  "after_sep sep [] = None"
| "after_sep sep (c # cs) =
     (if prefix sep (c # cs) then Some (drop (length sep) (c # cs)) else after_sep sep cs)"

definition split_1 :: "string \<Rightarrow> string \<Rightarrow> string option" where
  "split_1 sep s = map_option (until_sep sep) (after_sep sep s)"

definition wildcard :: "string \<Rightarrow> string" where
  "wildcard host = join_with ''.'' ((split_at (CHR ''.'') host)[0 := ''*''])"

text \<open>\<open>None\<close>: the code throws, on a delivery service without example URLs or on a URL without a
  scheme for an HTTP delivery service.  A URL without a scheme leaves the name \<open>undefined\<close>
  otherwise.\<close>

definition default_hostname :: "string list \<Rightarrow> string \<Rightarrow> js option" where
  "default_hostname exampleURLs dsType =
     (case exampleURLs of
        [] \<Rightarrow> None
      | url # _ \<Rightarrow>
          (if sublist ''HTTP'' dsType
           then map_option (\<lambda>h. JStr (wildcard h)) (split_1 ''://'' url)
           else Some (case split_1 ''://'' url of None \<Rightarrow> JUndef | Some h \<Rightarrow> JStr h)))"

definition setSSLKeys :: "string list \<Rightarrow> string \<Rightarrow> js \<Rightarrow> js option" where
  "setSSLKeys exampleURLs dsType sslKeys =
     (if \<not> truthy (fld sslKeys ''hostname'')
      then map_option (set_fld sslKeys ''hostname'') (default_hostname exampleURLs dsType)
      else Some sslKeys)"

definition setSSLRequest :: "string list \<Rightarrow> string \<Rightarrow> js \<Rightarrow> js option" where
  "setSSLRequest exampleURLs dsType sslRequest =
     (if \<not> truthy (fld sslRequest ''hostname'')
      then map_option (set_fld sslRequest ''hostname'') (default_hostname exampleURLs dsType)
      else Some sslRequest)"

end
