(* ===== verification/Frames.thy ===== *)
theory Frames
  imports Dialogs FederationServices KeyServices
begin

text \<open>
  What an operation does to the world, whatever the server and the user answer: a relation between
  the world before and after that every primitive keeps is kept by every operation built from them.
  Two such relations are used: the log of calls only grows, and only certain calls are made.
\<close>

section \<open>Operations that keep a relation\<close>

definition later_keeps :: "(world \<Rightarrow> world \<Rightarrow> bool) \<Rightarrow> later \<Rightarrow> bool" where
  "later_keeps R l \<longleftrightarrow> (\<forall>w. R w (snd (l w)))"

definition keeps :: "(world \<Rightarrow> world \<Rightarrow> bool) \<Rightarrow> op \<Rightarrow> bool" where
  "keeps R p \<longleftrightarrow> (\<forall>w. R w (snd (p w)) \<and> later_keeps R (fst (p w)))"

named_theorems keeps_intros \<open>operations that keep a relation their primitives keep\<close>

lemma keepsD: "keeps R p \<Longrightarrow> p w = (l, w') \<Longrightarrow> R w w' \<and> later_keeps R l"
  unfolding keeps_def by (metis fst_conv snd_conv)

lemma later_keepsD: "later_keeps R l \<Longrightarrow> l w = (r, w') \<Longrightarrow> R w w'"
  unfolding later_keeps_def by (metis snd_conv)

lemma keeps_with_world [keeps_intros]: "(\<And>w. keeps R (f w)) \<Longrightarrow> keeps R (with_world f)"
  by (simp add: keeps_def with_world_def)

locale world_relation =
  fixes R :: "world \<Rightarrow> world \<Rightarrow> bool"
  assumes same: "R w w"
    and chain: "R u v \<Longrightarrow> R v w \<Longrightarrow> R u w"
    and turn: "R w (digest w)"
    and message: "R w (setMessages m d w)"
    and failure: "R w (onRejection f w)"
    and dialog: "R w (note_asked controller params collection w)"
begin

lemma ret [keeps_intros]: "keeps R (ret v)"
  and throw [keeps_intros]: "keeps R (throw e)"
  and never [keeps_intros]: "keeps R never"
  by (simp_all add: keeps_def later_keeps_def ret_def throw_def never_def same)

lemma eff [keeps_intros]: "(\<And>w. R w (f w)) \<Longrightarrow> keeps R (eff f)"
  by (simp add: keeps_def later_keeps_def eff_def same)

lemma seq [keeps_intros]: "keeps R p \<Longrightarrow> keeps R q \<Longrightarrow> keeps R (seq p q)"
  unfolding keeps_def later_keeps_def seq_def
  by (auto split: prod.splits) (metis fst_conv snd_conv chain)+

lemma deref [keeps_intros]: "(\<And>x. keeps R (f x)) \<Longrightarrow> keeps R (deref v k f)"
  by (auto simp: deref_def throw split: option.splits)

lemma detach [keeps_intros]: "keeps R p \<Longrightarrow> keeps R (detach p)"
  unfolding keeps_def later_keeps_def detach_def by (auto split: prod.splits) (metis fst_conv snd_conv)+

lemma later_chain:
  assumes "later_keeps R l" "\<And>v. later_keeps R (ok v)" "\<And>e. later_keeps R (bad e)"
  shows "later_keeps R (\<lambda>w. case l w of
           (Fulfilled v, w') \<Rightarrow> ok v w' | (Rejected e, w') \<Rightarrow> bad e w' | (Pending, w') \<Rightarrow> (Pending, w'))"
  unfolding later_keeps_def
proof
  fix w
  obtain r u where u: "l w = (r, u)" by fastforce
  then have "R w u" using later_keepsD [OF assms(1)] by simp
  moreover have "R u (snd (ok v u))" "R u (snd (bad v u))" for v
    using assms(2,3) by (simp_all add: later_keeps_def)
  ultimately show "R w (snd (case l w of
      (Fulfilled v, w') \<Rightarrow> ok v w' | (Rejected e, w') \<Rightarrow> bad e w' | (Pending, w') \<Rightarrow> (Pending, w')))"
    using u chain by (cases r) auto
qed

lemma of_run: "keeps R p \<Longrightarrow> run p w = (r, w') \<Longrightarrow> R w w'"
  unfolding run_def by (auto split: prod.splits dest!: keepsD later_keepsD dest: chain)

lemma later_run: "keeps R p \<Longrightarrow> later_keeps R (run p)"
  unfolding later_keeps_def using of_run by (metis surjective_pairing)

lemma deferred [keeps_intros]:
  assumes "keeps R p" "\<And>v. later_keeps R (ok v)" "\<And>e. later_keeps R (bad e)"
  shows "keeps R (deferred p ok bad)"
  unfolding keeps_def
proof
  fix w
  obtain l w1 where l: "p w = (l, w1)" by fastforce
  then have "R w w1" "later_keeps R l" using keepsD [OF assms(1)] by simp_all
  then show "R w (snd (deferred p ok bad w)) \<and> later_keeps R (fst (deferred p ok bad w))"
    using l later_chain [OF _ assms(2,3)] by (simp add: deferred_def)
qed

lemma then2 [keeps_intros]:
  assumes "keeps R p" "\<And>v. keeps R (ok v)" "\<And>e. keeps R (bad e)"
  shows "keeps R (then2 p ok bad)"
proof -
  have "keeps R (deferred p (\<lambda>v. run (ok v)) (\<lambda>e. run (bad e)))"
    by (rule deferred) (auto intro: assms later_run)
  moreover have "then2 p ok bad = deferred p (\<lambda>v. run (ok v)) (\<lambda>e. run (bad e))"
    by (simp add: deferred_def then2_def fun_eq_iff)
  ultimately show ?thesis by simp
qed

lemma then1 [keeps_intros]: "keeps R p \<Longrightarrow> (\<And>v. keeps R (ok v)) \<Longrightarrow> keeps R (then1 p ok)"
  by (simp add: then1_def then2 throw)

lemma on_close [keeps_intros]: "keeps R p \<Longrightarrow> (\<And>v. keeps R (ok v)) \<Longrightarrow> keeps R (on_close p ok)"
  by (simp add: on_close_def then2 ret)

lemma when_done [keeps_intros]: "keeps R p \<Longrightarrow> keeps R q \<Longrightarrow> keeps R (when_done p q)"
  by (simp add: when_done_def then1 detach)

lemma when_result [keeps_intros]:
  "keeps R p \<Longrightarrow> (\<And>v. keeps R (f v)) \<Longrightarrow> keeps R (when_result p f)"
  by (simp add: when_result_def then1 detach)

text \<open>Calls: what matters is that logging the call keeps the relation.\<close>

lemma answer: "later_keeps R (answer_call c)"
  unfolding later_keeps_def answer_call_def responseError_def Let_def
  using chain [OF turn failure] turn by (auto split: response.splits)

lemma http_now: "(\<And>w. R w (send (g w) w)) \<Longrightarrow> keeps R (with_world (\<lambda>w. http (g w)))"
  by (simp add: keeps_def with_world_def http_def answer)

lemma http: "(\<And>w. R w (send c w)) \<Longrightarrow> keeps R (http c)"
  by (simp add: keeps_def http_def answer)

lemma api: "(\<And>w. R w (send (c (apiRoot w @ u)) w)) \<Longrightarrow> keeps R (api c u)"
  unfolding api_def by (rule http_now)

lemma later_settled [keeps_intros]:
  "later_keeps R (resolve v)" "later_keeps R (reject v)" "later_keeps R unsettled"
  by (simp_all add: later_keeps_def same)

lemma later_deref [keeps_intros]:
  "(\<And>x. later_keeps R (f x)) \<Longrightarrow> later_keeps R (deref_later v k f)"
  by (auto simp: later_keeps_def deref_later_eq same split: option.splits)

lemma later_after [keeps_intros]:
  "(\<And>w. R w (f w)) \<Longrightarrow> later_keeps R k \<Longrightarrow> later_keeps R (after f k)"
  unfolding later_keeps_def after_def using chain by metis

lemma later_case [keeps_intros]:
  "later_keeps R a \<Longrightarrow> (\<And>x. later_keeps R (b x)) \<Longrightarrow>
     later_keeps R (case m of None \<Rightarrow> a | Some x \<Rightarrow> b x)"
  by (cases m) auto

lemma later_alerts_then [keeps_intros]: "later_keeps R k \<Longrightarrow> later_keeps R (alerts_then d k f)"
  unfolding alerts_then_def by (intro keeps_intros message)

lemma rest: "(\<And>w. R w (send c w)) \<Longrightarrow> keeps R (rest operation c)"
  unfolding rest_def by (intro keeps_intros http)

lemma rest_calls:
  "(\<And>w. R w (send (RGetList p q) w)) \<Longrightarrow> keeps R (rest_getList p q)"
  "(\<And>w. R w (send (RGet p q) w)) \<Longrightarrow> keeps R (rest_get p q)"
  "(\<And>w. R w (send (RPost p x) w)) \<Longrightarrow> keeps R (rest_post p x)"
  "(\<And>w. R w (send (RPut x) w)) \<Longrightarrow> keeps R (rest_put x)"
  "(\<And>w. R w (send (RRemove p) w)) \<Longrightarrow> keeps R (rest_remove p)"
  unfolding rest_getList_def rest_get_def rest_post_def rest_put_def rest_remove_def by (rule rest, assumption)+

lemma say [keeps_intros]: "keeps R (say t d)"
  unfolding say_def by (intro keeps_intros message)

lemma fault [keeps_intros]: "keeps R (fault_alerts d f)"
  unfolding fault_alerts_def by (intro keeps_intros message)

lemma open_modal [keeps_intros]: "keeps R (open_modal c p x)"
proof -
  have "open_modal c p x = (\<lambda>w. (\<lambda>v. case ask v c p x of
      Close a \<Rightarrow> (Fulfilled a, digest v) | Dismiss e \<Rightarrow> (Rejected e, digest v), note_asked c p x w))"
    by (simp add: open_modal_def note_asked_def fun_eq_iff)
  then show ?thesis
    using turn dialog by (auto simp: keeps_def later_keeps_def split: answer.splits)
qed

lemma dialogs [keeps_intros]:
  "keeps R (dialog_confirm p)" "keeps R (dialog_delete p)" "keeps R (dialog_select p x)"
  unfolding dialog_confirm_def dialog_delete_def dialog_select_def by (intro keeps_intros)+

lemma start: "\<forall>p\<in>set ps. keeps R p \<Longrightarrow> start_all ps w = (ls, w') \<Longrightarrow>
    R w w' \<and> (\<forall>l\<in>set ls. later_keeps R l)"
proof (induction ps arbitrary: w ls w')
  case (Cons p ps)
  obtain l w1 ls1 w2 where s: "p w = (l, w1)" "start_all ps w1 = (ls1, w2)" by fastforce
  then show ?case using Cons keepsD [of R p w l w1] by (auto intro: chain)
qed (simp add: same)

lemma settle: "\<forall>(i, l)\<in>set ls. later_keeps R l \<Longrightarrow> settle_any ls w = (rs, w') \<Longrightarrow> R w w'"
proof (induction ls w arbitrary: rs w' rule: settle_any.induct)
  case (1 ls w)
  show ?case
  proof (cases "ls = []")
    case True
    then show ?thesis using 1(3) by (simp add: settle_any.simps same)
  next
    case False
    define k where "k = pick w (length ls) mod length ls"
    have k: "k < length ls" using False by (simp add: k_def)
    obtain j l where jl: "ls ! k = (j, l)" by fastforce
    obtain r w1 where r: "l w = (r, w1)" by fastforce
    let ?rest = "take k ls @ drop (Suc k) ls"
    obtain rs1 w2 where rs1: "settle_any ?rest w1 = (rs1, w2)" by fastforce
    have "later_keeps R l" using 1(2) k jl nth_mem by fastforce
    then have "R w w1" using r by (rule later_keepsD)
    moreover have "R w1 w2"
    proof (rule "1.IH" [OF False k_def])
      show "(r, w1) = snd (ls ! k) w" using jl r by simp
      show "\<forall>(i, l)\<in>set ?rest. later_keeps R l"
        using 1(2) by (auto dest: in_set_takeD in_set_dropD)
    qed (use rs1 in auto)
    moreover have "w' = w2"
      using 1(3) False jl r rs1 by (subst (asm) settle_any.simps) (simp add: k_def [symmetric])
    ultimately show ?thesis using chain by blast
  qed
qed

lemma joined:
  assumes "\<forall>l\<in>set ls. later_keeps R l" shows "later_keeps R (join_all ls)"
  unfolding later_keeps_def
proof
  fix w
  obtain rs w' where rs: "settle_any (zip [0..<length ls] ls) w = (rs, w')" by fastforce
  have "R w w'" by (rule settle [OF _ rs]) (use assms in \<open>auto dest: set_zip_rightD\<close>)
  then show "R w (snd (join_all ls w))" by (simp add: join_all_def rs)
qed

lemma q_all [keeps_intros]:
  assumes "\<forall>p\<in>set ps. keeps R p" shows "keeps R (q_all ps)"
  unfolding keeps_def
proof
  fix w
  obtain ls w1 where "start_all ps w = (ls, w1)" by fastforce
  then show "R w (snd (q_all ps w)) \<and> later_keeps R (fst (q_all ps w))"
    using start [OF assms] joined by (simp add: q_all_def)
qed

end

section \<open>The log of calls only grows\<close>

definition log_grows :: "world \<Rightarrow> world \<Rightarrow> bool" where
  "log_grows w w' \<longleftrightarrow> prefix (sent w) (sent w')"

interpretation grows: world_relation log_grows
  by unfold_locales (auto simp: log_grows_def)

lemma log_grows_send [simp]: "log_grows w (send c w)"
  by (simp add: log_grows_def send_def)

lemma log_grows_same_log: "sent w' = sent w \<Longrightarrow> log_grows w w'"
  by (simp add: log_grows_def)

lemma start_all_append:
  "start_all (ps @ qs) w =
     (case start_all ps w of (l1, w1) \<Rightarrow> (case start_all qs w1 of (l2, w2) \<Rightarrow> (l1 @ l2, w2)))"
  by (induction ps arbitrary: w) (auto split: prod.splits)

section \<open>Only certain calls are made\<close>

text \<open>For a given API root, everything that is added to the log has the property.\<close>

definition calls_only :: "string \<Rightarrow> (call \<Rightarrow> bool) \<Rightarrow> world \<Rightarrow> world \<Rightarrow> bool" where
  "calls_only root P w w' \<longleftrightarrow>
     (apiRoot w = root \<longrightarrow> apiRoot w' = root \<and> (\<exists>cs. sent w' = sent w @ cs \<and> list_all P cs))"

lemma calls_only_trans: "calls_only root P u v \<Longrightarrow> calls_only root P v w \<Longrightarrow> calls_only root P u w"
  unfolding calls_only_def by (metis append.assoc list_all_append)

interpretation calls: world_relation "calls_only root P" for root P
proof unfold_locales
  fix u v w
  show "calls_only root P u v \<Longrightarrow> calls_only root P v w \<Longrightarrow> calls_only root P u w"
    by (rule calls_only_trans)
qed (simp_all add: calls_only_def)

lemma calls_only_send: "(apiRoot w = root \<Longrightarrow> P c) \<Longrightarrow> calls_only root P w (send c w)"
  by (simp add: calls_only_def send_def)

lemma calls_only_same_log: "apiRoot w' = apiRoot w \<Longrightarrow> sent w' = sent w \<Longrightarrow> calls_only root P w w'"
  by (simp add: calls_only_def)

section \<open>Exactly these calls, at once\<close>

definition silent :: "world \<Rightarrow> world \<Rightarrow> bool" where
  "silent w w' \<longleftrightarrow> sent w' = sent w \<and> apiRoot w' = apiRoot w"

interpretation silent: world_relation silent
  by unfold_locales (auto simp: silent_def)

text \<open>The synchronous part of the operation makes the calls, given the API root; what comes later makes
  none.\<close>

definition makes :: "(string \<Rightarrow> call list) \<Rightarrow> op \<Rightarrow> bool" where
  "makes cs p \<longleftrightarrow>
     (\<forall>w. sent (snd (p w)) = sent w @ cs (apiRoot w) \<and> apiRoot (snd (p w)) = apiRoot w \<and>
          later_keeps silent (fst (p w)))"

named_theorems makes_intros \<open>the calls an operation makes\<close>

lemma makesD:
  assumes "makes cs p" "p w = (l, w')"
  shows "sent w' = sent w @ cs (apiRoot w)" "apiRoot w' = apiRoot w" "later_keeps silent l"
  using assms unfolding makes_def by (metis fst_conv snd_conv)+

lemma makes_none: "keeps silent p \<Longrightarrow> makes (\<lambda>_. []) p"
  by (auto simp: makes_def keeps_def silent_def)

lemma makes_http [makes_intros]: "makes (\<lambda>_. [c]) (http c)"
  by (simp add: makes_def http_def send_def silent.answer)

lemma makes_api [makes_intros]: "makes (\<lambda>root. [c (root @ u)]) (api c u)"
  by (simp add: makes_def api_def with_world_def http_def send_def silent.answer)

lemma makes_deferred [makes_intros]:
  assumes "makes cs p" "\<And>v. later_keeps silent (ok v)" "\<And>e. later_keeps silent (bad e)"
  shows "makes cs (deferred p ok bad)"
  unfolding makes_def
proof
  fix w
  obtain l w1 where l: "p w = (l, w1)" by fastforce
  then show "sent (snd (deferred p ok bad w)) = sent w @ cs (apiRoot w) \<and>
      apiRoot (snd (deferred p ok bad w)) = apiRoot w \<and> later_keeps silent (fst (deferred p ok bad w))"
    using makesD [OF assms(1) l] silent.later_chain [OF _ assms(2,3)] by (simp add: deferred_def)
qed

lemma makes_then2 [makes_intros]:
  assumes "makes cs p" "\<And>v. keeps silent (ok v)" "\<And>e. keeps silent (bad e)"
  shows "makes cs (then2 p ok bad)"
proof -
  have "makes cs (deferred p (\<lambda>v. run (ok v)) (\<lambda>e. run (bad e)))"
    by (rule makes_deferred) (auto intro: assms silent.later_run)
  moreover have "then2 p ok bad = deferred p (\<lambda>v. run (ok v)) (\<lambda>e. run (bad e))"
    by (simp add: deferred_def then2_def fun_eq_iff)
  ultimately show ?thesis by simp
qed

lemma makes_detach [makes_intros]: "makes cs p \<Longrightarrow> makes cs (detach p)"
  unfolding makes_def later_keeps_def detach_def by (simp split: prod.splits) (metis fst_conv snd_conv)

lemma makes_when_result [makes_intros]:
  "makes cs p \<Longrightarrow> (\<And>v. keeps silent (f v)) \<Longrightarrow> makes cs (when_result p f)"
  by (simp add: when_result_def then1_def makes_then2 makes_detach silent.throw)

lemma makes_rest [makes_intros]:
  "makes (\<lambda>_. [RGetList p q]) (rest_getList p q)"
  "makes (\<lambda>_. [RGet p q]) (rest_get p q)"
  "makes (\<lambda>_. [RPost p x]) (rest_post p x)"
  "makes (\<lambda>_. [RPut x]) (rest_put x)"
  "makes (\<lambda>_. [RRemove p]) (rest_remove p)"
  unfolding rest_getList_def rest_get_def rest_post_def rest_put_def rest_remove_def rest_def
  by (intro makes_intros silent.later_settled keeps_intros)+

lemma makes_seq [makes_intros]:
  assumes "makes cs p" "makes ds q" shows "makes (\<lambda>root. cs root @ ds root) (seq p q)"
  unfolding makes_def
proof
  fix w
  obtain l1 w1 where l1: "p w = (l1, w1)" by fastforce
  obtain l2 w2 where l2: "q w1 = (l2, w2)" by fastforce
  note m = makesD [OF assms(1) l1] makesD [OF assms(2) l2]
  have "later_keeps silent (\<lambda>w. l2 (snd (l1 w)))"
    using m(3,6) silent.chain unfolding later_keeps_def by metis
  then show "sent (snd (seq p q w)) = sent w @ cs (apiRoot w) @ ds (apiRoot w) \<and>
      apiRoot (snd (seq p q w)) = apiRoot w \<and> later_keeps silent (fst (seq p q w))"
    using m by (simp add: seq_def l1 l2)
qed

lemma makes_run: "makes cs p \<Longrightarrow> sent (snd (run p w)) = sent w @ cs (apiRoot w)"
  unfolding makes_def run_def later_keeps_def silent_def
  by (simp split: prod.splits) (metis fst_conv snd_conv)

section \<open>Lists of operations\<close>

lemma keeps_lists [keeps_intros]:
  "\<forall>p\<in>set []. keeps R p"
  "keeps R p \<Longrightarrow> \<forall>p\<in>set ps. keeps R p \<Longrightarrow> \<forall>p\<in>set (p # ps). keeps R p"
  "\<forall>p\<in>set ps. keeps R p \<Longrightarrow> \<forall>p\<in>set qs. keeps R p \<Longrightarrow> \<forall>p\<in>set (ps @ qs). keeps R p"
  "\<forall>p\<in>set ps. keeps R p \<Longrightarrow> \<forall>p\<in>set qs. keeps R p \<Longrightarrow> \<forall>p\<in>set (if b then ps else qs). keeps R p"
  by auto

end
