(* ===== verification/Numbers.thy ===== *)
theory Numbers
  imports Prelude Complex_Main
begin

text \<open>
  Numbers with fractions (\<open>common/service/utils/NumberUtils.js\<close>): \<open>convertTo\<close>, which turns kilobits
  into larger units and rounds to hundredths, and \<open>average\<close>.

  A number of the language is a rational here, and every operation rounds its exact result to the
  nearest double, ties to even, as the language does (\<open>dbl\<close>).  Overflow and underflow are left out:
  they start beyond 2 to the 1023 and below 2 to the -1022.  \<open>shrink\<close> is not modelled: it rests on
  \<open>Math.log\<close>, whose accuracy is up to the browser, and nothing calls it.
\<close>

section \<open>Doubles\<close>

fun bits :: "nat \<Rightarrow> nat" where
  "bits n = (if n = 0 then 0 else Suc (bits (n div 2)))"

declare bits.simps [simp del]

definition pow2 :: "int \<Rightarrow> rat" where
  "pow2 k = (if 0 \<le> k then 2 ^ nat k else 1 / 2 ^ nat (- k))"

text \<open>The binary exponent of a positive number: \<open>2 ^ e \<le> x < 2 ^ (e + 1)\<close>.\<close>

definition exponent :: "rat \<Rightarrow> int" where
  "exponent x =
     (case quotient_of x of (p, q) \<Rightarrow>
        (let e = int (bits (nat p)) - int (bits (nat q)) in if pow2 e \<le> x then e else e - 1))"

definition round_even :: "rat \<Rightarrow> int" where
  "round_even x =
     (let f = \<lfloor>x\<rfloor>; r = x - of_int f in
      if r < 1 / 2 then f else if 1 / 2 < r then f + 1 else if even f then f else f + 1)"

definition dbl_pos :: "rat \<Rightarrow> rat" where
  "dbl_pos x =
     (let e = exponent x in of_int (round_even (x * pow2 (52 - e))) * pow2 (e - 52))"

definition dbl :: "rat \<Rightarrow> rat" where
  "dbl x = (if x = 0 then 0 else if x < 0 then - dbl_pos (- x) else dbl_pos x)"

text \<open>\<open>Math.round\<close>: the closest integer, halves upwards.\<close>

definition math_round :: "rat \<Rightarrow> int" where
  "math_round x = \<lfloor>x + 1 / 2\<rfloor>"

section \<open>Units\<close>

definition sizes :: "string list" where
  "sizes = [''B'', ''Kb'', ''Mb'', ''Gb'', ''Tb'', ''Pb'']"

fun index_of :: "string \<Rightarrow> string list \<Rightarrow> nat option" where
  "index_of s [] = None"
| "index_of s (t # ts) = (if s = t then Some 0 else map_option Suc (index_of s ts))"

text \<open>\<open>convertTo(kilounits, size)\<close>, the unit being the size; \<open>None\<close> is a value that is not a number, and the \<open>null\<close> that is
  returned for it.\<close>

definition convertTo :: "rat option \<Rightarrow> string \<Rightarrow> rat option" where
  "convertTo kilounits unit =
     (case kilounits of
        None \<Rightarrow> None
      | Some k \<Rightarrow>
          if k = 0 then Some 0
          else (let units = dbl (k * 1000) in
                case index_of unit sizes of
                  None \<Rightarrow> Some 0
                | Some i \<Rightarrow>
                    Some (dbl (of_int (math_round (dbl (dbl (units / 1000 ^ i) * 100))) / 100))))"

text \<open>\<open>average(arr)\<close> of an array of numbers.\<close>

definition average :: "rat list \<Rightarrow> rat" where
  "average arr =
     (if arr = [] then 0
      else dbl (foldl (\<lambda>memo num. dbl (memo + num)) 0 arr / of_nat (length arr)))"

section \<open>Rounding\<close>

lemma bits_bounds: "0 < n \<Longrightarrow> 2 ^ (bits n - 1) \<le> n \<and> n < 2 ^ bits n \<and> 0 < bits n"
proof (induction n rule: bits.induct)
  case (1 n)
  show ?case
  proof (cases "n div 2 = 0")
    case True
    then have "n = 1" using 1(2) by simp
    then show ?thesis by (simp add: bits.simps)
  next
    case False
    then have ih: "2 ^ (bits (n div 2) - 1) \<le> n div 2" "n div 2 < 2 ^ bits (n div 2)" "0 < bits (n div 2)"
      using 1 by auto
    have b: "bits n = Suc (bits (n div 2))" using 1(2) by (subst bits.simps) simp
    obtain j where j: "bits (n div 2) = Suc j" using ih(3) by (cases "bits (n div 2)") auto
    then show ?thesis using ih b by simp linarith
  qed
qed

lemma pow2_pos [simp]: "0 < pow2 k"
  by (simp add: pow2_def)

lemma pow2_add: "pow2 (a + b) = pow2 a * pow2 b"
proof -
  have e: "pow2 k = 2 powi k" for k by (simp add: pow2_def power_int_def field_simps)
  show ?thesis unfolding e by (simp add: power_int_add)
qed

lemma pow2_simps: "pow2 0 = 1" "pow2 1 = 2" "pow2 52 = 4503599627370496" "pow2 (- 52) = 1 / 4503599627370496"
  by (simp_all add: pow2_def)

lemma pow2_nat: "pow2 (int n) = 2 ^ n"
  by (simp add: pow2_def)

lemma exponent_bounds:
  assumes "0 < x"
  shows "pow2 (exponent x) \<le> x \<and> x < pow2 (exponent x + 1)"
proof -
  obtain p q where pq: "quotient_of x = (p, q)" by fastforce
  have q: "0 < q" using quotient_of_denom_pos [OF pq] .
  have x: "x = of_int p / of_int q" using quotient_of_div [OF pq] .
  have p: "0 < p" using assms q x by (simp add: zero_less_divide_iff)
  define a where "a = bits (nat p)"
  define b where "b = bits (nat q)"
  have pa: "2 ^ (a - 1) \<le> nat p" "nat p < 2 ^ a" "0 < a" using bits_bounds [of "nat p"] p by (simp_all add: a_def)
  have qb: "2 ^ (b - 1) \<le> nat q" "nat q < 2 ^ b" "0 < b" using bits_bounds [of "nat q"] q by (simp_all add: b_def)
  have P: "pow2 (int a - 1) \<le> of_int p" "of_int p < pow2 (int a)"
  proof -
    have "pow2 (int a - 1) = of_nat (2 ^ (a - 1))" using pa(3) by (simp add: pow2_nat [symmetric] of_nat_diff)
    also have "\<dots> \<le> of_nat (nat p)" using pa(1) by (rule of_nat_mono)
    finally show "pow2 (int a - 1) \<le> of_int p" using p by simp
    have "of_nat (nat p) < (of_nat (2 ^ a) :: rat)" using pa(2) by (simp only: of_nat_less_iff)
    then show "of_int p < pow2 (int a)" using p by (simp add: pow2_nat)
  qed
  have Q: "pow2 (int b - 1) \<le> of_int q" "of_int q < pow2 (int b)"
  proof -
    have "pow2 (int b - 1) = of_nat (2 ^ (b - 1))" using qb(3) by (simp add: pow2_nat [symmetric] of_nat_diff)
    also have "\<dots> \<le> of_nat (nat q)" using qb(1) by (rule of_nat_mono)
    finally show "pow2 (int b - 1) \<le> of_int q" using q by simp
    have "of_nat (nat q) < (of_nat (2 ^ b) :: rat)" using qb(2) by (simp only: of_nat_less_iff)
    then show "of_int q < pow2 (int b)" using q by (simp add: pow2_nat)
  qed
  define e where "e = int a - int b"
  have lo: "pow2 (e - 1) \<le> x"
  proof -
    have "pow2 (e - 1) * of_int q \<le> pow2 (e - 1) * pow2 (int b)"
      using Q(2) by (intro mult_left_mono) (simp_all add: less_imp_le)
    also have "\<dots> = pow2 (int a - 1)" by (simp add: pow2_add [symmetric] e_def)
    finally show ?thesis using P(1) q x by (simp add: le_divide_eq)
  qed
  have hi: "x < pow2 (e + 1)"
  proof -
    have "of_int p < pow2 (e + 1) * pow2 (int b - 1)" using P(2) by (simp add: pow2_add [symmetric] e_def)
    also have "\<dots> \<le> pow2 (e + 1) * of_int q" using Q(1) by (intro mult_left_mono) (simp_all add: less_imp_le)
    finally show ?thesis using q x by (simp add: divide_less_eq)
  qed
  have ex: "exponent x = (if pow2 e \<le> x then e else e - 1)"
    by (simp add: exponent_def pq Let_def e_def a_def b_def)
  show ?thesis using lo hi by (auto simp: ex)
qed

lemma round_even_close: "\<bar>of_int (round_even x) - x\<bar> \<le> 1 / 2"
proof -
  define f where "f = \<lfloor>x\<rfloor>"
  have "of_int f \<le> x" "x < of_int f + 1" unfolding f_def by linarith+
  then show ?thesis by (auto simp: round_even_def Let_def f_def [symmetric] abs_le_iff)
qed

lemma dbl_pos_close:
  assumes "0 < x"
  shows "\<bar>dbl_pos x - x\<bar> \<le> x / 2 ^ 53"
proof -
  define e where "e = exponent x"
  define y where "y = x * pow2 (52 - e)"
  have x: "x = y * pow2 (e - 52)"
    by (simp add: y_def mult.assoc pow2_add [symmetric] pow2_simps)
  have "dbl_pos x - x = (of_int (round_even y) - y) * pow2 (e - 52)"
    by (simp add: dbl_pos_def Let_def e_def [symmetric] y_def [symmetric] x [symmetric] left_diff_distrib)
  then have "\<bar>dbl_pos x - x\<bar> = \<bar>of_int (round_even y) - y\<bar> * pow2 (e - 52)"
    by (simp add: abs_mult abs_of_pos)
  also have "\<dots> \<le> 1 / 2 * pow2 (e - 52)"
    using round_even_close [of y] by (intro mult_right_mono) (simp_all add: less_imp_le)
  also have "\<dots> = pow2 e / 2 ^ 53"
    using pow2_add [of e "- 52"] by (simp add: pow2_simps)
  also have "\<dots> \<le> x / 2 ^ 53"
    using exponent_bounds [OF assms] by (intro divide_right_mono) (simp_all add: e_def)
  finally show ?thesis .
qed

text \<open>The error of one operation is at most 2 to the -53 of its exact result.\<close>

lemma dbl_close: "\<bar>dbl x - x\<bar> \<le> \<bar>x\<bar> / 2 ^ 53"
  using dbl_pos_close [of x] dbl_pos_close [of "- x"] by (auto simp: dbl_def abs_if split: if_splits)

lemma index_of_nth: "distinct ts \<Longrightarrow> i < length ts \<Longrightarrow> index_of (ts ! i) ts = Some i"
proof (induction ts arbitrary: i)
  case (Cons t ts)
  then show ?case by (cases i) auto
qed simp

lemma sizes_distinct: "distinct sizes"
  by (simp add: sizes_def)

lemma math_round_close: "\<bar>of_int (math_round x) - x\<bar> \<le> 1 / 2"
  unfolding math_round_def abs_le_iff by linarith

lemma triangle3: "\<bar>a - b\<bar> \<le> d \<Longrightarrow> \<bar>b - c\<bar> \<le> e \<Longrightarrow> \<bar>a - c\<bar> \<le> d + e" for a :: rat
  by linarith

lemma abs_near: "\<bar>a - b\<bar> \<le> d \<Longrightarrow> \<bar>a\<bar> \<le> \<bar>b\<bar> + d" for a :: rat
  by linarith

text \<open>One more rounded step: the double nearest to \<open>c y\<close>, where \<open>y\<close> is near \<open>x\<close>.\<close>

lemma dbl_step:
  fixes c :: rat
  assumes "\<bar>y - x\<bar> \<le> d" "0 < c"
  shows "\<bar>dbl (c * y) - c * x\<bar> \<le> c * (d + (\<bar>x\<bar> + d) / 2 ^ 53)"
proof -
  have "\<bar>dbl (c * y) - c * y\<bar> \<le> c * \<bar>y\<bar> / 2 ^ 53"
    using dbl_close [of "c * y"] assms(2) by (simp add: abs_mult)
  moreover have "c * \<bar>y\<bar> \<le> c * (\<bar>x\<bar> + d)"
    using abs_near [OF assms(1)] assms(2) by (intro mult_left_mono) simp_all
  ultimately have "\<bar>dbl (c * y) - c * y\<bar> \<le> c * (\<bar>x\<bar> + d) / 2 ^ 53"
    by (meson divide_right_mono order_trans zero_le_power zero_le_numeral)
  moreover have "\<bar>c * y - c * x\<bar> \<le> c * d"
    using assms by (simp add: abs_mult right_diff_distrib [symmetric])
  ultimately show ?thesis using triangle3 by (fastforce simp: algebra_simps add_divide_distrib)
qed

text \<open>A value that is not a number is \<open>null\<close>, an unknown unit gives 0, and halves can be lost: 1.005
  gigabits are 1, because the product with 100 is below 100.5.\<close>

lemma convertTo_edges:
  "convertTo None unit = None" "convertTo (Some 0) unit = Some 0"
  "unit \<notin> set sizes \<Longrightarrow> convertTo (Some k) unit = Some 0"
proof -
  have "unit \<notin> set ts \<Longrightarrow> index_of unit ts = None" for ts by (induction ts) auto
  then show "unit \<notin> set sizes \<Longrightarrow> convertTo (Some k) unit = Some 0"
    by (simp add: convertTo_def Let_def)
qed (simp_all add: convertTo_def)

lemma pow2_strict: "a < b \<Longrightarrow> pow2 (a + 1) \<le> pow2 b"
proof -
  assume "a < b"
  then obtain n where n: "b = int n + (a + 1)" by (metis add.commute zle_iff_zadd zless_imp_add1_zle)
  have "1 * pow2 (a + 1) \<le> pow2 (int n) * pow2 (a + 1)"
    by (intro mult_right_mono) (simp_all add: pow2_nat less_imp_le)
  then show ?thesis unfolding n pow2_add by simp
qed

lemma dbl_at:
  assumes "pow2 e \<le> x" "x < pow2 (e + 1)"
  shows "dbl x = of_int (round_even (x * pow2 (52 - e))) * pow2 (e - 52)"
proof -
  have x: "0 < x" using assms(1) pow2_pos [of e] by linarith
  note b = exponent_bounds [OF x]
  have "\<not> e < exponent x" using pow2_strict [of e "exponent x"] b assms by linarith
  moreover have "\<not> exponent x < e" using pow2_strict [of "exponent x" e] b assms by linarith
  ultimately have "exponent x = e" by simp
  then show ?thesis using x by (simp add: dbl_def dbl_pos_def Let_def)
qed

lemma half_lost: "convertTo (Some 1005000) ''Gb'' = Some 1"
proof -
  have f: "\<lfloor>113152940637683712 / 25 :: rat\<rfloor> = 4526117625507348"
    "\<lfloor>28288235159420925 / 4 :: rat\<rfloor> = 7072058789855231"
    by (rule floor_unique; simp)+
  have a: "dbl (1005000 * 1000) = 1005000000"
    by (subst dbl_at [where e = 29]) (simp_all add: pow2_def round_even_def Let_def)
  have b: "dbl (1005000000 / 1000 ^ 3) = 4526117625507348 / 4503599627370496"
    by (subst dbl_at [where e = 0]) (simp_all add: pow2_def round_even_def Let_def f)
  have c: "dbl (4526117625507348 / 4503599627370496 * 100) = 7072058789855231 / 70368744177664"
    by (subst dbl_at [where e = 6]) (simp_all add: pow2_def round_even_def Let_def f)
  have d: "math_round (7072058789855231 / 70368744177664) = 100"
    unfolding math_round_def by (rule floor_unique) simp_all
  have e: "dbl (of_int 100 / 100) = 1"
    by (subst dbl_at [where e = 0]) (simp_all add: pow2_def round_even_def Let_def)
  have i: "index_of ''Gb'' sizes = Some 3" by (simp add: sizes_def)
  have "convertTo (Some 1005000) ''Gb'' =
      Some (dbl (of_int (math_round (dbl (dbl (dbl (1005000 * 1000) / 1000 ^ 3) * 100))) / 100))"
    unfolding convertTo_def Let_def i by simp
  then show ?thesis unfolding a b c d e .
qed

section \<open>Properties\<close>

text \<open>C26. \<open>convertTo\<close> is accurate to half a hundredth of the unit, and the rounding of the doubles
  adds at most 2 to the -50 of the value.\<close>

theorem convertTo_error:
  assumes "i < length sizes"
  shows "\<exists>r. convertTo (Some k) (sizes ! i) = Some r \<and>
    \<bar>r - k * 1000 / 1000 ^ i\<bar> \<le> 1 / 200 + (\<bar>k * 1000 / 1000 ^ i\<bar> + 1) / 2 ^ 50"
proof (cases "k = 0")
  case True
  then show ?thesis by (simp add: convertTo_def)
next
  case False
  define x where "x = k * 1000 / 1000 ^ i"
  define u where "u = dbl (1000 * k)"
  define q where "q = dbl (1 / 1000 ^ i * u)"
  define p where "p = dbl (100 * q)"
  define r where "r = dbl (1 / 100 * of_int (math_round p))"
  have idx: "index_of (sizes ! i) sizes = Some i" using sizes_distinct assms by (rule index_of_nth)
  have r: "convertTo (Some k) (sizes ! i) = Some r"
    using False idx by (simp add: convertTo_def Let_def r_def p_def q_def u_def mult.commute)
  let ?a = "\<bar>x\<bar>"
  have s1: "\<bar>u - 1000 * k\<bar> \<le> \<bar>1000 * k\<bar> / 2 ^ 53"
    unfolding u_def by (rule dbl_close)
  define c where "c = (1 / 1000 ^ i :: rat)"
  have c: "0 < c" "c * (1000 * k) = x" by (simp_all add: c_def x_def)
  have ca: "c * \<bar>1000 * k\<bar> = ?a"
    using c by (simp add: abs_mult [symmetric] flip: c(2)) (simp add: abs_mult)
  define e where "e = (1 / 2 ^ 53 + (1 + 1 / 2 ^ 53) / 2 ^ 53 :: rat)"
  have "\<bar>dbl (c * u) - c * (1000 * k)\<bar> \<le>
      c * (\<bar>1000 * k\<bar> / 2 ^ 53 + (\<bar>1000 * k\<bar> + \<bar>1000 * k\<bar> / 2 ^ 53) / 2 ^ 53)"
    using s1 c(1) by (rule dbl_step)
  also have "\<dots> = c * \<bar>1000 * k\<bar> * e" by (simp add: e_def field_simps)
  finally have "\<bar>dbl (c * u) - x\<bar> \<le> ?a * e" unfolding ca c(2) .
  then have s2: "\<bar>q - x\<bar> \<le> ?a * e" unfolding q_def c_def .
  have s3: "\<bar>p - 100 * x\<bar> \<le> 100 * (?a * e + (?a + ?a * e) / 2 ^ 53)"
    unfolding p_def using s2 by (rule dbl_step) simp
  define D where "D = 1 / 2 + 100 * (?a * e + (?a + ?a * e) / 2 ^ 53)"
  have s4: "\<bar>of_int (math_round p) - 100 * x\<bar> \<le> D"
    unfolding D_def using math_round_close s3 by (rule triangle3)
  have "\<bar>r - 1 / 100 * (100 * x)\<bar> \<le> 1 / 100 * (D + (\<bar>100 * x\<bar> + D) / 2 ^ 53)"
    unfolding r_def using s4 by (rule dbl_step) simp
  also have "\<bar>100 * x\<bar> = 100 * ?a" by (simp add: abs_mult)
  finally have "\<bar>r - x\<bar> \<le> 1 / 100 * (D + (100 * ?a + D) / 2 ^ 53)" by simp
  also have "\<dots> \<le> 1 / 200 + (?a + 1) / 2 ^ 50" by (simp add: D_def e_def field_simps)
  finally show ?thesis unfolding r x_def by blast
qed

theorem convertTo_error_witness:
  "\<exists>r. convertTo (Some 123456) (sizes ! 3) = Some r \<and>
    \<bar>r - 123456 * 1000 / 1000 ^ 3\<bar> \<le> 1 / 200 + (\<bar>123456 * 1000 / 1000 ^ 3\<bar> + 1) / 2 ^ 50"
  by (rule convertTo_error) (simp add: sizes_def)

end
