(* ===== verification/Dashboard.thy ===== *)
theory Dashboard
  imports Frames Numbers
begin

text \<open>
  The dashboard: its controller (\<open>modules/private/dashboard/DashboardController.js\<close>), the widgets for
  capacity, routing, cache groups and change logs, one chart for every CDN
  (\<open>common/modules/widget/\<close>), and their life on the page.

  Each controller polls: it asks once when it is created, starts an interval, and cancels it when
  its scope is destroyed.  The state holds the intervals that run, the variables of the controllers
  that hold their numbers, the requests that have no answer yet with the promise each waits for,
  and the scopes.  A history of the page is a list of events: an interval fires, an answer arrives
  (any outstanding one), a chart learns that the document is ready, a delayed plot falls due, the
  window is resized, the page is left.

  What Angular, moment and flot compute is a field of \<open>site\<close>, which nothing writes: the filter
  \<open>number\<close>, reading and printing a time, the clock, and the ids of CDNs in the page.
\<close>

section \<open>State\<close>

datatype poller = PHealth | PStats | PCount | PCapacity | PRouting | PGroups | PChart nat

datatype request =
    RStats
  | RHealth
  | RCount
  | RCapacity
  | RRouting
  | RGroups
  | RCdn nat
  | RChartStats nat js
  | RChartData nat int

record site =
  numberFilter :: "js \<Rightarrow> nat \<Rightarrow> js"
  momentOf :: "js \<Rightarrow> int"
  momentFormat :: "int \<Rightarrow> string"
  clockAt :: "nat \<Rightarrow> int"
  cdnIdOf :: "nat \<Rightarrow> js"
  autoRefresh :: bool

type_synonym point = "int \<times> rat option"

record chart =
  chartCdn :: js
  chartStats :: js
  bandwidthChartData :: "point list"
  connectionsChartData :: "point list"
  chartSeries :: "(point list \<times> point list) option"
  resizeListeners :: nat
  plots :: nat

record dash =
  portal :: world
  ticking :: "(nat \<times> poller) list"
  nextId :: nat
  vars :: "poller \<Rightarrow> nat option"
  inflight :: "(request \<times> later) list"
  totals :: "string \<Rightarrow> js"
  serverCount :: js
  capacity :: "string \<Rightarrow> js"
  capacityPie :: "(string \<times> string \<times> js) list option"
  routing :: "string \<Rightarrow> js"
  groupsHealth :: "js option"
  charts :: "nat \<Rightarrow> chart"
  chartCount :: nat
  readyCharts :: "nat set"
  left :: bool
  chartIds :: "nat \<Rightarrow> js"
  delayedPlots :: "nat list"

section \<open>Intervals\<close>

definition running_of :: "poller \<Rightarrow> dash \<Rightarrow> nat list" where
  "running_of p d = map fst (filter (\<lambda>(i, q). q = p) (ticking d))"

text \<open>\<open>killInterval\<close> and \<open>createInterval\<close> of a controller, for each variable that holds an interval.\<close>

definition kill_interval :: "poller \<Rightarrow> dash \<Rightarrow> dash" where
  "kill_interval p d =
     (case vars d p of
        None \<Rightarrow> d
      | Some i \<Rightarrow>
          d\<lparr>ticking := filter (\<lambda>(j, q). j \<noteq> i) (ticking d), vars := (vars d)(p := None)\<rparr>)"

definition start_interval :: "poller \<Rightarrow> dash \<Rightarrow> dash" where
  "start_interval p d =
     d\<lparr>ticking := (nextId d, p) # ticking d, nextId := Suc (nextId d),
       vars := (vars d)(p := Some (nextId d))\<rparr>"

definition create_interval :: "poller \<Rightarrow> dash \<Rightarrow> dash" where
  "create_interval p d = start_interval p (kill_interval p d)"

text \<open>The dashboard's own three intervals.\<close>

definition killIntervals :: "dash \<Rightarrow> dash" where
  "killIntervals d = kill_interval PCount (kill_interval PStats (kill_interval PHealth d))"

definition createIntervals :: "dash \<Rightarrow> dash" where
  "createIntervals d =
     start_interval PCount (start_interval PStats (start_interval PHealth (killIntervals d)))"

section \<open>Requests\<close>

definition request_by :: "request \<Rightarrow> op \<Rightarrow> dash \<Rightarrow> dash" where
  "request_by r p d =
     (case p (portal d) of (l, w) \<Rightarrow> d\<lparr>portal := w, inflight := inflight d @ [(r, l)]\<rparr>)"

definition dash_getCacheGroupHealth :: "dash \<Rightarrow> dash" where
  "dash_getCacheGroupHealth = request_by RHealth getCacheGroupHealth"

definition dash_getCurrentStats :: "dash \<Rightarrow> dash" where
  "dash_getCurrentStats = request_by RStats getCurrentStats"

definition dash_getServerCount :: "dash \<Rightarrow> dash" where
  "dash_getServerCount = request_by RCount getEdgeStatusCount"

definition widget_getCapacity :: "dash \<Rightarrow> dash" where
  "widget_getCapacity = request_by RCapacity getCapacity"

definition widget_getRoutingMethods :: "dash \<Rightarrow> dash" where
  "widget_getRoutingMethods = request_by RRouting getRoutingMethods"

definition widget_getCacheGroupHealth :: "dash \<Rightarrow> dash" where
  "widget_getCacheGroupHealth = request_by RGroups getCacheGroupHealth"

definition chart_getCDN :: "nat \<Rightarrow> js \<Rightarrow> dash \<Rightarrow> dash" where
  "chart_getCDN n i = request_by (RCdn n) (getCDN i)"

definition chart_getCurrentStats :: "nat \<Rightarrow> js \<Rightarrow> dash \<Rightarrow> dash" where
  "chart_getCurrentStats n cdnName = request_by (RChartStats n cdnName) getCurrentStats"

text \<open>\<open>moment().subtract(1, 'days')\<close> and \<open>moment().subtract(10, 'seconds')\<close>; the service sets the
  seconds of both to 0 in place, so the chart compares with the truncated start.\<close>

definition seconds_zero :: "int \<Rightarrow> int" where
  "seconds_zero t = t - (t div 1000) mod 60 * 1000"

definition chart_getChartData :: "site \<Rightarrow> nat \<Rightarrow> js \<Rightarrow> dash \<Rightarrow> dash" where
  "chart_getChartData s n cdnName d =
     (let now = clockAt s (length (sent (portal d)));
          start = seconds_zero (now - 86400000);
          end' = seconds_zero (now - 10000);
          name = to_str cdnName
      in request_by (RChartData n start)
           (q_all [getBandwidth name (momentFormat s start) (momentFormat s end'),
                   getConnections name (momentFormat s start) (momentFormat s end')]) d)"

section \<open>Answers\<close>

definition put_total :: "string \<Rightarrow> js \<Rightarrow> dash \<Rightarrow> dash" where
  "put_total k v d = d\<lparr>totals := (totals d)(k := v)\<rparr>"

definition on_health :: "site \<Rightarrow> outcome \<Rightarrow> dash \<Rightarrow> dash" where
  "on_health s r d =
     (case r of
        Fulfilled result \<Rightarrow>
          (let d1 = put_total ''cacheGroupHealth'' result d in
           case getp result ''totalOnline'' of
             None \<Rightarrow> d1
           | Some on \<Rightarrow>
               put_total ''totalOffline'' (numberFilter s (fld result ''totalOffline'') 0)
                 (put_total ''totalOnline'' (numberFilter s on 0) d1))
      | Rejected e \<Rightarrow>
          put_total ''totalOffline'' (JStr ''Error'') (put_total ''totalOnline'' (JStr ''Error'') d)
      | Pending \<Rightarrow> d)"

text \<open>\<open>_.find(result.currentStats, function(item) { return item.cdn == name; })\<close>: \<open>None\<close> when the
  predicate throws, \<open>undefined\<close> when no item satisfies it.\<close>

fun find_cdn :: "js list \<Rightarrow> js \<Rightarrow> js option" where
  "find_cdn [] name = Some JUndef"
| "find_cdn (x # xs) name =
     (case getp x ''cdn'' of
        None \<Rightarrow> None
      | Some c \<Rightarrow> if js_eq c name then Some x else find_cdn xs name)"

definition stats_of :: "js \<Rightarrow> js \<Rightarrow> js option" where
  "stats_of result name =
     (case getp result ''currentStats'' of None \<Rightarrow> None | Some xs \<Rightarrow> find_cdn (elems xs) name)"

definition on_stats :: "site \<Rightarrow> outcome \<Rightarrow> dash \<Rightarrow> dash" where
  "on_stats s r d =
     (case r of
        Fulfilled result \<Rightarrow>
          (case stats_of result (JStr ''total'') of
             None \<Rightarrow> d
           | Some t \<Rightarrow>
               (case getp t ''bandwidth'' of
                  None \<Rightarrow> d
                | Some b \<Rightarrow>
                    put_total ''totalConnections'' (numberFilter s (fld t ''connections'') 0)
                      (put_total ''totalBandwidth'' (JStr (to_str (numberFilter s b 2) @ '' Gbps'')) d)))
      | Rejected e \<Rightarrow>
          put_total ''totalConnections'' (JStr ''Error'')
            (put_total ''totalBandwidth'' (JStr ''Error'') d)
      | Pending \<Rightarrow> d)"

definition on_count :: "outcome \<Rightarrow> dash \<Rightarrow> dash" where
  "on_count r d = (case r of Fulfilled result \<Rightarrow> d\<lparr>serverCount := result\<rparr> | _ \<Rightarrow> d)"

definition capacity_pie :: "(string \<Rightarrow> js) \<Rightarrow> (string \<times> string \<times> js) list" where
  "capacity_pie c =
     [(''Available'', ''#1ABB9C'', c ''availablePercent''),
      (''Utilized'', ''#3498DB'', c ''utilizedPercent''),
      (''Maintenance'', ''#73879C'', c ''maintenancePercent''),
      (''Down'', ''#E74C3C'', c ''unavailablePercent'')]"

definition on_capacity :: "outcome \<Rightarrow> dash \<Rightarrow> dash" where
  "on_capacity r d =
     (case r of
        Fulfilled response \<Rightarrow>
          (case getp response ''availablePercent'' of
             None \<Rightarrow> d
           | Some a \<Rightarrow>
               (let c = (capacity d)(''availablePercent'' := a,
                          ''utilizedPercent'' := fld response ''utilizedPercent'',
                          ''maintenancePercent'' := fld response ''maintenancePercent'',
                          ''unavailablePercent'' := fld response ''unavailablePercent'')
                in d\<lparr>capacity := c, capacityPie := Some (capacity_pie c)\<rparr>))
      | _ \<Rightarrow> d)"

definition on_routing :: "outcome \<Rightarrow> dash \<Rightarrow> dash" where
  "on_routing r d =
     (case r of
        Fulfilled response \<Rightarrow>
          (case getp response ''cz'' of
             None \<Rightarrow> d
           | Some cz \<Rightarrow>
               d\<lparr>routing := (routing d)(''native'' := cz, ''thirdParty'' := fld response ''geo'',
                   ''federated'' := fld response ''fed'', ''miss'' := fld response ''miss'',
                   ''static'' := fld response ''staticRoute'', ''dsr'' := fld response ''dsr'',
                   ''error'' := fld response ''err'',
                   ''regionalAlternate'' := fld response ''regionalAlternate'',
                   ''regionalDenied'' := fld response ''regionalDenied'')\<rparr>)
      | _ \<Rightarrow> d)"

definition on_groups :: "outcome \<Rightarrow> dash \<Rightarrow> dash" where
  "on_groups r d = (case r of Fulfilled result \<Rightarrow> d\<lparr>groupsHealth := Some result\<rparr> | _ \<Rightarrow> d)"

section \<open>Charts\<close>

definition put_chart :: "nat \<Rightarrow> (chart \<Rightarrow> chart) \<Rightarrow> dash \<Rightarrow> dash" where
  "put_chart n f d = d\<lparr>charts := (charts d)(n := f (charts d n))\<rparr>"

definition plotChart :: "chart \<Rightarrow> chart" where
  "plotChart c = (if chartSeries c = None then c else c\<lparr>plots := Suc (plots c)\<rparr>)"

definition buildChart :: "point list \<Rightarrow> point list \<Rightarrow> chart \<Rightarrow> chart" where
  "buildChart b k c = plotChart (c\<lparr>chartSeries := Some (b, k)\<rparr>)"

definition registerResizeListener :: "chart \<Rightarrow> chart" where
  "registerResizeListener c = c\<lparr>resizeListeners := Suc (resizeListeners c)\<rparr>"

fun number_of :: "js \<Rightarrow> rat option" where
  "number_of (JNum n) = Some (of_int n)"
| "number_of _ = None"

fun item_at :: "js \<Rightarrow> nat \<Rightarrow> js" where
  "item_at (JArr xs) i = (if i < length xs then xs ! i else JUndef)"
| "item_at _ i = JUndef"

text \<open>The points of a series from the start on, the bandwidth in gigabits; a value of the bandwidth
  that is not a number becomes \<open>null\<close>, one of the connections is left out.\<close>

definition since :: "site \<Rightarrow> int \<Rightarrow> js \<Rightarrow> js list" where
  "since s start series =
     filter (\<lambda>x. start \<le> momentOf s (item_at x 0)) (elems (fld series ''values''))"

definition buildBandwidthChartData :: "site \<Rightarrow> js \<Rightarrow> int \<Rightarrow> point list" where
  "buildBandwidthChartData s series start =
     map (\<lambda>x. (momentOf s (item_at x 0), convertTo (number_of (item_at x 1)) ''Gb''))
       (since s start series)"

definition buildConnectionsChartData :: "site \<Rightarrow> js \<Rightarrow> int \<Rightarrow> point list" where
  "buildConnectionsChartData s series start =
     map (\<lambda>x. (momentOf s (item_at x 0), number_of (item_at x 1)))
       (filter (\<lambda>x. number_of (item_at x 1) \<noteq> None) (since s start series))"

definition on_cdn :: "site \<Rightarrow> nat \<Rightarrow> outcome \<Rightarrow> dash \<Rightarrow> dash" where
  "on_cdn s n r d =
     (case r of
        Fulfilled result \<Rightarrow>
          (let d1 = put_chart n (\<lambda>c. registerResizeListener (c\<lparr>chartCdn := result\<rparr>)) d in
           case getp result ''name'' of
             None \<Rightarrow> d1
           | Some name \<Rightarrow> chart_getChartData s n name (chart_getCurrentStats n name d1))
      | _ \<Rightarrow> d)"

definition on_chart_stats :: "nat \<Rightarrow> js \<Rightarrow> outcome \<Rightarrow> dash \<Rightarrow> dash" where
  "on_chart_stats n name r d =
     (case r of
        Fulfilled result \<Rightarrow>
          (case stats_of result name of
             None \<Rightarrow> d
           | Some t \<Rightarrow> put_chart n (\<lambda>c. c\<lparr>chartStats := t\<rparr>) d)
      | _ \<Rightarrow> d)"

text \<open>The data is kept when the answer has no series; the plot is drawn 100 ms later, from what the
  data is then.\<close>

definition on_chart_data :: "site \<Rightarrow> nat \<Rightarrow> int \<Rightarrow> outcome \<Rightarrow> dash \<Rightarrow> dash" where
  "on_chart_data s n start r d =
     (case r of
        Fulfilled responses \<Rightarrow>
          (case getp (item_at responses 0) ''series'' of
             None \<Rightarrow> d
           | Some bs \<Rightarrow>
               (let d1 = (if truthy bs
                          then put_chart n (\<lambda>c. c\<lparr>bandwidthChartData :=
                                 buildBandwidthChartData s bs start\<rparr>) d
                          else d)
                in case getp (item_at responses 1) ''series'' of
                     None \<Rightarrow> d1
                   | Some ks \<Rightarrow>
                       (let d2 = (if truthy ks
                                  then put_chart n (\<lambda>c. c\<lparr>connectionsChartData :=
                                         buildConnectionsChartData s ks start\<rparr>) d1
                                  else d1)
                        in d2\<lparr>delayedPlots := delayedPlots d2 @ [n]\<rparr>)))
      | Rejected fault \<Rightarrow> put_chart n (buildChart [] []) d
      | Pending \<Rightarrow> d)"

definition answered :: "site \<Rightarrow> request \<Rightarrow> outcome \<Rightarrow> dash \<Rightarrow> dash" where
  "answered s q r d =
     (case q of
        RStats \<Rightarrow> on_stats s r d
      | RHealth \<Rightarrow> on_health s r d
      | RCount \<Rightarrow> on_count r d
      | RCapacity \<Rightarrow> on_capacity r d
      | RRouting \<Rightarrow> on_routing r d
      | RGroups \<Rightarrow> on_groups r d
      | RCdn n \<Rightarrow> on_cdn s n r d
      | RChartStats n name \<Rightarrow> on_chart_stats n name r d
      | RChartData n start \<Rightarrow> on_chart_data s n start r d)"

section \<open>The life of the page\<close>

text \<open>What the template reads: \<open>online()\<close>, \<open>offline()\<close>, \<open>reported()\<close>, \<open>adminDown()\<close> with the state of
  the servers; the widget of the cache groups shows its own value once it has one, and before that
  the one of the dashboard, whose scope it inherits.\<close>

definition count_of :: "site \<Rightarrow> string \<Rightarrow> dash \<Rightarrow> js option" where
  "count_of s k d =
     (case getp (serverCount d) k of
        None \<Rightarrow> None
      | Some n \<Rightarrow> Some (if truthy n then numberFilter s n 0 else JNum 0))"

definition shown_health :: "dash \<Rightarrow> js" where
  "shown_health d =
     (case groupsHealth d of Some h \<Rightarrow> h | None \<Rightarrow> totals d ''cacheGroupHealth'')"

text \<open>\<open>onlinePercent(location)\<close>, unless both counts are 0.\<close>

definition onlinePercent :: "rat \<Rightarrow> rat \<Rightarrow> rat" where
  "onlinePercent up down = dbl (dbl (up / dbl (up + down)) * 100)"

text \<open>\<open>init\<close> of the controllers.\<close>

definition init_dashboard :: "site \<Rightarrow> dash \<Rightarrow> dash" where
  "init_dashboard s d =
     (let d1 = dash_getCacheGroupHealth (dash_getCurrentStats d)
      in if autoRefresh s then createIntervals d1 else d1)"

definition init_capacity :: "site \<Rightarrow> dash \<Rightarrow> dash" where
  "init_capacity s d =
     (let d1 = widget_getCapacity d in if autoRefresh s then create_interval PCapacity d1 else d1)"

definition init_routing :: "site \<Rightarrow> dash \<Rightarrow> dash" where
  "init_routing s d =
     (let d1 = widget_getRoutingMethods d
      in if autoRefresh s then create_interval PRouting d1 else d1)"

definition init_groups :: "site \<Rightarrow> js \<Rightarrow> dash \<Rightarrow> dash" where
  "init_groups s cacheGroupHealth d =
     (let d1 = (if truthy cacheGroupHealth then d\<lparr>groupsHealth := Some cacheGroupHealth\<rparr> else d)
      in if autoRefresh s then create_interval PGroups d1 else d1)"

text \<open>The chart of a CDN learns that the document is ready, looks its id up and starts.\<close>

definition chart_ready :: "site \<Rightarrow> nat \<Rightarrow> dash \<Rightarrow> dash" where
  "chart_ready s n d =
     (let cdnId = cdnIdOf s n;
          d1 = chart_getCDN n cdnId
                 (d\<lparr>readyCharts := insert n (readyCharts d), chartIds := (chartIds d)(n := cdnId)\<rparr>)
      in if autoRefresh s then create_interval (PChart n) d1 else d1)"

definition new_chart :: chart where
  "new_chart = \<lparr>chartCdn = JUndef, chartStats = JUndef, bandwidthChartData = [],
     connectionsChartData = [], chartSeries = None, resizeListeners = 0, plots = 0\<rparr>"

text \<open>The page as the resolved state creates it: \<open>count\<close> is what \<open>getEdgeStatusCount\<close> gave, and the
  route passes \<open>null\<close> to the widget of the cache groups.\<close>

definition new_dash :: "js \<Rightarrow> nat \<Rightarrow> world \<Rightarrow> dash" where
  "new_dash count cdns w =
     \<lparr>portal = w, ticking = [], nextId = 0, vars = (\<lambda>_. None), inflight = [],
      totals = (\<lambda>k. if k \<in> {''totalBandwidth'', ''totalConnections'', ''totalOnline'', ''totalOffline''}
                    then JStr ''Loading...'' else JUndef),
      serverCount = count,
      capacity = (\<lambda>k. if k \<in> {''availablePercent'', ''utilizedPercent'', ''maintenancePercent'',
                           ''unavailablePercent''} then JNum 0 else JUndef),
      capacityPie = None, routing = (\<lambda>_. JUndef), groupsHealth = None,
      charts = (\<lambda>_. new_chart), chartCount = cdns, readyCharts = {}, left = False,
      chartIds = (\<lambda>_. JUndef), delayedPlots = []\<rparr>"

definition open_dashboard :: "site \<Rightarrow> js \<Rightarrow> nat \<Rightarrow> world \<Rightarrow> dash" where
  "open_dashboard s count cdns w =
     init_groups s JNull (init_routing s (init_capacity s (init_dashboard s (new_dash count cdns w))))"

datatype dash_event = Fire nat | Arrive nat | Ready nat | Draw nat | Resize | Leave

text \<open>The callback of an interval.\<close>

definition fire :: "poller \<Rightarrow> dash \<Rightarrow> dash" where
  "fire p d =
     (case p of
        PHealth \<Rightarrow> dash_getCacheGroupHealth d
      | PStats \<Rightarrow> dash_getCurrentStats d
      | PCount \<Rightarrow> dash_getServerCount d
      | PCapacity \<Rightarrow> widget_getCapacity d
      | PRouting \<Rightarrow> widget_getRoutingMethods d
      | PGroups \<Rightarrow> widget_getCacheGroupHealth d
      | PChart n \<Rightarrow> chart_getCDN n (chartIds d n) d)"

text \<open>The scopes of the page are destroyed: every controller cancels what it holds.\<close>

definition destroy_scopes :: "dash \<Rightarrow> dash" where
  "destroy_scopes d =
     fold (\<lambda>n. kill_interval (PChart n)) [0..<chartCount d]
       (kill_interval PGroups (kill_interval PRouting (kill_interval PCapacity
         (killIntervals (d\<lparr>left := True\<rparr>)))))"

fun dash_step :: "site \<Rightarrow> dash_event \<Rightarrow> dash \<Rightarrow> dash" where
  "dash_step s (Fire k) d = (if k < length (ticking d) then fire (snd (ticking d ! k)) d else d)"
| "dash_step s (Arrive k) d =
     (if k < length (inflight d)
      then (case inflight d ! k of
              (q, l) \<Rightarrow>
                (case l (portal d) of
                   (r, w) \<Rightarrow> answered s q r
                     (d\<lparr>portal := w, inflight := take k (inflight d) @ drop (Suc k) (inflight d)\<rparr>)))
      else d)"
| "dash_step s (Ready n) d =
     (if n < chartCount d \<and> n \<notin> readyCharts d then chart_ready s n d else d)"
| "dash_step s (Draw k) d =
     (if k < length (delayedPlots d)
      then put_chart (delayedPlots d ! k)
             (\<lambda>c. buildChart (bandwidthChartData c) (connectionsChartData c) c)
             (d\<lparr>delayedPlots := take k (delayedPlots d) @ drop (Suc k) (delayedPlots d)\<rparr>)
      else d)"
| "dash_step s Resize d =
     d\<lparr>charts := (\<lambda>n. (plotChart ^^ resizeListeners (charts d n)) (charts d n))\<rparr>"
| "dash_step s Leave d = (if left d then d else destroy_scopes d)"

definition dash_run :: "site \<Rightarrow> dash_event list \<Rightarrow> dash \<Rightarrow> dash" where
  "dash_run s es d = fold (dash_step s) es d"

end
