(* ===== verification/Polling.thy ===== *)
theory Polling
  imports Dashboard
begin

text \<open>
  The life of the dashboard: each controller owns at most one interval, leaving the page cancels all
  that the page started, and what is still awaited dies out.  What the code does not take back are
  the handlers of window resizes, and the interval of a chart that learns only after the page is left
  that the document is ready.
\<close>

section \<open>Who runs which interval\<close>

lemma running_kill:
  "running_of p (kill_interval q d) =
     (case vars d q of None \<Rightarrow> running_of p d
      | Some i \<Rightarrow> filter (\<lambda>j. j \<noteq> i) (running_of p d))"
  by (auto simp: kill_interval_def running_of_def filter_map o_def split_def conj_commute
      split: option.splits intro!: arg_cong [where f = "map fst"] filter_cong)

lemma vars_kill: "vars (kill_interval q d) = (vars d)(q := None)"
  by (auto simp: kill_interval_def split: option.splits)

lemma running_start:
  "running_of p (start_interval q d) =
     (if p = q then nextId d # running_of p d else running_of p d)"
  by (simp add: start_interval_def running_of_def)

text \<open>Every controller's variable is the owner of its interval.\<close>

interpretation widget: interval_owner "running_of p" "\<lambda>d. vars d p" "create_interval p"
    "kill_interval p" for p
  by unfold_locales
    (simp_all add: vars_kill running_kill create_interval_def running_start,
     simp add: start_interval_def)

text \<open>Numbers are not used twice, and the variables know all intervals that run.\<close>

definition dash_ok :: "dash \<Rightarrow> bool" where
  "dash_ok d \<longleftrightarrow>
     distinct (map fst (ticking d)) \<and> (\<forall>i\<in>fst ` set (ticking d). i < nextId d) \<and>
     (\<forall>p. widget.owned p d)"

definition dash_frame where
  "dash_frame d = (ticking d, nextId d, vars d, chartCount d, readyCharts d, left d)"

lemma running_frame: "dash_frame d = dash_frame d' \<Longrightarrow> running_of p d = running_of p d'"
  by (simp add: dash_frame_def running_of_def)

lemma dash_ok_frame: "dash_frame d = dash_frame d' \<Longrightarrow> dash_ok d = dash_ok d'"
  by (simp add: dash_frame_def dash_ok_def widget.owned_def running_of_def)

lemma in_running: "(i, p) \<in> set (ticking d) \<longleftrightarrow> i \<in> set (running_of p d)"
  by (force simp: running_of_def)

lemma owned_by_other:
  assumes "dash_ok d" "vars d q = Some i" "p \<noteq> q"
  shows "i \<notin> set (running_of p d)"
proof
  assume "i \<in> set (running_of p d)"
  then have "(i, p) \<in> set (ticking d)" by (simp add: in_running)
  moreover have "(i, q) \<in> set (ticking d)"
    using assms by (simp add: in_running dash_ok_def widget.owned_def)
  moreover have "distinct (map fst (ticking d))" using assms(1) by (simp add: dash_ok_def)
  ultimately show False using assms(3) by (metis eq_key_imp_eq_value)
qed

lemma kill_others: "dash_ok d \<Longrightarrow> p \<noteq> q \<Longrightarrow> running_of p (kill_interval q d) = running_of p d"
  using owned_by_other [of d q _ p]
  by (auto simp: running_kill split: option.splits intro!: filter_True)

lemma dash_ok_kill:
  assumes "dash_ok d" shows "dash_ok (kill_interval q d)"
proof -
  have "widget.owned p (kill_interval q d)" for p
  proof (cases "p = q")
    case True
    then show ?thesis using assms widget.owned_kill [of q d] by (simp add: dash_ok_def)
  next
    case False
    then show ?thesis
      using assms kill_others [OF assms False] by (simp add: dash_ok_def widget.owned_def vars_kill)
  qed
  moreover have "distinct (map fst (ticking (kill_interval q d)))"
    "\<forall>i\<in>fst ` set (ticking (kill_interval q d)). i < nextId (kill_interval q d)"
    using assms by (auto simp: dash_ok_def kill_interval_def distinct_map_filter split: option.splits)
  ultimately show ?thesis by (simp add: dash_ok_def)
qed

lemma dash_ok_start:
  assumes "dash_ok d" "vars d q = None" shows "dash_ok (start_interval q d)"
proof -
  have "nextId d \<notin> fst ` set (ticking d)" using assms(1) by (auto simp: dash_ok_def)
  moreover have "widget.owned p (start_interval q d)" for p
    using assms by (auto simp: dash_ok_def widget.owned_def running_start)
      (simp_all add: start_interval_def)
  ultimately show ?thesis using assms(1) by (auto simp: dash_ok_def start_interval_def)
qed

lemma dash_ok_create: "dash_ok d \<Longrightarrow> dash_ok (create_interval q d)"
  unfolding create_interval_def by (intro dash_ok_start dash_ok_kill) (simp_all add: vars_kill)

lemma vars_start: "vars (start_interval q d) = (vars d)(q := Some (nextId d))"
  by (simp add: start_interval_def)

lemma dash_ok_createIntervals: "dash_ok d \<Longrightarrow> dash_ok (createIntervals d)"
  unfolding createIntervals_def killIntervals_def
  by (intro dash_ok_start dash_ok_kill) (simp_all add: vars_kill vars_start)

lemma dash_ok_killIntervals: "dash_ok d \<Longrightarrow> dash_ok (killIntervals d)"
  unfolding killIntervals_def by (intro dash_ok_kill)

section \<open>What requests and answers leave alone\<close>

lemma frame_request: "dash_frame (request_by r p d) = dash_frame d"
  by (simp add: dash_frame_def request_by_def split: prod.splits)

lemma frame_put: "dash_frame (put_total k v d) = dash_frame d" "dash_frame (put_chart n f d) = dash_frame d"
  by (simp_all add: dash_frame_def put_total_def put_chart_def)

lemma frame_chart_requests:
  "dash_frame (chart_getChartData s n x d) = dash_frame d" "dash_frame (chart_getCurrentStats n x d) = dash_frame d"
  by (simp_all add: chart_getChartData_def chart_getCurrentStats_def frame_request Let_def)

lemmas answer_defs =
  on_stats_def on_health_def on_count_def on_capacity_def on_routing_def on_groups_def on_cdn_def
  on_chart_stats_def on_chart_data_def

lemma frame_update:
  "dash_frame (d\<lparr>serverCount := a\<rparr>) = dash_frame d"
  "dash_frame (d\<lparr>capacity := b, capacityPie := c\<rparr>) = dash_frame d"
  "dash_frame (d\<lparr>routing := e\<rparr>) = dash_frame d" "dash_frame (d\<lparr>groupsHealth := f\<rparr>) = dash_frame d"
  "dash_frame (d\<lparr>delayedPlots := g\<rparr>) = dash_frame d" "dash_frame (d\<lparr>charts := h\<rparr>) = dash_frame d"
  "dash_frame (d\<lparr>portal := w, inflight := i\<rparr>) = dash_frame d"
  by (simp_all add: dash_frame_def)

lemma frame_answered: "dash_frame (answered s q r d) = dash_frame d"
  by (cases q; cases r)
     (simp_all add: answered_def answer_defs Let_def frame_put frame_chart_requests frame_update
        split: option.splits)

lemma frame_fire: "dash_frame (fire p d) = dash_frame d"
  by (cases p) (simp_all add: fire_def dash_getCacheGroupHealth_def dash_getCurrentStats_def
      dash_getServerCount_def widget_getCapacity_def widget_getRoutingMethods_def
      widget_getCacheGroupHealth_def chart_getCDN_def frame_request)

lemma dash_ok_life:
  "dash_ok (d\<lparr>left := j\<rparr>) = dash_ok d"
  "dash_ok (d\<lparr>readyCharts := k, chartIds := l\<rparr>) = dash_ok d"
  by (simp_all add: dash_ok_def widget.owned_def running_of_def)

lemma life_intervals:
  "chartCount (kill_interval p d) = chartCount d" "chartCount (create_interval p d) = chartCount d"
  "readyCharts (kill_interval p d) = readyCharts d" "readyCharts (create_interval p d) = readyCharts d"
  "left (kill_interval p d) = left d" "left (create_interval p d) = left d"
  by (simp_all add: kill_interval_def create_interval_def start_interval_def split: option.splits)

lemma dash_ok_request: "dash_ok (request_by r p d) = dash_ok d"
  by (rule dash_ok_frame) (rule frame_request)

lemma dash_ok_chart_ready: "dash_ok d \<Longrightarrow> dash_ok (chart_ready s n d)"
  by (simp add: chart_ready_def Let_def chart_getCDN_def dash_ok_create dash_ok_request dash_ok_life)

lemma dash_ok_fold_kill: "dash_ok d \<Longrightarrow> dash_ok (fold (\<lambda>n. kill_interval (PChart n)) ns d)"
  by (induction ns arbitrary: d) (simp_all add: dash_ok_kill)

lemma dash_ok_destroy: "dash_ok d \<Longrightarrow> dash_ok (destroy_scopes d)"
  unfolding destroy_scopes_def
  by (intro dash_ok_fold_kill dash_ok_kill dash_ok_killIntervals) (simp add: dash_ok_life)

lemma frame_arrive: "dash_frame (dash_step s (Arrive k) d) = dash_frame d"
  by (simp add: frame_answered frame_update split: prod.splits)

lemma frame_quiet:
  "dash_frame (dash_step s (Fire k) d) = dash_frame d" "dash_frame (dash_step s (Draw k) d) = dash_frame d"
  "dash_frame (dash_step s Resize d) = dash_frame d"
  by (simp_all add: frame_fire frame_put frame_update)

lemma dash_ok_step: "dash_ok d \<Longrightarrow> dash_ok (dash_step s e d)"
proof (cases e)
  case (Ready n)
  then show "dash_ok d \<Longrightarrow> ?thesis" by (simp add: dash_ok_chart_ready)
next
  case Leave
  then show "dash_ok d \<Longrightarrow> ?thesis" by (simp add: dash_ok_destroy)
qed (metis dash_ok_frame frame_quiet frame_arrive)+

lemma dash_ok_run: "dash_ok d \<Longrightarrow> dash_ok (dash_run s es d)"
  unfolding dash_run_def by (induction es arbitrary: d) (simp_all add: dash_ok_step)

lemma dash_ok_new: "dash_ok (new_dash count cdns w)"
  by (simp add: dash_ok_def new_dash_def widget.owned_def running_of_def)

lemma dash_ok_open: "dash_ok (open_dashboard s count cdns w)"
  by (simp add: open_dashboard_def init_groups_def init_routing_def init_capacity_def init_dashboard_def
      Let_def dash_ok_create dash_ok_createIntervals widget_getRoutingMethods_def
      widget_getCapacity_def dash_getCacheGroupHealth_def dash_getCurrentStats_def dash_ok_request
      dash_ok_new)

text \<open>Whose intervals can run.\<close>

definition pollers :: "dash \<Rightarrow> poller set" where
  "pollers d = snd ` set (ticking d)"

definition page_pollers :: "dash \<Rightarrow> poller set" where
  "page_pollers d =
     {PHealth, PStats, PCount, PCapacity, PRouting, PGroups} \<union> PChart ` {..<chartCount d}"

lemma pollers_running: "p \<in> pollers d \<longleftrightarrow> running_of p d \<noteq> []"
  by (force simp: pollers_def running_of_def filter_empty_conv)

lemma pollers_frame: "dash_frame d = dash_frame d' \<Longrightarrow> pollers d = pollers d'"
  by (simp add: dash_frame_def pollers_def)

lemma pollers_kill:
  assumes "dash_ok d" shows "pollers (kill_interval p d) = pollers d - {p}"
proof -
  have "running_of q (kill_interval p d) = (if q = p then [] else running_of q d)" for q
    using widget.none_after_kill [of p d] kill_others [OF assms, of q p] assms
    by (auto simp: dash_ok_def)
  then show ?thesis by (auto simp: pollers_running split: if_splits)
qed

lemma pollers_start: "pollers (start_interval p d) = insert p (pollers d)"
  by (auto simp: pollers_def start_interval_def)

lemma pollers_create: "dash_ok d \<Longrightarrow> pollers (create_interval p d) = insert p (pollers d)"
  by (auto simp: create_interval_def pollers_start pollers_kill)

lemma pollers_request: "pollers (request_by r p d) = pollers d"
  by (rule pollers_frame) (rule frame_request)

lemma pollers_chart_ready:
  "dash_ok d \<Longrightarrow>
     pollers (chart_ready s n d) = (if autoRefresh s then insert (PChart n) (pollers d) else pollers d)"
  by (simp add: chart_ready_def Let_def chart_getCDN_def pollers_create dash_ok_request dash_ok_life
      pollers_request) (simp add: pollers_def)

lemma pollers_fold_kill:
  "dash_ok d \<Longrightarrow> pollers (fold (\<lambda>n. kill_interval (PChart n)) ns d) = pollers d - PChart ` set ns"
  by (induction ns arbitrary: d) (auto simp: dash_ok_kill pollers_kill)

lemma pollers_destroy:
  assumes "dash_ok d" "pollers d \<subseteq> page_pollers d"
  shows "pollers (destroy_scopes d) = {}"
proof -
  let ?l = "d\<lparr>left := True\<rparr>"
  have ok: "dash_ok ?l" using assms(1) by (simp add: dash_ok_life)
  have "pollers (destroy_scopes d) =
      pollers ?l - {PHealth, PStats, PCount, PCapacity, PRouting, PGroups} - PChart ` {0..<chartCount d}"
    unfolding destroy_scopes_def killIntervals_def
    by (subst pollers_fold_kill) (auto simp: ok dash_ok_kill pollers_kill)
  also have "pollers ?l = pollers d" by (simp add: pollers_def)
  finally show ?thesis using assms(2) by (auto simp: page_pollers_def)
qed

lemma page_pollers_frame: "dash_frame d = dash_frame d' \<Longrightarrow> page_pollers d = page_pollers d'"
  by (simp add: dash_frame_def page_pollers_def)

lemma life_request [simp]:
  "chartCount (request_by r p d) = chartCount d" "readyCharts (request_by r p d) = readyCharts d"
  "left (request_by r p d) = left d"
  by (simp_all add: request_by_def split: prod.splits)

lemma life_start:
  "chartCount (start_interval p d) = chartCount d" "readyCharts (start_interval p d) = readyCharts d"
  "left (start_interval p d) = left d"
  by (simp_all add: start_interval_def)

lemma chartCount_step: "chartCount (dash_step s e d) = chartCount d"
proof (cases e)
  case (Ready n)
  then show ?thesis
    by (simp add: chart_ready_def Let_def chart_getCDN_def life_intervals)
next
  case Leave
  have "chartCount (fold (\<lambda>n. kill_interval (PChart n)) ns d) = chartCount d" for ns d
    by (induction ns arbitrary: d) (simp_all add: life_intervals)
  then show ?thesis using Leave by (simp add: destroy_scopes_def killIntervals_def life_intervals)
qed (metis frame_quiet frame_arrive dash_frame_def prod.inject)+

definition dash_inv :: "dash \<Rightarrow> bool" where
  "dash_inv d \<longleftrightarrow> dash_ok d \<and> pollers d \<subseteq> page_pollers d"

lemma dash_inv_step: "dash_inv d \<Longrightarrow> dash_inv (dash_step s e d)"
proof -
  assume d: "dash_inv d"
  have "pollers (dash_step s e d) \<subseteq> page_pollers d"
  proof (cases e)
    case (Ready n)
    then show ?thesis
      using d by (auto simp: dash_inv_def pollers_chart_ready page_pollers_def)
  next
    case Leave
    then show ?thesis using d by (auto simp: dash_inv_def pollers_destroy)
  qed (metis d dash_inv_def pollers_frame frame_quiet frame_arrive)+
  then show ?thesis
    using d by (simp add: dash_inv_def dash_ok_step page_pollers_def chartCount_step)
qed

lemma dash_inv_run: "dash_inv d \<Longrightarrow> dash_inv (dash_run s es d)"
  unfolding dash_run_def by (induction es arbitrary: d) (simp_all add: dash_inv_step)

lemma chartCount_run: "chartCount (dash_run s es d) = chartCount d"
  unfolding dash_run_def by (induction es arbitrary: d) (simp_all add: chartCount_step)

lemma open_life:
  "chartCount (open_dashboard s count cdns w) = cdns" "readyCharts (open_dashboard s count cdns w) = {}"
  "left (open_dashboard s count cdns w) = False"
  by (simp_all add: open_dashboard_def init_groups_def init_routing_def init_capacity_def
      init_dashboard_def Let_def createIntervals_def killIntervals_def life_start life_intervals
      widget_getRoutingMethods_def widget_getCapacity_def dash_getCacheGroupHealth_def
      dash_getCurrentStats_def) (simp_all add: new_dash_def)

lemma pollers_open:
  "pollers (open_dashboard s count cdns w) =
     (if autoRefresh s then {PHealth, PStats, PCount, PCapacity, PRouting, PGroups} else {})"
proof -
  have n: "pollers (new_dash count cdns w) = {}" by (simp add: pollers_def new_dash_def)
  have k: "pollers (killIntervals d) = pollers d - {PHealth, PStats, PCount}" if "dash_ok d" for d
    using that by (auto simp: killIntervals_def pollers_kill dash_ok_kill)
  show ?thesis
    by (auto simp: open_dashboard_def init_groups_def init_routing_def init_capacity_def
      init_dashboard_def Let_def createIntervals_def pollers_create pollers_start pollers_request
      widget_getRoutingMethods_def widget_getCapacity_def dash_getCacheGroupHealth_def
      dash_getCurrentStats_def dash_ok_request dash_ok_create dash_ok_new n k dash_ok_killIntervals
      dash_ok_createIntervals [unfolded createIntervals_def])
qed

lemma dash_inv_open: "dash_inv (open_dashboard s count cdns w)"
  by (auto simp: dash_inv_def dash_ok_open pollers_open page_pollers_def)

lemma distinct_by_count:
  "(\<And>p. length (filter (\<lambda>x. x = p) xs) \<le> 1) \<Longrightarrow> distinct xs"
proof (induction xs)
  case (Cons x xs)
  have "filter (\<lambda>y. y = x) xs = []" using Cons.prems [of x] by simp
  then have "x \<notin> set xs" by (auto simp: filter_empty_conv)
  moreover have "length (filter (\<lambda>x. x = p) xs) \<le> 1" for p
    using Cons.prems [of p] by (simp split: if_splits)
  ultimately show ?case using Cons.IH by simp
qed simp

lemma ticking_bound:
  assumes "dash_inv d" shows "length (ticking d) \<le> chartCount d + 6"
proof -
  have "length (filter (\<lambda>x. x = p) (map snd (ticking d))) \<le> 1" for p
    using assms widget.at_most_one [of p d]
    by (simp add: dash_inv_def dash_ok_def running_of_def filter_map o_def split_def)
  then have "distinct (map snd (ticking d))" by (rule distinct_by_count)
  then have "length (ticking d) = card (pollers d)"
    unfolding pollers_def using distinct_card by fastforce
  also have "\<dots> \<le> card (page_pollers d)"
    using assms by (intro card_mono) (auto simp: dash_inv_def page_pollers_def)
  also have "\<dots> \<le> card {PHealth, PStats, PCount, PCapacity, PRouting, PGroups} +
      card (PChart ` {..<chartCount d})"
    unfolding page_pollers_def by (rule card_Un_le)
  also have "\<dots> \<le> 6 + chartCount d"
    using card_image_le [of "{..<chartCount d}" PChart] by simp
  finally show ?thesis by simp
qed

text \<open>After the page is left only charts that learn of the document later start intervals.\<close>

definition orphans :: "site \<Rightarrow> nat set \<Rightarrow> dash \<Rightarrow> bool" where
  "orphans s r d \<longleftrightarrow> dash_ok d \<and> left d \<and> r \<subseteq> readyCharts d \<and>
     pollers d = (if autoRefresh s then PChart ` (readyCharts d - r) else {})"

lemma orphans_step: "orphans s r d \<Longrightarrow> orphans s r (dash_step s e d)"
proof -
  assume d: "orphans s r d"
  have quiet: "orphans s r d'" if "dash_frame d' = dash_frame d" for d'
    using d that dash_ok_frame [OF that] pollers_frame [OF that]
    by (simp add: orphans_def dash_frame_def)
  show ?thesis
  proof (cases e)
    case (Ready n)
    show ?thesis
    proof (cases "n < chartCount d \<and> n \<notin> readyCharts d")
      case True
      have "readyCharts (chart_ready s n d) = insert n (readyCharts d)" "left (chart_ready s n d)"
        using d by (simp_all add: chart_ready_def Let_def chart_getCDN_def life_intervals
            orphans_def)
      moreover have "n \<notin> r" using True d by (auto simp: orphans_def)
      ultimately show ?thesis
        using d True Ready by (auto simp: orphans_def dash_ok_chart_ready pollers_chart_ready)
    next
      case False
      then show ?thesis using Ready d by auto
    qed
  next
    case Leave
    then show ?thesis using d by (simp add: orphans_def)
  qed (simp_all only: quiet frame_quiet frame_arrive)
qed

lemma orphans_run: "orphans s r d \<Longrightarrow> orphans s r (dash_run s es d)"
  unfolding dash_run_def by (induction es arbitrary: d) (simp_all add: orphans_step)

lemma orphans_leave:
  assumes "dash_inv d" "\<not> left d"
  shows "orphans s (readyCharts d) (dash_step s Leave d)"
proof -
  have "readyCharts (fold (\<lambda>n. kill_interval (PChart n)) ns d) = readyCharts d"
    "left (fold (\<lambda>n. kill_interval (PChart n)) ns d) = left d" for ns d
    by (induction ns arbitrary: d) (simp_all add: life_intervals)
  then have "readyCharts (destroy_scopes d) = readyCharts d" "left (destroy_scopes d)"
    by (simp_all add: destroy_scopes_def killIntervals_def life_intervals)
  then show ?thesis
    using assms dash_ok_destroy pollers_destroy by (simp add: orphans_def dash_inv_def)
qed

section \<open>Which calls follow\<close>

lemma makes_q_all2:
  assumes "makes cs p" "makes ds q"
  shows "makes (\<lambda>root. cs root @ ds root) (q_all [p, q])"
  unfolding makes_def
proof
  fix w
  obtain l1 w1 where l1: "p w = (l1, w1)" by fastforce
  obtain l2 w2 where l2: "q w1 = (l2, w2)" by fastforce
  note m = makesD [OF assms(1) l1] makesD [OF assms(2) l2]
  have "keeps silent (\<lambda>w. (l, w))" if "later_keeps silent l" for l
    using that by (simp add: keeps_def silent_def)
  then have "keeps silent (q_all [\<lambda>w. (l1, w), \<lambda>w. (l2, w)])"
    using m(3,6) by (intro silent.q_all) simp
  then have "later_keeps silent (join_all [l1, l2])"
    by (simp add: keeps_def q_all_def split: prod.splits)
  then show "sent (snd (q_all [p, q] w)) = sent w @ cs (apiRoot w) @ ds (apiRoot w) \<and>
      apiRoot (snd (q_all [p, q] w)) = apiRoot w \<and> later_keeps silent (fst (q_all [p, q] w))"
    using m by (simp add: q_all_def l1 l2)
qed

lemma silent_handlers:
  "later_keeps silent (resolve_response v)" "later_keeps silent (reject_undefined v)"
  "later_keeps silent (reject v)"
  unfolding resolve_response_def reject_undefined_def by (intro keeps_intros silent.later_settled silent.later_deref)+

text \<open>Requests whose answers make no calls of their own.\<close>

definition calm :: "dash \<Rightarrow> bool" where
  "calm d \<longleftrightarrow> (\<forall>(q, l)\<in>set (inflight d). later_keeps silent l)"

definition call_count :: "dash \<Rightarrow> nat" where
  "call_count d = length (sent (portal d))"

fun is_cdn :: "request \<Rightarrow> bool" where
  "is_cdn (RCdn n) = True"
| "is_cdn _ = False"

definition awaited_cdns :: "dash \<Rightarrow> nat" where
  "awaited_cdns d = length (filter (\<lambda>(q, l). is_cdn q) (inflight d))"

lemma request_calls:
  assumes "makes cs p" "\<And>root. length (cs root) = n"
  shows "call_count (request_by r p d) = call_count d + n" "calm (request_by r p d) = calm d"
    "awaited_cdns (request_by r p d) = awaited_cdns d + (if is_cdn r then 1 else 0)"
  using assms makesD [OF assms(1)]
  by (auto simp: request_by_def call_count_def calm_def awaited_cdns_def split: prod.splits)

lemma dash_services:
  "makes (\<lambda>root. [HGet (root @ ''cdns/health'') JUndef]) getCacheGroupHealth"
  "makes (\<lambda>root. [HGet (root @ ''current_stats'') JUndef]) getCurrentStats"
  "makes (\<lambda>root. [HGet (root @ ''servers/status?type=EDGE'') JUndef]) getEdgeStatusCount"
  "makes (\<lambda>root. [HGet (root @ ''cdns/capacity'') JUndef]) getCapacity"
  "makes (\<lambda>root. [HGet (root @ ''cdns/routing'') JUndef]) getRoutingMethods"
  "makes (\<lambda>_. [RGet [One ''cdns'' i] JUndef]) (getCDN i)"
  "makes (\<lambda>root. [HGet (root @ ''cache_stats'') (cache_stats_params c ''bandwidth'' a b)])
     (getBandwidth c a b)"
  "makes (\<lambda>root. [HGet (root @ ''cache_stats'') (cache_stats_params c ''connections'' a b)])
     (getConnections c a b)"
  unfolding getCacheGroupHealth_def getCurrentStats_def getEdgeStatusCount_def getCapacity_def
    getRoutingMethods_def getCDN_def getBandwidth_def getConnections_def
  by (rule makes_intros silent_handlers)+

lemma put_calls:
  "call_count (put_total k v d) = call_count d" "call_count (put_chart n f d) = call_count d"
  "calm (put_total k v d) = calm d" "calm (put_chart n f d) = calm d"
  "awaited_cdns (put_total k v d) = awaited_cdns d" "awaited_cdns (put_chart n f d) = awaited_cdns d"
  by (simp_all add: call_count_def calm_def awaited_cdns_def put_total_def put_chart_def)

lemma update_calls:
  "call_count (d\<lparr>serverCount := a\<rparr>) = call_count d" "calm (d\<lparr>serverCount := a\<rparr>) = calm d"
  "awaited_cdns (d\<lparr>serverCount := a\<rparr>) = awaited_cdns d"
  "call_count (d\<lparr>capacity := b, capacityPie := c\<rparr>) = call_count d"
  "calm (d\<lparr>capacity := b, capacityPie := c\<rparr>) = calm d"
  "awaited_cdns (d\<lparr>capacity := b, capacityPie := c\<rparr>) = awaited_cdns d"
  "call_count (d\<lparr>routing := e\<rparr>) = call_count d" "calm (d\<lparr>routing := e\<rparr>) = calm d"
  "awaited_cdns (d\<lparr>routing := e\<rparr>) = awaited_cdns d"
  "call_count (d\<lparr>groupsHealth := f\<rparr>) = call_count d" "calm (d\<lparr>groupsHealth := f\<rparr>) = calm d"
  "awaited_cdns (d\<lparr>groupsHealth := f\<rparr>) = awaited_cdns d"
  "call_count (d\<lparr>delayedPlots := g\<rparr>) = call_count d" "calm (d\<lparr>delayedPlots := g\<rparr>) = calm d"
  "awaited_cdns (d\<lparr>delayedPlots := g\<rparr>) = awaited_cdns d"
  "call_count (d\<lparr>charts := h\<rparr>) = call_count d" "calm (d\<lparr>charts := h\<rparr>) = calm d"
  "awaited_cdns (d\<lparr>charts := h\<rparr>) = awaited_cdns d"
  "call_count (d\<lparr>readyCharts := i, chartIds := j\<rparr>) = call_count d"
  "calm (d\<lparr>readyCharts := i, chartIds := j\<rparr>) = calm d"
  "awaited_cdns (d\<lparr>readyCharts := i, chartIds := j\<rparr>) = awaited_cdns d"
  "call_count (d\<lparr>left := k\<rparr>) = call_count d" "calm (d\<lparr>left := k\<rparr>) = calm d"
  "awaited_cdns (d\<lparr>left := k\<rparr>) = awaited_cdns d"
  by (simp_all add: call_count_def calm_def awaited_cdns_def)

lemma timer_calls:
  "call_count (kill_interval p d) = call_count d" "calm (kill_interval p d) = calm d"
  "awaited_cdns (kill_interval p d) = awaited_cdns d"
  "call_count (start_interval p d) = call_count d" "calm (start_interval p d) = calm d"
  "awaited_cdns (start_interval p d) = awaited_cdns d"
  by (simp_all add: call_count_def calm_def awaited_cdns_def kill_interval_def start_interval_def
      split: option.splits)

lemma poll_calls:
  "call_count (fire p d) = call_count d + 1" "calm (fire p d) = calm d"
  by (cases p; simp add: fire_def dash_getCacheGroupHealth_def dash_getCurrentStats_def
      dash_getServerCount_def widget_getCapacity_def widget_getRoutingMethods_def
      widget_getCacheGroupHealth_def chart_getCDN_def request_calls [OF dash_services(1)]
      request_calls [OF dash_services(2)] request_calls [OF dash_services(3)]
      request_calls [OF dash_services(4)] request_calls [OF dash_services(5)]
      request_calls [OF dash_services(6)])+

lemma chart_calls:
  "call_count (chart_getCDN n i d) = call_count d + 1" "calm (chart_getCDN n i d) = calm d"
  "call_count (chart_getCurrentStats n x d) = call_count d + 1"
  "calm (chart_getCurrentStats n x d) = calm d"
  "awaited_cdns (chart_getCurrentStats n x d) = awaited_cdns d"
  "call_count (chart_getChartData s n x d) = call_count d + 2"
  "calm (chart_getChartData s n x d) = calm d"
  "awaited_cdns (chart_getChartData s n x d) = awaited_cdns d"
  by (simp_all add: chart_getCDN_def chart_getCurrentStats_def chart_getChartData_def Let_def
      request_calls [OF dash_services(2)] request_calls [OF dash_services(6)]
      request_calls [OF makes_q_all2 [OF dash_services(7) dash_services(8)]])

text \<open>An answer of a CDN makes three calls, every other answer none.\<close>

lemma answered_calls:
  "call_count (answered s q r d) \<le> call_count d + (if is_cdn q then 3 else 0)"
  "calm (answered s q r d) = calm d" "awaited_cdns (answered s q r d) = awaited_cdns d"
  by (cases q; cases r; simp add: answered_def answer_defs Let_def put_calls update_calls chart_calls
        split: option.splits)+

lemma calm_step: "calm d \<Longrightarrow> calm (dash_step s e d)"
proof (cases e)
  case (Arrive k)
  assume c: "calm d"
  show ?thesis
  proof (cases "k < length (inflight d)")
    case True
    obtain q l where q: "inflight d ! k = (q, l)" by fastforce
    obtain r w where r: "l (portal d) = (r, w)" by fastforce
    have "calm (d\<lparr>portal := w, inflight := take k (inflight d) @ drop (Suc k) (inflight d)\<rparr>)"
      using c by (auto simp: calm_def dest: in_set_takeD in_set_dropD)
    then show ?thesis using True Arrive q r by (simp add: answered_calls)
  qed (use c Arrive in simp)
next
  case Leave
  have "calm (fold (\<lambda>n. kill_interval (PChart n)) ns d) = calm d" for ns d
    by (induction ns arbitrary: d) (simp_all add: timer_calls)
  then show "calm d \<Longrightarrow> ?thesis"
    using Leave by (simp add: destroy_scopes_def killIntervals_def timer_calls update_calls)
qed (simp_all add: poll_calls put_calls update_calls chart_ready_def Let_def chart_calls timer_calls
    create_interval_def)

lemma calm_run: "calm d \<Longrightarrow> calm (dash_run s es d)"
  unfolding dash_run_def by (induction es arbitrary: d) (simp_all add: calm_step)

lemma calm_open: "calm (open_dashboard s count cdns w)"
proof -
  have "calm (new_dash count cdns w)" by (simp add: calm_def new_dash_def)
  then show ?thesis
    by (simp add: open_dashboard_def init_groups_def init_routing_def init_capacity_def
      init_dashboard_def Let_def createIntervals_def killIntervals_def create_interval_def timer_calls
      widget_getRoutingMethods_def widget_getCapacity_def dash_getCacheGroupHealth_def
      dash_getCurrentStats_def request_calls [OF dash_services(1)] request_calls [OF dash_services(2)]
      request_calls [OF dash_services(4)] request_calls [OF dash_services(5)])
qed

lemma leave_calls:
  "call_count (dash_step s Leave d) = call_count d" "awaited_cdns (dash_step s Leave d) = awaited_cdns d"
proof -
  have "call_count (fold (\<lambda>n. kill_interval (PChart n)) ns d) = call_count d"
    "awaited_cdns (fold (\<lambda>n. kill_interval (PChart n)) ns d) = awaited_cdns d" for ns d
    by (induction ns arbitrary: d) (simp_all add: timer_calls)
  then show "call_count (dash_step s Leave d) = call_count d"
    "awaited_cdns (dash_step s Leave d) = awaited_cdns d"
    by (simp_all add: destroy_scopes_def killIntervals_def timer_calls update_calls)
qed

lemma ready_leave: "readyCharts (dash_step s Leave d) = readyCharts d"
proof -
  have "readyCharts (fold (\<lambda>n. kill_interval (PChart n)) ns d) = readyCharts d" for ns d
    by (induction ns arbitrary: d) (simp_all add: life_intervals)
  then have "readyCharts (destroy_scopes d) = readyCharts d"
    by (simp add: destroy_scopes_def killIntervals_def life_intervals)
  then show ?thesis by simp
qed

text \<open>A page that is left, with all its charts ready.\<close>

definition at_rest :: "dash \<Rightarrow> bool" where
  "at_rest d \<longleftrightarrow> left d \<and> ticking d = [] \<and> {..<chartCount d} \<subseteq> readyCharts d \<and> calm d"

lemma at_rest_frame: "dash_frame d' = dash_frame d \<Longrightarrow> calm d' \<Longrightarrow> at_rest d \<Longrightarrow> at_rest d'"
  by (simp add: at_rest_def dash_frame_def)

lemma at_rest_step:
  assumes "at_rest d"
  shows "at_rest (dash_step s e d) \<and>
    call_count (dash_step s e d) + 3 * awaited_cdns (dash_step s e d) \<le>
    call_count d + 3 * awaited_cdns d"
proof (cases e)
  case (Arrive k)
  have rest: "at_rest (dash_step s e d)"
    using at_rest_frame [OF _ _ assms] frame_arrive calm_step assms Arrive
    by (metis at_rest_def)
  show ?thesis
  proof (cases "k < length (inflight d)")
    case True
    obtain q l where q: "inflight d ! k = (q, l)" by fastforce
    obtain r w where r: "l (portal d) = (r, w)" by fastforce
    let ?d = "d\<lparr>portal := w, inflight := take k (inflight d) @ drop (Suc k) (inflight d)\<rparr>"
    have "(q, l) \<in> set (inflight d)" using True q by (metis nth_mem)
    then have "later_keeps silent l" using assms by (auto simp: at_rest_def calm_def)
    then have "call_count ?d = call_count d"
      using later_keepsD [of silent l "portal d" r w] r
      by (simp add: silent_def call_count_def)
    moreover have "awaited_cdns d = awaited_cdns ?d + (if is_cdn q then 1 else 0)"
    proof -
      have "inflight d = take k (inflight d) @ (q, l) # drop (Suc k) (inflight d)"
        using True q id_take_nth_drop by metis
      then have "filter (\<lambda>(q, l). is_cdn q) (inflight d) =
          filter (\<lambda>(q, l). is_cdn q) (take k (inflight d)) @
          filter (\<lambda>(q, l). is_cdn q) ((q, l) # drop (Suc k) (inflight d))"
        by (metis filter_append)
      then show ?thesis by (simp add: awaited_cdns_def)
    qed
    ultimately show ?thesis
      using rest answered_calls(1) [of s q r ?d] answered_calls(3) [of s q r ?d] True Arrive q r
      by (simp split: if_splits)
  qed (use assms Arrive in simp)
next
  case (Fire k)
  then show ?thesis using assms by (simp add: at_rest_def)
next
  case (Ready n)
  then show ?thesis using assms by (auto simp: at_rest_def)
next
  case (Draw k)
  then show ?thesis
    using at_rest_frame [OF frame_quiet(2) _ assms, of s k] calm_step [of d s "Draw k"] assms
    by (simp add: at_rest_def put_calls update_calls)
next
  case Resize
  then show ?thesis
    using at_rest_frame [OF frame_quiet(3) _ assms, of s] calm_step [of d s Resize] assms
    by (simp add: at_rest_def update_calls)
next
  case Leave
  then show ?thesis using assms by (simp add: at_rest_def)
qed

lemma at_rest_run:
  "at_rest d \<Longrightarrow> call_count (dash_run s es d) \<le> call_count d + 3 * awaited_cdns d"
proof (induction es arbitrary: d)
  case (Cons e es)
  have "call_count (dash_run s es (dash_step s e d)) \<le>
      call_count (dash_step s e d) + 3 * awaited_cdns (dash_step s e d)"
    using at_rest_step [OF Cons.prems] by (intro Cons.IH) blast
  then show ?case using at_rest_step [OF Cons.prems, of s e] by (simp add: dash_run_def)
qed (simp add: dash_run_def)

lemma run_append: "dash_run s (es @ fs) d = dash_run s fs (dash_run s es d)"
  by (simp add: dash_run_def)

lemma left_step: "left (dash_step s e d) \<longleftrightarrow> left d \<or> e = Leave"
proof (cases e)
  case (Ready n)
  then show ?thesis by (simp add: chart_ready_def Let_def chart_getCDN_def life_intervals)
next
  case Leave
  have "left (fold (\<lambda>n. kill_interval (PChart n)) ns d) = left d" for ns d
    by (induction ns arbitrary: d) (simp_all add: life_intervals)
  then show ?thesis using Leave by (simp add: destroy_scopes_def killIntervals_def life_intervals)
qed (metis frame_quiet frame_arrive dash_frame_def prod.inject dash_event.distinct)+

lemma left_run: "left (dash_run s es d) \<longleftrightarrow> left d \<or> Leave \<in> set es"
  unfolding dash_run_def by (induction es arbitrary: d) (auto simp: left_step)

section \<open>Properties\<close>

text \<open>C24. However intervals fire and answers arrive, every controller of the dashboard runs at most
  one interval, and a page with \<open>n\<close> CDNs at most \<open>n + 6\<close> of them.\<close>

theorem dashboard_polls_once:
  "length (running_of p (dash_run s es (open_dashboard s count cdns w))) \<le> 1 \<and>
   length (ticking (dash_run s es (open_dashboard s count cdns w))) \<le> cdns + 6"
proof -
  have inv: "dash_inv (dash_run s es (open_dashboard s count cdns w))"
    by (rule dash_inv_run) (rule dash_inv_open)
  then show ?thesis
    using widget.at_most_one ticking_bound [OF inv]
    by (simp add: dash_inv_def dash_ok_def chartCount_run open_life)
qed

text \<open>C21. Leaving the dashboard stops all its intervals; the only ones that run afterwards, whatever
  happens, are those of the charts that learn only then that the document is ready, and nothing
  ever stops them.\<close>

theorem left_dashboard_intervals:
  assumes "Leave \<notin> set es"
  shows "pollers (dash_run s (es @ Leave # fs) (open_dashboard s count cdns w)) =
    (if autoRefresh s
     then PChart ` (readyCharts (dash_run s (es @ Leave # fs) (open_dashboard s count cdns w)) -
            readyCharts (dash_run s es (open_dashboard s count cdns w)))
     else {})"
proof -
  define d where "d = dash_run s es (open_dashboard s count cdns w)"
  have "dash_inv d" unfolding d_def by (rule dash_inv_run) (rule dash_inv_open)
  moreover have "\<not> left d" using assms by (simp add: d_def left_run open_life)
  ultimately have "orphans s (readyCharts d) (dash_run s fs (dash_step s Leave d))"
    by (intro orphans_run orphans_leave)
  moreover have "dash_run s (es @ Leave # fs) (open_dashboard s count cdns w) =
      dash_run s fs (dash_step s Leave d)"
    by (simp add: dash_run_def d_def)
  ultimately show ?thesis by (simp add: orphans_def d_def)
qed

text \<open>C22. A dashboard that is left with all its charts ready makes at most three more calls for each
  CDN it still waits for, and none otherwise, however long the portal goes on.\<close>

theorem left_dashboard_falls_silent:
  assumes "Leave \<notin> set es"
    and "{..<cdns} \<subseteq> readyCharts (dash_run s es (open_dashboard s count cdns w))"
  shows "call_count (dash_run s (es @ Leave # fs) (open_dashboard s count cdns w)) \<le>
    call_count (dash_run s es (open_dashboard s count cdns w)) +
    3 * awaited_cdns (dash_run s es (open_dashboard s count cdns w))"
proof -
  define d where "d = dash_run s es (open_dashboard s count cdns w)"
  have inv: "dash_inv d" unfolding d_def by (rule dash_inv_run) (rule dash_inv_open)
  have n: "\<not> left d" "chartCount d = cdns" "calm d"
    using assms(1) by (simp_all add: d_def left_run open_life chartCount_run calm_run calm_open)
  note o = orphans_leave [OF inv n(1), of s]
  have r: "readyCharts (dash_step s Leave d) = readyCharts d" by (rule ready_leave)
  have "pollers (dash_step s Leave d) = {}"
    using o unfolding orphans_def r by (simp split: if_splits)
  then have "at_rest (dash_step s Leave d)"
    using o assms(2) n calm_step [OF n(3), of s Leave]
    unfolding at_rest_def orphans_def pollers_def r chartCount_step by (simp add: d_def)
  from at_rest_run [OF this, of s fs]
  have "call_count (dash_run s fs (dash_step s Leave d)) \<le> call_count d + 3 * awaited_cdns d"
    unfolding leave_calls .
  moreover have "dash_run s (es @ Leave # fs) (open_dashboard s count cdns w) =
      dash_run s fs (dash_step s Leave d)"
    by (simp add: dash_run_def d_def)
  ultimately show ?thesis by (simp add: d_def)
qed

section \<open>Resize handlers\<close>

definition listeners :: "nat \<Rightarrow> dash \<Rightarrow> nat" where
  "listeners n d = resizeListeners (charts d n)"

text \<open>The answers of CDN \<open>n\<close> that arrive in a history.\<close>

definition cdn_answer :: "nat \<Rightarrow> dash_event \<Rightarrow> dash \<Rightarrow> nat" where
  "cdn_answer n e d =
     (case e of
        Arrive k \<Rightarrow>
          (if k < length (inflight d) \<and> fst (inflight d ! k) = RCdn n \<and>
              is_fulfilled (fst (snd (inflight d ! k) (portal d))) then 1 else 0)
      | _ \<Rightarrow> 0)"

fun cdn_answers :: "site \<Rightarrow> nat \<Rightarrow> dash_event list \<Rightarrow> dash \<Rightarrow> nat" where
  "cdn_answers s n [] d = 0"
| "cdn_answers s n (e # es) d = cdn_answer n e d + cdn_answers s n es (dash_step s e d)"

lemma listeners_request [simp]: "listeners n (request_by r p d) = listeners n d"
  by (simp add: listeners_def request_by_def split: prod.splits)

lemma listeners_charts:
  "charts d' = charts d \<Longrightarrow> listeners n d' = listeners n d"
  by (simp add: listeners_def)

lemma listeners_plot [simp]: "resizeListeners (plotChart c) = resizeListeners c"
  by (simp add: plotChart_def)

lemma listeners_plots [simp]: "resizeListeners ((plotChart ^^ k) c) = resizeListeners c"
  by (induction k) simp_all

lemma listeners_put [simp]:
  "listeners n (put_total k v d) = listeners n d"
  "listeners n (put_chart m f d) = (if n = m then resizeListeners (f (charts d n)) else listeners n d)"
  by (simp_all add: listeners_def put_total_def put_chart_def)

lemma listeners_update [simp]:
  "listeners n (d\<lparr>serverCount := a\<rparr>) = listeners n d"
  "listeners n (d\<lparr>capacity := b, capacityPie := c\<rparr>) = listeners n d"
  "listeners n (d\<lparr>routing := e\<rparr>) = listeners n d" "listeners n (d\<lparr>groupsHealth := f\<rparr>) = listeners n d"
  "listeners n (d\<lparr>delayedPlots := g\<rparr>) = listeners n d" "listeners n (d\<lparr>left := h\<rparr>) = listeners n d"
  "listeners n (d\<lparr>portal := i, inflight := j\<rparr>) = listeners n d"
  "listeners n (d\<lparr>readyCharts := k, chartIds := l\<rparr>) = listeners n d"
  by (simp_all add: listeners_def)

lemma listeners_frame [simp]:
  "listeners n (kill_interval p d) = listeners n d" "listeners n (create_interval p d) = listeners n d"
  by (simp_all add: listeners_def kill_interval_def create_interval_def start_interval_def
      split: option.splits)

lemma listeners_chart_requests [simp]:
  "listeners n (chart_getCDN m i d) = listeners n d"
  "listeners n (chart_getCurrentStats m x d) = listeners n d"
  "listeners n (chart_getChartData s m x d) = listeners n d"
  by (simp_all add: chart_getCDN_def chart_getCurrentStats_def chart_getChartData_def Let_def)

lemma listeners_fire [simp]: "listeners n (fire p d) = listeners n d"
  by (cases p) (simp_all add: fire_def dash_getCacheGroupHealth_def dash_getCurrentStats_def
      dash_getServerCount_def widget_getCapacity_def widget_getRoutingMethods_def
      widget_getCacheGroupHealth_def)

lemma listeners_built [simp]:
  "resizeListeners (buildChart b k c) = resizeListeners c"
  "resizeListeners (registerResizeListener c) = Suc (resizeListeners c)"
  by (simp_all add: buildChart_def registerResizeListener_def)

lemma listeners_answered:
  "listeners n (answered s q r d) = listeners n d + (if q = RCdn n \<and> is_fulfilled r then 1 else 0)"
  by (cases q; cases r)
     (simp_all add: answered_def answer_defs Let_def split: option.splits,
      simp_all add: listeners_def put_chart_def)

lemma listeners_step: "listeners n (dash_step s e d) = listeners n d + cdn_answer n e d"
proof (cases e)
  case (Arrive k)
  then show ?thesis by (simp add: cdn_answer_def listeners_answered split: prod.splits)
next
  case (Ready m)
  then show ?thesis by (simp add: cdn_answer_def chart_ready_def Let_def)
next
  case (Draw k)
  then show ?thesis by (simp add: cdn_answer_def listeners_def put_chart_def)
next
  case Resize
  then show ?thesis by (simp add: cdn_answer_def listeners_def)
next
  case Leave
  have "listeners n (fold (\<lambda>n. kill_interval (PChart n)) ns d) = listeners n d" for ns d
    by (induction ns arbitrary: d) simp_all
  then show ?thesis using Leave by (simp add: cdn_answer_def destroy_scopes_def killIntervals_def)
qed (simp add: cdn_answer_def)

lemma resize_plots:
  "chartSeries c \<noteq> None \<Longrightarrow> plots ((plotChart ^^ k) c) = plots c + k \<and> chartSeries ((plotChart ^^ k) c) \<noteq> None"
  by (induction k) (auto simp: plotChart_def)

lemma resize_draws:
  "chartSeries (charts d n) \<noteq> None \<Longrightarrow>
     plots (charts (dash_step s Resize d) n) = plots (charts d n) + listeners n d"
  by (simp add: resize_plots listeners_def)

text \<open>C25. The handlers of window resizes pile up: a chart has one for every answer its polls of the
  CDN ever got, and neither leaving the page nor anything else takes one away.\<close>

theorem resize_handlers_pile_up:
  "listeners n (dash_run s es d) = listeners n d + cdn_answers s n es d"
proof (induction es arbitrary: d)
  case (Cons e es)
  have "listeners n (dash_run s es (dash_step s e d)) =
      listeners n (dash_step s e d) + cdn_answers s n es (dash_step s e d)"
    by (rule Cons.IH)
  then show ?case by (simp add: dash_run_def listeners_step del: dash_step.simps)
qed (simp add: dash_run_def)

section \<open>Concrete runs\<close>

definition sample_site :: site where
  "sample_site = \<lparr>numberFilter = (\<lambda>v n. JStr (to_str v)), momentOf = (\<lambda>v. 0), momentFormat = show_int,
     clockAt = (\<lambda>n. 1502323200000), cdnIdOf = (\<lambda>n. JNum (int n)), autoRefresh = True\<rparr>"

definition sample_dash :: dash where
  "sample_dash = open_dashboard sample_site (JObj []) 1 (start_world accept_all close_all)"

lemma ready_step:
  "readyCharts (dash_step s (Ready n) d) =
     (if n < chartCount d then insert n (readyCharts d) else readyCharts d)"
  by (auto simp: chart_ready_def Let_def chart_getCDN_def life_intervals)

lemma sample_ready:
  "readyCharts (dash_run sample_site [Ready 0] sample_dash) = {0}"
  "readyCharts (dash_run sample_site [Leave, Ready 0] sample_dash) = {0}"
  by (simp_all add: dash_run_def sample_dash_def open_life ready_step ready_leave chartCount_step
      del: dash_step.simps)

text \<open>A chart that is ready too late polls on.\<close>

theorem left_dashboard_intervals_witness:
  "pollers (dash_run sample_site [Leave, Ready 0] sample_dash) = {PChart 0}"
proof -
  have r: "readyCharts (dash_run sample_site [] sample_dash) = {}"
    by (simp add: dash_run_def sample_dash_def open_life)
  have a: "autoRefresh sample_site" by (simp add: sample_site_def)
  show ?thesis
    using left_dashboard_intervals [of "[]" sample_site "[Ready 0]" "JObj []" 1
        "start_world accept_all close_all", folded sample_dash_def] sample_ready(2) r a
    by simp
qed

theorem left_dashboard_falls_silent_witness:
  "call_count (dash_run sample_site ([Ready 0] @ Leave # [Fire 0, Arrive 0]) sample_dash) \<le>
   call_count (dash_run sample_site [Ready 0] sample_dash) +
   3 * awaited_cdns (dash_run sample_site [Ready 0] sample_dash)"
proof -
  have "{..<1} \<subseteq> readyCharts (dash_run sample_site [Ready 0] sample_dash)"
    unfolding sample_ready by auto
  then show ?thesis
    unfolding sample_dash_def by (intro left_dashboard_falls_silent [where cdns = 1]) simp_all
qed

end
