(* ===== verification/Routing.thy ===== *)
theory Routing
  imports Frames UserServices "HOL-Library.Multiset"
begin

text \<open>
  How a page of the portal is opened: the states the modules register with ui-router, the pages a URL
  leads to, and the data a page waits for.  ui-router is a library: which URL matches which pattern
  is a parameter, and what its documentation says of it a hypothesis (\<open>reads_urls\<close>); the order in which
  it starts the functions of the \<open>resolve\<close> blocks, and in which the answers arrive, is left open.
\<close>

section \<open>States, views and the data they wait for\<close>

text \<open>What a page is opened with: the parameters of its URL, and the texts \<open>moment\<close> gives for the
  present time, local and UTC.\<close>

record visit =
  stateParams :: "(string \<times> js) list"
  localNow :: string
  utcNow :: string

definition param :: "visit \<Rightarrow> string \<Rightarrow> js" where
  "param v k = lookup k (stateParams v)"

text \<open>A function of a \<open>resolve\<close> block: its name, the other data it takes, and its code.\<close>

datatype input = Input (iname: string) (ineeds: "string list") (icode: "visit \<Rightarrow> (string \<Rightarrow> js) \<Rightarrow> op")

text \<open>A view: the place it fills, its template, its controller and its \<open>resolve\<close> block.  A template may be
  chosen by a function of the parameters, which may throw (\<open>None\<close>).\<close>

datatype ui_view =
  View (slot: string) (template: "visit \<Rightarrow> js option") (controller: "string option") (inputs: "input list")

datatype ui_state =
  State (sname: string) (surl: string) (is_abstract: bool) (views: "ui_view list") (resolves: "input list")

definition from_file :: "string \<Rightarrow> visit \<Rightarrow> js option" where
  "from_file t v = Some (JStr t)"

section \<open>The pages of a set of states\<close>

text \<open>A state's name is its parent's, a dot, and one more word.\<close>

fun dotted :: "string \<Rightarrow> string list" where
  "dotted [] = [[]]"
| "dotted (c # cs) =
     (if c = CHR ''.'' then [] # map (Cons c) (dotted cs) else map (Cons c) (dotted cs))"

definition ancestors :: "string \<Rightarrow> string list" where
  "ancestors n = dotted n"

definition find_state :: "ui_state list \<Rightarrow> string \<Rightarrow> ui_state option" where
  "find_state ss n = find (\<lambda>s. sname s = n) ss"

definition lineage :: "ui_state list \<Rightarrow> string \<Rightarrow> ui_state list" where
  "lineage ss n = List.map_filter (find_state ss) (ancestors n)"

definition registered :: "ui_state list \<Rightarrow> string \<Rightarrow> bool" where
  "registered ss n \<longleftrightarrow> list_all (\<lambda>a. find_state ss a \<noteq> None) (ancestors n)"

text \<open>The URL of a state is that of its parent followed by its own; what follows a question mark are the
  names of query parameters.\<close>

definition url_path :: "string \<Rightarrow> string" where
  "url_path u = takeWhile (\<lambda>c. c \<noteq> CHR ''?'') u"

definition split_on :: "char \<Rightarrow> string \<Rightarrow> string list" where
  "split_on d cs = foldr (\<lambda>c xs. if c = d then [] # xs else (c # hd xs) # tl xs) cs [[]]"

definition url_query :: "string \<Rightarrow> string list" where
  "url_query u =
     (case dropWhile (\<lambda>c. c \<noteq> CHR ''?'') u of [] \<Rightarrow> [] | c # cs \<Rightarrow> split_on (CHR ''&'') cs)"

definition pattern :: "ui_state list \<Rightarrow> string \<Rightarrow> string" where
  "pattern ss n = concat (map (url_path \<circ> surl) (lineage ss n))"

definition queries :: "ui_state list \<Rightarrow> string \<Rightarrow> string list" where
  "queries ss n = concat (map (url_query \<circ> surl) (lineage ss n))"

subsection \<open>Patterns of URLs\<close>

text \<open>A segment of a pattern is a text, a placeholder \<open>{name}\<close>, or a placeholder with a regular expression.\<close>

datatype piece = Text string | Arg string | Restricted string string

definition piece_of :: "string \<Rightarrow> piece" where
  "piece_of s =
     (case s of
        [] \<Rightarrow> Text []
      | c # cs \<Rightarrow>
          (if c \<noteq> CHR ''{'' then Text s
           else (let n = takeWhile (\<lambda>c. c \<noteq> CHR '':'') (butlast cs);
                     r = dropWhile (\<lambda>c. c \<noteq> CHR '':'') (butlast cs)
                 in if r = [] then Arg n else Restricted n (tl r))))"

definition segments :: "string \<Rightarrow> string list" where
  "segments = split_on (CHR ''/'')"

definition pieces :: "string \<Rightarrow> piece list" where
  "pieces u = map piece_of (segments u)"

text \<open>The only regular expression the states use: one to eight digits.\<close>

definition short_id :: string where
  "short_id = ''[0-9]{1,8}''"

definition is_short_id :: "string \<Rightarrow> bool" where
  "is_short_id x \<longleftrightarrow> x \<noteq> [] \<and> length x \<le> 8 \<and> list_all is_digit x"

fun fits :: "piece \<Rightarrow> string \<Rightarrow> bool" where
  "fits (Text t) x \<longleftrightarrow> x = t"
| "fits (Arg n) x \<longleftrightarrow> True"
| "fits (Restricted n r) x \<longleftrightarrow> r = short_id \<and> is_short_id x"

fun bound_name :: "piece \<Rightarrow> string option" where
  "bound_name (Text t) = None"
| "bound_name (Arg n) = Some n"
| "bound_name (Restricted n r) = Some n"

definition binds :: "piece list \<Rightarrow> string list \<Rightarrow> (string \<times> js) list" where
  "binds ps xs =
     List.map_filter (\<lambda>(p, x). map_option (\<lambda>n. (n, JStr x)) (bound_name p)) (zip ps xs)"

text \<open>What ui-router documents of its patterns: a path matches when it has the pattern's segments, the texts
  as they are written and for a placeholder a segment that its regular expression accepts; the
  parameters are those segments.\<close>

definition reads_urls :: "(string \<Rightarrow> string \<Rightarrow> (string \<times> js) list option) \<Rightarrow> bool" where
  "reads_urls m \<longleftrightarrow>
     (\<forall>u p ps. m u p = Some ps \<longleftrightarrow>
        list_all2 fits (pieces u) (segments p) \<and> ps = binds (pieces u) (segments p))"

definition documented_match :: "string \<Rightarrow> string \<Rightarrow> (string \<times> js) list option" where
  "documented_match u p =
     (if list_all2 fits (pieces u) (segments p) then Some (binds (pieces u) (segments p)) else None)"

lemma documented_match: "reads_urls documented_match"
  by (auto simp: reads_urls_def documented_match_def)

lemma reads_urlsD: "reads_urls m \<Longrightarrow> m u p = documented_match u p"
  unfolding reads_urls_def documented_match_def by (metis not_None_eq)

text \<open>The pages a location leads to, with their parameters: only states that are not abstract have a URL
  of their own.  A query parameter that the URL does not give is undefined.\<close>

definition query_params :: "string list \<Rightarrow> (string \<times> string) list \<Rightarrow> (string \<times> js) list" where
  "query_params ks qs =
     List.map_filter (\<lambda>k. map_option (\<lambda>x. (k, JStr x)) (map_of qs k)) ks"

definition destinations ::
    "ui_state list \<Rightarrow> (string \<Rightarrow> string \<Rightarrow> (string \<times> js) list option) \<Rightarrow> location \<Rightarrow>
       (string \<times> (string \<times> js) list) list" where
  "destinations ss m l =
     List.map_filter
       (\<lambda>s. if is_abstract s then None
            else map_option (\<lambda>ps. (sname s, ps @ query_params (queries ss (sname s)) (search l)))
                   (m (pattern ss (sname s)) (path l)))
       ss"


section \<open>Opening a page\<close>

text \<open>A datum belongs to the view whose block has its function, or, for the block of a state, to all
  (\<open>[]\<close>).  A function of a view's block takes the view's own data before those of the states.\<close>

type_synonym job = "string \<times> input"

definition key :: "job \<Rightarrow> string \<times> string" where
  "key j = (fst j, iname (snd j))"

definition jobs_of :: "ui_state \<Rightarrow> job list" where
  "jobs_of s =
     map (Pair []) (resolves s) @ concat (map (\<lambda>u. map (Pair (slot u)) (inputs u)) (views s))"

definition page_jobs :: "ui_state list \<Rightarrow> string \<Rightarrow> job list" where
  "page_jobs ss n = concat (map jobs_of (lineage ss n))"

definition home :: "job list \<Rightarrow> string \<Rightarrow> string \<Rightarrow> string \<times> string" where
  "home js own n = (if (own, n) \<in> set (map key js) then (own, n) else ([], n))"

record loading =
  known :: "((string \<times> string) \<times> js) list"
  waiting :: "job list"
  pending :: "((string \<times> string) \<times> later) list"
  refused :: "((string \<times> string) \<times> js) list"
  unanswered :: "(string \<times> string) list"

definition given :: "job list \<Rightarrow> loading \<Rightarrow> string \<Rightarrow> string \<Rightarrow> js option" where
  "given js s own n = map_of (known s) (home js own n)"

definition local_data :: "job list \<Rightarrow> loading \<Rightarrow> string \<Rightarrow> string \<Rightarrow> js" where
  "local_data js s own n = (case given js s own n of None \<Rightarrow> JUndef | Some x \<Rightarrow> x)"

definition closed_page :: "job list \<Rightarrow> loading" where
  "closed_page js = \<lparr>known = [], waiting = js, pending = [], refused = [], unanswered = []\<rparr>"

text \<open>A function starts when the data it takes are there; its promise is fulfilled, refused, or never
  settled.\<close>

inductive opens :: "visit \<Rightarrow> job list \<Rightarrow> loading \<times> world \<Rightarrow> loading \<times> world \<Rightarrow> bool"
  for v :: visit and js :: "job list" where
  start: "waiting s = xs @ (own, i) # ys \<Longrightarrow> \<forall>n\<in>set (ineeds i). given js s own n \<noteq> None \<Longrightarrow>
      icode i v (local_data js s own) w = (l, w') \<Longrightarrow>
      opens v js (s, w) (s\<lparr>waiting := xs @ ys, pending := pending s @ [((own, iname i), l)]\<rparr>, w')"
| fulfil: "pending s = xs @ (k, l) # ys \<Longrightarrow> l w = (Fulfilled x, w') \<Longrightarrow>
      opens v js (s, w) (s\<lparr>pending := xs @ ys, known := known s @ [(k, x)]\<rparr>, w')"
| refuse: "pending s = xs @ (k, l) # ys \<Longrightarrow> l w = (Rejected e, w') \<Longrightarrow>
      opens v js (s, w) (s\<lparr>pending := xs @ ys, refused := refused s @ [(k, e)]\<rparr>, w')"
| silence: "pending s = xs @ (k, l) # ys \<Longrightarrow> l w = (Pending, w') \<Longrightarrow>
      opens v js (s, w) (s\<lparr>pending := xs @ ys, unanswered := unanswered s @ [k]\<rparr>, w')"

text \<open>A page is shown when every datum of its states and views is there.\<close>

definition shows_page :: "job list \<Rightarrow> loading \<Rightarrow> bool" where
  "shows_page js s \<longleftrightarrow> (\<forall>j\<in>set js. \<exists>x. map_of (known s) (key j) = Some x)"

definition opened :: "visit \<Rightarrow> job list \<Rightarrow> world \<Rightarrow> loading \<Rightarrow> world \<Rightarrow> bool" where
  "opened v js w s w' \<longleftrightarrow> (opens v js)\<^sup>*\<^sup>* (closed_page js, w) (s, w')"

definition at_rest :: "visit \<Rightarrow> job list \<Rightarrow> loading \<Rightarrow> world \<Rightarrow> bool" where
  "at_rest v js s w \<longleftrightarrow> (\<forall>t. \<not> opens v js (s, w) t)"

subsection \<open>Every opening ends\<close>

definition work_left :: "loading \<times> world \<Rightarrow> nat" where
  "work_left t = 2 * length (waiting (fst t)) + length (pending (fst t))"

lemma opens_less: "opens v js t t' \<Longrightarrow> work_left t' < work_left t"
  by (induction rule: opens.induct) (simp_all add: work_left_def)

lemma opening_ends: "wfP (\<lambda>t' t. opens v js t t')"
  by (rule wfp_if_convertible_to_nat [of _ work_left]) (rule opens_less)

text \<open>So from any point an opening can be followed until nothing more happens.\<close>

lemma comes_to_rest: "\<exists>s' w'. (opens v js)\<^sup>*\<^sup>* (s, w) (s', w') \<and> at_rest v js s' w'"
proof (induction "work_left (s, w)" arbitrary: s w rule: less_induct)
  case less
  show ?case
  proof (cases "at_rest v js s w")
    case False
    then obtain s1 w1 where step: "opens v js (s, w) (s1, w1)" by (auto simp: at_rest_def)
    obtain s' w' where "(opens v js)\<^sup>*\<^sup>* (s1, w1) (s', w')" "at_rest v js s' w'"
      using less [OF opens_less [OF step]] by blast
    with step show ?thesis by (meson converse_rtranclp_into_rtranclp)
  qed blast
qed

subsection \<open>What an opening does to the world\<close>

definition jobs_keep :: "(world \<Rightarrow> world \<Rightarrow> bool) \<Rightarrow> visit \<Rightarrow> job list \<Rightarrow> bool" where
  "jobs_keep R v js \<longleftrightarrow> (\<forall>j\<in>set js. \<forall>d. keeps R (icode (snd j) v d))"

definition kept_so_far :: "(world \<Rightarrow> world \<Rightarrow> bool) \<Rightarrow> visit \<Rightarrow> loading \<Rightarrow> bool" where
  "kept_so_far R v s \<longleftrightarrow> jobs_keep R v (waiting s) \<and> (\<forall>(k, l)\<in>set (pending s). later_keeps R l)"

lemma opens_keeps:
  assumes "opens v js t t'" "kept_so_far R v (fst t)"
  shows "kept_so_far R v (fst t') \<and> R (snd t) (snd t')"
  using assms
proof (induction rule: opens.induct)
  case (start s xs own i ys w l w')
  then have "keeps R (icode i v (local_data js s own))"
    by (auto simp: kept_so_far_def jobs_keep_def)
  from keepsD [OF this start(3)] start show ?case
    by (auto simp: kept_so_far_def jobs_keep_def)
next
  case (fulfil s xs k l ys w x w')
  then have "later_keeps R l" by (simp add: kept_so_far_def)
  from later_keepsD [OF this fulfil(2)] fulfil show ?case by (simp add: kept_so_far_def)
next
  case (refuse s xs k l ys w e w')
  then have "later_keeps R l" by (simp add: kept_so_far_def)
  from later_keepsD [OF this refuse(2)] refuse show ?case by (simp add: kept_so_far_def)
next
  case (silence s xs k l ys w w')
  then have "later_keeps R l" by (simp add: kept_so_far_def)
  from later_keepsD [OF this silence(2)] silence show ?case by (simp add: kept_so_far_def)
qed

context world_relation
begin

lemma loads: "opened v js w s w' \<Longrightarrow> jobs_keep R v js \<Longrightarrow> R w w'"
proof -
  assume o: "opened v js w s w'" and k: "jobs_keep R v js"
  have "kept_so_far R v (fst t') \<and> R w (snd t')" if "(opens v js)\<^sup>*\<^sup>* (closed_page js, w) t'" for t'
    using that
  proof (induction rule: rtranclp_induct)
    case base
    then show ?case using k same by (simp add: kept_so_far_def closed_page_def)
  next
    case (step t t')
    then show ?case using opens_keeps [OF step(2)] chain by blast
  qed
  from this [of "(s, w')"] o show "R w w'" by (simp add: opened_def)
qed

end

subsection \<open>A page is shown exactly when nothing is refused and everything answered\<close>

text \<open>Every function is accounted for: it waits, its promise is pending, or it has come to one of three
  ends.\<close>

definition accounts :: "loading \<Rightarrow> (string \<times> string) multiset" where
  "accounts s = mset (map key (waiting s)) + mset (map fst (pending s)) + mset (map fst (known s)) +
     mset (map fst (refused s)) + mset (unanswered s)"

lemma opens_accounts: "opens v js t t' \<Longrightarrow> accounts (fst t') = accounts (fst t)"
  by (induction rule: opens.induct) (simp_all add: accounts_def key_def)

lemma opens_waiting: "opens v js t t' \<Longrightarrow> set (waiting (fst t')) \<subseteq> set (waiting (fst t))"
  by (induction rule: opens.induct) auto

lemma opened_accounts:
  assumes "opened v js w s w'"
  shows "accounts s = mset (map key js)" "set (waiting s) \<subseteq> set js"
proof -
  have "accounts (fst t') = mset (map key js) \<and> set (waiting (fst t')) \<subseteq> set js"
    if "(opens v js)\<^sup>*\<^sup>* (closed_page js, w) t'" for t'
    using that
  proof (induction rule: rtranclp_induct)
    case base
    then show ?case by (simp add: accounts_def closed_page_def)
  next
    case (step t t')
    then show ?case using opens_accounts [OF step(2)] opens_waiting [OF step(2)] by auto
  qed
  from this [of "(s, w')"] assms show "accounts s = mset (map key js)" "set (waiting s) \<subseteq> set js"
    by (simp_all add: opened_def)
qed

text \<open>The functions of a page can be started in some order: each takes data of earlier ones, and no two
  give the same datum.\<close>

fun in_order :: "job list \<Rightarrow> (string \<times> string) list \<Rightarrow> job list \<Rightarrow> bool" where
  "in_order all seen [] = True"
| "in_order all seen (j # js) \<longleftrightarrow>
     list_all (\<lambda>n. home all (fst j) n \<in> set seen) (ineeds (snd j)) \<and> key j \<notin> set seen \<and>
     in_order all (key j # seen) js"

definition startable :: "job list \<Rightarrow> bool" where
  "startable js \<longleftrightarrow> in_order js [] js"

lemma in_order_distinct:
  "in_order all seen js \<Longrightarrow> distinct (map key js) \<and> set seen \<inter> set (map key js) = {}"
  by (induction all seen js rule: in_order.induct) auto

lemma in_order_split:
  "in_order all seen (xs @ j # ys) \<Longrightarrow> n \<in> set (ineeds (snd j)) \<Longrightarrow>
     home all (fst j) n \<in> set seen \<union> set (map key xs)"
  by (induction xs arbitrary: seen) (fastforce simp: list_all_iff)+

lemma at_rest_pending: "at_rest v js s w \<Longrightarrow> pending s = []"
proof (rule ccontr)
  assume rest: "at_rest v js s w" and "pending s \<noteq> []"
  then obtain k l ys where p: "pending s = [] @ (k, l) # ys" by (cases "pending s") auto
  obtain r w' where l: "l w = (r, w')" by fastforce
  have "\<exists>t. opens v js (s, w) t"
    using opens.fulfil [OF p] opens.refuse [OF p] opens.silence [OF p] l by (cases r) blast+
  with rest show False by (simp add: at_rest_def)
qed

lemma at_rest_waiting:
  assumes rest: "at_rest v js s w" and j: "(own, i) \<in> set (waiting s)"
  shows "\<exists>n\<in>set (ineeds i). map_of (known s) (home js own n) = None"
proof (rule ccontr)
  assume all: "\<not> ?thesis"
  obtain xs ys where "waiting s = xs @ (own, i) # ys" using j by (meson split_list)
  moreover have "\<forall>n\<in>set (ineeds i). given js s own n \<noteq> None"
    using all by (simp add: given_def)
  moreover obtain l w' where "icode i v (local_data js s own) w = (l, w')" by fastforce
  ultimately show False using rest opens.start unfolding at_rest_def by blast
qed

lemma known_iff:
  assumes "opened v js w s w'" "at_rest v js s w'"
  shows "mset (map key (waiting s)) + mset (map fst (known s)) + mset (map fst (refused s)) +
    mset (unanswered s) = mset (map key js)"
  using opened_accounts(1) [OF assms(1)] at_rest_pending [OF assms(2)] by (simp add: accounts_def)

lemma nothing_waits:
  assumes o: "opened v js w s w'" and rest: "at_rest v js s w'"
    and start: "startable js" and fine: "refused s = []" "unanswered s = []"
  shows "waiting s = []"
proof (rule ccontr)
  assume "waiting s \<noteq> []"
  then have "\<exists>j\<in>set js. j \<in> set (waiting s)"
    using opened_accounts(2) [OF o] by (cases "waiting s") auto
  then obtain xs j ys where js: "js = xs @ j # ys" and j: "j \<in> set (waiting s)"
    and first: "\<forall>k\<in>set xs. k \<notin> set (waiting s)"
    by (blast dest!: split_list_first_prop)
  obtain own i where oi: "j = (own, i)" by fastforce
  have "map_of (known s) (home js own n) \<noteq> None" if n: "n \<in> set (ineeds i)" for n
  proof -
    from in_order_split [of js "[]" xs j ys n] start n js oi
    obtain k where k: "k \<in> set xs" "key k = home js own n" by (auto simp: startable_def)
    have all: "mset (map key (waiting s)) + mset (map fst (known s)) = mset (map key js)"
      using known_iff [OF o rest] fine by simp
    have dist: "distinct (map key js)"
      using start in_order_distinct unfolding startable_def by blast
    have "key k \<notin> set (map key (waiting s))"
    proof
      assume "key k \<in> set (map key (waiting s))"
      then obtain k' where k': "k' \<in> set (waiting s)" "key k' = key k" by auto
      then have "k' \<in> set js" using opened_accounts(2) [OF o] by blast
      moreover have "k \<in> set js" using k js by simp
      ultimately have "k' = k" using dist k'(2) by (simp add: distinct_map inj_on_def)
      then show False using first k(1) k'(1) by blast
    qed
    moreover have "key k \<in># mset (map key js)" using k(1) js by auto
    ultimately have "key k \<in> set (map fst (known s))"
      using all by (metis Un_iff set_mset_mset set_mset_union)
    then show ?thesis using k(2) by (simp add: map_of_eq_None_iff)
  qed
  then show False using at_rest_waiting [OF rest] j oi by blast
qed

lemma distinct_length_le: "distinct xs \<Longrightarrow> set xs \<subseteq> set ys \<Longrightarrow> length xs \<le> length ys"
  by (metis List.finite_set card_length card_mono distinct_card le_trans)

lemma shown_all:
  assumes o: "opened v js w s w'" and start: "startable js" and shown: "shows_page js s"
  shows "waiting s = []" "pending s = []" "refused s = []" "unanswered s = []"
proof -
  have "distinct (map key js)" using start in_order_distinct unfolding startable_def by blast
  moreover have "set (map key js) \<subseteq> set (map fst (known s))"
    using shown unfolding shows_page_def by (force dest: map_of_SomeD)
  ultimately have "length (map key js) \<le> length (map fst (known s))" by (rule distinct_length_le)
  then have "length js \<le> length (known s)" by simp
  moreover have "length js = length (waiting s) + length (pending s) + length (known s) +
      length (refused s) + length (unanswered s)"
    using arg_cong [OF opened_accounts(1) [OF o], of size] by (simp add: accounts_def)
  ultimately show "waiting s = []" "pending s = []" "refused s = []" "unanswered s = []" by simp_all
qed

lemma shown_iff:
  assumes o: "opened v js w s w'" and rest: "at_rest v js s w'" and start: "startable js"
  shows "shows_page js s \<longleftrightarrow> refused s = [] \<and> unanswered s = []"
proof
  assume "refused s = [] \<and> unanswered s = []"
  then have "mset (map fst (known s)) = mset (map key js)"
    using known_iff [OF o rest] nothing_waits [OF o rest start] by simp
  then have "set (map fst (known s)) = set (map key js)" by (metis set_mset_mset)
  then show "shows_page js s"
    unfolding shows_page_def by (metis (no_types, lifting) image_eqI list.set_map map_of_eq_None_iff not_None_eq)
qed (simp add: shown_all [OF o start])

end
