(* ===== verification/Joins.thy ===== *)
theory Joins
  imports Frames
begin

text \<open>
  Reasoning about \<open>$q.all\<close>: what holds of every response holds whatever order they arrive in.
\<close>

section \<open>Every order of arrival\<close>

lemma settle_any_inv:
  assumes step: "\<And>i l v r v'. (i, l) \<in> set ls \<Longrightarrow> I v \<Longrightarrow> l v = (r, v') \<Longrightarrow> I v' \<and> Q i r"
    and "I w" and "settle_any ls w = (rs, w')"
  shows "I w' \<and> (\<forall>(i, r) \<in> set rs. Q i r) \<and> fst ` set rs = fst ` set ls"
  using assms
proof (induction ls w arbitrary: rs w' rule: settle_any.induct)
  case (1 ls w)
  show ?case
  proof (cases "ls = []")
    case True
    then show ?thesis using 1(3,4) by (simp add: settle_any.simps)
  next
    case False
    define k where "k = pick w (length ls) mod length ls"
    have k: "k < length ls" using False by (simp add: k_def)
    obtain j l where jl: "ls ! k = (j, l)" by fastforce
    have jl_in: "(j, l) \<in> set ls" using k jl by (metis nth_mem)
    obtain r1 w1 where r1: "l w = (r1, w1)" by fastforce
    let ?rest = "take k ls @ drop (Suc k) ls"
    obtain rs1 w2 where rs1: "settle_any ?rest w1 = (rs1, w2)" by fastforce
    have sub: "set ls = insert (j, l) (set ?rest)"
      using k jl by (metis Un_insert_right append_Nil2 id_take_nth_drop list.simps(15) set_append)
    have eq: "rs = (j, r1) # rs1" "w' = w2"
      using 1(4) False jl r1 rs1 by (subst (asm) settle_any.simps, simp add: k_def [symmetric])+
    have now: "I w1 \<and> Q j r1" using 1(2) [OF jl_in 1(3) r1] .
    have "I w2 \<and> (\<forall>(i, r) \<in> set rs1. Q i r) \<and> fst ` set rs1 = fst ` set ?rest"
    proof (rule "1.IH" [OF False k_def])
      show "(r1, w1) = snd (ls ! k) w" using jl r1 by simp
      show "\<And>i l v r v'. (i, l) \<in> set ?rest \<Longrightarrow> I v \<Longrightarrow> l v = (r, v') \<Longrightarrow> I v' \<and> Q i r"
        using 1(2) sub by blast
    qed (use now rs1 in auto)
    then show ?thesis using eq now sub by auto
  qed
qed

text \<open>When each outcome is known, so is the whole: fulfilled exactly if all are.\<close>

lemma all_outcome_iff:
  assumes "length rs = n"
  shows "is_fulfilled (all_outcome n rs) \<longleftrightarrow> (\<forall>(i, r) \<in> set rs. is_fulfilled r)"
proof (cases "find (\<lambda>(i, r). is_rejected r) rs")
  case None
  then have "all_outcome n rs =
      (if list_all (\<lambda>(i, r). is_fulfilled r) rs
       then Fulfilled (JArr (map (\<lambda>i. value_of (outcome_of rs i)) [0..<n])) else Pending)"
    by (simp only: all_outcome_def option.case)
  then show ?thesis by (simp add: list_all_iff)
next
  case (Some p)
  obtain i r where p: "p = (i, r)" by fastforce
  then have "(i, r) \<in> set rs" "is_rejected r"
    using Some by (auto simp: find_Some_iff in_set_conv_nth)
  moreover have "\<not> is_fulfilled r" using calculation(2) by (cases r) auto
  ultimately show ?thesis using Some p by (auto simp: all_outcome_def)
qed

lemma join_all_inv:
  assumes step: "\<And>i v r v'. i < length ls \<Longrightarrow> I v \<Longrightarrow> (ls ! i) v = (r, v') \<Longrightarrow>
        I v' \<and> (is_fulfilled r \<longleftrightarrow> good i)"
    and "I w" "join_all ls w = (r, w')"
  shows "I w' \<and> (is_fulfilled r \<longleftrightarrow> (\<forall>i < length ls. good i))"
proof -
  obtain rs where rs: "settle_any (zip [0..<length ls] ls) w = (rs, w')"
    and r: "r = all_outcome (length ls) rs"
    using assms(3) by (auto simp: join_all_def split: prod.splits)
  have inv: "I w' \<and> (\<forall>(i, r) \<in> set rs. is_fulfilled r \<longleftrightarrow> good i) \<and>
      fst ` set rs = fst ` set (zip [0..<length ls] ls)"
  proof (rule settle_any_inv [where Q = "\<lambda>i r. is_fulfilled r \<longleftrightarrow> good i" and I = I, OF _ assms(2) rs])
    fix i l v r v'
    assume "(i, l) \<in> set (zip [0..<length ls] ls)" "I v" "l v = (r, v')"
    then show "I v' \<and> (is_fulfilled r \<longleftrightarrow> good i)" using step by (auto simp: set_zip)
  qed
  have "length rs = length ls"
    using settle_any_length [of "zip [0..<length ls] ls" w] rs by simp
  moreover have "fst ` set rs = {..<length ls}"
  proof -
    have "fst ` set (zip [0..<length ls] ls) = set (map fst (zip [0..<length ls] ls))"
      by (simp only: set_map)
    also have "\<dots> = {..<length ls}" by (simp add: lessThan_atLeast0)
    finally show ?thesis using inv by simp
  qed
  ultimately show ?thesis
    using inv all_outcome_iff [of rs "length ls"] r by (auto simp: case_prod_beta) force+
qed

lemma run_q_all [promise_simps]:
  "run (q_all ps) w = (case start_all ps w of (ls, w1) \<Rightarrow> join_all ls w1)"
  by (simp add: run_def q_all_def split: prod.splits)

section \<open>Calls whose value nobody uses\<close>

text \<open>A later that answers one call, keeps everything but the board and the session, and is
  fulfilled exactly if the server accepts the call.\<close>

definition kept :: "world \<Rightarrow> world \<Rightarrow> bool" where
  "kept v v' \<longleftrightarrow> sent v' = sent v \<and> srv v' = srv v \<and> ask v' = ask v \<and> loc v' = loc v \<and>
     asked v' = asked v \<and> reloads v' = reloads v \<and> apiRoot v' = apiRoot v \<and>
     pick v' = pick v \<and> parseUrl v' = parseUrl v \<and> scope v' = scope v \<and> scrolls v' = scrolls v"

lemma kept_refl [simp]: "kept v v"
  by (simp add: kept_def)

lemma kept_trans: "kept u v \<Longrightarrow> kept v w \<Longrightarrow> kept u w"
  by (simp add: kept_def)

lemma kept_digest [simp]: "kept v (digest v)"
  by (simp add: kept_def)

lemma kept_setMessages [simp]: "kept v (setMessages m d v)"
  by (simp add: kept_def)

lemma kept_onRejection [simp]: "kept v (onRejection f v)"
  by (simp add: kept_def)

fun is_ok :: "response \<Rightarrow> bool" where
  "is_ok (Ok x) = True"
| "is_ok (Err f) = False"

definition accepted :: "world \<Rightarrow> call \<Rightarrow> bool" where
  "accepted v c \<longleftrightarrow> is_ok (srv v (sent v) c)"

lemma accepted_is_ok: "accepted v c = is_ok (srv v (sent v) c)"
  by (simp add: accepted_def)

lemma answer_call_kept:
  "answer_call c v = (r, v') \<Longrightarrow> kept v v' \<and> (is_fulfilled r \<longleftrightarrow> accepted v c) \<and> r \<noteq> Pending"
  by (auto simp: answer_call_def responseError_def Let_def accepted_def
      intro: kept_trans [OF kept_digest] split: response.splits if_splits)

definition answered :: "call \<Rightarrow> (js \<Rightarrow> later) \<Rightarrow> (js \<Rightarrow> later) \<Rightarrow> later" where
  "answered c ok bad v =
     (case answer_call c v of
        (Fulfilled x, v') \<Rightarrow> ok x v'
      | (Rejected e, v') \<Rightarrow> bad e v'
      | (Pending, v') \<Rightarrow> (Pending, v'))"

lemma deferred_http:
  "deferred (with_world (\<lambda>w. http (c w))) ok bad w = (answered (c w) ok bad, send (c w) w)"
  by (auto simp: deferred_def with_world_def http_def answered_def fun_eq_iff)

lemma alerts_then_kept:
  "alerts_then d (reject x) f v = (r, v') \<Longrightarrow> kept v v' \<and> \<not> is_fulfilled r"
  by (auto simp: alerts_then_def deref_later_eq after_def split: option.splits)

lemma answered_resolve_kept:
  assumes "answered c (\<lambda>_. resolve JUndef) (alerts_then d (reject x)) v = (r, v')"
  shows "kept v v' \<and> (is_fulfilled r \<longleftrightarrow> accepted v c)"
proof -
  obtain q u where u: "answer_call c v = (q, u)" by fastforce
  note k = answer_call_kept [OF u]
  show ?thesis
    using assms u k alerts_then_kept kept_trans
    by (cases q) (auto simp: answered_def)
qed

end
