(* ===== verification/DsRequests.thy ===== *)
theory DsRequests
  imports Joins
begin

text \<open>
  Delivery service requests: the table with the actions on a request
  (\<open>TableDeliveryServiceRequestsController.js\<close>) and the form a request is edited, fulfilled and
  deleted in (\<open>FormEditDeliveryServiceRequestController.js\<close>).

  A request is draft, submitted, rejected, pending or complete.  The request object the user acts
  on is an argument; where the code writes it, the new object is put in the scope under the name
  the controller holds it by.
\<close>

section \<open>Statuses (both controllers)\<close>

definition DRAFT :: js where "DRAFT = JNum 0"
definition SUBMITTED :: js where "SUBMITTED = JNum 1"
definition REJECTED :: js where "REJECTED = JNum 2"
definition PENDING :: js where "PENDING = JNum 3"
definition COMPLETE :: js where "COMPLETE = JNum 4"

lemmas status_defs = DRAFT_def SUBMITTED_def REJECTED_def PENDING_def COMPLETE_def

definition has_status :: "js \<Rightarrow> string \<Rightarrow> bool" where
  "has_status request s \<longleftrightarrow> js_eq (fld request ''status'') (JStr s)"

definition fulfillable :: "js \<Rightarrow> bool" where
  "fulfillable request \<longleftrightarrow> has_status request ''submitted''"

definition rejectable :: "js \<Rightarrow> bool" where
  "rejectable request \<longleftrightarrow> has_status request ''submitted''"

definition completeable :: "js \<Rightarrow> bool" where
  "completeable request \<longleftrightarrow> has_status request ''pending''"

definition open_request :: "js \<Rightarrow> bool" where
  "open_request request \<longleftrightarrow> has_status request ''draft'' \<or> has_status request ''submitted''"

definition closed_request :: "js \<Rightarrow> bool" where
  "closed_request request \<longleftrightarrow> has_status request ''rejected'' \<or> has_status request ''complete''"

definition option_item :: "js \<Rightarrow> string \<Rightarrow> js" where
  "option_item i name = JObj [(''id'', i), (''name'', JStr name)]"

definition draft_or_submit :: "string \<Rightarrow> js" where
  "draft_or_submit submit_label =
     JArr [option_item DRAFT ''Save as Draft'', option_item SUBMITTED submit_label]"

definition routing_categories :: js where
  "routing_categories =
     JArr [option_item (JNum 1) ''ANY_MAP'', option_item (JNum 2) ''DNS'',
           option_item (JNum 3) ''HTTP'', option_item (JNum 4) ''STEERING'']"

definition current_user_id :: "world \<Rightarrow> js" where
  "current_user_id w = fld (userUser w) ''id''"

section \<open>The table (TableDeliveryServiceRequestsController.js)\<close>

definition delete_request_of :: "js \<Rightarrow> js" where
  "delete_request_of deliveryService =
     JObj [(''changeType'', JStr ''delete''), (''status'', JStr ''submitted''),
           (''deliveryService'', deliveryService)]"

definition createDeliveryServiceDeleteRequest :: "js \<Rightarrow> op" where
  "createDeliveryServiceDeleteRequest deliveryService =
     on_close (dialog_confirm (message_params ''Delivery Service Delete Request''
         (''All delivery service deletions must be reviewed.<br><br>Are you sure you want to submit a request to delete the '' @
          to_str (fld deliveryService ''xmlId'') @ '' delivery service?'')))
       (\<lambda>_. when_done (createDeliveryServiceRequest (delete_request_of deliveryService) False) refresh)"

definition assignRequest :: "js \<Rightarrow> bool \<Rightarrow> op" where
  "assignRequest request assign =
     on_close (dialog_confirm (message_params ''Assign Delivery Service Request''
         (if assign then ''Are you sure you want to assign this delivery service request to yourself?''
          else ''Are you sure you want to unassign this delivery service request?'')))
       (\<lambda>_. with_world (\<lambda>w.
          let assigneeId = (if assign then current_user_id w else JNull)
          in when_done (assignDeliveryServiceRequest (fld request ''id'') assigneeId) refresh))"

definition editStatus :: "js \<Rightarrow> op" where
  "editStatus request =
     on_close (dialog_select (message_params ''Edit Delivery Service Request Status''
         ''Please select the appropriate status for this request.'')
         (draft_or_submit ''Submit for Review / Deployment''))
       (\<lambda>action. deref action ''id'' (\<lambda>i.
          let request' = set_fld request ''status''
                (JStr (if js_eq i DRAFT then ''draft'' else ''submitted''))
          in seq (eff (set_scope ''request'' request'))
               (when_done (updateDeliveryServiceRequest (fld request' ''id'') request') refresh)))"

definition rejectRequest :: "js \<Rightarrow> op" where
  "rejectRequest request =
     on_close (dialog_confirm (message_params ''Reject Delivery Service Request''
         ''Are you sure you want to reject this delivery service request?''))
       (\<lambda>_. with_world (\<lambda>w.
          when_done
            (q_all [assignDeliveryServiceRequest (fld request ''id'') (current_user_id w),
                    updateDeliveryServiceRequestStatus (fld request ''id'') ''rejected''])
            refresh))"

definition only_assignee :: js where
  "only_assignee =
     error_alert ''Only the Assignee can mark a delivery service request as complete''"

definition refuse_complete :: op where
  "refuse_complete = seq (eff (setMessages only_assignee False)) (eff anchor_scroll)"

definition assigned_to_user :: "js \<Rightarrow> world \<Rightarrow> bool" where
  "assigned_to_user request w \<longleftrightarrow> js_eq (fld request ''assigneeId'') (current_user_id w)"

definition completeRequest :: "js \<Rightarrow> op" where
  "completeRequest request = with_world (\<lambda>w.
     if \<not> assigned_to_user request w then refuse_complete
     else
       on_close (dialog_confirm (message_params ''Complete Delivery Service Request''
           ''Are you sure you want to mark this delivery service request as complete?''))
         (\<lambda>_. when_done (updateDeliveryServiceRequestStatus (fld request ''id'') ''complete'') refresh))"

definition deleteRequest :: "js \<Rightarrow> op" where
  "deleteRequest request =
     (let xmlId = to_str (fld (fld request ''deliveryService'') ''xmlId'');
          changeType = to_str (fld request ''changeType'')
      in on_close (dialog_delete (key_params
             (''Delete the '' @ xmlId @ '' '' @ changeType @ '' request?'')
             (JStr (xmlId @ '' '' @ changeType @ '' request''))))
           (\<lambda>_. when_done (deleteDeliveryServiceRequest (fld request ''id'') False) refresh))"

definition CREATE :: js where "CREATE = JNum 1"
definition UPDATE :: js where "UPDATE = JNum 2"
definition DELETE :: js where "DELETE = JNum 3"

definition request_kinds :: js where
  "request_kinds =
     JArr [option_item CREATE ''A request for a new delivery service'',
           option_item UPDATE ''A request to update an existing delivery service'',
           option_item DELETE ''A request to delete an existing delivery service'']"

definition create_new :: op where
  "create_new =
     on_close (dialog_select (message_params ''Create Delivery Service''
         ''Please select a content routing category'') routing_categories)
       (\<lambda>type. deref type ''name'' (\<lambda>n. navigateToPath (''/delivery-services/new?type='' @ to_str n)))"

definition create_update :: op where
  "create_update =
     on_close (dialog_select_from (message_params ''Update Delivery Service''
         ''Please select a delivery service to update'') (getDeliveryServices JUndef))
       (\<lambda>ds. deref ds ''id'' (\<lambda>i. deref ds ''type'' (\<lambda>t. navigateToPath (ds_path i t))))"

definition create_delete :: op where
  "create_delete =
     on_close (dialog_select_from (message_params ''Delete Delivery Service''
         ''Please select a delivery service to delete'') (getDeliveryServices JUndef))
       (\<lambda>ds. detach (createDeliveryServiceDeleteRequest ds))"

definition createRequest :: op where
  "createRequest =
     on_close (dialog_select (message_params ''Create Delivery Service Request''
         ''What kind of delivery service request would you like to create?'') request_kinds)
       (\<lambda>action. deref action ''id'' (\<lambda>i.
          if js_eq i CREATE then detach create_new
          else if js_eq i UPDATE then detach create_update
          else if js_eq i DELETE then detach create_delete
          else ret JUndef))"

text \<open>\<open>editDeliveryServiceRequest\<close> and the table's \<open>fulfillRequest\<close> open the request's form.\<close>

definition open_request_form :: "js \<Rightarrow> op" where
  "open_request_form request =
     then1 (getType (fld (fld request ''deliveryService'') ''typeId''))
       (\<lambda>result. deref result ''name'' (\<lambda>n. navigateToPath
          (''/delivery-service-requests/'' @ to_str (fld request ''id'') @ ''?type='' @ to_str n)))"

definition editDeliveryServiceRequest :: "js \<Rightarrow> op" where
  "editDeliveryServiceRequest request = detach (open_request_form request)"

definition table_fulfillRequest :: "js \<Rightarrow> op" where
  "table_fulfillRequest request = detach (open_request_form request)"

section \<open>The form (FormEditDeliveryServiceRequestController.js)\<close>

definition saveable :: "js \<Rightarrow> bool" where
  "saveable dsRequest \<longleftrightarrow> has_status dsRequest ''draft'' \<or> has_status dsRequest ''submitted''"

definition deletable :: "js \<Rightarrow> bool" where
  "deletable dsRequest \<longleftrightarrow> has_status dsRequest ''draft'' \<or> has_status dsRequest ''submitted''"

definition form_fulfillable :: "js \<Rightarrow> bool" where
  "form_fulfillable dsRequest \<longleftrightarrow> has_status dsRequest ''submitted''"

definition form_open :: "js \<Rightarrow> bool" where
  "form_open dsRequest \<longleftrightarrow>
     has_status dsRequest ''draft'' \<or> has_status dsRequest ''submitted'' \<or>
     has_status dsRequest ''pending''"

text \<open>\<open>_.findWhere(collection, { value: n }).label\<close>; \<open>None\<close> is the \<open>TypeError\<close> when no item has the
  value.\<close>

fun js_same :: "js \<Rightarrow> js \<Rightarrow> bool" where
  "js_same (JNum a) (JNum b) = (a = b)"
| "js_same (JStr a) (JStr b) = (a = b)"
| "js_same (JBool a) (JBool b) = (a = b)"
| "js_same JNull JNull = True"
| "js_same JUndef JUndef = True"
| "js_same _ _ = False"

definition magicNumberLabel :: "js list \<Rightarrow> js \<Rightarrow> js option" where
  "magicNumberLabel collection magicNumber =
     map_option (\<lambda>item. fld item ''label'')
       (find (\<lambda>item. js_same (fld item ''value'') magicNumber) collection)"

definition form_statuses :: "js \<Rightarrow> js" where
  "form_statuses dsRequest =
     (if has_status dsRequest ''draft'' \<or> has_status dsRequest ''submitted''
      then draft_or_submit ''Submit for Review / Deployment''
      else if has_status dsRequest ''pending'' then JArr [option_item COMPLETE ''Complete'']
      else JArr [])"

definition store_request :: "js \<Rightarrow> op" where
  "store_request dsRequest = eff (set_scope ''dsRequest'' dsRequest)"

definition set_request_status :: "js \<Rightarrow> string \<Rightarrow> op" where
  "set_request_status dsRequest s =
     (let dsRequest' = set_fld dsRequest ''status'' (JStr s)
      in seq (store_request dsRequest')
           (when_done (updateDeliveryServiceRequest (fld dsRequest' ''id'') dsRequest') refresh))"

text \<open>\<open>switch\<close> compares strictly.\<close>

definition form_editStatus :: "js \<Rightarrow> op" where
  "form_editStatus dsRequest =
     on_close (dialog_select (message_params ''Edit Delivery Service Request Status''
         ''Please select the appropriate status for this request.'') (form_statuses dsRequest))
       (\<lambda>action. deref action ''id'' (\<lambda>i.
          if js_same i DRAFT then set_request_status dsRequest ''draft''
          else if js_same i SUBMITTED then set_request_status dsRequest ''submitted''
          else if js_same i COMPLETE then with_world (\<lambda>w.
            if \<not> assigned_to_user dsRequest w then refuse_complete
            else when_done
              (updateDeliveryServiceRequestStatus (fld dsRequest ''id'') ''complete'') refresh)
          else ret JUndef))"

text \<open>The calls fulfilling a request makes for the request itself; all are made at once, before
  the delivery service is touched.\<close>

definition fulfill_promises :: "js \<Rightarrow> bool \<Rightarrow> js \<Rightarrow> op list" where
  "fulfill_promises dsRequest dirty userId =
     (if dirty then [updateDeliveryServiceRequest (fld dsRequest ''id'') dsRequest] else []) @
     [assignDeliveryServiceRequest (fld dsRequest ''id'') userId,
      updateDeliveryServiceRequestStatus (fld dsRequest ''id'') ''pending'']"

text \<open>The second dialog of a deletion, and the deletion.\<close>

definition delete_ds_params :: "js \<Rightarrow> js" where
  "delete_ds_params ds =
     key_params (''Delete Delivery Service: '' @ to_str (fld ds ''xmlId'')) (fld ds ''xmlId'')"

definition confirm_and_delete :: "js \<Rightarrow> op" where
  "confirm_and_delete ds =
     then1 (dialog_delete (delete_ds_params ds)) (\<lambda>_. deleteDeliveryService ds True)"

text \<open>Their responses and those for the delivery service arrive in any order, which is what
  \<open>q_all\<close> over all of them says; only the deletion waits for all to navigate.\<close>

definition fulfill_confirmed :: "js \<Rightarrow> js \<Rightarrow> bool \<Rightarrow> js \<Rightarrow> js \<Rightarrow> op" where
  "fulfill_confirmed dsRequest changeType dirty userId ds =
     (let promises = fulfill_promises dsRequest dirty userId
      in if js_eq changeType (JStr ''create'') then
           detach (q_all (promises @ [createDeliveryService ds]))
         else if js_eq changeType (JStr ''update'') then
           detach (q_all (promises @ [updateDeliveryService ds True]))
         else if js_eq changeType (JStr ''delete'') then
           when_done
             (q_all (promises @ [confirm_and_delete ds]))
             (navigateToPath ''/delivery-service-requests'')
         else detach (q_all promises))"

definition fulfill_params :: "js \<Rightarrow> js \<Rightarrow> js" where
  "fulfill_params changeType ds =
     message_params
       (''Delivery Service '' @ to_str changeType @ '': '' @ to_str (fld ds ''xmlId''))
       (''Are you sure you want to fulfill this delivery service request and '' @ to_str changeType @
        '' the '' @ to_str (fld ds ''xmlId'') @ '' delivery service'' @
        (if js_eq changeType (JStr ''create'') \<or> js_eq changeType (JStr ''update'')
         then '' with these configuration settings?'' else ''?''))"

definition fulfillRequest :: "js \<Rightarrow> js \<Rightarrow> bool \<Rightarrow> js \<Rightarrow> op" where
  "fulfillRequest dsRequest changeType dirty ds =
     on_close (dialog_confirm (fulfill_params changeType ds))
       (\<lambda>_. with_world (\<lambda>w. fulfill_confirmed dsRequest changeType dirty (current_user_id w) ds))"

definition save_request :: "js \<Rightarrow> js \<Rightarrow> op" where
  "save_request dsRequest deliveryService =
     on_close (dialog_select (message_params ''Delivery Service Request Status''
         ''Please select the status of your delivery service request.'')
         (draft_or_submit ''Submit for Review / Deployment''))
       (\<lambda>action. deref action ''id'' (\<lambda>i.
          let s = (if js_eq i SUBMITTED then ''submitted'' else ''draft'');
              dsRequest' = set_fld (set_fld dsRequest ''status'' (JStr s))
                             ''deliveryService'' deliveryService
          in seq (store_request dsRequest')
               (when_done (updateDeliveryServiceRequest (fld dsRequest' ''id'') dsRequest')
                  (seq (eff (setMessages (success (''Updated delivery service request for '' @
                          to_str (fld deliveryService ''xmlId'') @ '' and set status to '' @ s)) False))
                     (seq (eff anchor_scroll) refresh)))))"

definition confirm_delete_request :: "js \<Rightarrow> js \<Rightarrow> js \<Rightarrow> op" where
  "confirm_delete_request dsRequest requestId deliveryService =
     on_close (dialog_delete (key_params
         (''Delete '' @ to_str (fld deliveryService ''xmlId'') @ '' '' @
          to_str (fld dsRequest ''changeType'') @ '' request?'')
         (JStr (to_str (fld deliveryService ''xmlId'') @ '' request''))))
       (\<lambda>_. detach (deleteDeliveryServiceRequest requestId True))"

section \<open>What the service calls do\<close>

abbreviation quiet_call :: "call \<Rightarrow> later" where
  "quiet_call c \<equiv> answered c (\<lambda>_. resolve JUndef) (alerts_then False (reject JUndef))"

lemma start_assign:
  "assignDeliveryServiceRequest i u w =
     (quiet_call (assign_call i u (apiRoot w)), send (assign_call i u (apiRoot w)) w)"
  by (simp add: assignDeliveryServiceRequest_def deferred_http)

lemma start_status:
  "updateDeliveryServiceRequestStatus i s w =
     (quiet_call (status_call i s (apiRoot w)), send (status_call i s (apiRoot w)) w)"
  by (simp add: updateDeliveryServiceRequestStatus_def deferred_http)

definition update_call :: "js \<Rightarrow> js \<Rightarrow> string \<Rightarrow> call" where
  "update_call i dsRequest root = HPut (root @ ''deliveryservice_requests/'' @ to_str i) dsRequest"

lemma start_update:
  "updateDeliveryServiceRequest i d w =
     (quiet_call (update_call i d (apiRoot w)), send (update_call i d (apiRoot w)) w)"
  by (simp add: updateDeliveryServiceRequest_def api_def update_call_def deferred_http)

lemmas start_calls = start_assign start_status start_update

lemma run_status:
  "run (updateDeliveryServiceRequestStatus i s) w =
     quiet_call (status_call i s (apiRoot w)) (send (status_call i s (apiRoot w)) w)"
  by (simp add: run_def start_status)

text \<open>One call and then a reload if it was accepted.\<close>

lemma call_then_refresh:
  assumes "run p w = quiet_call c (send c w)" "run (when_done p refresh) w = (r, w')"
  shows "sent w' = sent w @ [c] \<and> loc w' = loc w \<and> asked w' = asked w \<and>
    reloads w' = reloads w + (if accepted (send c w) c then 1 else 0)"
proof -
  obtain q u where u: "quiet_call c (send c w) = (q, u)" by fastforce
  have k: "kept (send c w) u" "is_fulfilled q \<longleftrightarrow> accepted (send c w) c"
    using answered_resolve_kept [OF u] by simp_all
  have "sent (send c w) = sent w @ [c]" by (simp add: send_def)
  then show ?thesis
    using assms u k by (cases q) (auto simp: run_when_done kept_def)
qed

lemma accepted_kept: "kept v v' \<Longrightarrow> accepted v' c = accepted v c"
  by (simp add: kept_def accepted_def)

text \<open>Several calls made at once: all are logged, in the order made, and the whole is fulfilled
  exactly if all are accepted.\<close>

lemma q_all_two:
  assumes "run (q_all [p, q]) w = (r, w')"
    and "p w = (quiet_call c, send c w)"
    and "q (send c w) = (quiet_call d, send d (send c w))"
  shows "kept (send d (send c w)) w' \<and>
    (is_fulfilled r \<longleftrightarrow> accepted (send d (send c w)) c \<and> accepted (send d (send c w)) d)"
proof -
  let ?w1 = "send d (send c w)"
  have join: "join_all [quiet_call c, quiet_call d] ?w1 = (r, w')"
    using assms by (simp add: run_q_all)
  have "kept ?w1 w' \<and> (is_fulfilled r \<longleftrightarrow>
      (\<forall>i < length [quiet_call c, quiet_call d]. accepted ?w1 ([c, d] ! i)))"
  proof (rule join_all_inv [OF _ _ join])
    fix i v r v'
    assume i: "i < length [quiet_call c, quiet_call d]" and k: "kept ?w1 v"
      and run: "([quiet_call c, quiet_call d] ! i) v = (r, v')"
    have "([quiet_call c, quiet_call d] ! i) = quiet_call ([c, d] ! i)"
      using i by (auto simp: less_Suc_eq)
    then have "quiet_call ([c, d] ! i) v = (r, v')" using run by simp
    then have "kept v v' \<and> (is_fulfilled r \<longleftrightarrow> accepted v ([c, d] ! i))"
      by (rule answered_resolve_kept)
    then show "kept ?w1 v' \<and> (is_fulfilled r \<longleftrightarrow> accepted ?w1 ([c, d] ! i))"
      using kept_trans [OF k] accepted_kept [OF k] by simp
  qed simp
  then show ?thesis by (auto simp: less_Suc_eq)
qed

lemma q_all_calls_first:
  assumes "\<forall>p\<in>set qs. keeps log_grows p" "start_all ps w = (ls, w1)" "\<forall>l\<in>set ls. later_keeps log_grows l"
    and "run (q_all (ps @ qs)) w = (r, w')"
  shows "prefix (sent w1) (sent w')"
proof -
  obtain l2 w2 where l2: "start_all qs w1 = (l2, w2)" by fastforce
  have g: "log_grows w1 w2" "\<forall>l\<in>set (ls @ l2). later_keeps log_grows l"
    using grows.start [OF assms(1) l2] assms(3) by auto
  have "join_all (ls @ l2) w2 = (r, w')"
    using assms(2,4) l2 by (simp add: run_q_all start_all_append)
  then have "log_grows w2 w'" by (rule later_keepsD [OF grows.joined [OF g(2)]])
  then show ?thesis using grows.chain [OF g(1)] by (simp add: log_grows_def)
qed

lemma log_grows_quiet: "later_keeps log_grows (quiet_call c)"
  unfolding later_keeps_def
proof
  fix w
  obtain r w' where run: "quiet_call c w = (r, w')" by fastforce
  have "kept w w'" using answered_resolve_kept [OF run] by simp
  then show "log_grows w (snd (quiet_call c w))" using run by (simp add: kept_def log_grows_def)
qed

definition fulfill_calls :: "js \<Rightarrow> bool \<Rightarrow> js \<Rightarrow> string \<Rightarrow> call list" where
  "fulfill_calls dsRequest dirty userId root =
     (if dirty then [update_call (fld dsRequest ''id'') dsRequest root] else []) @
     [assign_call (fld dsRequest ''id'') userId root,
      status_call (fld dsRequest ''id'') ''pending'' root]"

lemma start_fulfill_promises:
  "\<exists>w1. start_all (fulfill_promises dsRequest dirty userId) w =
      (map quiet_call (fulfill_calls dsRequest dirty userId (apiRoot w)), w1) \<and>
    sent w1 = sent w @ fulfill_calls dsRequest dirty userId (apiRoot w) \<and>
    w1 = w\<lparr>sent := sent w1\<rparr>"
  by (auto simp: fulfill_promises_def fulfill_calls_def start_calls send_def)

lemma moves_no_call [keeps_intros]: "log_grows w (set_url u w)"
  by (simp add: log_grows_same_log set_url_def)

lemma navigate_grows [keeps_intros]: "keeps log_grows (navigateToPath u)"
  unfolding navigateToPath_def by (intro keeps_intros)

lemma grows_ds_calls:
  "keeps log_grows (createDeliveryService ds)" "keeps log_grows (updateDeliveryService ds d)"
  "keeps log_grows (confirm_and_delete ds)"
  unfolding createDeliveryService_def updateDeliveryService_def confirm_and_delete_def
    deleteDeliveryService_def
  by (intro keeps_intros grows.rest_calls grows.api log_grows_send grows.message)+

lemma fulfill_confirmed_sends:
  assumes "run (fulfill_confirmed dsRequest changeType dirty userId ds) w = (r, w')"
  shows "prefix (sent w @ fulfill_calls dsRequest dirty userId (apiRoot w)) (sent w')"
proof -
  let ?ps = "fulfill_promises dsRequest dirty userId"
  obtain ls w1 where s: "start_all ?ps w = (ls, w1)"
    "sent w1 = sent w @ fulfill_calls dsRequest dirty userId (apiRoot w)" "\<forall>l\<in>set ls. later_keeps log_grows l"
    using start_fulfill_promises [of dsRequest dirty userId w] log_grows_quiet by auto
  have first: "prefix (sent w1) (sent (snd (run (q_all (?ps @ qs)) w)))" if "\<forall>p\<in>set qs. keeps log_grows p" for qs
    using q_all_calls_first [OF that s(1) s(3)] by (metis surjective_pairing)
  have nav: "sent (snd (run (navigateToPath u) v)) = sent v" for u v
    by (simp add: navigateToPath_def set_url_def)
  have done': "prefix S (sent (snd (run (when_done p (navigateToPath u)) v)))"
    if "prefix S (sent (snd (run p v)))" for S p u v
    using that by (auto simp: run_when_done nav split: prod.splits outcome.splits)
  have "prefix (sent w1) (sent (snd (run (fulfill_confirmed dsRequest changeType dirty userId ds) w)))"
    using first [of "[]"] first [of "[createDeliveryService ds]"]
      first [of "[updateDeliveryService ds True]"]
      first [of "[confirm_and_delete ds]"]
    by (simp add: fulfill_confirmed_def Let_def run_detach grows_ds_calls done')
  then show ?thesis using s(2) assms by simp
qed

text \<open>A second dialog that is dismissed: nothing is deleted and nobody navigates.\<close>

lemma start_confirm_and_delete:
  obtains l where "confirm_and_delete ds w =
      (l, note_asked ''DialogDeleteController'' (delete_ds_params ds) JUndef w)"
    and "\<And>v e. ask v ''DialogDeleteController'' (delete_ds_params ds) JUndef = Dismiss e \<Longrightarrow>
           l v = (Rejected e, digest v)"
proof
  let ?l = "fst (confirm_and_delete ds w)"
  show "confirm_and_delete ds w =
      (?l, note_asked ''DialogDeleteController'' (delete_ds_params ds) JUndef w)"
    by (simp add: confirm_and_delete_def dialog_delete_def then1_def then2_def open_modal_def note_asked_def)
  show "ask v ''DialogDeleteController'' (delete_ds_params ds) JUndef = Dismiss e \<Longrightarrow>
           ?l v = (Rejected e, digest v)" for v e
    by (simp add: confirm_and_delete_def dialog_delete_def then1_def then2_def open_modal_def)
qed

lemma quiet_calls_and_refusal:
  assumes "join_all (map quiet_call cs @ [l]) w = (r, w')"
    and refuse: "\<And>v. kept w v \<Longrightarrow> \<exists>e. l v = (Rejected e, digest v)"
  shows "kept w w' \<and> \<not> is_fulfilled r"
proof -
  let ?ls = "map quiet_call cs @ [l]"
  have "kept w w' \<and> (is_fulfilled r \<longleftrightarrow>
      (\<forall>i < length ?ls. i < length cs \<and> accepted w (cs ! i)))"
  proof (rule join_all_inv [OF _ _ assms(1)])
    fix i v q v' assume i: "i < length ?ls" and k: "kept w v" and run: "(?ls ! i) v = (q, v')"
    show "kept w v' \<and> (is_fulfilled q \<longleftrightarrow> i < length cs \<and> accepted w (cs ! i))"
    proof (cases "i < length cs")
      case True
      then have "quiet_call (cs ! i) v = (q, v')" using run by (simp add: nth_append)
      then have "kept v v' \<and> (is_fulfilled q \<longleftrightarrow> accepted v (cs ! i))"
        by (rule answered_resolve_kept)
      then show ?thesis using kept_trans [OF k] accepted_kept [OF k] True by simp
    next
      case False
      then have "l v = (q, v')" using run i by (simp add: nth_append less_Suc_eq)
      then show ?thesis using refuse [OF k] kept_trans [OF k kept_digest] False by auto
    qed
  qed simp
  then show ?thesis by auto
qed

lemma fulfill_confirmed_dismissed:
  assumes "ask w ''DialogDeleteController'' (delete_ds_params ds) JUndef = Dismiss e"
    and "run (fulfill_confirmed dsRequest (JStr ''delete'') dirty userId ds) w = (r, w')"
  shows "sent w' = sent w @ fulfill_calls dsRequest dirty userId (apiRoot w) \<and> loc w' = loc w"
proof -
  let ?ps = "fulfill_promises dsRequest dirty userId"
  let ?cs = "fulfill_calls dsRequest dirty userId (apiRoot w)"
  obtain w1 where w1: "start_all ?ps w = (map quiet_call ?cs, w1)" "sent w1 = sent w @ ?cs"
    "w1 = w\<lparr>sent := sent w1\<rparr>"
    using start_fulfill_promises [of dsRequest dirty userId w] by blast
  obtain l where l: "confirm_and_delete ds w1 =
        (l, note_asked ''DialogDeleteController'' (delete_ds_params ds) JUndef w1)"
    and ref: "\<And>v e. ask v ''DialogDeleteController'' (delete_ds_params ds) JUndef = Dismiss e \<Longrightarrow>
           l v = (Rejected e, digest v)"
    using start_confirm_and_delete [of ds w1] by blast
  let ?w2 = "note_asked ''DialogDeleteController'' (delete_ds_params ds) JUndef w1"
  have ask: "ask w1 = ask w" "loc w1 = loc w" by (subst w1(3), simp)+
  obtain q u where u: "run (q_all (?ps @ [confirm_and_delete ds])) w = (q, u)" by fastforce
  have join: "join_all (map quiet_call ?cs @ [l]) ?w2 = (q, u)"
    using u w1(1) l by (simp add: run_q_all start_all_append)
  have "kept ?w2 u \<and> \<not> is_fulfilled q"
  proof (rule quiet_calls_and_refusal [OF join])
    fix v assume "kept ?w2 v"
    then have "ask v = ask w" using ask by (simp add: kept_def)
    then show "\<exists>e. l v = (Rejected e, digest v)" using ref assms(1) by fastforce
  qed
  moreover have "run (fulfill_confirmed dsRequest (JStr ''delete'') dirty userId ds) w =
      run (when_done (q_all (?ps @ [confirm_and_delete ds])) (navigateToPath ''/delivery-service-requests'')) w"
    by (simp add: fulfill_confirmed_def Let_def)
  ultimately show ?thesis
    using assms(2) u w1(2) ask by (cases q) (auto simp: run_when_done kept_def)
qed

section \<open>Properties\<close>

abbreviation reject_params :: js where
  "reject_params \<equiv> message_params ''Reject Delivery Service Request''
     ''Are you sure you want to reject this delivery service request?''"

text \<open>C18. Rejecting a request assigns it to the user and marks it rejected, in two calls that are
  both made before either is answered; the page is reloaded exactly if the server accepts both,
  in whatever order the answers arrive.\<close>

theorem reject_assigns_and_rejects:
  assumes "ask w ''DialogConfirmController'' reject_params JUndef = Close v"
  shows "case run (rejectRequest request) w of (r, w') \<Rightarrow>
    (let ca = assign_call (fld request ''id'') (current_user_id w) (apiRoot w);
         cs = status_call (fld request ''id'') ''rejected'' (apiRoot w);
         calls = sent w @ [ca, cs]
     in sent w' = calls \<and> loc w' = loc w \<and>
        reloads w' = reloads w +
          (if is_ok (srv w calls ca) \<and> is_ok (srv w calls cs) then 1 else 0))"
proof -
  define ca cs where "ca = assign_call (fld request ''id'') (current_user_id w) (apiRoot w)"
    and "cs = status_call (fld request ''id'') ''rejected'' (apiRoot w)"
  define w0 where "w0 = digest (note_asked ''DialogConfirmController'' reject_params JUndef w)"
  let ?p = "assignDeliveryServiceRequest (fld request ''id'') (current_user_id w)"
  let ?q = "updateDeliveryServiceRequestStatus (fld request ''id'') ''rejected''"
  obtain r u where u: "run (q_all [?p, ?q]) w0 = (r, u)" by fastforce
  have st: "?p w0 = (quiet_call ca, send ca w0)" "?q (send ca w0) = (quiet_call cs, send cs (send ca w0))"
    by (simp_all add: start_calls ca_def cs_def w0_def)
  have k: "kept (send cs (send ca w0)) u"
    "is_fulfilled r \<longleftrightarrow> accepted (send cs (send ca w0)) ca \<and> accepted (send cs (send ca w0)) cs"
    using q_all_two [OF u st] by simp_all
  have "run (rejectRequest request) w = run (when_done (q_all [?p, ?q]) refresh) w0"
    using assms by (simp add: rejectRequest_def run_on_close run_dialog_confirm w0_def current_user_id_def)
  moreover have "sent (send cs (send ca w0)) = sent w @ [ca, cs]" "loc (send cs (send ca w0)) = loc w"
    "srv (send cs (send ca w0)) = srv w" "reloads (send cs (send ca w0)) = reloads w"
    by (simp_all add: w0_def send_def)
  ultimately show ?thesis
    using u k by (cases r)
      (auto simp: run_when_done kept_def accepted_is_ok ca_def [symmetric] cs_def [symmetric] Let_def)
qed

theorem reject_assigns_and_rejects_witness:
  "case run (rejectRequest (JObj [(''id'', JNum 7)])) (start_world accept_all close_all) of (r, w') \<Rightarrow>
     length (sent w') = 2 \<and> reloads w' = 1"
proof -
  have "ask (start_world accept_all close_all) ''DialogConfirmController'' reject_params JUndef = Close JUndef"
    by (simp add: close_all_def)
  from reject_assigns_and_rejects [OF this, of "JObj [(''id'', JNum 7)]"]
  show ?thesis by (simp add: Let_def accept_all_def split: prod.splits)
qed





abbreviation complete_params :: js where
  "complete_params \<equiv> message_params ''Complete Delivery Service Request''
     ''Are you sure you want to mark this delivery service request as complete?''"

text \<open>C17. Only the assignee completes a request: the call is made exactly if the request is
  assigned to the user and the user confirms; otherwise nothing is sent, and somebody else is
  told so at once without being asked.\<close>

theorem complete_only_by_assignee:
  "case run (completeRequest request) w of (r, w') \<Rightarrow>
     sent w' = sent w @
       (if assigned_to_user request w \<and>
           (\<exists>v. ask w ''DialogConfirmController'' complete_params JUndef = Close v)
        then [status_call (fld request ''id'') ''complete'' (apiRoot w)] else []) \<and>
     (if assigned_to_user request w
      then asked w' = asked w @ [(''DialogConfirmController'', complete_params, JUndef)]
      else asked w' = asked w \<and> displayed w' = only_assignee \<and> queue w' = [])"
proof (cases "assigned_to_user request w")
  case False
  then show ?thesis
    by (simp add: completeRequest_def refuse_complete_def anchor_scroll_def only_assignee_def
        setMessages_def message_box_def)
next
  case True
  let ?w0 = "digest (note_asked ''DialogConfirmController'' complete_params JUndef w)"
  let ?c = "status_call (fld request ''id'') ''complete'' (apiRoot w)"
  obtain r w' where w': "run (when_done (updateDeliveryServiceRequestStatus (fld request ''id'')
      ''complete'') refresh) ?w0 = (r, w')" by fastforce
  have "sent w' = sent ?w0 @ [?c] \<and> loc w' = loc ?w0 \<and> asked w' = asked ?w0 \<and>
      reloads w' = reloads ?w0 + (if accepted (send ?c ?w0) ?c then 1 else 0)"
    by (rule call_then_refresh [OF _ w']) (simp add: run_status)
  then show ?thesis
    using True w' by (auto simp: completeRequest_def run_on_close run_dialog_confirm split: answer.splits)
qed

end
