(* ===== verification/ResourceForms.thy ===== *)
theory ResourceForms
  imports Joins
begin

text \<open>
  The forms that edit, create and delete one resource
  (\<open>common/modules/form/*/edit/FormEdit*Controller.js\<close>, \<open>form/*/new/FormNew*Controller.js\<close>), their
  operations written out one controller at a time, and the contract between a form and its service
  as a locale: what a form does follows from what the service does with the server's answer.
\<close>

section \<open>What the controllers share\<close>

text \<open>\<open>service.update(x).then(function() { $scope.name = angular.copy(x.field); $anchorScroll(); })\<close>.\<close>

definition save_form :: "(js \<Rightarrow> op) \<Rightarrow> string \<Rightarrow> string \<Rightarrow> js \<Rightarrow> op" where
  "save_form update title field x =
     when_done (update x)
       (seq (eff (set_scope title (fld x field))) (eff anchor_scroll))"

text \<open>\<open>service.delete(id).then(function() { locationUtils.navigateToPath(list); })\<close>.\<close>

definition delete_form :: "(js \<Rightarrow> op) \<Rightarrow> string \<Rightarrow> js \<Rightarrow> op" where
  "delete_form remove list_path i = when_done (remove i) (navigateToPath list_path)"

text \<open>The delete dialog, which asks for the key to be typed in.\<close>

definition confirm_delete :: "string \<Rightarrow> js \<Rightarrow> op \<Rightarrow> op" where
  "confirm_delete title key p = on_close (dialog_delete (key_params title key)) (\<lambda>_. p)"

section \<open>FormEditASNController.js\<close>

definition asn_save :: "js \<Rightarrow> op" where
  "asn_save = save_form updateASN ''asnName'' ''asn''"

definition asn_delete :: "js \<Rightarrow> op" where
  "asn_delete x = delete_form deleteASN ''/asns'' (fld x ''id'')"

definition asn_confirmDelete :: "js \<Rightarrow> op" where
  "asn_confirmDelete x =
     confirm_delete (''Delete ASN: '' @ to_str (fld x ''asn'')) (JStr (to_str (fld x ''asn''))) (asn_delete x)"

section \<open>FormEditCacheGroupController.js\<close>

definition cacheGroup_save :: "js \<Rightarrow> op" where
  "cacheGroup_save = save_form updateCacheGroup ''cacheGroupName'' ''name''"

definition cacheGroup_delete :: "js \<Rightarrow> op" where
  "cacheGroup_delete x = delete_form deleteCacheGroup ''/cache-groups'' (fld x ''id'')"

definition cacheGroup_confirmDelete :: "js \<Rightarrow> op" where
  "cacheGroup_confirmDelete x =
     confirm_delete (''Delete Cache Group: '' @ to_str (fld x ''name'')) (fld x ''name'') (cacheGroup_delete x)"

text \<open>The CDN whose servers are meant is chosen in a dialog first.\<close>

definition cacheGroup_confirmQueueServerUpdates :: "js \<Rightarrow> op" where
  "cacheGroup_confirmQueueServerUpdates cacheGroup =
     on_close (dialog_select_from (message_params
         (''Queue Server Updates: '' @ to_str (fld cacheGroup ''name'')) ''Please select a CDN'')
         (getCDNs False))
       (\<lambda>cdn. deref cdn ''id'' (\<lambda>i. detach (queueCacheGroupUpdates (fld cacheGroup ''id'') i)))"

definition cacheGroup_confirmClearServerUpdates :: "js \<Rightarrow> op" where
  "cacheGroup_confirmClearServerUpdates cacheGroup =
     on_close (dialog_select_from (message_params
         (''Clear Server Updates: '' @ to_str (fld cacheGroup ''name'')) ''Please select a CDN'')
         (getCDNs False))
       (\<lambda>cdn. deref cdn ''id'' (\<lambda>i. detach (clearCacheGroupUpdates (fld cacheGroup ''id'') i)))"

section \<open>FormEditCDNController.js\<close>

definition cdn_save :: "js \<Rightarrow> op" where
  "cdn_save = save_form updateCDN ''cdnName'' ''name''"

definition cdn_delete :: "js \<Rightarrow> op" where
  "cdn_delete x = delete_form deleteCDN ''/cdns'' (fld x ''id'')"

definition cdn_confirmDelete :: "js \<Rightarrow> op" where
  "cdn_confirmDelete x =
     confirm_delete (''Delete CDN: '' @ to_str (fld x ''name'')) (fld x ''name'') (cdn_delete x)"

section \<open>FormEditDivisionController.js\<close>

definition division_save :: "js \<Rightarrow> op" where
  "division_save = save_form updateDivision ''divisionName'' ''name''"

definition division_delete :: "js \<Rightarrow> op" where
  "division_delete x = delete_form deleteDivision ''/divisions'' (fld x ''id'')"

definition division_confirmDelete :: "js \<Rightarrow> op" where
  "division_confirmDelete x =
     confirm_delete (''Delete Division: '' @ to_str (fld x ''name'')) (fld x ''name'') (division_delete x)"

section \<open>FormEditParameterController.js\<close>

definition parameter_save :: "js \<Rightarrow> op" where
  "parameter_save = save_form updateParameter ''parameterName'' ''name''"

definition parameter_delete :: "js \<Rightarrow> op" where
  "parameter_delete x = delete_form deleteParameter ''/parameters'' (fld x ''id'')"

definition parameter_confirmDelete :: "js \<Rightarrow> op" where
  "parameter_confirmDelete x =
     confirm_delete (''Delete Parameter: '' @ to_str (fld x ''name'')) (fld x ''name'') (parameter_delete x)"

text \<open>The profiles that use the parameter are listed before it is updated.\<close>

definition names_joined :: "js list \<Rightarrow> string" where
  "names_joined ps = join_with ''<br>'' (map (\<lambda>p. case fld p ''name'' of
       JUndef \<Rightarrow> [] | JNull \<Rightarrow> [] | v \<Rightarrow> to_str v) ps)"

definition used_by_message :: "js \<Rightarrow> string" where
  "used_by_message result =
     to_str (fld result ''length'') @ '' profiles use this parameter.<br><br>'' @
     (if elems result \<noteq> [] then names_joined (elems result) @ ''<br><br>'' else []) @
     ''Are you sure you want to update the parameter?''"

definition parameter_confirmSave :: "js \<Rightarrow> op" where
  "parameter_confirmSave parameter =
     when_result (getParameterProfiles (fld parameter ''id''))
       (\<lambda>result. on_close (dialog_confirm (message_params ''Update Parameter?'' (used_by_message result)))
          (\<lambda>_. parameter_save parameter))"

section \<open>FormEditPhysLocationController.js\<close>

definition physLocation_save :: "js \<Rightarrow> op" where
  "physLocation_save = save_form updatePhysLocation ''physLocationName'' ''name''"

definition physLocation_delete :: "js \<Rightarrow> op" where
  "physLocation_delete x = delete_form deletePhysLocation ''/phys-locations'' (fld x ''id'')"

definition physLocation_confirmDelete :: "js \<Rightarrow> op" where
  "physLocation_confirmDelete x =
     confirm_delete (''Delete Physical Location: '' @ to_str (fld x ''name'')) (fld x ''name'') (physLocation_delete x)"

section \<open>FormEditProfileController.js\<close>

definition profile_save :: "js \<Rightarrow> op" where
  "profile_save = save_form updateProfile ''profileName'' ''name''"

definition profile_delete :: "js \<Rightarrow> op" where
  "profile_delete x = delete_form deleteProfile ''/profiles'' (fld x ''id'')"

definition profile_confirmDelete :: "js \<Rightarrow> op" where
  "profile_confirmDelete x =
     confirm_delete (''Delete Profile: '' @ to_str (fld x ''name'')) (fld x ''name'') (profile_delete x)"

section \<open>FormEditRegionController.js\<close>

definition region_save :: "js \<Rightarrow> op" where
  "region_save = save_form updateRegion ''regionName'' ''name''"

definition region_delete :: "js \<Rightarrow> op" where
  "region_delete x = delete_form deleteRegion ''/regions'' (fld x ''id'')"

definition region_confirmDelete :: "js \<Rightarrow> op" where
  "region_confirmDelete x =
     confirm_delete (''Delete Region: '' @ to_str (fld x ''name'')) (fld x ''name'') (region_delete x)"

section \<open>FormEditServerController.js\<close>

definition server_save :: "js \<Rightarrow> op" where
  "server_save = save_form updateServer ''serverName'' ''hostName''"

definition server_delete :: "js \<Rightarrow> op" where
  "server_delete x = delete_form deleteServer ''/servers'' (fld x ''id'')"

definition server_confirmDelete :: "js \<Rightarrow> op" where
  "server_confirmDelete x =
     confirm_delete (''Delete Server: '' @ to_str (fld x ''hostName'')) (fld x ''hostName'') (server_delete x)"

definition server_getStatuses :: op where
  "server_getStatuses =
     detach (then1 (getStatuses JUndef) (\<lambda>result. eff (set_scope ''statuses'' result)))"

section \<open>FormEditStatusController.js\<close>

definition status_save :: "js \<Rightarrow> op" where
  "status_save = save_form updateStatus ''statusName'' ''name''"

definition status_delete :: "js \<Rightarrow> op" where
  "status_delete x = delete_form deleteStatus ''/statuses'' (fld x ''id'')"

definition status_confirmDelete :: "js \<Rightarrow> op" where
  "status_confirmDelete x =
     confirm_delete (''Delete Status: '' @ to_str (fld x ''name'')) (fld x ''name'') (status_delete x)"

section \<open>FormEditTenantController.js\<close>

definition tenant_save :: "js \<Rightarrow> op" where
  "tenant_save = save_form updateTenant ''tenantName'' ''name''"

definition tenant_delete :: "js \<Rightarrow> op" where
  "tenant_delete x = delete_form deleteTenant ''/tenants'' (fld x ''id'')"

definition tenant_confirmDelete :: "js \<Rightarrow> op" where
  "tenant_confirmDelete x =
     confirm_delete (''Delete Tenant: '' @ to_str (fld x ''name'')) (fld x ''name'') (tenant_delete x)"

section \<open>FormEditTypeController.js\<close>

definition type_save :: "js \<Rightarrow> op" where
  "type_save = save_form updateType ''typeName'' ''name''"

definition type_delete :: "js \<Rightarrow> op" where
  "type_delete x = delete_form deleteType ''/types'' (fld x ''id'')"

definition type_confirmDelete :: "js \<Rightarrow> op" where
  "type_confirmDelete x =
     confirm_delete (''Delete Type: '' @ to_str (fld x ''name'')) (fld x ''name'') (type_delete x)"

section \<open>FormEditDeliveryServiceRegexController.js\<close>

definition regex_save :: "js \<Rightarrow> js \<Rightarrow> op" where
  "regex_save dsId regex = save_form updateDeliveryServiceRegex ''regexPattern'' ''pattern'' regex"

definition regexes_path :: "js \<Rightarrow> string" where
  "regexes_path dsId = ''/delivery-services/'' @ to_str dsId @ ''/regexes''"

definition regex_delete :: "js \<Rightarrow> js \<Rightarrow> op" where
  "regex_delete dsId regexId =
     delete_form (deleteDeliveryServiceRegex dsId) (regexes_path dsId) regexId"

definition regex_confirmDelete :: "js \<Rightarrow> js \<Rightarrow> op" where
  "regex_confirmDelete deliveryService regex =
     confirm_delete (''Delete Delivery Service Regex: '' @ to_str (fld regex ''pattern''))
       (fld regex ''pattern'')
       (regex_delete (fld deliveryService ''id'') (fld regex ''id''))"

section \<open>FormEditDeliveryServiceTargetController.js, FormEditUserController.js\<close>

definition target_save :: "js \<Rightarrow> js \<Rightarrow> js \<Rightarrow> op" where
  "target_save dsId targetId target = detach (updateDeliveryServiceTarget dsId targetId target)"

definition target_delete :: "js \<Rightarrow> op" where
  "target_delete target =
     when_done (deleteDeliveryServiceTarget (fld target ''deliveryServiceId'') (fld target ''targetId''))
       (ret JUndef)"

definition target_confirmDelete :: "js \<Rightarrow> op" where
  "target_confirmDelete target =
     on_close (dialog_confirm (message_params ''Delete Target''
         ''Are you sure you want to delete the steering target?''))
       (\<lambda>_. target_delete target)"

definition user_confirmSave :: "js \<Rightarrow> op" where
  "user_confirmSave user = save_form updateUser ''userName'' ''username'' user"

section \<open>FormEditFederationController.js\<close>

definition federation_save :: "js \<Rightarrow> op" where
  "federation_save fed = save_form updateFederation ''cname'' ''cname'' fed"

definition federation_delete :: "js \<Rightarrow> js \<Rightarrow> op" where
  "federation_delete cdn fed =
     delete_form (deleteFederation (fld cdn ''id''))
       (''/cdns/'' @ to_str (fld cdn ''id'') @ ''/federations'') (fld fed ''id'')"

definition confirmDeleteFederation :: "js \<Rightarrow> js \<Rightarrow> op" where
  "confirmDeleteFederation cdn fed =
     confirm_delete (''Delete Federation: '' @ to_str (fld fed ''cname'')) (fld fed ''cname'')
       (federation_delete cdn fed)"

definition federation_deleteResolver :: "js \<Rightarrow> op" where
  "federation_deleteResolver fedRes =
     when_done (deleteFederationResolver (fld fedRes ''id'')) refresh"

definition confirmDeleteResolver :: "js \<Rightarrow> js \<Rightarrow> op" where
  "confirmDeleteResolver federation resolver =
     on_close (dialog_confirm (message_params
         (''Delete Federation Resolver: '' @ to_str (fld resolver ''ipAddress''))
         (''Are you sure you want to delete this federation resolver and remove it from the '' @
          to_str (fld federation ''cname'') @ '' federation?'')))
       (\<lambda>_. federation_deleteResolver resolver)"

definition assignFederationResolver :: "js \<Rightarrow> js \<Rightarrow> op" where
  "assignFederationResolver fedId fedResId =
     when_done (assignFederationResolvers fedId (JArr [fedResId]) False) refresh"

definition federation_createResolver :: "js \<Rightarrow> js \<Rightarrow> op" where
  "federation_createResolver federation fedRes =
     detach (then2 (createFederationResolver fedRes)
       (\<lambda>result. deref result ''id'' (\<lambda>i. assignFederationResolver (fld federation ''id'') i))
       (fault_alerts False))"

text \<open>\<open>DialogFederationResolverController\<close> closes with the resolver filled in.\<close>

definition createResolver :: "js \<Rightarrow> op" where
  "createResolver federation =
     on_close (then1 (getTypes (JObj [(''useInTable'', JStr ''federation'')]))
         (open_modal ''DialogFederationResolverController'' federation))
       (\<lambda>resolver. federation_createResolver federation resolver)"

section \<open>FormNew*Controller.js\<close>

definition asn_new_save :: "js \<Rightarrow> op" where
  "asn_new_save asn = detach (createASN asn)"

definition cacheGroup_new_save :: "js \<Rightarrow> op" where
  "cacheGroup_new_save cacheGroup = detach (createCacheGroup cacheGroup)"

definition cdn_new_save :: "js \<Rightarrow> op" where
  "cdn_new_save cdn = detach (createCDN cdn)"

definition division_new_save :: "js \<Rightarrow> op" where
  "division_new_save division = detach (createDivision division)"

definition parameter_new_confirmSave :: "js \<Rightarrow> op" where
  "parameter_new_confirmSave parameter = detach (createParameter parameter)"

definition physLocation_new_save :: "js \<Rightarrow> op" where
  "physLocation_new_save physLocation = detach (createPhysLocation physLocation)"

definition profile_new_save :: "js \<Rightarrow> op" where
  "profile_new_save profile = detach (createProfile profile)"

definition server_new_save :: "js \<Rightarrow> op" where
  "server_new_save server = detach (createServer server)"

definition status_new_save :: "js \<Rightarrow> op" where
  "status_new_save status = detach (createStatus status)"

definition type_new_save :: "js \<Rightarrow> op" where
  "type_new_save type = detach (createType type)"

definition user_new_confirmSave :: "js \<Rightarrow> op" where
  "user_new_confirmSave user = detach (createUser user)"

definition regex_new_save :: "js \<Rightarrow> js \<Rightarrow> op" where
  "regex_new_save dsId regex = detach (createDeliveryServiceRegex dsId regex)"

definition target_new_save :: "js \<Rightarrow> js \<Rightarrow> js \<Rightarrow> op" where
  "target_new_save dsId targetId target = detach (createDeliveryServiceTarget dsId target)"

definition federation_new_save :: "js \<Rightarrow> js \<Rightarrow> op" where
  "federation_new_save cdn fed = detach (createFederation cdn fed)"

definition register :: "js \<Rightarrow> op" where
  "register registration = detach (registerUser registration)"

text \<open>These two leave the page themselves, whatever the service's promise was fulfilled for.\<close>

definition region_new_save :: "js \<Rightarrow> op" where
  "region_new_save region = when_done (createRegion region) (navigateToPath ''/regions'')"

definition tenant_new_save :: "js \<Rightarrow> op" where
  "tenant_new_save tenant = when_done (createTenant tenant) (navigateToPath ''/tenants'')"

definition job_created :: "string \<Rightarrow> string \<Rightarrow> js \<Rightarrow> op" where
  "job_created txt u job =
     detach (then2 (createJob job) (\<lambda>_. seq (say txt True) (navigateToPath u)) (fault_alerts False))"

definition job_new_save :: "js \<Rightarrow> op" where
  "job_new_save job = job_created ''Invalidate Content Job Created'' ''/jobs'' job"

definition ds_job_new_save :: "js \<Rightarrow> js \<Rightarrow> op" where
  "ds_job_new_save deliveryService job =
     job_created ''Delivery Service Invalidate Content Job Created''
       (''/delivery-services/'' @ to_str (fld deliveryService ''id'') @ ''/jobs'') job"

text \<open>A new server starts offline; the status' id is looked up in the list (\<open>FormNewServerController\<close>).\<close>

definition server_new_getStatuses :: op where
  "server_new_getStatuses =
     detach (then1 (getStatuses JUndef)
       (\<lambda>result. seq (eff (set_scope ''statuses'' result))
          (with_world (\<lambda>w.
             case find (\<lambda>s. js_eq (fld s ''name'') (JStr ''OFFLINE'')) (elems result) of
               None \<Rightarrow> throw type_error
             | Some offlineStatus \<Rightarrow>
                 eff (set_scope ''server''
                   (set_fld (scope w ''server'') ''statusId'' (fld offlineStatus ''id'')))))))"

section \<open>The contract between a form and its service\<close>

definition alerts_of :: "js \<Rightarrow> js" where
  "alerts_of fault = fld (fld fault ''data'') ''alerts''"

text \<open>A failure as Traffic Ops reports it: a status, and alerts in the body.\<close>

definition reported :: "js \<Rightarrow> bool" where
  "reported fault \<longleftrightarrow> \<not> nullish (fld fault ''status'') \<and> is_array (alerts_of fault)"

text \<open>An answer the Restangular interceptor can read.\<close>

definition readable :: "string \<Rightarrow> js \<Rightarrow> bool" where
  "readable operation v \<longleftrightarrow> responseInterceptor v operation \<noteq> None"

text \<open>The world in which the handlers of a call run.\<close>

definition answered_ok :: "call \<Rightarrow> world \<Rightarrow> world" where
  "answered_ok c w = digest (send c w)"

definition answered_err :: "call \<Rightarrow> js \<Rightarrow> world \<Rightarrow> world" where
  "answered_err c fault w = onRejection fault (digest (send c w))"

lemma getp_fld: "fld v k \<noteq> JUndef \<Longrightarrow> getp v k = Some (fld v k)"
  by (simp add: fld_def split: option.splits)

lemma run_fault_alerts:
  "reported f \<Longrightarrow> run (fault_alerts d f) w = (Fulfilled JUndef, setMessages (alerts_of f) d w)"
proof -
  assume "reported f"
  then have "alerts_of f \<noteq> JUndef" by (auto simp: reported_def)
  moreover from this have "fld f ''data'' \<noteq> JUndef" by (auto simp: alerts_of_def fld_def)
  ultimately show ?thesis
    by (simp add: fault_alerts_def run_deref getp_fld alerts_of_def)
qed

lemma run_say [simp]: "run (say t d) w = (Fulfilled JUndef, setMessages (success t) d w)"
  by (simp add: say_def)

lemma run_seq_say [simp]: "run (seq (say t d) q) w = run q (setMessages (success t) d w)"
  by (simp add: say_def)

lemma run_rest_Ok:
  "srv w (sent w @ [c]) c = Ok v \<Longrightarrow> readable operation v \<Longrightarrow>
     \<exists>x. run (rest operation c) w = (Fulfilled x, answered_ok c w)"
  by (auto simp: rest_def run_deferred run_http_Ok answered_ok_def readable_def)

lemma run_rest_Err:
  "srv w (sent w @ [c]) c = Err f \<Longrightarrow> reported f \<Longrightarrow>
     run (rest operation c) w = (Rejected f, answered_err c f w)"
  by (simp add: rest_def run_deferred run_http_Err responseError_def reported_def answered_err_def)

text \<open>The shape of every mutation: a call, a message on success, the server's alerts on failure.\<close>

lemma mutation_Ok:
  assumes "srv w (sent w @ [c]) c = Ok v" "readable operation v"
  shows "run (then2 (rest operation c) (\<lambda>_. say t d) (fault_alerts d')) w =
           (Fulfilled JUndef, setMessages (success t) d (answered_ok c w))"
  using run_rest_Ok [OF assms] by (auto simp: run_then2)

lemma mutation_Err:
  assumes "srv w (sent w @ [c]) c = Err f" "reported f"
  shows "run (then2 (rest operation c) ok (fault_alerts d')) w =
           (Fulfilled JUndef, setMessages (alerts_of f) d' (answered_err c f w))"
  using run_rest_Err [OF assms] assms(2) by (simp add: run_then2 run_fault_alerts)

lemma run_navigate [simp]: "run (navigateToPath u) w = (Fulfilled JUndef, set_url u w)"
  by (simp add: navigateToPath_def)

lemma set_url_frame [simp]:
  "sent (set_url u w) = sent w" "loc (set_url u w) = parseUrl w u" "shown (set_url u w) = shown w"
  "messages (set_url u w) = messages w" "queue (set_url u w) = queue w"
  by (simp_all add: set_url_def)

text \<open>A message left for the next page, and the page left.\<close>

lemma leave_with_message:
  assumes "is_array m" "parseUrl w u \<noteq> shown w"
  shows "displayed (digest (set_url u (setMessages m True w))) = m"
    "loc (digest (set_url u (setMessages m True w))) = parseUrl w u"
    "sent (digest (set_url u (setMessages m True w))) = sent w"
  using assms
  by (simp_all add: digest_def set_url_def setMessages_def message_box_def location_changed_def
      onLocationChangeStart_def onLocationChangeSuccess_def resetMessages_def)

lemma answered_frame [simp]:
  "shown (answered_ok c w) = loc w" "shown (answered_err c f w) = loc w"
  "parseUrl (answered_ok c w) = parseUrl w" "parseUrl (answered_err c f w) = parseUrl w"
  "sent (answered_ok c w) = sent w @ [c]" "sent (answered_err c f w) = sent w @ [c]"
  "loc (answered_ok c w) = loc w" "loc (answered_err c f w) = loc w"
  "scrolls (answered_ok c w) = scrolls w" "scrolls (answered_err c f w) = scrolls w"
  by (simp_all add: answered_ok_def answered_err_def send_def)

locale resource =
  fixes update :: "js \<Rightarrow> op" and remove :: "js \<Rightarrow> op"
    and segs :: "js \<Rightarrow> seg list" and updated :: string and deleted :: string
  assumes update_Ok: "srv w (sent w @ [RPut x]) (RPut x) = Ok v \<Longrightarrow> readable ''put'' v \<Longrightarrow>
        run (update x) w =
          (Fulfilled JUndef, setMessages (success updated) False (answered_ok (RPut x) w))"
    and update_Err: "srv w (sent w @ [RPut x]) (RPut x) = Err f \<Longrightarrow> reported f \<Longrightarrow>
        run (update x) w =
          (Fulfilled JUndef, setMessages (alerts_of f) False (answered_err (RPut x) f w))"
    and remove_Ok: "srv w (sent w @ [RRemove (segs i)]) (RRemove (segs i)) = Ok v \<Longrightarrow>
        readable ''remove'' v \<Longrightarrow>
        run (remove i) w =
          (Fulfilled JUndef, setMessages (success deleted) True (answered_ok (RRemove (segs i)) w))"
    and remove_Err: "srv w (sent w @ [RRemove (segs i)]) (RRemove (segs i)) = Err f \<Longrightarrow>
        reported f \<Longrightarrow>
        run (remove i) w =
          (Fulfilled JUndef, setMessages (alerts_of f) True (answered_err (RRemove (segs i)) f w))"
begin

text \<open>Saving shows the outcome on the page; the title of the form changes in either case.\<close>

lemma save_accepted:
  assumes "srv w (sent w @ [RPut x]) (RPut x) = Ok v" "readable ''put'' v"
  shows "case run (save_form update title field x) w of (r, w') \<Rightarrow>
    sent w' = sent w @ [RPut x] \<and> loc w' = loc w \<and> displayed w' = success updated \<and>
    scope w' title = fld x field \<and> scrolls w' = Suc (scrolls w)"
  by (simp add: save_form_def run_when_done update_Ok [OF assms] location_defs
      setMessages_def message_box_def)

lemma save_refused_run:
  assumes "srv w (sent w @ [RPut x]) (RPut x) = Err f" "reported f"
  shows "run (save_form update title field x) w = (Fulfilled JUndef,
    anchor_scroll (set_scope title (fld x field)
      (setMessages (alerts_of f) False (answered_err (RPut x) f w))))"
  by (simp add: save_form_def run_when_done update_Err [OF assms])

lemma save_refused:
  assumes "srv w (sent w @ [RPut x]) (RPut x) = Err f" "reported f"
  shows "case run (save_form update title field x) w of (r, w') \<Rightarrow>
    sent w' = sent w @ [RPut x] \<and> loc w' = loc w \<and> displayed w' = alerts_of f \<and>
    scope w' title = fld x field \<and> scrolls w' = Suc (scrolls w)"
  using assms(2)
  by (simp add: save_form_def run_when_done update_Err [OF assms] location_defs
      setMessages_def message_box_def reported_def)

text \<open>Deleting ends on the list page, which shows the outcome.\<close>

lemma delete_accepted:
  assumes "srv w (sent w @ [RRemove (segs i)]) (RRemove (segs i)) = Ok v" "readable ''remove'' v"
    and "parseUrl w list_path \<noteq> loc w"
  shows "case settle (delete_form remove list_path i) w of (r, w') \<Rightarrow>
    sent w' = sent w @ [RRemove (segs i)] \<and> loc w' = parseUrl w list_path \<and>
    displayed w' = success deleted"
  using assms(3)
  by (simp add: settle_def delete_form_def run_when_done remove_Ok [OF assms(1,2)] leave_with_message)

lemma delete_refused_run:
  assumes "srv w (sent w @ [RRemove (segs i)]) (RRemove (segs i)) = Err f" "reported f"
  shows "run (delete_form remove list_path i) w = (Fulfilled JUndef,
    set_url list_path (setMessages (alerts_of f) True (answered_err (RRemove (segs i)) f w)))"
  by (simp add: delete_form_def run_when_done remove_Err [OF assms])

lemma delete_refused:
  assumes "srv w (sent w @ [RRemove (segs i)]) (RRemove (segs i)) = Err f" "reported f"
    and "parseUrl w list_path \<noteq> loc w"
  shows "case settle (delete_form remove list_path i) w of (r, w') \<Rightarrow>
    sent w' = sent w @ [RRemove (segs i)] \<and> loc w' = parseUrl w list_path \<and>
    displayed w' = alerts_of f"
  using assms(2,3)
  by (simp add: settle_def delete_refused_run [OF assms(1,2)] leave_with_message reported_def)

end

section \<open>The services keep the contract\<close>

interpretation asn_form: resource updateASN deleteASN "\<lambda>i. [One ''asns'' i]" "''ASN updated''" "''ASN deleted''"
  by unfold_locales
     (simp_all add: updateASN_def deleteASN_def rest_put_def rest_remove_def mutation_Ok mutation_Err)

interpretation cacheGroup_form: resource updateCacheGroup deleteCacheGroup "\<lambda>i. [One ''cachegroups'' i]" "''Cache group updated''" "''Cache group deleted''"
  by unfold_locales
     (simp_all add: updateCacheGroup_def deleteCacheGroup_def rest_put_def rest_remove_def mutation_Ok mutation_Err)

interpretation cdn_form: resource updateCDN deleteCDN "\<lambda>i. [One ''cdns'' i]" "''CDN updated''" "''CDN deleted''"
  by unfold_locales
     (simp_all add: updateCDN_def deleteCDN_def rest_put_def rest_remove_def mutation_Ok mutation_Err)

interpretation division_form: resource updateDivision deleteDivision "\<lambda>i. [One ''divisions'' i]" "''Division updated''" "''Division deleted''"
  by unfold_locales
     (simp_all add: updateDivision_def deleteDivision_def rest_put_def rest_remove_def mutation_Ok mutation_Err)

interpretation parameter_form: resource updateParameter deleteParameter "\<lambda>i. [One ''parameters'' i]" "''Parameter updated''" "''Parameter deleted''"
  by unfold_locales
     (simp_all add: updateParameter_def deleteParameter_def rest_put_def rest_remove_def mutation_Ok mutation_Err)

interpretation physLocation_form: resource updatePhysLocation deletePhysLocation "\<lambda>i. [One ''phys_locations'' i]" "''Physical location updated''" "''Physical location deleted''"
  by unfold_locales
     (simp_all add: updatePhysLocation_def deletePhysLocation_def rest_put_def rest_remove_def mutation_Ok mutation_Err)

interpretation profile_form: resource updateProfile deleteProfile "\<lambda>i. [One ''profiles'' i]" "''Profile updated''" "''Profile deleted''"
  by unfold_locales
     (simp_all add: updateProfile_def deleteProfile_def rest_put_def rest_remove_def mutation_Ok mutation_Err)

interpretation region_form: resource updateRegion deleteRegion "\<lambda>i. [One ''regions'' i]" "''Region updated''" "''Region deleted''"
  by unfold_locales
     (simp_all add: updateRegion_def deleteRegion_def rest_put_def rest_remove_def mutation_Ok mutation_Err)

interpretation server_form: resource updateServer deleteServer "\<lambda>i. [One ''servers'' i]" "''Server updated''" "''Server deleted''"
  by unfold_locales
     (simp_all add: updateServer_def deleteServer_def rest_put_def rest_remove_def mutation_Ok mutation_Err)

interpretation status_form: resource updateStatus deleteStatus "\<lambda>i. [One ''statuses'' i]" "''Status updated''" "''Status deleted''"
  by unfold_locales
     (simp_all add: updateStatus_def deleteStatus_def rest_put_def rest_remove_def mutation_Ok mutation_Err)

interpretation tenant_form: resource updateTenant deleteTenant "\<lambda>i. [One ''tenants'' i]" "''Tenant updated''" "''Tenant deleted''"
  by unfold_locales
     (simp_all add: updateTenant_def deleteTenant_def rest_put_def rest_remove_def mutation_Ok mutation_Err)

interpretation type_form: resource updateType deleteType "\<lambda>i. [One ''types'' i]" "''Type updated''" "''Type deleted''"
  by unfold_locales
     (simp_all add: updateType_def deleteType_def rest_put_def rest_remove_def mutation_Ok mutation_Err)

interpretation regex_form: resource updateDeliveryServiceRegex "deleteDeliveryServiceRegex dsId"
    "\<lambda>i. [One ''deliveryservices'' dsId, One ''regexes'' i]" "''Regex updated''" "''Regex deleted''"
  for dsId
  by unfold_locales
     (simp_all add: updateDeliveryServiceRegex_def deleteDeliveryServiceRegex_def rest_put_def
        rest_remove_def mutation_Ok mutation_Err)

section \<open>Properties\<close>

text \<open>The twelve forms that work alike, by name.\<close>

datatype form_kind =
    ASNForm
  | CacheGroupForm
  | CDNForm
  | DivisionForm
  | ParameterForm
  | PhysLocationForm
  | ProfileForm
  | RegionForm
  | ServerForm
  | StatusForm
  | TenantForm
  | TypeForm

fun form_save :: "form_kind \<Rightarrow> js \<Rightarrow> op" where
  "form_save ASNForm = asn_save"
| "form_save CacheGroupForm = cacheGroup_save"
| "form_save CDNForm = cdn_save"
| "form_save DivisionForm = division_save"
| "form_save ParameterForm = parameter_save"
| "form_save PhysLocationForm = physLocation_save"
| "form_save ProfileForm = profile_save"
| "form_save RegionForm = region_save"
| "form_save ServerForm = server_save"
| "form_save StatusForm = status_save"
| "form_save TenantForm = tenant_save"
| "form_save TypeForm = type_save"

fun form_confirmDelete :: "form_kind \<Rightarrow> js \<Rightarrow> op" where
  "form_confirmDelete ASNForm = asn_confirmDelete"
| "form_confirmDelete CacheGroupForm = cacheGroup_confirmDelete"
| "form_confirmDelete CDNForm = cdn_confirmDelete"
| "form_confirmDelete DivisionForm = division_confirmDelete"
| "form_confirmDelete ParameterForm = parameter_confirmDelete"
| "form_confirmDelete PhysLocationForm = physLocation_confirmDelete"
| "form_confirmDelete ProfileForm = profile_confirmDelete"
| "form_confirmDelete RegionForm = region_confirmDelete"
| "form_confirmDelete ServerForm = server_confirmDelete"
| "form_confirmDelete StatusForm = status_confirmDelete"
| "form_confirmDelete TenantForm = tenant_confirmDelete"
| "form_confirmDelete TypeForm = type_confirmDelete"

fun form_delete :: "form_kind \<Rightarrow> js \<Rightarrow> op" where
  "form_delete ASNForm = asn_delete"
| "form_delete CacheGroupForm = cacheGroup_delete"
| "form_delete CDNForm = cdn_delete"
| "form_delete DivisionForm = division_delete"
| "form_delete ParameterForm = parameter_delete"
| "form_delete PhysLocationForm = physLocation_delete"
| "form_delete ProfileForm = profile_delete"
| "form_delete RegionForm = region_delete"
| "form_delete ServerForm = server_delete"
| "form_delete StatusForm = status_delete"
| "form_delete TenantForm = tenant_delete"
| "form_delete TypeForm = type_delete"

fun form_title :: "form_kind \<Rightarrow> string" where
  "form_title ASNForm = ''asnName''"
| "form_title CacheGroupForm = ''cacheGroupName''"
| "form_title CDNForm = ''cdnName''"
| "form_title DivisionForm = ''divisionName''"
| "form_title ParameterForm = ''parameterName''"
| "form_title PhysLocationForm = ''physLocationName''"
| "form_title ProfileForm = ''profileName''"
| "form_title RegionForm = ''regionName''"
| "form_title ServerForm = ''serverName''"
| "form_title StatusForm = ''statusName''"
| "form_title TenantForm = ''tenantName''"
| "form_title TypeForm = ''typeName''"

fun form_field :: "form_kind \<Rightarrow> string" where
  "form_field ASNForm = ''asn''"
| "form_field CacheGroupForm = ''name''"
| "form_field CDNForm = ''name''"
| "form_field DivisionForm = ''name''"
| "form_field ParameterForm = ''name''"
| "form_field PhysLocationForm = ''name''"
| "form_field ProfileForm = ''name''"
| "form_field RegionForm = ''name''"
| "form_field ServerForm = ''hostName''"
| "form_field StatusForm = ''name''"
| "form_field TenantForm = ''name''"
| "form_field TypeForm = ''name''"

fun form_list :: "form_kind \<Rightarrow> string" where
  "form_list ASNForm = ''/asns''"
| "form_list CacheGroupForm = ''/cache-groups''"
| "form_list CDNForm = ''/cdns''"
| "form_list DivisionForm = ''/divisions''"
| "form_list ParameterForm = ''/parameters''"
| "form_list PhysLocationForm = ''/phys-locations''"
| "form_list ProfileForm = ''/profiles''"
| "form_list RegionForm = ''/regions''"
| "form_list ServerForm = ''/servers''"
| "form_list StatusForm = ''/statuses''"
| "form_list TenantForm = ''/tenants''"
| "form_list TypeForm = ''/types''"

fun form_resource :: "form_kind \<Rightarrow> string" where
  "form_resource ASNForm = ''asns''"
| "form_resource CacheGroupForm = ''cachegroups''"
| "form_resource CDNForm = ''cdns''"
| "form_resource DivisionForm = ''divisions''"
| "form_resource ParameterForm = ''parameters''"
| "form_resource PhysLocationForm = ''phys_locations''"
| "form_resource ProfileForm = ''profiles''"
| "form_resource RegionForm = ''regions''"
| "form_resource ServerForm = ''servers''"
| "form_resource StatusForm = ''statuses''"
| "form_resource TenantForm = ''tenants''"
| "form_resource TypeForm = ''types''"

fun form_noun :: "form_kind \<Rightarrow> string" where
  "form_noun ASNForm = ''ASN''"
| "form_noun CacheGroupForm = ''Cache group''"
| "form_noun CDNForm = ''CDN''"
| "form_noun DivisionForm = ''Division''"
| "form_noun ParameterForm = ''Parameter''"
| "form_noun PhysLocationForm = ''Physical location''"
| "form_noun ProfileForm = ''Profile''"
| "form_noun RegionForm = ''Region''"
| "form_noun ServerForm = ''Server''"
| "form_noun StatusForm = ''Status''"
| "form_noun TenantForm = ''Tenant''"
| "form_noun TypeForm = ''Type''"

definition form_remove :: "form_kind \<Rightarrow> js \<Rightarrow> call" where
  "form_remove kind x = RRemove [One (form_resource kind) (fld x ''id'')]"

text \<open>An answer the handlers can read, whichever it is, and what they show for it.\<close>

fun well_formed :: "string \<Rightarrow> response \<Rightarrow> bool" where
  "well_formed operation (Ok v) = readable operation v"
| "well_formed operation (Err f) = reported f"

fun shown_for :: "string \<Rightarrow> response \<Rightarrow> js" where
  "shown_for txt (Ok v) = success txt"
| "shown_for txt (Err f) = alerts_of f"

lemmas form_save_defs =
  asn_save_def
  cacheGroup_save_def
  cdn_save_def
  division_save_def
  parameter_save_def
  physLocation_save_def
  profile_save_def
  region_save_def
  server_save_def
  status_save_def
  tenant_save_def
  type_save_def

lemmas form_delete_defs =
  asn_delete_def
  cacheGroup_delete_def
  cdn_delete_def
  division_delete_def
  parameter_delete_def
  physLocation_delete_def
  profile_delete_def
  region_delete_def
  server_delete_def
  status_delete_def
  tenant_delete_def
  type_delete_def

lemmas form_confirm_defs =
  asn_confirmDelete_def
  cacheGroup_confirmDelete_def
  cdn_confirmDelete_def
  division_confirmDelete_def
  parameter_confirmDelete_def
  physLocation_confirmDelete_def
  profile_confirmDelete_def
  region_confirmDelete_def
  server_confirmDelete_def
  status_confirmDelete_def
  tenant_confirmDelete_def
  type_confirmDelete_def

lemmas saves_accepted =
  asn_form.save_accepted
  cacheGroup_form.save_accepted
  cdn_form.save_accepted
  division_form.save_accepted
  parameter_form.save_accepted
  physLocation_form.save_accepted
  profile_form.save_accepted
  region_form.save_accepted
  server_form.save_accepted
  status_form.save_accepted
  tenant_form.save_accepted
  type_form.save_accepted

lemmas saves_refused =
  asn_form.save_refused
  cacheGroup_form.save_refused
  cdn_form.save_refused
  division_form.save_refused
  parameter_form.save_refused
  physLocation_form.save_refused
  profile_form.save_refused
  region_form.save_refused
  server_form.save_refused
  status_form.save_refused
  tenant_form.save_refused
  type_form.save_refused

lemmas deletes_accepted =
  asn_form.delete_accepted
  cacheGroup_form.delete_accepted
  cdn_form.delete_accepted
  division_form.delete_accepted
  parameter_form.delete_accepted
  physLocation_form.delete_accepted
  profile_form.delete_accepted
  region_form.delete_accepted
  server_form.delete_accepted
  status_form.delete_accepted
  tenant_form.delete_accepted
  type_form.delete_accepted

lemmas deletes_refused =
  asn_form.delete_refused
  cacheGroup_form.delete_refused
  cdn_form.delete_refused
  division_form.delete_refused
  parameter_form.delete_refused
  physLocation_form.delete_refused
  profile_form.delete_refused
  region_form.delete_refused
  server_form.delete_refused
  status_form.delete_refused
  tenant_form.delete_refused
  type_form.delete_refused

lemmas deletes_refused_run =
  asn_form.delete_refused_run
  cacheGroup_form.delete_refused_run
  cdn_form.delete_refused_run
  division_form.delete_refused_run
  parameter_form.delete_refused_run
  physLocation_form.delete_refused_run
  profile_form.delete_refused_run
  region_form.delete_refused_run
  server_form.delete_refused_run
  status_form.delete_refused_run
  tenant_form.delete_refused_run
  type_form.delete_refused_run

text \<open>The dialog of each form opens with its own title and key, and the deletion follows.\<close>

lemma form_confirm:
  "\<exists>title key. form_confirmDelete kind x = confirm_delete title key (form_delete kind x)"
  by (cases kind) (auto simp: form_confirm_defs)

lemma form_save_outcome:
  assumes "srv w (sent w @ [RPut x]) (RPut x) = a" "well_formed ''put'' a"
  shows "case run (form_save kind x) w of (r, w') \<Rightarrow>
    sent w' = sent w @ [RPut x] \<and> loc w' = loc w \<and>
    displayed w' = shown_for (form_noun kind @ '' updated'') a \<and>
    scope w' (form_title kind) = fld x (form_field kind) \<and> scrolls w' = Suc (scrolls w)"
proof (cases a)
  case (Ok v)
  then have "srv w (sent w @ [RPut x]) (RPut x) = Ok v" "readable ''put'' v" using assms by simp_all
  from saves_accepted [OF this] show ?thesis
    using Ok by (cases kind) (simp_all add: form_save_defs)
next
  case (Err f)
  then have "srv w (sent w @ [RPut x]) (RPut x) = Err f" "reported f" using assms by simp_all
  from saves_refused [OF this] show ?thesis
    using Err by (cases kind) (simp_all add: form_save_defs)
qed

lemma form_delete_outcome:
  assumes "srv w (sent w @ [form_remove kind x]) (form_remove kind x) = a" "well_formed ''remove'' a"
    and "parseUrl w (form_list kind) \<noteq> loc w"
  shows "case settle (form_delete kind x) w of (r, w') \<Rightarrow>
    sent w' = sent w @ [form_remove kind x] \<and> loc w' = parseUrl w (form_list kind) \<and>
    displayed w' = shown_for (form_noun kind @ '' deleted'') a"
proof (cases a)
  case (Ok v)
  then show ?thesis
    using assms by (cases kind) (simp_all add: form_delete_defs form_remove_def deletes_accepted)
next
  case (Err f)
  then show ?thesis
    using assms by (cases kind) (simp_all add: form_delete_defs form_remove_def deletes_refused)
qed

lemmas saves_refused_run =
  asn_form.save_refused_run
  cacheGroup_form.save_refused_run
  cdn_form.save_refused_run
  division_form.save_refused_run
  parameter_form.save_refused_run
  physLocation_form.save_refused_run
  profile_form.save_refused_run
  region_form.save_refused_run
  server_form.save_refused_run
  status_form.save_refused_run
  tenant_form.save_refused_run
  type_form.save_refused_run

lemma form_save_refused_run:
  assumes "srv w (sent w @ [RPut x]) (RPut x) = Err f" "reported f"
  shows "run (form_save kind x) w = (Fulfilled JUndef,
    anchor_scroll (set_scope (form_title kind) (fld x (form_field kind))
      (setMessages (alerts_of f) False (answered_err (RPut x) f w))))"
  using saves_refused_run [OF assms] by (cases kind) (simp_all add: form_save_defs)

lemma form_delete_refused_run:
  assumes "srv w (sent w @ [form_remove kind x]) (form_remove kind x) = Err f" "reported f"
  shows "run (form_delete kind x) w = (Fulfilled JUndef,
    set_url (form_list kind) (setMessages (alerts_of f) True (answered_err (form_remove kind x) f w)))"
  using assms by (cases kind) (simp_all add: form_delete_defs form_remove_def deletes_refused_run)



text \<open>Dismissing the delete dialog of a form calls nothing and goes nowhere.\<close>

lemma delete_dismissed:
  assumes "\<And>params. ask w ''DialogDeleteController'' params JUndef = Dismiss e"
  shows "case run (form_confirmDelete kind x) w of (r, w') \<Rightarrow>
    sent w' = sent w \<and> loc w' = loc w \<and> scope w' = scope w"
proof -
  obtain title key where "form_confirmDelete kind x = confirm_delete title key (form_delete kind x)"
    using form_confirm by blast
  then show ?thesis
    using assms by (simp add: confirm_delete_def run_on_close run_dialog_delete)
qed

lemma delete_dismissed_witness:
  "sent (snd (run (form_confirmDelete CDNForm (JObj [(''id'', JNum 4)]))
      (start_world accept_all dismiss_deletes))) = []"
proof -
  have "\<And>params. ask (start_world accept_all dismiss_deletes) ''DialogDeleteController'' params JUndef =
      Dismiss (JStr ''cancel'')" by (simp add: dismiss_deletes_def)
  from delete_dismissed [OF this, of CDNForm "JObj [(''id'', JNum 4)]"] show ?thesis
    by (simp split: prod.splits)
qed



text \<open>A region the server refuses to create: the service shows the alerts at once and its
  promise is fulfilled all the same, so the form goes to the list of regions, where the alerts are
  gone; nothing tells the user that the region was not created.\<close>

lemma refused_region_is_silent:
  assumes "srv w (sent w @ [RPost [All ''regions''] x]) (RPost [All ''regions''] x) = Err f" "reported f"
    and "parseUrl w ''/regions'' \<noteq> loc w"
  shows "case settle (region_new_save x) w of (r, w') \<Rightarrow>
    loc w' = parseUrl w ''/regions'' \<and> displayed w' = JUndef \<and> queue w' = []"
proof -
  have "run (createRegion x) w = (Fulfilled JUndef,
      setMessages (alerts_of f) False (answered_err (RPost [All ''regions''] x) f w))"
    by (simp add: createRegion_def rest_post_def mutation_Err assms(1,2))
  then show ?thesis
    using assms(2,3)
    by (auto simp: settle_def region_new_save_def run_when_done digest_def location_changed_def
        setMessages_def onLocationChangeStart_def onLocationChangeSuccess_def resetMessages_def
        reported_def fld_def)
qed

text \<open>A tenant the server refuses to create: the alerts are left for the next page, so the
  list of tenants shows them.\<close>

lemma refused_tenant_is_shown:
  assumes "srv w (sent w @ [RPost [All ''tenants''] x]) (RPost [All ''tenants''] x) = Err f" "reported f"
    and "parseUrl w ''/tenants'' \<noteq> loc w"
  shows "case settle (tenant_new_save x) w of (r, w') \<Rightarrow>
    loc w' = parseUrl w ''/tenants'' \<and> displayed w' = alerts_of f"
proof -
  have "run (createTenant x) w = (Fulfilled JUndef,
      setMessages (alerts_of f) True (answered_err (RPost [All ''tenants''] x) f w))"
    by (simp add: createTenant_def rest_post_def mutation_Err assms(1,2))
  then show ?thesis
    using assms(2,3)
    by (simp add: settle_def tenant_new_save_def run_when_done leave_with_message reported_def)
qed

end
