(* ===== verification/Tenants.thy ===== *)
theory Tenants
  imports Prelude
begin

text \<open>
  The nesting of tenants (\<open>common/service/utils/TenantUtils.js\<close>): a flat list of tenants is turned
  into a hierarchy of shared objects, which is then walked to give every tenant a level.

  The objects are shared between the list, the map and the \<open>children\<close> arrays, so the model keeps a
  store: a node is the tenant at an index of the list or the placeholder created for a key nobody
  had yet, and \<open>children\<close> maps a node to the indices pushed onto it.
\<close>

section \<open>convertToHierarchy\<close>

datatype node = Tenant nat | Placeholder string

record hierarchy =
  byKey :: "string \<Rightarrow> node option"
  children :: "node \<Rightarrow> nat list"

definition tenant_key :: "js list \<Rightarrow> nat \<Rightarrow> string" where
  "tenant_key ts i = to_str (fld (ts ! i) ''id'')"

definition parent_key :: "js list \<Rightarrow> nat \<Rightarrow> string" where
  "parent_key ts i = (if i = 0 then ''-'' else to_str (fld (ts ! i) ''parentId''))"

definition enter_node :: "js list \<Rightarrow> nat \<Rightarrow> hierarchy \<Rightarrow> hierarchy" where
  "enter_node ts i h =
     h\<lparr>children := (children h)(Tenant i := []), byKey := (byKey h)(tenant_key ts i \<mapsto> Tenant i)\<rparr>"

definition node_at :: "string \<Rightarrow> hierarchy \<Rightarrow> node" where
  "node_at k h = (case byKey h k of None \<Rightarrow> Placeholder k | Some n \<Rightarrow> n)"

definition ensure_node :: "string \<Rightarrow> hierarchy \<Rightarrow> hierarchy" where
  "ensure_node k h =
     (case byKey h k of
        None \<Rightarrow> h\<lparr>byKey := (byKey h)(k \<mapsto> Placeholder k),
                  children := (children h)(Placeholder k := [])\<rparr>
      | Some n \<Rightarrow> h)"

definition push_child :: "string \<Rightarrow> nat \<Rightarrow> hierarchy \<Rightarrow> hierarchy" where
  "push_child k i h =
     h\<lparr>children := (children h)(node_at k h := children h (node_at k h) @ [i])\<rparr>"

definition hierarchy_step :: "js list \<Rightarrow> nat \<Rightarrow> hierarchy \<Rightarrow> hierarchy" where
  "hierarchy_step ts i h =
     (let parent = parent_key ts i
      in push_child parent i (ensure_node parent (enter_node ts i h)))"

definition empty_hierarchy :: hierarchy where
  "empty_hierarchy = \<lparr>byKey = (\<lambda>_. None), children = (\<lambda>_. [])\<rparr>"

definition build_hierarchy :: "js list \<Rightarrow> nat \<Rightarrow> hierarchy" where
  "build_hierarchy ts k = fold (hierarchy_step ts) [0..<k] empty_hierarchy"

text \<open>The children of the key \<open>-\<close>, and the \<open>children\<close> arrays; \<open>None\<close> is the \<open>TypeError\<close> on a list
  without tenants.\<close>

definition convertToHierarchy :: "js list \<Rightarrow> (nat list \<times> (nat \<Rightarrow> nat list)) option" where
  "convertToHierarchy ts =
     (let h = build_hierarchy ts (length ts)
      in case byKey h ''-'' of
           None \<Rightarrow> None
         | Some n \<Rightarrow> Some (children h n, \<lambda>i. children h (Tenant i)))"

section \<open>applyLevels, addLevels\<close>

text \<open>The recursion follows the store, so it carries fuel; \<open>None\<close> is a walk that needs more.\<close>

fun applyLevels :: "nat \<Rightarrow> (nat \<Rightarrow> nat list) \<Rightarrow> nat list \<Rightarrow> int \<Rightarrow> (nat \<Rightarrow> int option) \<Rightarrow> (nat \<Rightarrow> int option) option"
where
  "applyLevels fuel ch [] level lv = Some lv"
| "applyLevels 0 ch (i # arr) level lv = None"
| "applyLevels (Suc fuel) ch (i # arr) level lv =
     (case applyLevels fuel ch (ch i) (level + 1) (lv(i \<mapsto> level)) of
        None \<Rightarrow> None
      | Some lv' \<Rightarrow> applyLevels (Suc fuel) ch arr level lv')"

definition levels :: "js list \<Rightarrow> (nat \<Rightarrow> int option) option" where
  "levels ts =
     (case convertToHierarchy ts of
        None \<Rightarrow> None
      | Some (arr, ch) \<Rightarrow> applyLevels (length ts) ch arr 1 (\<lambda>_. None))"

definition with_level :: "(nat \<Rightarrow> int option) \<Rightarrow> js list \<Rightarrow> nat \<Rightarrow> js" where
  "with_level lv ts i =
     (case lv i of None \<Rightarrow> ts ! i | Some l \<Rightarrow> set_fld (ts ! i) ''level'' (JNum l))"

text \<open>The result is the list with the levels written.  The \<open>children\<close> arrays, which the code leaves in
  the same objects, stay in the hierarchy here.\<close>

definition addLevels :: "js list \<Rightarrow> js list option" where
  "addLevels ts = map_option (\<lambda>lv. map (with_level lv ts) [0..<length ts]) (levels ts)"

section \<open>The nesting depth\<close>

text \<open>The reference: a tenant is one deeper than its parent, the first tenant is at the top.\<close>

definition parent_index :: "js list \<Rightarrow> nat \<Rightarrow> nat option" where
  "parent_index ts i = find (\<lambda>j. tenant_key ts j = parent_key ts i) [0..<i]"

function tenant_depth :: "js list \<Rightarrow> nat \<Rightarrow> int" where
  "tenant_depth ts i =
     (case parent_index ts i of None \<Rightarrow> 1 | Some j \<Rightarrow> 1 + tenant_depth ts j)"
  by pat_completeness auto
termination
  by (relation "measure snd") (auto simp: parent_index_def find_Some_iff)

declare tenant_depth.simps [simp del]

text \<open>The list order the utility relies on: every tenant comes after its parent, and the ids are
  different.\<close>

definition parents_first :: "js list \<Rightarrow> bool" where
  "parents_first ts \<longleftrightarrow>
     ts \<noteq> [] \<and> distinct (map (tenant_key ts) [0..<length ts]) \<and>
     list_all (\<lambda>i. tenant_key ts i \<noteq> ''-'') [0..<length ts] \<and>
     list_all (\<lambda>i. parent_index ts i \<noteq> None) [1..<length ts]"

section \<open>The hierarchy that is built\<close>

text \<open>The index that holds a key among the first \<open>k\<close> tenants, and the children listed so far.\<close>

definition kids :: "js list \<Rightarrow> nat \<Rightarrow> nat \<Rightarrow> nat list" where
  "kids ts k j = filter (\<lambda>i. parent_index ts i = Some j) [1..<k]"

lemma parent_index_Some: "parent_index ts i = Some j \<Longrightarrow> j < i \<and> tenant_key ts j = parent_key ts i"
  by (auto simp: parent_index_def find_Some_iff)

lemma parents_firstD:
  assumes "parents_first ts"
  shows "ts \<noteq> []"
    and "i < length ts \<Longrightarrow> j < length ts \<Longrightarrow> tenant_key ts i = tenant_key ts j \<Longrightarrow> i = j"
    and "i < length ts \<Longrightarrow> tenant_key ts i \<noteq> ''-''"
    and "0 < i \<Longrightarrow> i < length ts \<Longrightarrow> \<exists>j<i. parent_index ts i = Some j \<and> tenant_key ts j = parent_key ts i"
proof -
  show "ts \<noteq> []" using assms by (simp add: parents_first_def)
  show "i < length ts \<Longrightarrow> j < length ts \<Longrightarrow> tenant_key ts i = tenant_key ts j \<Longrightarrow> i = j"
    using assms by (auto simp: parents_first_def distinct_map inj_on_def)
  show "i < length ts \<Longrightarrow> tenant_key ts i \<noteq> ''-''"
    using assms by (auto simp: parents_first_def list_all_iff)
  assume "0 < i" "i < length ts"
  then have "parent_index ts i \<noteq> None"
    using assms by (simp add: parents_first_def list_all_iff)
  then show "\<exists>j<i. parent_index ts i = Some j \<and> tenant_key ts j = parent_key ts i"
    using parent_index_Some by blast
qed

text \<open>What the loop has built after \<open>k\<close> tenants.\<close>

definition built :: "js list \<Rightarrow> nat \<Rightarrow> hierarchy \<Rightarrow> bool" where
  "built ts k h \<longleftrightarrow>
     byKey h ''-'' = Some (Placeholder ''-'') \<and>
     (\<forall>j<k. byKey h (tenant_key ts j) = Some (Tenant j)) \<and>
     children h (Placeholder ''-'') = [0] \<and>
     (\<forall>j<k. children h (Tenant j) = kids ts k j)"

lemma built_first:
  assumes "parents_first ts"
  shows "built ts 1 (build_hierarchy ts 1)"
proof -
  have "tenant_key ts 0 \<noteq> ''-''" using parents_firstD [OF assms] by simp
  then show ?thesis
    by (simp add: built_def build_hierarchy_def hierarchy_step_def enter_node_def ensure_node_def
          push_child_def node_at_def empty_hierarchy_def parent_key_def Let_def kids_def)
qed

lemma kids_Suc:
  assumes "0 < k"
  shows "kids ts (Suc k) j = kids ts k j @ (if parent_index ts k = Some j then [k] else [])"
  using assms by (simp add: kids_def)

lemma kids_bound: "i \<in> set (kids ts k j) \<Longrightarrow> j < i \<and> i < k"
  by (auto simp: kids_def dest: parent_index_Some)

lemma built_step:
  assumes pf: "parents_first ts" and k: "0 < k" "k < length ts" and b: "built ts k h"
  shows "built ts (Suc k) (hierarchy_step ts k h)"
proof -
  obtain p where p: "p < k" "parent_index ts k = Some p" "tenant_key ts p = parent_key ts k"
    using parents_firstD(4) [OF pf k] by blast
  have own: "tenant_key ts k \<noteq> ''-''" using parents_firstD(3) [OF pf] k by simp
  have diff: "tenant_key ts j \<noteq> tenant_key ts k" if "j < k" for j
    using parents_firstD(2) [OF pf, of j k] k that by auto
  define h1 where "h1 = enter_node ts k h"
  have at: "byKey h1 (parent_key ts k) = Some (Tenant p)"
    using b p diff [OF p(1)] by (metis built_def h1_def enter_node_def fun_upd_apply
        hierarchy.select_convs(1) hierarchy.simps(5) hierarchy.surjective hierarchy.update_convs(1)
        hierarchy.update_convs(2))
  have h2: "hierarchy_step ts k h =
      h1\<lparr>children := (children h1)(Tenant p := children h1 (Tenant p) @ [k])\<rparr>"
    using at by (simp add: hierarchy_step_def h1_def [symmetric] ensure_node_def push_child_def
        node_at_def Let_def)
  have no_kids: "kids ts (Suc k) k = []"
    using kids_bound [of _ ts "Suc k" k] by (metis less_Suc_eq_le list.set_intros(1) neq_Nil_conv not_le)
  have "children (hierarchy_step ts k h) (Tenant j) = kids ts (Suc k) j" if "j < Suc k" for j
  proof (cases "j = k")
    case True
    then show ?thesis using p no_kids by (simp add: h2 h1_def enter_node_def)
  next
    case False
    then have "children h (Tenant j) = kids ts k j" using b that by (simp add: built_def)
    then show ?thesis
      using False p k by (auto simp: h2 h1_def enter_node_def kids_Suc)
  qed
  moreover have "byKey (hierarchy_step ts k h) (tenant_key ts j) = Some (Tenant j)" if "j < Suc k" for j
    using b diff that by (cases "j = k") (auto simp: h2 h1_def enter_node_def built_def)
  moreover have "byKey (hierarchy_step ts k h) ''-'' = Some (Placeholder ''-'')"
    "children (hierarchy_step ts k h) (Placeholder ''-'') = [0]"
    using b own by (auto simp: h2 h1_def enter_node_def built_def)
  ultimately show ?thesis by (simp add: built_def)
qed

lemma built_all:
  assumes pf: "parents_first ts" and k: "0 < k" "k \<le> length ts"
  shows "built ts k (build_hierarchy ts k)"
  using k
proof (induction k)
  case (Suc k)
  show ?case
  proof (cases "k = 0")
    case True
    then show ?thesis using built_first [OF pf] by simp
  next
    case False
    then have "built ts k (build_hierarchy ts k)" using Suc by simp
    then have "built ts (Suc k) (hierarchy_step ts k (build_hierarchy ts k))"
      using built_step [OF pf] False Suc.prems by simp
    then show ?thesis by (simp add: build_hierarchy_def)
  qed
qed simp

section \<open>The walk\<close>

definition child_of :: "(nat \<Rightarrow> nat list) \<Rightarrow> (nat \<times> nat) set" where
  "child_of ch = {(i, j). j \<in> set (ch i)}"

definition deepening :: "(nat \<Rightarrow> nat list) \<Rightarrow> nat \<Rightarrow> (nat \<Rightarrow> int) \<Rightarrow> bool" where
  "deepening ch n d \<longleftrightarrow> (\<forall>i j. j \<in> set (ch i) \<longrightarrow> i < j \<and> j < n \<and> d j = d i + 1)"

text \<open>On a store whose children point to later tenants, one level deeper, the walk ends with the
  fuel given and levels everything it reaches.\<close>

lemma applyLevels_sound:
  assumes "deepening ch n d" "\<forall>i\<in>set arr. i < n \<and> n - i \<le> fuel \<and> d i = level"
  shows "\<exists>lv'. applyLevels fuel ch arr level lv = Some lv' \<and>
    (\<forall>x. lv x = Some (d x) \<or> (\<exists>a\<in>set arr. (a, x) \<in> (child_of ch)\<^sup>*) \<longrightarrow> lv' x = Some (d x))"
  using assms
proof (induction fuel ch arr level lv rule: applyLevels.induct)
  case (1 fuel ch level lv)
  then show ?case by simp
next
  case (2 ch i arr level lv)
  then have "i < n" "n - i \<le> 0" by simp_all
  then show ?case by simp
next
  case (3 fuel ch i arr level lv)
  have "\<forall>j\<in>set (ch i). j < n \<and> n - j \<le> fuel \<and> d j = level + 1"
  proof
    fix j assume "j \<in> set (ch i)"
    then have "i < j \<and> j < n \<and> d j = d i + 1" using 3(3) by (auto simp: deepening_def)
    moreover have "n - i \<le> Suc fuel \<and> d i = level" using 3(4) by simp
    ultimately show "j < n \<and> n - j \<le> fuel \<and> d j = level + 1" by linarith
  qed
  then obtain lv1 where lv1: "applyLevels fuel ch (ch i) (level + 1) (lv(i \<mapsto> level)) = Some lv1"
    and below: "\<And>x. (lv(i \<mapsto> level)) x = Some (d x) \<or> (\<exists>a\<in>set (ch i). (a, x) \<in> (child_of ch)\<^sup>*)
                   \<Longrightarrow> lv1 x = Some (d x)"
    using 3(1) [OF 3(3)] by blast
  obtain lv2 where lv2: "applyLevels (Suc fuel) ch arr level lv1 = Some lv2"
    and rest: "\<And>x. lv1 x = Some (d x) \<or> (\<exists>a\<in>set arr. (a, x) \<in> (child_of ch)\<^sup>*) \<Longrightarrow> lv2 x = Some (d x)"
    using 3(2) [OF lv1 3(3)] 3(4) by auto
  have i: "d i = level" using 3(4) by simp
  have "lv2 x = Some (d x)"
    if "lv x = Some (d x) \<or> (\<exists>a\<in>set (i # arr). (a, x) \<in> (child_of ch)\<^sup>*)" for x
  proof -
    have "lv1 x = Some (d x)" if "(i, x) \<in> (child_of ch)\<^sup>*"
      using that
    proof (cases rule: converse_rtranclE)
      case base
      then show ?thesis using below i by simp
    next
      case (step y)
      then show ?thesis using below by (auto simp: child_of_def)
    qed
    moreover have "lv1 x = Some (d x)" if "lv x = Some (d x)"
      using that below i by simp
    ultimately show ?thesis using that rest by auto
  qed
  then show ?case using lv1 lv2 by simp
qed

text \<open>Every tenant is reached from the first.\<close>

lemma reached_from_root:
  assumes pf: "parents_first ts" and "x < length ts"
  shows "(0, x) \<in> (child_of (\<lambda>j. if j < length ts then kids ts (length ts) j else []))\<^sup>*"
  using assms(2)
proof (induction x rule: less_induct)
  case (less x)
  show ?case
  proof (cases "x = 0")
    case False
    then obtain p where p: "p < x" "parent_index ts x = Some p"
      using parents_firstD(4) [OF pf] less.prems by blast
    then have "x \<in> set (kids ts (length ts) p)" using False less.prems by (simp add: kids_def)
    then have "(p, x) \<in> child_of (\<lambda>j. if j < length ts then kids ts (length ts) j else [])"
      using p less.prems by (simp add: child_of_def)
    then show ?thesis using less.IH [of p] p less.prems by (simp add: rtrancl.rtrancl_into_rtrancl)
  qed simp
qed

lemma kids_deepening:
  "deepening (\<lambda>j. if j < n then kids ts n j else []) n (tenant_depth ts)"
  unfolding deepening_def
proof (intro allI impI)
  fix i j assume j: "j \<in> set (if i < n then kids ts n i else [])"
  then have "parent_index ts j = Some i" by (auto simp: kids_def split: if_splits)
  then have "tenant_depth ts j = tenant_depth ts i + 1"
    by (simp add: tenant_depth.simps [of ts j])
  then show "i < j \<and> j < n \<and> tenant_depth ts j = tenant_depth ts i + 1"
    using j kids_bound by (metis empty_iff empty_set)
qed

text \<open>The walk only looks at the children of tenants it has reached.\<close>

lemma applyLevels_cong:
  assumes "\<forall>i\<in>set arr. i < n" "\<forall>i j. i < n \<longrightarrow> j \<in> set (ch i) \<longrightarrow> j < n" "\<forall>i<n. ch i = ch' i"
  shows "applyLevels fuel ch arr level lv = applyLevels fuel ch' arr level lv"
  using assms
proof (induction fuel ch arr level lv rule: applyLevels.induct)
  case (3 fuel ch i arr level lv)
  have "applyLevels fuel ch (ch i) (level + 1) (lv(i \<mapsto> level)) =
      applyLevels fuel ch' (ch i) (level + 1) (lv(i \<mapsto> level))"
  proof (rule 3(1) [OF _ 3(4,5)])
    show "\<forall>j\<in>set (ch i). j < n" using 3(3,4) by auto
  qed
  moreover have "ch i = ch' i" using 3(3,5) by simp
  ultimately show ?case
    using 3(2) [OF _ _ 3(4,5)] 3(3) by (auto split: option.splits)
qed auto

lemma levels_parents_first:
  assumes pf: "parents_first ts"
  shows "\<exists>lv. levels ts = Some lv \<and> (\<forall>i<length ts. lv i = Some (tenant_depth ts i))"
proof -
  let ?n = "length ts" and ?h = "build_hierarchy ts (length ts)"
  let ?ch = "\<lambda>j. if j < ?n then kids ts ?n j else []"
  have n: "0 < ?n" using parents_firstD(1) [OF pf] by simp
  have b: "built ts ?n ?h" using built_all [OF pf n] by simp
  have root: "tenant_depth ts 0 = 1" by (simp add: tenant_depth.simps parent_index_def)
  obtain lv where lv: "applyLevels ?n ?ch [0] 1 (\<lambda>_. None) = Some lv"
    "\<And>x. (0, x) \<in> (child_of ?ch)\<^sup>* \<Longrightarrow> lv x = Some (tenant_depth ts x)"
    using applyLevels_sound [OF kids_deepening [of ?n ts], of "[0]" ?n 1 "\<lambda>_. None"] n root by auto
  have "levels ts = applyLevels ?n (\<lambda>i. children ?h (Tenant i)) [0] 1 (\<lambda>_. None)"
    using b by (simp add: levels_def convertToHierarchy_def Let_def built_def)
  also have "\<dots> = applyLevels ?n ?ch [0] 1 (\<lambda>_. None)"
  proof (rule applyLevels_cong)
    show "\<forall>i\<in>set [0]. i < ?n" using n by simp
    show "\<forall>i j. i < ?n \<longrightarrow> j \<in> set (children ?h (Tenant i)) \<longrightarrow> j < ?n"
      using b kids_bound by (fastforce simp: built_def)
    show "\<forall>i<?n. children ?h (Tenant i) = ?ch i" using b by (simp add: built_def)
  qed
  finally show ?thesis using lv reached_from_root [OF pf] by auto
qed

section \<open>Any list\<close>

text \<open>What holds of the store whatever the order of the list: a key leads to a tenant that has it
  or to its own placeholder, and every tenant is pushed once, onto a node of its parent's key that
  existed when its turn came.\<close>

definition parent_node :: "js list \<Rightarrow> nat \<Rightarrow> node \<Rightarrow> bool" where
  "parent_node ts i nd \<longleftrightarrow>
     nd = Placeholder (parent_key ts i) \<and> (\<forall>j\<le>i. tenant_key ts j \<noteq> parent_key ts i) \<or>
     (\<exists>j\<le>i. nd = Tenant j \<and> tenant_key ts j = parent_key ts i)"

definition store_ok :: "js list \<Rightarrow> nat \<Rightarrow> hierarchy \<Rightarrow> bool" where
  "store_ok ts k h \<longleftrightarrow>
     (\<forall>s. case byKey h s of
            None \<Rightarrow> \<forall>j<k. tenant_key ts j \<noteq> s
          | Some (Placeholder s') \<Rightarrow> s' = s \<and> (\<forall>j<k. tenant_key ts j \<noteq> s)
          | Some (Tenant j) \<Rightarrow> j < k \<and> tenant_key ts j = s) \<and>
     (\<forall>nd i. i \<in> set (children h nd) \<longrightarrow> i < k \<and> parent_node ts i nd) \<and>
     (\<forall>nd nd' i. i \<in> set (children h nd) \<longrightarrow> i \<in> set (children h nd') \<longrightarrow> nd = nd')"

lemma store_ok_node:
  assumes "store_ok ts k h" "byKey h s = Some nd"
  shows "nd = Placeholder s \<or> (\<exists>j<k. nd = Tenant j \<and> tenant_key ts j = s)"
proof -
  have "case byKey h s of
            None \<Rightarrow> \<forall>j<k. tenant_key ts j \<noteq> s
          | Some (Placeholder s') \<Rightarrow> s' = s \<and> (\<forall>j<k. tenant_key ts j \<noteq> s)
          | Some (Tenant j) \<Rightarrow> j < k \<and> tenant_key ts j = s"
    using assms(1) by (simp add: store_ok_def)
  then show ?thesis using assms(2) by (cases nd) auto
qed

lemma store_ok_enter:
  assumes "store_ok ts k h" "h' = ensure_node (parent_key ts k) (enter_node ts k h)"
  shows "case byKey h' s of
            None \<Rightarrow> \<forall>j<Suc k. tenant_key ts j \<noteq> s
          | Some (Placeholder s') \<Rightarrow> s' = s \<and> (\<forall>j<Suc k. tenant_key ts j \<noteq> s)
          | Some (Tenant j) \<Rightarrow> j < Suc k \<and> tenant_key ts j = s"
    and "i \<in> set (children h' nd) \<Longrightarrow> i \<in> set (children h nd)"
    and "byKey h' (parent_key ts k) \<noteq> None"
proof -
  have old: "case byKey h s of
            None \<Rightarrow> \<forall>j<k. tenant_key ts j \<noteq> s
          | Some (Placeholder s') \<Rightarrow> s' = s \<and> (\<forall>j<k. tenant_key ts j \<noteq> s)
          | Some (Tenant j) \<Rightarrow> j < k \<and> tenant_key ts j = s" for s
    using assms(1) by (simp add: store_ok_def)
  show "case byKey h' s of
            None \<Rightarrow> \<forall>j<Suc k. tenant_key ts j \<noteq> s
          | Some (Placeholder s') \<Rightarrow> s' = s \<and> (\<forall>j<Suc k. tenant_key ts j \<noteq> s)
          | Some (Tenant j) \<Rightarrow> j < Suc k \<and> tenant_key ts j = s"
    using old [of s] assms(2)
    by (auto simp: ensure_node_def enter_node_def less_Suc_eq split: option.splits node.splits if_splits)
  show "i \<in> set (children h' nd) \<Longrightarrow> i \<in> set (children h nd)"
    using assms(2) by (auto simp: ensure_node_def enter_node_def split: option.splits if_splits)
  show "byKey h' (parent_key ts k) \<noteq> None"
    using assms(2) by (auto simp: ensure_node_def split: option.splits)
qed

lemma store_ok_step:
  assumes ok: "store_ok ts k h" shows "store_ok ts (Suc k) (hierarchy_step ts k h)"
proof -
  define h' where "h' = ensure_node (parent_key ts k) (enter_node ts k h)"
  note e = store_ok_enter [OF ok h'_def]
  obtain nd where nd: "byKey h' (parent_key ts k) = Some nd" using e(3) by blast
  have step: "hierarchy_step ts k h = h'\<lparr>children := (children h')(nd := children h' nd @ [k])\<rparr>"
    using nd by (simp add: hierarchy_step_def push_child_def node_at_def h'_def Let_def)
  have "parent_node ts k nd"
    using e(1) [of "parent_key ts k"] nd
    by (auto simp: parent_node_def less_Suc_eq_le split: node.splits)
  moreover have "i < k \<and> parent_node ts i nd'" if "i \<in> set (children h' nd')" for i nd'
    using ok e(2) [OF that] by (auto simp: store_ok_def)
  moreover have "nd1 = nd2" if "i \<in> set (children h' nd1)" "i \<in> set (children h' nd2)" for i nd1 nd2
    using ok e(2) [OF that(1)] e(2) [OF that(2)] unfolding store_ok_def by blast
  ultimately show ?thesis
    using e(1) unfolding store_ok_def step by (fastforce split: if_splits)
qed

lemma store_ok_all: "store_ok ts k (build_hierarchy ts k)"
proof (induction k)
  case 0
  then show ?case by (simp add: store_ok_def build_hierarchy_def empty_hierarchy_def)
next
  case (Suc k)
  then have "store_ok ts (Suc k) (hierarchy_step ts k (build_hierarchy ts k))"
    by (rule store_ok_step)
  then show ?case by (simp add: build_hierarchy_def)
qed

text \<open>A tenant nobody points to is not touched by the walk.\<close>

lemma applyLevels_untouched:
  "applyLevels fuel ch arr level lv = Some lv' \<Longrightarrow> x \<notin> set arr \<Longrightarrow> \<forall>i. x \<notin> set (ch i) \<Longrightarrow> lv' x = lv x"
proof (induction fuel ch arr level lv arbitrary: lv' rule: applyLevels.induct)
  case (3 fuel ch i arr level lv)
  obtain lv1 where lv1: "applyLevels fuel ch (ch i) (level + 1) (lv(i \<mapsto> level)) = Some lv1"
    and rest: "applyLevels (Suc fuel) ch arr level lv1 = Some lv'"
    using 3(3) by (auto split: option.splits)
  have "lv1 x = (lv(i \<mapsto> level)) x" using 3(1) [OF lv1] 3(5) by blast
  moreover have "lv' x = lv1 x" using 3(2) [OF lv1 rest] 3(4,5) by simp
  ultimately show ?case using 3(4) by simp
qed auto

text \<open>The walk ends on a store whose children come later in the list.\<close>

lemma applyLevels_ends:
  assumes "\<forall>i j. P i \<longrightarrow> j \<in> set (ch i) \<longrightarrow> i < j \<and> j < n \<and> P j"
    and "\<forall>i\<in>set arr. i < n \<and> n - i \<le> fuel \<and> P i"
  shows "applyLevels fuel ch arr level lv \<noteq> None"
  using assms
proof (induction fuel ch arr level lv rule: applyLevels.induct)
  case (1 fuel ch level lv)
  then show ?case by simp
next
  case (2 ch i arr level lv)
  then have "i < n" "n - i \<le> 0" by simp_all
  then show ?case by simp
next
  case (3 fuel ch i arr level lv)
  have i: "i < n" "n - i \<le> Suc fuel" "P i" using 3(4) by simp_all
  have "\<forall>j\<in>set (ch i). j < n \<and> n - j \<le> fuel \<and> P j"
  proof
    fix j assume "j \<in> set (ch i)"
    then have "i < j \<and> j < n \<and> P j" using 3(3) i(3) by blast
    then show "j < n \<and> n - j \<le> fuel \<and> P j" using i by linarith
  qed
  then obtain lv1 where lv1: "applyLevels fuel ch (ch i) (level + 1) (lv(i \<mapsto> level)) = Some lv1"
    using 3(1) [OF 3(3)] by blast
  then show ?case using 3(2) [OF lv1 3(3)] 3(4) by auto
qed

lemma levels_returns:
  assumes "ts \<noteq> []" "\<forall>i<length ts. tenant_key ts i \<noteq> ''-''"
  shows "\<exists>lv. levels ts = Some lv"
proof -
  let ?n = "length ts" and ?h = "build_hierarchy ts (length ts)"
  let ?ch = "\<lambda>i. children ?h (Tenant i)"
  let ?P = "\<lambda>i. i \<notin> set (?ch i)"
  have ok: "store_ok ts ?n ?h" by (rule store_ok_all)
  have "byKey ?h ''-'' \<noteq> None \<or> ?n = 0" 
  proof -
    have "\<exists>nd. byKey (build_hierarchy ts (Suc k)) ''-'' = Some nd" for k
    proof (induction k)
      case 0
      then show ?case
        by (auto simp: build_hierarchy_def hierarchy_step_def parent_key_def push_child_def
            ensure_node_def Let_def split: option.splits)
    next
      case (Suc k)
      have "build_hierarchy ts (Suc (Suc k)) = hierarchy_step ts (Suc k) (build_hierarchy ts (Suc k))"
        by (simp add: build_hierarchy_def)
      then show ?case using Suc
        by (auto simp: hierarchy_step_def push_child_def ensure_node_def enter_node_def Let_def
            split: option.splits)
    qed
    then show ?thesis by (cases ?n) auto
  qed
  then obtain nd where nd: "byKey ?h ''-'' = Some nd" using assms(1) by auto
  then have ndp: "nd = Placeholder ''-''"
    using store_ok_node [OF ok nd] assms(2) by blast
  have up: "i < j \<and> j < ?n \<and> ?P j" if "?P i" "j \<in> set (?ch i)" for i j
  proof -
    have "j < ?n \<and> parent_node ts j (Tenant i)" using ok that(2) unfolding store_ok_def by blast
    moreover have "?P j"
      using ok that unfolding store_ok_def by (metis node.inject(1))
    ultimately show ?thesis using that by (cases "i = j") (auto simp: parent_node_def)
  qed
  have "\<forall>i\<in>set (children ?h (Placeholder ''-'')). i < ?n \<and> ?P i"
    using ok unfolding store_ok_def by (metis node.distinct(1))
  then have "applyLevels ?n ?ch (children ?h nd) 1 (\<lambda>_. None) \<noteq> None"
    using applyLevels_ends [of ?P ?ch ?n] up ndp by simp
  then show ?thesis using nd by (auto simp: levels_def convertToHierarchy_def Let_def)
qed

text \<open>A tenant listed before its parent hangs off a placeholder nobody looks at.\<close>

lemma levels_child_first:
  assumes "x < length ts" "\<forall>j\<le>x. tenant_key ts j \<noteq> parent_key ts x" "parent_key ts x \<noteq> ''-''"
    and lv: "levels ts = Some lv"
  shows "lv x = None"
proof -
  let ?h = "build_hierarchy ts (length ts)"
  have ok: "store_ok ts (length ts) ?h" by (rule store_ok_all)
  have only: "nd = Placeholder (parent_key ts x)" if "x \<in> set (children ?h nd)" for nd
    using ok that assms(2) unfolding store_ok_def parent_node_def by blast
  obtain nd where nd: "byKey ?h ''-'' = Some nd"
    and run: "applyLevels (length ts) (\<lambda>i. children ?h (Tenant i)) (children ?h nd) 1 (\<lambda>_. None) = Some lv"
    using lv by (auto simp: levels_def convertToHierarchy_def Let_def split: option.splits)
  have "nd \<noteq> Placeholder (parent_key ts x)"
    using store_ok_node [OF ok nd] assms(3) by auto
  then show ?thesis using applyLevels_untouched [OF run] only by force
qed

section \<open>Properties\<close>

text \<open>C11. On a list in which every tenant comes after its parent, each tenant gets the level of its
  depth below the first; apart from the \<open>children\<close> array of the hierarchy nothing else of it changes.\<close>

theorem addLevels_by_depth:
  assumes "parents_first ts"
  shows "addLevels ts =
    Some (map (\<lambda>i. set_fld (ts ! i) ''level'' (JNum (tenant_depth ts i))) [0..<length ts])"
proof -
  obtain lv where lv: "levels ts = Some lv" "\<forall>i<length ts. lv i = Some (tenant_depth ts i)"
    using levels_parents_first [OF assms] by blast
  then show ?thesis by (auto simp: addLevels_def with_level_def)
qed

theorem addLevels_by_depth_witness:
  "addLevels [JObj [(''id'', JNum 1)], JObj [(''id'', JNum 2), (''parentId'', JNum 1)],
              JObj [(''id'', JNum 3), (''parentId'', JNum 2)]] =
   Some [JObj [(''id'', JNum 1), (''level'', JNum 1)],
         JObj [(''id'', JNum 2), (''parentId'', JNum 1), (''level'', JNum 2)],
         JObj [(''id'', JNum 3), (''parentId'', JNum 2), (''level'', JNum 3)]]"
proof -
  let ?ts = "[JObj [(''id'', JNum 1)], JObj [(''id'', JNum 2), (''parentId'', JNum 1)],
              JObj [(''id'', JNum 3), (''parentId'', JNum 2)]]"
  have k: "show_int 1 = ''1''" "show_int 2 = ''2''" "show_int 3 = ''3''" by code_simp+
  have p: "parent_index ?ts 0 = None" "parent_index ?ts (Suc 0) = Some 0"
    "parent_index ?ts (Suc (Suc 0)) = Some (Suc 0)"
    by (simp_all add: parent_index_def tenant_key_def parent_key_def k upt_rec)
  have "parents_first ?ts"
    using p by (simp add: parents_first_def upt_rec tenant_key_def k)
  from addLevels_by_depth [OF this] show ?thesis
    using p by (simp add: upt_rec tenant_depth.simps)
qed



end
