(* ===== verification/Utils.thy ===== *)
theory Utils
  imports Dialogs KeyServices Tenants
begin

text \<open>
  The small utilities (\<open>common/service/utils/\<close>, \<open>common/filters/\<close>): grouping digits with commas,
  labels from identifiers, what counts as a cache, form errors, and the list offset filter.
\<close>

section \<open>NumberUtils.js: addCommas\<close>

text \<open>One round of \<open>x1.replace(/(\d+)(\d{3})/, '$1,$2')\<close>: in the first run of at least four
  digits, a comma goes before the last three.  \<open>None\<close>: the expression does not match.\<close>

function add_comma :: "string \<Rightarrow> string option" where
  "add_comma s =
     (let pre = takeWhile (\<lambda>c. \<not> is_digit c) s;
          rest = dropWhile (\<lambda>c. \<not> is_digit c) s;
          ds = takeWhile is_digit rest;
          post = dropWhile is_digit rest
      in if rest = [] then None
         else if 4 \<le> length ds then
           Some (pre @ take (length ds - 3) ds @ '','' @ drop (length ds - 3) ds @ post)
         else map_option (\<lambda>t. pre @ ds @ t) (add_comma post))"
  by pat_completeness auto
termination
proof (relation "measure length")
  fix s pre rest ds post :: string
  assume rest: "rest = dropWhile (\<lambda>c. \<not> is_digit c) s" and ne: "rest \<noteq> []"
    and post: "post = dropWhile is_digit rest"
  then have "is_digit (hd rest)" using hd_dropWhile [of "\<lambda>c. \<not> is_digit c" s] by simp
  then have "length post < length rest"
    using ne post by (cases rest) (auto simp: le_imp_less_Suc length_dropWhile_le)
  moreover have "length rest \<le> length s" using rest by (simp add: length_dropWhile_le)
  ultimately show "(post, s) \<in> measure length" by simp
qed simp

declare add_comma.simps [simp del]

text \<open>The loop: every round separates two adjacent digits, so it ends.\<close>

fun digit_pairs :: "string \<Rightarrow> nat" where
  "digit_pairs (a # b # s) = (if is_digit a \<and> is_digit b then 1 else 0) + digit_pairs (b # s)"
| "digit_pairs _ = 0"

lemma not_digit_comma [simp]: "\<not> is_digit (CHR '','')"
  by (simp add: is_digit_def)

lemma digit_pairs_split:
  "digit_pairs (s @ a # b # t) =
     digit_pairs (s @ [a]) + (if is_digit a \<and> is_digit b then 1 else 0) + digit_pairs (b # t)"
  by (induction s rule: digit_pairs.induct) auto

lemma digit_pairs_comma:
  assumes "is_digit a" "is_digit b"
  shows "digit_pairs (s @ a # b # t) = Suc (digit_pairs (s @ a # CHR '','' # b # t))"
  using assms by (simp add: digit_pairs_split [of s a "CHR '',''"] digit_pairs_split [of s a b])

text \<open>What one round does.\<close>

lemma add_comma_shape:
  "add_comma s = Some t \<Longrightarrow>
     \<exists>u a b v. s = u @ a # b # v \<and> t = u @ a # CHR '','' # b # v \<and> is_digit a \<and> is_digit b"
proof (induction s arbitrary: t rule: add_comma.induct)
  case (1 s)
  define pre rest where "pre = takeWhile (\<lambda>c. \<not> is_digit c) s"
    and "rest = dropWhile (\<lambda>c. \<not> is_digit c) s"
  define ds post where "ds = takeWhile is_digit rest" and "post = dropWhile is_digit rest"
  have s: "s = pre @ ds @ post" by (simp add: pre_def rest_def ds_def post_def)
  have eq: "add_comma s =
      (if rest = [] then None
       else if 4 \<le> length ds then
         Some (pre @ take (length ds - 3) ds @ '','' @ drop (length ds - 3) ds @ post)
       else map_option (\<lambda>t. pre @ ds @ t) (add_comma post))"
    unfolding pre_def rest_def ds_def post_def by (subst add_comma.simps) (simp only: Let_def)
  have digits: "\<forall>c\<in>set ds. is_digit c" by (metis ds_def set_takeWhileD)
  show ?case
  proof (cases "4 \<le> length ds")
    case True
    let ?n = "length ds - 3"
    obtain u a where u: "take ?n ds = u @ [a]"
      using True by (cases "take ?n ds" rule: rev_cases) auto
    obtain b v where v: "drop ?n ds = b # v"
      using True by (cases "drop ?n ds") auto
    have ds: "ds = u @ a # b # v" using u v append_take_drop_id [of ?n ds] by simp
    then have "is_digit a" "is_digit b" using digits by auto
    moreover have "rest \<noteq> []" using 1(2) eq by (simp split: if_splits)
    then have "t = pre @ take ?n ds @ '','' @ drop ?n ds @ post" using 1(2) eq True by simp
    then have "t = (pre @ u) @ a # CHR '','' # b # (v @ post)" using u v by simp
    moreover have "s = (pre @ u) @ a # b # (v @ post)" using s ds by simp
    ultimately show ?thesis by blast
  next
    case False
    then obtain t' where t': "add_comma post = Some t'" "t = pre @ ds @ t'" "rest \<noteq> []"
      using 1(2) eq by (auto split: if_splits)
    then obtain u a b v where "post = u @ a # b # v" "t' = u @ a # CHR '','' # b # v"
      "is_digit a" "is_digit b"
      using 1(1) [OF pre_def rest_def ds_def post_def t'(3) False t'(1)] by blast
    then show ?thesis using s t'(2) by (intro exI [of _ "pre @ ds @ u"]) auto
  qed
qed

function add_commas_loop :: "string \<Rightarrow> string" where
  "add_commas_loop x1 = (case add_comma x1 of None \<Rightarrow> x1 | Some t \<Rightarrow> add_commas_loop t)"
  by pat_completeness auto
termination
proof (relation "measure digit_pairs")
  fix x1 t assume "add_comma x1 = Some t"
  then show "(t, x1) \<in> measure digit_pairs"
    using add_comma_shape digit_pairs_comma by fastforce
qed simp

declare add_commas_loop.simps [simp del]

text \<open>\<open>addCommas\<close>: the part before the decimal point is grouped; only the first two parts of
  \<open>nStr.split('.')\<close> are kept.\<close>

definition addCommas :: "js \<Rightarrow> string" where
  "addCommas nStr =
     (case split_at (CHR ''.'') (to_str nStr) of
        [] \<Rightarrow> []
      | [x] \<Rightarrow> add_commas_loop x
      | x # y # _ \<Rightarrow> add_commas_loop x @ ''.'' @ y)"

text \<open>The reference: groups of three from the right.\<close>

function group3 :: "string \<Rightarrow> string" where
  "group3 ds =
     (if length ds \<le> 3 then ds
      else group3 (take (length ds - 3) ds) @ '','' @ drop (length ds - 3) ds)"
  by pat_completeness auto
termination by (relation "measure length") auto

declare group3.simps [simp del]

text \<open>On a run of digits followed by a tail that is already grouped, the loop groups the run.\<close>

lemma add_comma_run:
  assumes "\<forall>c\<in>set ds. is_digit c" "ds \<noteq> []" "post = [] \<or> \<not> is_digit (hd post)"
  shows "add_comma (ds @ post) =
    (if 4 \<le> length ds then
       Some (take (length ds - 3) ds @ '','' @ drop (length ds - 3) ds @ post)
     else map_option (\<lambda>t. ds @ t) (add_comma post))"
proof -
  have "is_digit (hd ds)" using assms(1,2) by (cases ds) auto
  then have pre: "takeWhile (\<lambda>c. \<not> is_digit c) (ds @ post) = []"
    "dropWhile (\<lambda>c. \<not> is_digit c) (ds @ post) = ds @ post"
    using assms(2) by (cases ds; simp)+
  have "takeWhile is_digit post = []" "dropWhile is_digit post = post"
    using assms(3) by (cases post; auto)+
  then have "takeWhile is_digit (ds @ post) = ds" "dropWhile is_digit (ds @ post) = post"
    using assms(1) by (simp_all add: takeWhile_append2 dropWhile_append2)
  then show ?thesis
    using assms(2) by (subst add_comma.simps) (simp add: pre Let_def del: add_comma.simps)
qed

lemma add_comma_Nil: "add_comma [] = None"
  by (subst add_comma.simps) simp

lemma add_comma_comma: "add_comma (CHR '','' # s) = map_option ((#) (CHR '','')) (add_comma s)"
proof -
  have *: "add_comma s = (let pre = takeWhile (\<lambda>c. \<not> is_digit c) s;
          rest = dropWhile (\<lambda>c. \<not> is_digit c) s;
          ds = takeWhile is_digit rest;
          post = dropWhile is_digit rest
      in if rest = [] then None
         else if 4 \<le> length ds then
           Some (pre @ take (length ds - 3) ds @ '','' @ drop (length ds - 3) ds @ post)
         else map_option (\<lambda>t. pre @ ds @ t) (add_comma post))"
    by (rule add_comma.simps)
  show ?thesis
    by (subst add_comma.simps, subst *) (simp add: Let_def option.map_comp comp_def)
qed

lemma add_commas_loop_run:
  assumes "\<forall>c\<in>set ds. is_digit c" "ds \<noteq> []" "post = [] \<or> \<not> is_digit (hd post)" "add_comma post = None"
  shows "add_commas_loop (ds @ post) = group3 ds @ post"
  using assms
proof (induction ds arbitrary: post rule: group3.induct)
  case (1 ds)
  note run = add_comma_run [OF 1(2-4)]
  show ?case
  proof (cases "length ds \<le> 3")
    case True
    then show ?thesis
      using run 1(5) by (subst add_commas_loop.simps) (simp add: group3.simps [of ds])
  next
    case False
    let ?n = "length ds - 3"
    let ?post = "'','' @ drop ?n ds @ post"
    have "\<forall>c\<in>set (drop ?n ds). is_digit c" using 1(2) by (meson in_set_dropD)
    moreover have "drop ?n ds \<noteq> []" "length (drop ?n ds) = 3" using False by simp_all
    ultimately have "add_comma (drop ?n ds @ post) = None"
      using add_comma_run [of "drop ?n ds" post] 1(4,5) by simp
    then have "add_comma ?post = None" by (simp add: add_comma_comma)
    moreover have "\<forall>c\<in>set (take ?n ds). is_digit c" using 1(2) by (meson in_set_takeD)
    moreover have "take ?n ds \<noteq> []" using False by (cases ds) auto
    ultimately have "add_commas_loop (take ?n ds @ ?post) = group3 (take ?n ds) @ ?post"
      using 1(1) [OF False, of ?post] by simp
    then show ?thesis
      using run False by (subst add_commas_loop.simps) (simp add: group3.simps [of ds])
  qed
qed

text \<open>Removing the commas gives the digits back.\<close>

lemma group3_digits:
  "\<forall>c\<in>set ds. is_digit c \<Longrightarrow> filter is_digit (group3 ds) = ds"
proof (induction ds rule: group3.induct)
  case (1 ds)
  show ?case
  proof (cases "length ds \<le> 3")
    case True
    then show ?thesis using 1(2) by (simp add: group3.simps [of ds])
  next
    case False
    have "filter is_digit (group3 (take (length ds - 3) ds)) = take (length ds - 3) ds"
      using 1(1) [OF False] 1(2) by (meson in_set_takeD)
    moreover have "filter is_digit (drop (length ds - 3) ds) = drop (length ds - 3) ds"
      using 1(2) by (meson filter_True in_set_dropD)
    ultimately show ?thesis using False by (simp add: group3.simps [of ds])
  qed
qed

section \<open>ServerUtils.js, FormUtils.js, StringUtils.js, OffsetFilter.js\<close>

text \<open>The value of \<open>a && b\<close> matters to the templates only as true or false.\<close>

definition isEdge :: "js \<Rightarrow> bool" where
  "isEdge server \<longleftrightarrow>
     truthy (fld server ''type'') \<and> contains (to_str (fld server ''type'')) ''EDGE''"

definition isCache :: "js \<Rightarrow> bool" where
  "isCache server \<longleftrightarrow>
     truthy (fld server ''type'') \<and>
     (contains (to_str (fld server ''type'')) ''EDGE'' \<or> js_eq (fld server ''type'') (JStr ''MID''))"

definition isOffline :: "js \<Rightarrow> bool" where
  "isOffline status \<longleftrightarrow> js_eq status (JStr ''OFFLINE'') \<or> js_eq status (JStr ''ADMIN_DOWN'')"

definition offlineReason :: "js \<Rightarrow> js" where
  "offlineReason server =
     (if truthy (fld server ''offlineReason'') then fld server ''offlineReason'' else JStr ''None'')"

definition hasError :: "js \<Rightarrow> bool" where
  "hasError input \<longleftrightarrow>
     truthy input \<and> \<not> truthy (fld input ''$focused'') \<and> truthy (fld input ''$invalid'')"

definition hasPropertyError :: "js \<Rightarrow> string \<Rightarrow> bool" where
  "hasPropertyError input property \<longleftrightarrow>
     truthy input \<and> \<not> truthy (fld input ''$focused'') \<and> truthy (fld (fld input ''$error'') property)"

definition is_upper :: "char \<Rightarrow> bool" where
  "is_upper c \<longleftrightarrow> 65 \<le> (of_char c :: nat) \<and> (of_char c :: nat) \<le> 90"

definition to_upper :: "char \<Rightarrow> char" where
  "to_upper c =
     (if 97 \<le> (of_char c :: nat) \<and> (of_char c :: nat) \<le> 122 then char_of (of_char c - 32 :: nat) else c)"

text \<open>\<open>labelize\<close>: a blank before every capital, then the first character in upper case (ASCII
  identifiers).\<close>

definition labelize :: "string \<Rightarrow> string" where
  "labelize s =
     (case concat (map (\<lambda>c. if is_upper c then [CHR '' '', c] else [c]) s) of
        [] \<Rightarrow> []
      | c # cs \<Rightarrow> to_upper c # cs)"

text \<open>\<open>input.slice(start)\<close> on an array: a negative start counts from the end.\<close>

definition offsetFilter :: "js \<Rightarrow> js \<Rightarrow> js" where
  "offsetFilter input start =
     (case input of
        JArr xs \<Rightarrow>
          (case parse_int start of
             JNum n \<Rightarrow> JArr (drop (if n < 0 then nat (int (length xs) + n) else nat n) xs)
           | _ \<Rightarrow> JArr xs)
      | _ \<Rightarrow> JUndef)"

text \<open>A number without a decimal point is one part.\<close>

lemma split_at_none: "sep \<notin> set s \<Longrightarrow> split_at sep s = [s]"
  by (induction s) auto

lemma addCommas_of_nat: "addCommas (JNum (int n)) = group3 (show_nat n)"
proof -
  have digits: "\<forall>c\<in>set (show_nat n). is_digit c"
    using show_nat_digits [of n] by (simp add: list_all_iff)
  then have "CHR ''.'' \<notin> set (show_nat n)" by (auto simp: is_digit_def)
  then have "split_at (CHR ''.'') (show_nat n) = [show_nat n]" by (rule split_at_none)
  moreover have "add_commas_loop (show_nat n @ []) = group3 (show_nat n) @ []"
    by (rule add_commas_loop_run) (simp_all add: digits add_comma_Nil)
  ultimately show ?thesis by (simp add: addCommas_def show_int_def)
qed

section \<open>Properties\<close>


text \<open>Dropping the commas gives the digits back: no number changes its value.\<close>

lemma addCommas_roundtrip:
  "read_nat (filter is_digit (addCommas (JNum (int n)))) = n"
proof -
  have "\<forall>c\<in>set (show_nat n). is_digit c"
    using show_nat_digits [of n] by (simp add: list_all_iff)
  then show ?thesis using addCommas_of_nat group3_digits by simp
qed

end
