(* ===== verification/DsForms.thy ===== *)
theory DsForms
  imports DsRequests ResourceForms Utils
begin

text \<open>
  The delivery service form (\<open>FormDeliveryServiceController.js\<close>) with its option tables, and the
  controllers that extend it to edit, create and clone a delivery service.  Whether changes go
  through a request that has to be reviewed is a property of the installation
  (\<open>propertiesModel.properties.dsRequests.enabled\<close>).
\<close>

section \<open>Option tables\<close>

definition choice :: "js \<Rightarrow> string \<Rightarrow> js" where
  "choice v l = JObj [(''value'', v), (''label'', JStr l)]"

definition falseTrue :: "js list" where
  "falseTrue = [choice (JBool True) ''true'', choice (JBool False) ''false'']"

definition signingAlgos :: "js list" where
  "signingAlgos =
     [choice JNull ''None'', choice (JStr ''url_sig'') ''URL Signature Keys'',
      choice (JStr ''uri_signing'') ''URI Signing Keys'']"

definition protocols :: "js list" where
  "protocols =
     [choice (JNum 0) ''0 - HTTP'', choice (JNum 1) ''1 - HTTPS'',
      choice (JNum 2) ''2 - HTTP AND HTTPS'', choice (JNum 3) ''3 - HTTP TO HTTPS'']"

definition qStrings :: "js list" where
  "qStrings =
     [choice (JNum 0) ''0 - use qstring in cache key, and pass up'',
      choice (JNum 1) ''1 - ignore in cache key, and pass up'',
      choice (JNum 2) ''2 - drop at edge'']"

definition geoLimits :: "js list" where
  "geoLimits =
     [choice (JNum 0) ''0 - None'', choice (JNum 1) ''1 - CZF only'',
      choice (JNum 2) ''2 - CZF + Country Code(s)'']"

definition geoProviders :: "js list" where
  "geoProviders =
     [choice (JNum 0) ''0 - Maxmind (Default)'', choice (JNum 1) ''1 - Neustar'']"

definition dscps :: "js list" where
  "dscps =
     [choice (JNum 0) ''0 - Best Effort'', choice (JNum 10) ''10 - AF11'',
      choice (JNum 12) ''12 - AF12'', choice (JNum 14) ''14 - AF13'',
      choice (JNum 18) ''18 - AF21'', choice (JNum 20) ''20 - AF22'',
      choice (JNum 22) ''22 - AF23'', choice (JNum 26) ''26 - AF31'',
      choice (JNum 28) ''28 - AF32'', choice (JNum 30) ''30 - AF33'',
      choice (JNum 34) ''34 - AF41'', choice (JNum 36) ''36 - AF42'',
      choice (JNum 37) ''37 - '', choice (JNum 38) ''38 - AF43'',
      choice (JNum 8) ''8 - CS1'', choice (JNum 16) ''16 - CS2'',
      choice (JNum 24) ''24 - CS3'', choice (JNum 32) ''32 - CS4'',
      choice (JNum 40) ''40 - CS5'', choice (JNum 48) ''48 - CS6'',
      choice (JNum 56) ''56 - CS7'']"

definition deepCachingTypes :: "js list" where
  "deepCachingTypes = [choice (JStr ''NEVER'') ''NEVER'', choice (JStr ''ALWAYS'') ''ALWAYS'']"

definition dispersions :: "js list" where
  "dispersions =
     [choice (JNum 1) ''1 - OFF'', choice (JNum 2) ''2'', choice (JNum 3) ''3'',
      choice (JNum 4) ''4'', choice (JNum 5) ''5'', choice (JNum 6) ''6'', choice (JNum 7) ''7'',
      choice (JNum 8) ''8'', choice (JNum 9) ''9'', choice (JNum 10) ''10'']"

definition rrhs :: "js list" where
  "rrhs =
     [choice (JNum 0) (''0 - Don'' @ CHR 0x27 # ''t cache''),
      choice (JNum 1) ''1 - Use background_fetch plugin'',
      choice (JNum 2) ''2 - Use cache_range_requests plugin'']"

definition msoAlgos :: "js list" where
  "msoAlgos =
     [choice (JNum 0) ''0 - Consistent Hash'', choice (JNum 1) ''1 - Primary/Backup'',
      choice (JNum 2) ''2 - Strict Round Robin'', choice (JNum 3) ''3 - IP-based Round Robin'',
      choice (JNum 4) ''4 - Latch on Failover'']"

section \<open>What the form derives from the delivery service\<close>

text \<open>\<open>deliveryService.protocol > 0\<close>: a text is read as a number, \<open>null\<close> as 0, \<open>true\<close> as 1.\<close>

definition positive :: "js \<Rightarrow> bool" where
  "positive v = (case prim_num v of JNum n \<Rightarrow> 0 < n | _ \<Rightarrow> False)"

definition manageKeys :: "js \<Rightarrow> js" where
  "manageKeys ds =
     JObj [(''sslKeys'', JBool (positive (fld ds ''protocol''))),
           (''urlSigKeys'', JBool (js_eq (fld ds ''signingAlgorithm'') (JStr ''url_sig''))),
           (''uriSigningKeys'', JBool (js_eq (fld ds ''signingAlgorithm'') (JStr ''uri_signing'')))]"

definition edgeFQDNs :: "js \<Rightarrow> string" where
  "edgeFQDNs ds = concat (map (\<lambda>u. to_str u @ [CHR 0x0A]) (elems (fld ds ''exampleURLs'')))"

text \<open>The category of a type name; a name of no category leaves the variable \<open>undefined\<close>, which
  \<open>indexOf\<close> reads as the text.\<close>

definition type_category :: "string \<Rightarrow> string" where
  "type_category type =
     (if contains type ''ANY_MAP'' then ''ANY_MAP''
      else if contains type ''DNS'' then ''DNS''
      else if contains type ''HTTP'' then ''HTTP''
      else if contains type ''STEERING'' then ''STEERING''
      else ''undefined'')"

definition ds_types :: "string \<Rightarrow> js list \<Rightarrow> js list" where
  "ds_types type ts = filter (\<lambda>t. contains (to_str (fld t ''name'')) (type_category type)) ts"

definition clientSteeringType :: "js list \<Rightarrow> js" where
  "clientSteeringType ts =
     (case find (\<lambda>t. js_same (fld t ''name'') (JStr ''CLIENT_STEERING'')) ts of
        None \<Rightarrow> JUndef
      | Some t \<Rightarrow> t)"

text \<open>The check also blanks the response headers of every other delivery service; \<open>None\<close> is the
  \<open>TypeError\<close> when there is no such type.\<close>

definition isClientSteering :: "js \<Rightarrow> js list \<Rightarrow> (bool \<times> js) option" where
  "isClientSteering ds ts =
     map_option (\<lambda>i.
       if js_eq (fld ds ''typeId'') i then (True, ds)
       else (False, set_fld ds ''trResponseHeaders'' (JStr [])))
       (getp (clientSteeringType ts) ''id'')"

text \<open>\<open>'-'.repeat(tenant.level) + ' ' + tenant.name\<close>; a tenant without a level repeats nothing.\<close>

definition tenantLabel :: "js \<Rightarrow> string" where
  "tenantLabel tenant =
     (case fld tenant ''level'' of JNum n \<Rightarrow> replicate (nat n) (CHR ''-'') | _ \<Rightarrow> []) @ '' '' @
     to_str (fld tenant ''name'')"

section \<open>Loading the lists\<close>

definition ds_getCDNs :: op where
  "ds_getCDNs = when_result (getCDNs False) (\<lambda>result. eff (set_scope ''cdns'' result))"

definition ds_getProfiles :: op where
  "ds_getProfiles =
     when_result (getProfiles JUndef) (\<lambda>result. eff (set_scope ''profiles''
       (JArr (filter (\<lambda>p. js_eq (fld p ''type'') (JStr ''DS_PROFILE'')) (elems result)))))"

text \<open>The tenants are given their levels in place; on an empty list the utility throws after the
  list has been stored.\<close>

definition store_tenants :: "js \<Rightarrow> op" where
  "store_tenants result =
     seq (eff (set_scope ''tenants'' result))
       (case addLevels (elems result) of
          None \<Rightarrow> throw type_error
        | Some ts \<Rightarrow> eff (set_scope ''tenants'' (JArr ts)))"

definition ds_getTenants :: op where
  "ds_getTenants = when_result (getTenants JUndef) store_tenants"

section \<open>Navigation\<close>

definition view_below :: "string \<Rightarrow> op" where
  "view_below sub = eff (append_path sub)"

definition viewTargets :: op where "viewTargets = view_below ''/targets''"
definition viewServers :: op where "viewServers = view_below ''/servers''"
definition viewRegexes :: op where "viewRegexes = view_below ''/regexes''"
definition viewJobs :: op where "viewJobs = view_below ''/jobs''"
definition manageSslKeys :: op where "manageSslKeys = view_below ''/ssl-keys''"
definition manageUrlSigKeys :: op where "manageUrlSigKeys = view_below ''/url-sig-keys''"
definition manageUriSigningKeys :: op where "manageUriSigningKeys = view_below ''/uri-signing-keys''"
definition viewStaticDnsEntries :: op where "viewStaticDnsEntries = view_below ''/static-dns-entries''"

definition ds_clone :: "js \<Rightarrow> op" where
  "ds_clone ds =
     on_close (dialog_select (message_params
         (''Clone Delivery Service: '' @ to_str (fld ds ''xmlId''))
         ''Please select a content routing category for the clone'') routing_categories)
       (\<lambda>type. deref type ''name'' (\<lambda>n. navigateToPath
          (''/delivery-services/'' @ to_str (fld ds ''id'') @ ''/clone?type='' @ to_str n)))"

section \<open>Editing (FormEditDeliveryServiceController.js)\<close>

definition request_for :: "string \<Rightarrow> string \<Rightarrow> js \<Rightarrow> js" where
  "request_for changeType status ds =
     JObj [(''changeType'', JStr changeType), (''status'', JStr status), (''deliveryService'', ds)]"

definition chosen_status :: "js \<Rightarrow> string" where
  "chosen_status i = (if js_eq i SUBMITTED then ''submitted'' else ''draft'')"

definition edit_createDeleteRequest :: "js \<Rightarrow> op" where
  "edit_createDeleteRequest ds =
     on_close (dialog_delete (delete_ds_params ds))
       (\<lambda>_. detach (createDeliveryServiceRequest (request_for ''delete'' ''submitted'' ds) True))"

definition update_request_params :: js where
  "update_request_params = message_params ''Delivery Service Update Request''
     ''All delivery service updates must be reviewed for completeness and accuracy before deployment.<br><br>Please select the status of your delivery service update request.''"

definition ds_save :: "bool \<Rightarrow> js \<Rightarrow> op" where
  "ds_save dsRequestsEnabled ds =
     (if dsRequestsEnabled then
        on_close (dialog_select update_request_params
            (draft_or_submit ''Submit for Review and Deployment''))
          (\<lambda>action. deref action ''id'' (\<lambda>i.
             detach (createDeliveryServiceRequest (request_for ''update'' (chosen_status i) ds) True)))
      else when_done (updateDeliveryService ds False) refresh)"

definition ds_confirmDelete :: "bool \<Rightarrow> js \<Rightarrow> op" where
  "ds_confirmDelete dsRequestsEnabled ds =
     (if dsRequestsEnabled then edit_createDeleteRequest ds
      else
        on_close (dialog_delete (key_params
            (''Delete Delivery Service: '' @ to_str (fld ds ''displayName'')) (fld ds ''xmlId'')))
          (\<lambda>_. when_done (deleteDeliveryService ds True) (navigateToPath ''/delivery-services'')))"

section \<open>Creating and cloning\<close>

definition create_request_params :: js where
  "create_request_params = message_params ''Delivery Service Create Request''
     ''All new delivery services must be reviewed for completeness and accuracy before deployment.<br><br>Please select the status of your delivery service create request.''"

definition ds_new_save :: "bool \<Rightarrow> js \<Rightarrow> op" where
  "ds_new_save dsRequestsEnabled ds =
     (if dsRequestsEnabled then
        on_close (dialog_select create_request_params
            (draft_or_submit ''Submit for Review and Deployment''))
          (\<lambda>action. deref action ''id'' (\<lambda>i.
             detach (createDeliveryServiceRequest (request_for ''create'' (chosen_status i) ds) True)))
      else detach (createDeliveryService ds))"

text \<open>A clone starts without an id text and without a type.\<close>

definition clone_init :: "js \<Rightarrow> js" where
  "clone_init ds = set_fld (set_fld ds ''xmlId'' JNull) ''typeId'' JNull"

section \<open>Lemmas\<close>

text \<open>Every option table has different values, so a label is found for each of them.\<close>

definition table_ok :: "js list \<Rightarrow> bool" where
  "table_ok t \<longleftrightarrow> list_all (\<lambda>item. magicNumberLabel t (fld item ''value'') = Some (fld item ''label'')) t"

text \<open>No call but the creation of a request leaves the portal when requests are reviewed.\<close>

lemma createDeliveryServiceRequest_sent:
  assumes "run (createDeliveryServiceRequest d delay) w = (r, w')"
  shows "sent w' = sent w @ [RPost [All ''deliveryservice_requests''] d]"
proof -
  let ?c = "RPost [All ''deliveryservice_requests''] d"
  obtain q u where u: "run (http ?c) w = (q, u)" by fastforce
  have "sent u = sent w @ [?c]" using run_http_frame(1) [OF u] .
  then show ?thesis
    using assms u
    by (auto simp: createDeliveryServiceRequest_def rest_post_def rest_def run_then2 run_deferred
        fault_alerts_def run_deref split: outcome.splits option.splits)
qed

lemma sent_request:
  "sent (snd (run (detach (createDeliveryServiceRequest d True)) v)) =
     sent v @ [RPost [All ''deliveryservice_requests''] d]"
  using createDeliveryServiceRequest_sent [of d True v]
  by (cases "run (createDeliveryServiceRequest d True) v") (simp add: run_detach)

text \<open>Nothing is sent, or one request of the kind for the delivery service, in one of the
  statuses.\<close>

definition requests_only :: "string \<Rightarrow> string list \<Rightarrow> js \<Rightarrow> world \<Rightarrow> world \<Rightarrow> bool" where
  "requests_only changeType statuses ds w w' \<longleftrightarrow>
     sent w' = sent w \<or>
     list_ex (\<lambda>s. sent w' = sent w @ [RPost [All ''deliveryservice_requests''] (request_for changeType s ds)])
       statuses"

lemma updateDeliveryService_pending:
  "fst (run (updateDeliveryService ds delay) w) = Pending"
  by (auto simp: updateDeliveryService_def run_deferred deref_later_eq alerts_then_def after_def
      split: prod.splits outcome.splits option.splits)

lemma updateDeliveryService_reloads:
  "reloads (snd (run (updateDeliveryService ds delay) w)) = reloads w"
proof -
  obtain q u where u: "run (api (\<lambda>u. HPut u ds) (''deliveryservices/'' @ to_str (fld ds ''id''))) w = (q, u)"
    by fastforce
  then have "reloads u = reloads w" using run_http_frame(7) by (auto simp: api_def)
  then show ?thesis
    using u by (auto simp: updateDeliveryService_def run_deferred deref_later_eq alerts_then_def
      after_def set_url_def split: outcome.splits option.splits)
qed

section \<open>Properties\<close>

text \<open>Every value of every option table of the delivery service form finds its own label.\<close>

lemma option_labels_found:
  "list_all table_ok [falseTrue, signingAlgos, protocols, qStrings, geoLimits, geoProviders, dscps,
     deepCachingTypes, dispersions, rrhs, msoAlgos]"
  by (simp add: table_ok_def magicNumberLabel_def choice_def falseTrue_def signingAlgos_def
      protocols_def qStrings_def geoLimits_def geoProviders_def dscps_def deepCachingTypes_def
      dispersions_def rrhs_def msoAlgos_def)

text \<open>C36. Where requests are reviewed, saving, creating or deleting a delivery service from its form
  calls nothing, or creates one request that holds the delivery service, says what to do with it,
  and is a draft or submitted; the delivery service itself is not touched.\<close>

theorem reviewed_changes_only_request:
  "requests_only ''update'' [''draft'', ''submitted''] ds w (snd (run (ds_save True ds) w)) \<and>
   requests_only ''create'' [''draft'', ''submitted''] ds w (snd (run (ds_new_save True ds) w)) \<and>
   requests_only ''delete'' [''submitted''] ds w (snd (run (ds_confirmDelete True ds) w))"
proof (intro conjI)
  show "requests_only ''update'' [''draft'', ''submitted''] ds w (snd (run (ds_save True ds) w))"
    by (auto simp: ds_save_def run_on_close run_dialog_select run_deref chosen_status_def
        requests_only_def sent_request split: answer.splits option.splits)
  show "requests_only ''create'' [''draft'', ''submitted''] ds w (snd (run (ds_new_save True ds) w))"
    by (auto simp: ds_new_save_def run_on_close run_dialog_select run_deref chosen_status_def
        requests_only_def sent_request split: answer.splits option.splits)
  show "requests_only ''delete'' [''submitted''] ds w (snd (run (ds_confirmDelete True ds) w))"
    by (auto simp: ds_confirmDelete_def edit_createDeleteRequest_def run_on_close run_dialog_delete
        requests_only_def sent_request split: answer.splits)
qed

text \<open>Updating a delivery service directly: the promise of the service is never settled, so the
  form never reloads its page, whatever the server answers.\<close>

lemma direct_update_never_reloads:
  "fst (run (updateDeliveryService ds delay) w) = Pending \<and>
   reloads (snd (run (ds_save False ds) w)) = reloads w"
  using updateDeliveryService_pending [of ds False w] updateDeliveryService_pending [of ds delay w]
    updateDeliveryService_reloads [of ds False w]
  by (cases "run (updateDeliveryService ds False) w") (simp add: ds_save_def run_when_done)

end
