(* ===== verification/States.thy ===== *)
theory States
  imports Routing DsForms
begin

text \<open>
  The states of the portal: one definition per \<open>.state(...)\<close> call of \<open>app.js\<close> and of the modules under
  \<open>modules/\<close>, with its URL, its views, their templates and controllers, and the functions of its
  \<open>resolve\<close> blocks as calls of the services.  Services are not listed among the data a function takes.
\<close>

section \<open>Functions of resolve blocks with code of their own\<close>

text \<open>A token in the URL logs the user in; a user that is not known yet is fetched
  (\<open>modules/private/index.js\<close>).\<close>

definition login_by_token :: op where
  "login_by_token =
     with_world (\<lambda>w. case map_of (search (loc w)) ''token'' of
       Some token \<Rightarrow> tokenLogin token
     | None \<Rightarrow> ret JUndef)"

definition known_or_fetched_user :: op where
  "known_or_fetched_user =
     with_world (\<lambda>w. if userLoaded w then ret (userUser w) else getCurrentUser)"

text \<open>The template of a delivery service follows from the query parameter \<open>type\<close>; without one, reading
  it throws.\<close>

definition template_by_type :: "visit \<Rightarrow> js option" where
  "template_by_type v =
     (case param v ''type'' of
        JStr t \<Rightarrow> Some
          (if contains t ''ANY_MAP''
           then JStr ''common/modules/form/deliveryService/form.deliveryService.anyMap.tpl.html''
           else if contains t ''DNS''
           then JStr ''common/modules/form/deliveryService/form.deliveryService.DNS.tpl.html''
           else if contains t ''HTTP''
           then JStr ''common/modules/form/deliveryService/form.deliveryService.HTTP.tpl.html''
           else if contains t ''STEERING''
           then JStr ''common/modules/form/deliveryService/form.deliveryService.Steering.tpl.html''
           else JUndef)
      | _ \<Rightarrow> None)"

text \<open>A new delivery service starts with the defaults of its type, from the properties of the portal.  All
  four are read before the type is looked at.\<close>

definition default_ds :: "js \<Rightarrow> op" where
  "default_ds type =
     with_world (\<lambda>w.
       deref (properties w) ''defaults'' (\<lambda>ds. deref ds ''deliveryservices'' (\<lambda>defaults.
       deref defaults ''ANY_MAP'' (\<lambda>anyMap. deref defaults ''DNS'' (\<lambda>dns.
       deref defaults ''HTTP'' (\<lambda>http'. deref defaults ''STEERING'' (\<lambda>steering.
         case type of
           JStr t \<Rightarrow>
             ret (if contains t ''ANY_MAP'' then anyMap
                  else if contains t ''DNS'' then dns
                  else if contains t ''HTTP'' then http'
                  else if contains t ''STEERING'' then steering
                  else JObj [])
         | _ \<Rightarrow> throw type_error)))))))"

text \<open>The delivery service a request is compared with: the one it changes, or its own.\<close>

definition compared_ds :: "js \<Rightarrow> op" where
  "compared_ds requests =
     (case elems requests of
        [] \<Rightarrow> throw type_error
      | dsRequest # _ \<Rightarrow>
          deref dsRequest ''changeType'' (\<lambda>t.
          deref dsRequest ''deliveryService'' (\<lambda>ds.
            if js_eq t (JStr ''update'')
            then deref ds ''id'' getDeliveryService
            else ret ds)))"

section \<open>The states\<close>

definition state_trafficPortal :: ui_state where
  "state_trafficPortal =
     State ''trafficPortal'' ''/'' True
       [View [] (from_file ''common/templates/master.tpl.html'')
         None []]
       [
          Input ''properties'' [] (\<lambda>_ _. resolve_properties)]"

definition state_private :: ui_state where
  "state_private =
     State ''trafficPortal.private'' [] True
       [View ''navigation'' (from_file ''common/modules/navigation/navigation.tpl.html'')
         (Some ''NavigationController'') [],
        View ''header'' (from_file ''common/modules/header/header.tpl.html'')
         (Some ''HeaderController'') [],
        View ''message'' (from_file ''common/modules/message/message.tpl.html'')
         (Some ''MessageController'') [],
        View ''content'' (from_file ''modules/private/private.tpl.html'')
         (Some ''PrivateController'') []]
       [
          Input ''tokenLogin'' [] (\<lambda>_ _. login_by_token),
          Input ''currentUser'' [''tokenLogin''] (\<lambda>_ _. known_or_fetched_user)]"

definition state_asns :: ui_state where
  "state_asns =
     State ''trafficPortal.private.asns'' ''asns'' True
       [View ''privateContent'' (from_file ''modules/private/asns/asns.tpl.html'')
         None []]
       []"

definition state_asns_edit :: ui_state where
  "state_asns_edit =
     State ''trafficPortal.private.asns.edit'' ''/{asnId:[0-9]{1,8}}'' False
       [View ''asnsContent'' (from_file ''common/modules/form/asn/form.asn.tpl.html'')
         (Some ''FormEditASNController'') [
          Input ''asn'' [] (\<lambda>v _. getASN (param v ''asnId''))]]
       []"

definition state_asns_list :: ui_state where
  "state_asns_list =
     State ''trafficPortal.private.asns.list'' [] False
       [View ''asnsContent'' (from_file ''common/modules/table/asns/table.asns.tpl.html'')
         (Some ''TableASNsController'') [
          Input ''asns'' [] (\<lambda>_ _. getASNs JUndef)]]
       []"

definition state_asns_new :: ui_state where
  "state_asns_new =
     State ''trafficPortal.private.asns.new'' ''/new'' False
       [View ''asnsContent'' (from_file ''common/modules/form/asn/form.asn.tpl.html'')
         (Some ''FormNewASNController'') [
          Input ''asn'' [] (\<lambda>_ _. ret (JObj []))]]
       []"

definition state_cacheChecks :: ui_state where
  "state_cacheChecks =
     State ''trafficPortal.private.cacheChecks'' ''cache-checks'' False
       [View ''privateContent'' (from_file ''modules/private/cacheChecks/cacheChecks.tpl.html'')
         (Some ''CacheChecksController'') [
          Input ''cacheChecks'' [] (\<lambda>_ _. getCacheChecks),
          Input ''showReval'' [] (\<lambda>_ _. getParameters (JObj [(''name'', JStr ''use_reval_pending''), (''configFile'', JStr ''global'')]))]]
       []"

definition state_cacheGroups :: ui_state where
  "state_cacheGroups =
     State ''trafficPortal.private.cacheGroups'' ''cache-groups'' True
       [View ''privateContent'' (from_file ''modules/private/cacheGroups/cacheGroups.tpl.html'')
         None []]
       []"

definition state_cacheGroups_asns :: ui_state where
  "state_cacheGroups_asns =
     State ''trafficPortal.private.cacheGroups.asns'' ''/{cacheGroupId}/asns'' False
       [View ''cacheGroupsContent'' (from_file ''common/modules/table/cacheGroupAsns/table.cacheGroupAsns.tpl.html'')
         (Some ''TableCacheGroupAsnsController'') [
          Input ''cacheGroup'' [] (\<lambda>v _. getCacheGroup (param v ''cacheGroupId'')),
          Input ''asns'' [] (\<lambda>v _. getASNs (JObj [(''cachegroup'', param v ''cacheGroupId'')]))]]
       []"

definition state_cacheGroups_edit :: ui_state where
  "state_cacheGroups_edit =
     State ''trafficPortal.private.cacheGroups.edit'' ''/{cacheGroupId:[0-9]{1,8}}'' False
       [View ''cacheGroupsContent'' (from_file ''common/modules/form/cacheGroup/form.cacheGroup.tpl.html'')
         (Some ''FormEditCacheGroupController'') [
          Input ''cacheGroup'' [] (\<lambda>v _. getCacheGroup (param v ''cacheGroupId''))]]
       []"

definition state_cacheGroups_list :: ui_state where
  "state_cacheGroups_list =
     State ''trafficPortal.private.cacheGroups.list'' [] False
       [View ''cacheGroupsContent'' (from_file ''common/modules/table/cacheGroups/table.cacheGroups.tpl.html'')
         (Some ''TableCacheGroupsController'') [
          Input ''cacheGroups'' [] (\<lambda>_ _. getCacheGroups JUndef)]]
       []"

definition state_cacheGroups_new :: ui_state where
  "state_cacheGroups_new =
     State ''trafficPortal.private.cacheGroups.new'' ''/new'' False
       [View ''cacheGroupsContent'' (from_file ''common/modules/form/cacheGroup/form.cacheGroup.tpl.html'')
         (Some ''FormNewCacheGroupController'') [
          Input ''cacheGroup'' [] (\<lambda>_ _. ret (JObj []))]]
       []"

definition state_cacheGroups_parameters :: ui_state where
  "state_cacheGroups_parameters =
     State ''trafficPortal.private.cacheGroups.parameters'' ''/{cacheGroupId}/parameters'' False
       [View ''cacheGroupsContent'' (from_file ''common/modules/table/cacheGroupParameters/table.cacheGroupParameters.tpl.html'')
         (Some ''TableCacheGroupParametersController'') [
          Input ''cacheGroup'' [] (\<lambda>v _. getCacheGroup (param v ''cacheGroupId'')),
          Input ''cacheGroupParameters'' [] (\<lambda>v _. getCacheGroupParameters (param v ''cacheGroupId''))]]
       []"

definition state_cacheGroups_servers :: ui_state where
  "state_cacheGroups_servers =
     State ''trafficPortal.private.cacheGroups.servers'' ''/{cacheGroupId}/servers'' False
       [View ''cacheGroupsContent'' (from_file ''common/modules/table/cacheGroupServers/table.cacheGroupServers.tpl.html'')
         (Some ''TableCacheGroupServersController'') [
          Input ''cacheGroup'' [] (\<lambda>v _. getCacheGroup (param v ''cacheGroupId'')),
          Input ''servers'' [] (\<lambda>v _. getServers (JObj [(''cachegroup'', param v ''cacheGroupId''), (''orderby'', JStr ''hostName'')]))]]
       []"

definition state_staticDnsEntries :: ui_state where
  "state_staticDnsEntries =
     State ''trafficPortal.private.staticDnsEntries'' ''/{cacheGroupId}/static-dns-entries'' False
       [View ''cacheGroupsContent'' (from_file ''common/modules/table/cacheGroupStaticDnsEntries/table.cacheGroupStaticDnsEntries.tpl.html'')
         (Some ''TableCacheGroupStaticDnsEntriesController'') [
          Input ''cacheGroup'' [] (\<lambda>v _. getCacheGroup (param v ''cacheGroupId'')),
          Input ''staticDnsEntries'' [] (\<lambda>v _. getStaticDnsEntries (JObj [(''cachegroup'', param v ''cacheGroupId'')]))]]
       []"

definition state_cacheStats :: ui_state where
  "state_cacheStats =
     State ''trafficPortal.private.cacheStats'' ''cache-stats'' False
       [View ''privateContent'' (from_file ''modules/private/cacheStats/cacheStats.tpl.html'')
         (Some ''CacheStatsController'') [
          Input ''cacheStats'' [] (\<lambda>_ _. getCacheStats)]]
       []"

definition state_cdns :: ui_state where
  "state_cdns =
     State ''trafficPortal.private.cdns'' ''cdns'' True
       [View ''privateContent'' (from_file ''modules/private/cdns/cdns.tpl.html'')
         None []]
       []"

definition state_cdns_config :: ui_state where
  "state_cdns_config =
     State ''trafficPortal.private.cdns.config'' ''/{cdnId}/config/changes'' False
       [View ''cdnsContent'' (from_file ''modules/private/cdns/config/config.tpl.html'')
         (Some ''ConfigController'') [
          Input ''cdn'' [] (\<lambda>v _. getCDN (param v ''cdnId'')),
          Input ''currentSnapshot'' [''cdn''] (\<lambda>_ d. deref (d ''cdn'') ''name'' (\<lambda>nm. getCurrentSnapshot (to_str nm))),
          Input ''newSnapshot'' [''cdn''] (\<lambda>_ d. deref (d ''cdn'') ''name'' (\<lambda>nm. getNewSnapshot (to_str nm)))]]
       []"

definition state_cdns_deliveryServices :: ui_state where
  "state_cdns_deliveryServices =
     State ''trafficPortal.private.cdns.deliveryServices'' ''/{cdnId}/delivery-services'' False
       [View ''cdnsContent'' (from_file ''common/modules/table/cdnDeliveryServices/table.cdnDeliveryServices.tpl.html'')
         (Some ''TableCDNDeliveryServicesController'') [
          Input ''cdn'' [] (\<lambda>v _. getCDN (param v ''cdnId'')),
          Input ''deliveryServices'' [] (\<lambda>v _. getDeliveryServices (JObj [(''cdn'', param v ''cdnId'')]))]]
       []"

definition state_cdns_dnssecKeys :: ui_state where
  "state_cdns_dnssecKeys =
     State ''trafficPortal.private.cdns.dnssecKeys'' ''/{cdnId}/dnssec-keys'' True
       [View ''cdnsContent'' (from_file ''modules/private/cdns/dnssecKeys/cdnDnssecKeys.tpl.html'')
         None []]
       []"

definition state_cdns_dnssecKeys_generate :: ui_state where
  "state_cdns_dnssecKeys_generate =
     State ''trafficPortal.private.cdns.dnssecKeys.generate'' ''/generate'' False
       [View ''cdnDnssecKeysContent'' (from_file ''common/modules/form/cdnDnssecKeys/generate/form.GenerateCdnDnssecKeys.tpl.html'')
         (Some ''FormGenerateCdnDnssecKeysController'') [
          Input ''cdn'' [] (\<lambda>v _. getCDN (param v ''cdnId'')),
          Input ''dnssecKeysRequest'' [''cdn''] (\<lambda>v d. deref (d ''cdn'') ''name'' (\<lambda>nm. deref (d ''cdn'') ''domainName'' (\<lambda>domainName. ret (JObj [(''key'', nm), (''name'', domainName), (''ttl'', JNum 60), (''kskExpirationDays'', JNum 365), (''zskExpirationDays'', JNum 30), (''effectiveDate'', JStr (utcNow v))]))))]]
       []"

definition state_cdns_dnssecKeys_view :: ui_state where
  "state_cdns_dnssecKeys_view =
     State ''trafficPortal.private.cdns.dnssecKeys.view'' [] False
       [View ''cdnDnssecKeysContent'' (from_file ''common/modules/form/cdnDnssecKeys/form.cdnDnssecKeys.tpl.html'')
         (Some ''FormCdnDnssecKeysController'') [
          Input ''cdn'' [] (\<lambda>v _. getCDN (param v ''cdnId'')),
          Input ''dnssecKeys'' [''cdn''] (\<lambda>_ d. deref (d ''cdn'') ''name'' (\<lambda>nm. getDNSSECKeys (to_str nm)))]]
       []"

definition state_cdns_edit :: ui_state where
  "state_cdns_edit =
     State ''trafficPortal.private.cdns.edit'' ''/{cdnId:[0-9]{1,8}}'' False
       [View ''cdnsContent'' (from_file ''common/modules/form/cdn/form.cdn.tpl.html'')
         (Some ''FormEditCDNController'') [
          Input ''cdn'' [] (\<lambda>v _. getCDN (param v ''cdnId''))]]
       []"

definition state_cdns_federations :: ui_state where
  "state_cdns_federations =
     State ''trafficPortal.private.cdns.federations'' ''/{cdnId}/federations'' True
       [View ''cdnsContent'' (from_file ''modules/private/cdns/federations/cdnFederations.tpl.html'')
         None []]
       []"

definition state_cdns_federations_deliveryServices :: ui_state where
  "state_cdns_federations_deliveryServices =
     State ''trafficPortal.private.cdns.federations.deliveryServices'' ''/{fedId:[0-9]{1,8}}/delivery-services'' False
       [View ''cdnFederationsContent'' (from_file ''common/modules/table/cdnFederationDeliveryServices/table.cdnFederationDeliveryServices.tpl.html'')
         (Some ''TableCDNFederationDeliveryServicesController'') [
          Input ''cdn'' [] (\<lambda>v _. getCDN (param v ''cdnId'')),
          Input ''federation'' [''cdn''] (\<lambda>v d. deref (d ''cdn'') ''name'' (\<lambda>nm. getCDNFederation nm (param v ''fedId''))),
          Input ''deliveryServices'' [''federation''] (\<lambda>_ d. deref (d ''federation'') ''id'' (\<lambda>i. getFederationDeliveryServices i))]]
       []"

definition state_cdns_federations_edit :: ui_state where
  "state_cdns_federations_edit =
     State ''trafficPortal.private.cdns.federations.edit'' ''/{fedId:[0-9]{1,8}}'' False
       [View ''cdnFederationsContent'' (from_file ''common/modules/form/federation/form.federation.tpl.html'')
         (Some ''FormEditFederationController'') [
          Input ''cdn'' [] (\<lambda>v _. getCDN (param v ''cdnId'')),
          Input ''federation'' [''cdn''] (\<lambda>v d. deref (d ''cdn'') ''name'' (\<lambda>nm. getCDNFederation nm (param v ''fedId''))),
          Input ''resolvers'' [''federation''] (\<lambda>_ d. deref (d ''federation'') ''id'' (\<lambda>i. getFederationFederationResolvers i)),
          Input ''deliveryServices'' [''cdn''] (\<lambda>_ d. deref (d ''cdn'') ''id'' (\<lambda>i. getDeliveryServices (JObj [(''cdn'', i)]))),
          Input ''federationDeliveryServices'' [''federation''] (\<lambda>_ d. deref (d ''federation'') ''id'' (\<lambda>i. getFederationDeliveryServices i))]]
       []"

definition state_cdns_federations_list :: ui_state where
  "state_cdns_federations_list =
     State ''trafficPortal.private.cdns.federations.list'' [] False
       [View ''cdnFederationsContent'' (from_file ''common/modules/table/cdnFederations/table.cdnFederations.tpl.html'')
         (Some ''TableCDNFederationsController'') [
          Input ''cdn'' [] (\<lambda>v _. getCDN (param v ''cdnId'')),
          Input ''federations'' [''cdn''] (\<lambda>_ d. deref (d ''cdn'') ''name'' (\<lambda>nm. getCDNFederations nm))]]
       []"

definition state_cdns_federations_new :: ui_state where
  "state_cdns_federations_new =
     State ''trafficPortal.private.cdns.federations.new'' ''/new'' False
       [View ''cdnFederationsContent'' (from_file ''common/modules/form/federation/form.federation.tpl.html'')
         (Some ''FormNewFederationController'') [
          Input ''cdn'' [] (\<lambda>v _. getCDN (param v ''cdnId'')),
          Input ''federation'' [] (\<lambda>_ _. ret (JObj [])),
          Input ''users'' [] (\<lambda>_ _. getUsers (JObj [])),
          Input ''deliveryServices'' [] (\<lambda>v _. getDeliveryServices (JObj [(''cdn'', param v ''cdnId'')]))]]
       []"

definition state_cdns_federations_users :: ui_state where
  "state_cdns_federations_users =
     State ''trafficPortal.private.cdns.federations.users'' ''/{fedId:[0-9]{1,8}}/users'' False
       [View ''cdnFederationsContent'' (from_file ''common/modules/table/cdnFederationUsers/table.cdnFederationUsers.tpl.html'')
         (Some ''TableCDNFederationUsersController'') [
          Input ''cdn'' [] (\<lambda>v _. getCDN (param v ''cdnId'')),
          Input ''federation'' [''cdn''] (\<lambda>v d. deref (d ''cdn'') ''name'' (\<lambda>nm. getCDNFederation nm (param v ''fedId''))),
          Input ''users'' [''federation''] (\<lambda>_ d. deref (d ''federation'') ''id'' (\<lambda>i. getFederationUsers i))]]
       []"

definition state_cdns_list :: ui_state where
  "state_cdns_list =
     State ''trafficPortal.private.cdns.list'' [] False
       [View ''cdnsContent'' (from_file ''common/modules/table/cdns/table.cdns.tpl.html'')
         (Some ''TableCDNsController'') [
          Input ''cdns'' [] (\<lambda>_ _. getCDNs True)]]
       []"

definition state_cdns_new :: ui_state where
  "state_cdns_new =
     State ''trafficPortal.private.cdns.new'' ''/new'' False
       [View ''cdnsContent'' (from_file ''common/modules/form/cdn/form.cdn.tpl.html'')
         (Some ''FormNewCDNController'') [
          Input ''cdn'' [] (\<lambda>_ _. ret (JObj []))]]
       []"

definition state_cdns_profiles :: ui_state where
  "state_cdns_profiles =
     State ''trafficPortal.private.cdns.profiles'' ''/{cdnId}/profiles'' False
       [View ''cdnsContent'' (from_file ''common/modules/table/cdnProfiles/table.cdnProfiles.tpl.html'')
         (Some ''TableCDNProfilesController'') [
          Input ''cdn'' [] (\<lambda>v _. getCDN (param v ''cdnId'')),
          Input ''profiles'' [] (\<lambda>v _. getProfiles (JObj [(''cdn'', param v ''cdnId'')]))]]
       []"

definition state_cdns_servers :: ui_state where
  "state_cdns_servers =
     State ''trafficPortal.private.cdns.servers'' ''/{cdnId}/servers'' False
       [View ''cdnsContent'' (from_file ''common/modules/table/cdnServers/table.cdnServers.tpl.html'')
         (Some ''TableCDNServersController'') [
          Input ''cdn'' [] (\<lambda>v _. getCDN (param v ''cdnId'')),
          Input ''servers'' [] (\<lambda>v _. getServers (JObj [(''cdn'', param v ''cdnId''), (''orderby'', JStr ''hostName'')]))]]
       []"

definition state_changeLogs :: ui_state where
  "state_changeLogs =
     State ''trafficPortal.private.changeLogs'' ''change-logs'' True
       [View ''privateContent'' (from_file ''modules/private/changeLogs/changeLogs.tpl.html'')
         None []]
       []"

definition state_changeLogs_list :: ui_state where
  "state_changeLogs_list =
     State ''trafficPortal.private.changeLogs.list'' [] False
       [View ''changeLogsContent'' (from_file ''common/modules/table/changeLogs/table.changeLogs.tpl.html'')
         (Some ''TableChangeLogsController'') [
          Input ''changeLogs'' [] (\<lambda>_ _. getChangeLogs (JObj [(''days'', JNum 3)]))]]
       []"

definition state_custom :: ui_state where
  "state_custom =
     State ''trafficPortal.private.custom'' ''custom'' False
       [View ''privateContent'' (from_file ''modules/private/custom/custom.tpl.html'')
         (Some ''CustomController'') []]
       []"

definition state_dashboard :: ui_state where
  "state_dashboard =
     State ''trafficPortal.private.dashboard'' ''dashboard'' True
       [View ''privateContent'' (from_file ''modules/private/dashboard/dashboard.tpl.html'')
         (Some ''DashboardController'') [
          Input ''cdns'' [] (\<lambda>_ _. getCDNs False),
          Input ''serverCount'' [] (\<lambda>_ _. getEdgeStatusCount)]]
       []"

definition state_dashboard_view :: ui_state where
  "state_dashboard_view =
     State ''trafficPortal.private.dashboard.view'' [] False
       [View ''cacheGroupsContent'' (from_file ''common/modules/widget/cacheGroups/widget.cacheGroups.tpl.html'')
         (Some ''WidgetCacheGroupsController'') [
          Input ''cacheGroupHealth'' [] (\<lambda>_ _. ret JNull)],
        View ''capacityContent'' (from_file ''common/modules/widget/capacity/widget.capacity.tpl.html'')
         (Some ''WidgetCapacityController'') [],
        View ''cdnChartContent'' (from_file ''common/modules/widget/cdnChart/widget.cdnChart.tpl.html'')
         (Some ''WidgetCDNChartController'') [
          Input ''cdn'' [] (\<lambda>_ _. ret JNull)],
        View ''changeLogsContent'' (from_file ''common/modules/widget/changeLogs/widget.changeLogs.tpl.html'')
         (Some ''WidgetChangeLogsController'') [
          Input ''changeLogs'' [] (\<lambda>_ _. getChangeLogs (JObj [(''limit'', JNum 5)]))],
        View ''routingContent'' (from_file ''common/modules/widget/routing/widget.routing.tpl.html'')
         (Some ''WidgetRoutingController'') [
          Input ''routing'' [] (\<lambda>_ _. ret (JArr []))]]
       []"

definition state_deliveryServiceRequests :: ui_state where
  "state_deliveryServiceRequests =
     State ''trafficPortal.private.deliveryServiceRequests'' ''delivery-service-requests'' True
       [View ''privateContent'' (from_file ''modules/private/deliveryServiceRequests/deliveryServiceRequests.tpl.html'')
         None []]
       []"

definition state_deliveryServiceRequests_edit :: ui_state where
  "state_deliveryServiceRequests_edit =
     State ''trafficPortal.private.deliveryServiceRequests.edit'' ''/{deliveryServiceRequestId:[0-9]{1,8}}?type&fulfill'' False
       [View ''deliveryServiceRequestsContent'' template_by_type
         (Some ''FormEditDeliveryServiceRequestController'') [
          Input ''deliveryServiceRequest'' [] (\<lambda>v _. getDeliveryServiceRequests (JObj [(''id'', param v ''deliveryServiceRequestId'')])),
          Input ''deliveryService'' [''deliveryServiceRequest''] (\<lambda>_ d. compared_ds (d ''deliveryServiceRequest'')),
          Input ''type'' [] (\<lambda>v _. ret (param v ''type'')),
          Input ''types'' [] (\<lambda>_ _. getTypes (JObj [(''useInTable'', JStr ''deliveryservice'')]))]]
       []"

definition state_deliveryServiceRequests_list :: ui_state where
  "state_deliveryServiceRequests_list =
     State ''trafficPortal.private.deliveryServiceRequests.list'' [] False
       [View ''deliveryServiceRequestsContent'' (from_file ''common/modules/table/deliveryServiceRequests/table.deliveryServiceRequests.tpl.html'')
         (Some ''TableDeliveryServiceRequestsController'') [
          Input ''dsRequests'' [] (\<lambda>_ _. getDeliveryServiceRequests JUndef)]]
       []"

definition state_deliveryServices :: ui_state where
  "state_deliveryServices =
     State ''trafficPortal.private.deliveryServices'' ''delivery-services'' True
       [View ''privateContent'' (from_file ''modules/private/deliveryServices/deliveryServices.tpl.html'')
         None []]
       []"

definition state_deliveryServices_clone :: ui_state where
  "state_deliveryServices_clone =
     State ''trafficPortal.private.deliveryServices.clone'' ''/{deliveryServiceId:[0-9]{1,8}}/clone?type'' False
       [View ''deliveryServicesContent'' template_by_type
         (Some ''FormCloneDeliveryServiceController'') [
          Input ''deliveryService'' [] (\<lambda>v _. getDeliveryService (param v ''deliveryServiceId'')),
          Input ''type'' [] (\<lambda>v _. ret (param v ''type'')),
          Input ''types'' [] (\<lambda>_ _. getTypes (JObj [(''useInTable'', JStr ''deliveryservice'')]))]]
       []"

definition state_deliveryServices_compare :: ui_state where
  "state_deliveryServices_compare =
     State ''trafficPortal.private.deliveryServices.compare'' ''/compare/{ds1Id}/{ds2Id}'' False
       [View ''deliveryServicesContent'' (from_file ''common/modules/compare/compare.tpl.html'')
         (Some ''CompareController'') [
          Input ''ds1'' [] (\<lambda>v _. getDeliveryService (param v ''ds1Id'')),
          Input ''ds2'' [] (\<lambda>v _. getDeliveryService (param v ''ds2Id'')),
          Input ''item1Name'' [''ds1''] (\<lambda>_ d. deref (d ''ds1'') ''xmlId'' (\<lambda>xmlId. ret xmlId)),
          Input ''item2Name'' [''ds2''] (\<lambda>_ d. deref (d ''ds2'') ''xmlId'' (\<lambda>xmlId. ret xmlId)),
          Input ''item1'' [''ds1''] (\<lambda>_ d. ret (d ''ds1'')),
          Input ''item2'' [''ds2''] (\<lambda>_ d. ret (d ''ds2''))]]
       []"

definition state_deliveryServices_edit :: ui_state where
  "state_deliveryServices_edit =
     State ''trafficPortal.private.deliveryServices.edit'' ''/{deliveryServiceId:[0-9]{1,8}}?type'' False
       [View ''deliveryServicesContent'' template_by_type
         (Some ''FormEditDeliveryServiceController'') [
          Input ''deliveryService'' [] (\<lambda>v _. getDeliveryService (param v ''deliveryServiceId'')),
          Input ''type'' [] (\<lambda>v _. ret (param v ''type'')),
          Input ''types'' [] (\<lambda>_ _. getTypes (JObj [(''useInTable'', JStr ''deliveryservice'')]))]]
       []"

definition state_deliveryServices_jobs :: ui_state where
  "state_deliveryServices_jobs =
     State ''trafficPortal.private.deliveryServices.jobs'' ''/{deliveryServiceId}/jobs'' True
       [View ''deliveryServicesContent'' (from_file ''modules/private/deliveryServices/jobs/deliveryServiceJobs.tpl.html'')
         (Some ''DeliveryServiceJobsController'') []]
       []"

definition state_deliveryServices_jobs_list :: ui_state where
  "state_deliveryServices_jobs_list =
     State ''trafficPortal.private.deliveryServices.jobs.list'' [] False
       [View ''deliveryServiceJobsContent'' (from_file ''common/modules/table/deliveryServiceJobs/table.deliveryServiceJobs.tpl.html'')
         (Some ''TableDeliveryServiceJobsController'') [
          Input ''deliveryService'' [] (\<lambda>v _. getDeliveryService (param v ''deliveryServiceId'')),
          Input ''jobs'' [] (\<lambda>v _. getJobs (JObj [(''dsId'', param v ''deliveryServiceId'')]))]]
       []"

definition state_deliveryServices_jobs_new :: ui_state where
  "state_deliveryServices_jobs_new =
     State ''trafficPortal.private.deliveryServices.jobs.new'' ''/new'' False
       [View ''deliveryServiceJobsContent'' (from_file ''common/modules/form/deliveryServiceJob/form.deliveryServiceJob.tpl.html'')
         (Some ''FormNewDeliveryServiceJobController'') [
          Input ''deliveryService'' [] (\<lambda>v _. getDeliveryService (param v ''deliveryServiceId'')),
          Input ''job'' [] (\<lambda>v _. ret (JObj [(''dsId'', param v ''deliveryServiceId''), (''startTime'', JStr (localNow v))]))]]
       []"

definition state_deliveryServices_list :: ui_state where
  "state_deliveryServices_list =
     State ''trafficPortal.private.deliveryServices.list'' [] False
       [View ''deliveryServicesContent'' (from_file ''common/modules/table/deliveryServices/table.deliveryServices.tpl.html'')
         (Some ''TableDeliveryServicesController'') [
          Input ''deliveryServices'' [] (\<lambda>_ _. getDeliveryServices JUndef)]]
       []"

definition state_deliveryServices_new :: ui_state where
  "state_deliveryServices_new =
     State ''trafficPortal.private.deliveryServices.new'' ''/new?type'' False
       [View ''deliveryServicesContent'' template_by_type
         (Some ''FormNewDeliveryServiceController'') [
          Input ''deliveryService'' [] (\<lambda>v _. default_ds (param v ''type'')),
          Input ''type'' [] (\<lambda>v _. ret (param v ''type'')),
          Input ''types'' [] (\<lambda>_ _. getTypes (JObj [(''useInTable'', JStr ''deliveryservice'')]))]]
       []"

definition state_deliveryServices_regexes :: ui_state where
  "state_deliveryServices_regexes =
     State ''trafficPortal.private.deliveryServices.regexes'' ''/{deliveryServiceId}/regexes'' True
       [View ''deliveryServicesContent'' (from_file ''modules/private/deliveryServices/regexes/deliveryServiceRegexes.tpl.html'')
         (Some ''DeliveryServiceRegexesController'') []]
       []"

definition state_deliveryServices_regexes_edit :: ui_state where
  "state_deliveryServices_regexes_edit =
     State ''trafficPortal.private.deliveryServices.regexes.edit'' ''/{regexId:[0-9]{1,8}}'' False
       [View ''deliveryServiceRegexesContent'' (from_file ''common/modules/form/deliveryServiceRegex/form.deliveryServiceRegex.tpl.html'')
         (Some ''FormEditDeliveryServiceRegexController'') [
          Input ''deliveryService'' [] (\<lambda>v _. getDeliveryService (param v ''deliveryServiceId'')),
          Input ''regex'' [] (\<lambda>v _. getDeliveryServiceRegex (param v ''deliveryServiceId'') (param v ''regexId''))]]
       []"

definition state_deliveryServices_regexes_list :: ui_state where
  "state_deliveryServices_regexes_list =
     State ''trafficPortal.private.deliveryServices.regexes.list'' [] False
       [View ''deliveryServiceRegexesContent'' (from_file ''common/modules/table/deliveryServiceRegexes/table.deliveryServiceRegexes.tpl.html'')
         (Some ''TableDeliveryServiceRegexesController'') [
          Input ''deliveryService'' [] (\<lambda>v _. getDeliveryService (param v ''deliveryServiceId'')),
          Input ''regexes'' [] (\<lambda>v _. getDeliveryServiceRegexes (param v ''deliveryServiceId''))]]
       []"

definition state_deliveryServices_regexes_new :: ui_state where
  "state_deliveryServices_regexes_new =
     State ''trafficPortal.private.deliveryServices.regexes.new'' ''/new'' False
       [View ''deliveryServiceRegexesContent'' (from_file ''common/modules/form/deliveryServiceRegex/form.deliveryServiceRegex.tpl.html'')
         (Some ''FormNewDeliveryServiceRegexController'') [
          Input ''deliveryService'' [] (\<lambda>v _. getDeliveryService (param v ''deliveryServiceId'')),
          Input ''regex'' [] (\<lambda>_ _. ret (JObj []))]]
       []"

definition state_deliveryServices_servers :: ui_state where
  "state_deliveryServices_servers =
     State ''trafficPortal.private.deliveryServices.servers'' ''/{deliveryServiceId}/servers'' False
       [View ''deliveryServicesContent'' (from_file ''common/modules/table/deliveryServiceServers/table.deliveryServiceServers.tpl.html'')
         (Some ''TableDeliveryServiceServersController'') [
          Input ''deliveryService'' [] (\<lambda>v _. getDeliveryService (param v ''deliveryServiceId'')),
          Input ''servers'' [] (\<lambda>v _. getDeliveryServiceServers (param v ''deliveryServiceId''))]]
       []"

definition state_deliveryServices_sslKeys :: ui_state where
  "state_deliveryServices_sslKeys =
     State ''trafficPortal.private.deliveryServices.sslKeys'' ''/{deliveryServiceId}/ssl-keys'' True
       [View ''deliveryServicesContent'' (from_file ''modules/private/deliveryServices/sslKeys/deliveryServiceSslKeys.tpl.html'')
         (Some ''DeliveryServiceSslKeysController'') []]
       []"

definition state_deliveryServices_sslKeys_generate :: ui_state where
  "state_deliveryServices_sslKeys_generate =
     State ''trafficPortal.private.deliveryServices.sslKeys.generate'' ''/generate'' False
       [View ''deliveryServiceSslKeysContent'' (from_file ''common/modules/form/deliveryServiceSslKeys/generate/form.GenerateDeliveryServiceSslKeys.tpl.html'')
         (Some ''FormGenerateDeliveryServiceSslKeysController'') [
          Input ''deliveryService'' [] (\<lambda>v _. getDeliveryService (param v ''deliveryServiceId'')),
          Input ''sslKeys'' [''deliveryService''] (\<lambda>_ d. getSslKeys (d ''deliveryService'')),
          Input ''sslRequest'' [''sslKeys''] (\<lambda>_ d. deref (d ''sslKeys'') ''hostname'' (\<lambda>hostname. ret (JObj [(''hostname'', hostname)])))]]
       []"

definition state_deliveryServices_sslKeys_view :: ui_state where
  "state_deliveryServices_sslKeys_view =
     State ''trafficPortal.private.deliveryServices.sslKeys.view'' [] False
       [View ''deliveryServiceSslKeysContent'' (from_file ''common/modules/form/deliveryServiceSslKeys/form.deliveryServiceSslKeys.tpl.html'')
         (Some ''FormDeliveryServiceSslKeysController'') [
          Input ''deliveryService'' [] (\<lambda>v _. getDeliveryService (param v ''deliveryServiceId'')),
          Input ''sslKeys'' [''deliveryService''] (\<lambda>_ d. getSslKeys (d ''deliveryService''))]]
       []"

definition state_deliveryServices_staticDnsEntries :: ui_state where
  "state_deliveryServices_staticDnsEntries =
     State ''trafficPortal.private.deliveryServices.staticDnsEntries'' ''/{deliveryServiceId}/static-dns-entries'' False
       [View ''deliveryServicesContent'' (from_file ''common/modules/table/deliveryServiceStaticDnsEntries/table.deliveryServiceStaticDnsEntries.tpl.html'')
         (Some ''TableDeliveryServiceStaticDnsEntriesController'') [
          Input ''deliveryService'' [] (\<lambda>v _. getDeliveryService (param v ''deliveryServiceId'')),
          Input ''staticDnsEntries'' [] (\<lambda>v _. getStaticDnsEntries (param v ''deliveryServiceId''))]]
       []"

definition state_deliveryServices_targets :: ui_state where
  "state_deliveryServices_targets =
     State ''trafficPortal.private.deliveryServices.targets'' ''/{deliveryServiceId}/targets'' True
       [View ''deliveryServicesContent'' (from_file ''modules/private/deliveryServices/targets/deliveryServiceTargets.tpl.html'')
         (Some ''DeliveryServiceTargetsController'') []]
       []"

definition state_deliveryServices_targets_edit :: ui_state where
  "state_deliveryServices_targets_edit =
     State ''trafficPortal.private.deliveryServices.targets.edit'' ''/{targetId:[0-9]{1,8}}'' False
       [View ''deliveryServiceTargetsContent'' (from_file ''common/modules/form/deliveryServiceTarget/form.deliveryServiceTarget.tpl.html'')
         (Some ''FormEditDeliveryServiceTargetController'') [
          Input ''deliveryService'' [] (\<lambda>v _. getDeliveryService (param v ''deliveryServiceId'')),
          Input ''target'' [] (\<lambda>v _. getDeliveryServiceTarget (param v ''deliveryServiceId'') (param v ''targetId''))]]
       []"

definition state_deliveryServices_targets_list :: ui_state where
  "state_deliveryServices_targets_list =
     State ''trafficPortal.private.deliveryServices.targets.list'' [] False
       [View ''deliveryServiceTargetsContent'' (from_file ''common/modules/table/deliveryServiceTargets/table.deliveryServiceTargets.tpl.html'')
         (Some ''TableDeliveryServiceTargetsController'') [
          Input ''deliveryService'' [] (\<lambda>v _. getDeliveryService (param v ''deliveryServiceId'')),
          Input ''targets'' [] (\<lambda>v _. getDeliveryServiceTargets (param v ''deliveryServiceId''))]]
       []"

definition state_deliveryServices_targets_new :: ui_state where
  "state_deliveryServices_targets_new =
     State ''trafficPortal.private.deliveryServices.targets.new'' ''/new'' False
       [View ''deliveryServiceTargetsContent'' (from_file ''common/modules/form/deliveryServiceTarget/form.deliveryServiceTarget.tpl.html'')
         (Some ''FormNewDeliveryServiceTargetController'') [
          Input ''deliveryService'' [] (\<lambda>v _. getDeliveryService (param v ''deliveryServiceId'')),
          Input ''target'' [''deliveryService''] (\<lambda>_ d. deref (d ''deliveryService'') ''id'' (\<lambda>i. ret (JObj [(''deliveryServiceId'', i)])))]]
       []"

definition state_deliveryServices_uriSigningKeys :: ui_state where
  "state_deliveryServices_uriSigningKeys =
     State ''trafficPortal.private.deliveryServices.uriSigningKeys'' ''/{deliveryServiceId}/uri-signing-keys'' False
       [View ''deliveryServicesContent'' (from_file ''modules/private/deliveryServices/uriSigningKeys/deliveryServiceUriSigningKeys.tpl.html'')
         (Some ''DeliveryServiceUriSigningKeysController'') []]
       [
          Input ''deliveryService'' [] (\<lambda>v _. getDeliveryService (param v ''deliveryServiceId'')),
          Input ''keys'' [''deliveryService''] (\<lambda>_ d. deref (d ''deliveryService'') ''xmlId'' (\<lambda>xmlId. getKeys xmlId))]"

definition state_deliveryServices_urlSigKeys :: ui_state where
  "state_deliveryServices_urlSigKeys =
     State ''trafficPortal.private.deliveryServices.urlSigKeys'' ''/{deliveryServiceId}/url-sig-keys'' False
       [View ''deliveryServicesContent'' (from_file ''modules/private/deliveryServices/urlSigKeys/deliveryServiceUrlSigKeys.tpl.html'')
         (Some ''DeliveryServiceUrlSigKeysController'') []]
       [
          Input ''deliveryService'' [] (\<lambda>v _. getDeliveryService (param v ''deliveryServiceId'')),
          Input ''urlSigKeys'' [] (\<lambda>v _. getDeliveryServiceUrlSigKeys (param v ''deliveryServiceId''))]"

definition state_deliveryServices_users :: ui_state where
  "state_deliveryServices_users =
     State ''trafficPortal.private.deliveryServices.users'' ''/{deliveryServiceId}/users'' False
       [View ''deliveryServicesContent'' (from_file ''common/modules/table/deliveryServiceUsers/table.deliveryServiceUsers.tpl.html'')
         (Some ''TableDeliveryServiceUsersController'') [
          Input ''deliveryService'' [] (\<lambda>v _. getDeliveryService (param v ''deliveryServiceId'')),
          Input ''users'' [] (\<lambda>_ _. getUsers JUndef)]]
       []"

definition state_divisions :: ui_state where
  "state_divisions =
     State ''trafficPortal.private.divisions'' ''divisions'' True
       [View ''privateContent'' (from_file ''modules/private/divisions/divisions.tpl.html'')
         None []]
       []"

definition state_divisions_edit :: ui_state where
  "state_divisions_edit =
     State ''trafficPortal.private.divisions.edit'' ''/{divisionId:[0-9]{1,8}}'' False
       [View ''divisionsContent'' (from_file ''common/modules/form/division/form.division.tpl.html'')
         (Some ''FormEditDivisionController'') [
          Input ''division'' [] (\<lambda>v _. getDivision (param v ''divisionId''))]]
       []"

definition state_divisions_list :: ui_state where
  "state_divisions_list =
     State ''trafficPortal.private.divisions.list'' [] False
       [View ''divisionsContent'' (from_file ''common/modules/table/divisions/table.divisions.tpl.html'')
         (Some ''TableDivisionsController'') [
          Input ''divisions'' [] (\<lambda>_ _. getDivisions JUndef)]]
       []"

definition state_divisions_new :: ui_state where
  "state_divisions_new =
     State ''trafficPortal.private.divisions.new'' ''/new'' False
       [View ''divisionsContent'' (from_file ''common/modules/form/division/form.division.tpl.html'')
         (Some ''FormNewDivisionController'') [
          Input ''division'' [] (\<lambda>_ _. ret (JObj []))]]
       []"

definition state_divisions_regions :: ui_state where
  "state_divisions_regions =
     State ''trafficPortal.private.divisions.regions'' ''/{divisionId}/regions'' False
       [View ''divisionsContent'' (from_file ''common/modules/table/divisionRegions/table.divisionRegions.tpl.html'')
         (Some ''TableDivisionRegionsController'') [
          Input ''division'' [] (\<lambda>v _. getDivision (param v ''divisionId'')),
          Input ''divisionRegions'' [] (\<lambda>v _. getRegions (JObj [(''division'', param v ''divisionId'')]))]]
       []"

definition state_iso :: ui_state where
  "state_iso =
     State ''trafficPortal.private.iso'' ''iso'' False
       [View ''privateContent'' (from_file ''common/modules/form/iso/form.iso.tpl.html'')
         (Some ''FormISOController'') [
          Input ''servers'' [] (\<lambda>_ _. getServers (JObj [(''orderby'', JStr ''hostName'')])),
          Input ''osversions'' [] (\<lambda>_ _. getOSVersions)]]
       []"

definition state_jobs :: ui_state where
  "state_jobs =
     State ''trafficPortal.private.jobs'' ''jobs'' True
       [View ''privateContent'' (from_file ''modules/private/jobs/jobs.tpl.html'')
         None []]
       []"

definition state_jobs_list :: ui_state where
  "state_jobs_list =
     State ''trafficPortal.private.jobs.list'' [] False
       [View ''jobsContent'' (from_file ''common/modules/table/jobs/table.jobs.tpl.html'')
         (Some ''TableJobsController'') [
          Input ''jobs'' [] (\<lambda>_ _. getJobs JUndef)]]
       []"

definition state_jobs_new :: ui_state where
  "state_jobs_new =
     State ''trafficPortal.private.jobs.new'' ''/new'' False
       [View ''jobsContent'' (from_file ''common/modules/form/job/form.job.tpl.html'')
         (Some ''FormNewJobController'') [
          Input ''job'' [] (\<lambda>v _. ret (JObj [(''startTime'', JStr (localNow v))]))]]
       []"

definition state_parameters :: ui_state where
  "state_parameters =
     State ''trafficPortal.private.parameters'' ''parameters'' True
       [View ''privateContent'' (from_file ''modules/private/parameters/parameters.tpl.html'')
         None []]
       []"

definition state_parameters_cacheGroups :: ui_state where
  "state_parameters_cacheGroups =
     State ''trafficPortal.private.parameters.cacheGroups'' ''/{parameterId}/cache-groups'' False
       [View ''parametersContent'' (from_file ''common/modules/table/parameterCacheGroups/table.parameterCacheGroups.tpl.html'')
         (Some ''TableParameterCacheGroupsController'') [
          Input ''parameter'' [] (\<lambda>v _. getParameter (param v ''parameterId'')),
          Input ''cacheGroups'' [] (\<lambda>v _. getParameterCacheGroups (param v ''parameterId''))]]
       []"

definition state_parameters_edit :: ui_state where
  "state_parameters_edit =
     State ''trafficPortal.private.parameters.edit'' ''/{parameterId:[0-9]{1,8}}'' False
       [View ''parametersContent'' (from_file ''common/modules/form/parameter/form.parameter.tpl.html'')
         (Some ''FormEditParameterController'') [
          Input ''parameter'' [] (\<lambda>v _. getParameter (param v ''parameterId''))]]
       []"

definition state_parameters_list :: ui_state where
  "state_parameters_list =
     State ''trafficPortal.private.parameters.list'' [] False
       [View ''parametersContent'' (from_file ''common/modules/table/parameters/table.parameters.tpl.html'')
         (Some ''TableParametersController'') [
          Input ''parameters'' [] (\<lambda>_ _. getParameters JUndef)]]
       []"

definition state_parameters_new :: ui_state where
  "state_parameters_new =
     State ''trafficPortal.private.parameters.new'' ''/new'' False
       [View ''parametersContent'' (from_file ''common/modules/form/parameter/form.parameter.tpl.html'')
         (Some ''FormNewParameterController'') [
          Input ''parameter'' [] (\<lambda>_ _. ret (JObj []))]]
       []"

definition state_parameters_profiles :: ui_state where
  "state_parameters_profiles =
     State ''trafficPortal.private.parameters.profiles'' ''/{parameterId}/profiles'' False
       [View ''parametersContent'' (from_file ''common/modules/table/parameterProfiles/table.parameterProfiles.tpl.html'')
         (Some ''TableParameterProfilesController'') [
          Input ''parameter'' [] (\<lambda>v _. getParameter (param v ''parameterId'')),
          Input ''parameterProfiles'' [] (\<lambda>v _. getParameterProfiles (param v ''parameterId''))]]
       []"

definition state_physLocations :: ui_state where
  "state_physLocations =
     State ''trafficPortal.private.physLocations'' ''phys-locations'' True
       [View ''privateContent'' (from_file ''modules/private/physLocations/physLocations.tpl.html'')
         None []]
       []"

definition state_physLocations_edit :: ui_state where
  "state_physLocations_edit =
     State ''trafficPortal.private.physLocations.edit'' ''/{physLocationId:[0-9]{1,8}}'' False
       [View ''physLocationsContent'' (from_file ''common/modules/form/physLocation/form.physLocation.tpl.html'')
         (Some ''FormEditPhysLocationController'') [
          Input ''physLocation'' [] (\<lambda>v _. getPhysLocation (param v ''physLocationId''))]]
       []"

definition state_physLocations_list :: ui_state where
  "state_physLocations_list =
     State ''trafficPortal.private.physLocations.list'' [] False
       [View ''physLocationsContent'' (from_file ''common/modules/table/physLocations/table.physLocations.tpl.html'')
         (Some ''TablePhysLocationsController'') [
          Input ''physLocations'' [] (\<lambda>_ _. getPhysLocations JUndef)]]
       []"

definition state_physLocations_new :: ui_state where
  "state_physLocations_new =
     State ''trafficPortal.private.physLocations.new'' ''/new'' False
       [View ''physLocationsContent'' (from_file ''common/modules/form/physLocation/form.physLocation.tpl.html'')
         (Some ''FormNewPhysLocationController'') [
          Input ''physLocation'' [] (\<lambda>_ _. ret (JObj []))]]
       []"

definition state_physLocations_servers :: ui_state where
  "state_physLocations_servers =
     State ''trafficPortal.private.physLocations.servers'' ''/{physLocationId}/servers'' False
       [View ''physLocationsContent'' (from_file ''common/modules/table/physLocationServers/table.physLocationServers.tpl.html'')
         (Some ''TablePhysLocationServersController'') [
          Input ''physLocation'' [] (\<lambda>v _. getPhysLocation (param v ''physLocationId'')),
          Input ''servers'' [] (\<lambda>v _. getServers (JObj [(''physLocation'', param v ''physLocationId''), (''orderby'', JStr ''hostName'')]))]]
       []"

definition state_profiles :: ui_state where
  "state_profiles =
     State ''trafficPortal.private.profiles'' ''profiles'' True
       [View ''privateContent'' (from_file ''modules/private/profiles/profiles.tpl.html'')
         None []]
       []"

definition state_profiles_compare :: ui_state where
  "state_profiles_compare =
     State ''trafficPortal.private.profiles.compare'' ''/compare/{profile1Id}/{profile2Id}'' False
       [View ''profilesContent'' (from_file ''common/modules/compare/compare.tpl.html'')
         (Some ''CompareController'') [
          Input ''profile1'' [] (\<lambda>v _. getProfile (param v ''profile1Id'') (JObj [(''includeParams'', JBool True)])),
          Input ''profile2'' [] (\<lambda>v _. getProfile (param v ''profile2Id'') (JObj [(''includeParams'', JBool True)])),
          Input ''item1Name'' [''profile1''] (\<lambda>_ d. deref (d ''profile1'') ''name'' (\<lambda>nm. ret nm)),
          Input ''item2Name'' [''profile2''] (\<lambda>_ d. deref (d ''profile2'') ''name'' (\<lambda>nm. ret nm)),
          Input ''item1'' [''profile1''] (\<lambda>_ d. deref (d ''profile1'') ''params'' (\<lambda>params. ret params)),
          Input ''item2'' [''profile2''] (\<lambda>_ d. deref (d ''profile2'') ''params'' (\<lambda>params. ret params))]]
       []"

definition state_profiles_deliveryServices :: ui_state where
  "state_profiles_deliveryServices =
     State ''trafficPortal.private.profiles.deliveryServices'' ''/{profileId}/delivery-services'' False
       [View ''profilesContent'' (from_file ''common/modules/table/profileDeliveryServices/table.profileDeliveryServices.tpl.html'')
         (Some ''TableProfileDeliveryServicesController'') [
          Input ''profile'' [] (\<lambda>v _. getProfile (param v ''profileId'') JUndef),
          Input ''deliveryServices'' [] (\<lambda>v _. getDeliveryServices (JObj [(''profile'', param v ''profileId'')]))]]
       []"

definition state_profiles_edit :: ui_state where
  "state_profiles_edit =
     State ''trafficPortal.private.profiles.edit'' ''/{profileId:[0-9]{1,8}}'' False
       [View ''profilesContent'' (from_file ''common/modules/form/profile/form.profile.tpl.html'')
         (Some ''FormEditProfileController'') [
          Input ''profile'' [] (\<lambda>v _. getProfile (param v ''profileId'') JUndef)]]
       []"

definition state_profiles_list :: ui_state where
  "state_profiles_list =
     State ''trafficPortal.private.profiles.list'' [] False
       [View ''profilesContent'' (from_file ''common/modules/table/profiles/table.profiles.tpl.html'')
         (Some ''TableProfilesController'') [
          Input ''profiles'' [] (\<lambda>_ _. getProfiles JUndef)]]
       []"

definition state_profiles_new :: ui_state where
  "state_profiles_new =
     State ''trafficPortal.private.profiles.new'' ''/new'' False
       [View ''profilesContent'' (from_file ''common/modules/form/profile/form.profile.tpl.html'')
         (Some ''FormNewProfileController'') [
          Input ''profile'' [] (\<lambda>_ _. ret (JObj []))]]
       []"

definition state_profiles_parameters :: ui_state where
  "state_profiles_parameters =
     State ''trafficPortal.private.profiles.parameters'' ''/{profileId}/parameters'' False
       [View ''profilesContent'' (from_file ''common/modules/table/profileParameters/table.profileParameters.tpl.html'')
         (Some ''TableProfileParametersController'') [
          Input ''profile'' [] (\<lambda>v _. getProfile (param v ''profileId'') JUndef),
          Input ''profileParameters'' [] (\<lambda>v _. getProfileParameters (param v ''profileId''))]]
       []"

definition state_profiles_servers :: ui_state where
  "state_profiles_servers =
     State ''trafficPortal.private.profiles.servers'' ''/{profileId}/servers'' False
       [View ''profilesContent'' (from_file ''common/modules/table/profileServers/table.profileServers.tpl.html'')
         (Some ''TableProfileServersController'') [
          Input ''profile'' [] (\<lambda>v _. getProfile (param v ''profileId'') JUndef),
          Input ''servers'' [] (\<lambda>v _. getServers (JObj [(''profileId'', param v ''profileId''), (''orderby'', JStr ''hostName'')]))]]
       []"

definition state_regions :: ui_state where
  "state_regions =
     State ''trafficPortal.private.regions'' ''regions'' True
       [View ''privateContent'' (from_file ''modules/private/regions/regions.tpl.html'')
         None []]
       []"

definition state_regions_edit :: ui_state where
  "state_regions_edit =
     State ''trafficPortal.private.regions.edit'' ''/{regionId:[0-9]{1,8}}'' False
       [View ''regionsContent'' (from_file ''common/modules/form/region/form.region.tpl.html'')
         (Some ''FormEditRegionController'') [
          Input ''region'' [] (\<lambda>v _. getRegion (param v ''regionId''))]]
       []"

definition state_regions_list :: ui_state where
  "state_regions_list =
     State ''trafficPortal.private.regions.list'' [] False
       [View ''regionsContent'' (from_file ''common/modules/table/regions/table.regions.tpl.html'')
         (Some ''TableRegionsController'') [
          Input ''regions'' [] (\<lambda>_ _. getRegions JUndef)]]
       []"

definition state_regions_new :: ui_state where
  "state_regions_new =
     State ''trafficPortal.private.regions.new'' ''/new'' False
       [View ''regionsContent'' (from_file ''common/modules/form/region/form.region.tpl.html'')
         (Some ''FormNewRegionController'') [
          Input ''region'' [] (\<lambda>_ _. ret (JObj []))]]
       []"

definition state_regions_physLocations :: ui_state where
  "state_regions_physLocations =
     State ''trafficPortal.private.regions.physLocations'' ''/{regionId}/phys-locations'' False
       [View ''regionsContent'' (from_file ''common/modules/table/regionPhysLocations/table.regionPhysLocations.tpl.html'')
         (Some ''TableRegionPhysLocationsController'') [
          Input ''region'' [] (\<lambda>v _. getRegion (param v ''regionId'')),
          Input ''physLocations'' [] (\<lambda>v _. getPhysLocations (JObj [(''region'', param v ''regionId'')]))]]
       []"

definition state_servers :: ui_state where
  "state_servers =
     State ''trafficPortal.private.servers'' ''servers'' True
       [View ''privateContent'' (from_file ''modules/private/servers/servers.tpl.html'')
         None []]
       []"

definition state_servers_configFiles :: ui_state where
  "state_servers_configFiles =
     State ''trafficPortal.private.servers.configFiles'' ''/{serverId}/config-files'' False
       [View ''serversContent'' (from_file ''common/modules/table/serverConfigFiles/table.serverConfigFiles.tpl.html'')
         (Some ''TableServerConfigFilesController'') [
          Input ''server'' [] (\<lambda>v _. getServer (param v ''serverId'')),
          Input ''serverConfigFiles'' [] (\<lambda>v _. getServerConfigFiles (param v ''serverId''))]]
       []"

definition state_servers_deliveryServices :: ui_state where
  "state_servers_deliveryServices =
     State ''trafficPortal.private.servers.deliveryServices'' ''/{serverId}/delivery-services'' False
       [View ''serversContent'' (from_file ''common/modules/table/serverDeliveryServices/table.serverDeliveryServices.tpl.html'')
         (Some ''TableServerDeliveryServicesController'') [
          Input ''server'' [] (\<lambda>v _. getServer (param v ''serverId'')),
          Input ''serverDeliveryServices'' [] (\<lambda>v _. getServerDeliveryServices (param v ''serverId''))]]
       []"

definition state_servers_edit :: ui_state where
  "state_servers_edit =
     State ''trafficPortal.private.servers.edit'' ''/{serverId:[0-9]{1,8}}'' False
       [View ''serversContent'' (from_file ''common/modules/form/server/form.server.tpl.html'')
         (Some ''FormEditServerController'') [
          Input ''server'' [] (\<lambda>v _. getServer (param v ''serverId''))]]
       []"

definition state_servers_list :: ui_state where
  "state_servers_list =
     State ''trafficPortal.private.servers.list'' [] False
       [View ''serversContent'' (from_file ''common/modules/table/servers/table.servers.tpl.html'')
         (Some ''TableServersController'') [
          Input ''servers'' [] (\<lambda>_ _. getServers (JObj [(''orderby'', JStr ''hostName'')]))]]
       []"

definition state_servers_new :: ui_state where
  "state_servers_new =
     State ''trafficPortal.private.servers.new'' ''/new'' False
       [View ''serversContent'' (from_file ''common/modules/form/server/form.server.tpl.html'')
         (Some ''FormNewServerController'') [
          Input ''server'' [] (\<lambda>_ _. ret (JObj [(''updPending'', JBool False)]))]]
       []"

definition state_statuses :: ui_state where
  "state_statuses =
     State ''trafficPortal.private.statuses'' ''statuses'' True
       [View ''privateContent'' (from_file ''modules/private/statuses/statuses.tpl.html'')
         None []]
       []"

definition state_statuses_edit :: ui_state where
  "state_statuses_edit =
     State ''trafficPortal.private.statuses.edit'' ''/{statusId:[0-9]{1,8}}'' False
       [View ''statusesContent'' (from_file ''common/modules/form/status/form.status.tpl.html'')
         (Some ''FormEditStatusController'') [
          Input ''status'' [] (\<lambda>v _. getStatus (param v ''statusId''))]]
       []"

definition state_statuses_list :: ui_state where
  "state_statuses_list =
     State ''trafficPortal.private.statuses.list'' [] False
       [View ''statusesContent'' (from_file ''common/modules/table/statuses/table.statuses.tpl.html'')
         (Some ''TableStatusesController'') [
          Input ''statuses'' [] (\<lambda>_ _. getStatuses JUndef)]]
       []"

definition state_statuses_new :: ui_state where
  "state_statuses_new =
     State ''trafficPortal.private.statuses.new'' ''/new'' False
       [View ''statusesContent'' (from_file ''common/modules/form/status/form.status.tpl.html'')
         (Some ''FormNewStatusController'') [
          Input ''status'' [] (\<lambda>_ _. ret (JObj []))]]
       []"

definition state_statuses_servers :: ui_state where
  "state_statuses_servers =
     State ''trafficPortal.private.statuses.servers'' ''/{statusId}/servers'' False
       [View ''statusesContent'' (from_file ''common/modules/table/statusServers/table.statusServers.tpl.html'')
         (Some ''TableStatusServersController'') [
          Input ''status'' [] (\<lambda>v _. getStatus (param v ''statusId'')),
          Input ''servers'' [''status''] (\<lambda>_ d. deref (d ''status'') ''name'' (\<lambda>nm. getServers (JObj [(''status'', nm), (''orderby'', JStr ''hostName'')])))]]
       []"

definition state_tenants :: ui_state where
  "state_tenants =
     State ''trafficPortal.private.tenants'' ''tenants'' True
       [View ''privateContent'' (from_file ''modules/private/tenants/tenants.tpl.html'')
         None []]
       []"

definition state_tenants_deliveryServices :: ui_state where
  "state_tenants_deliveryServices =
     State ''trafficPortal.private.tenants.deliveryServices'' ''/{tenantId}/delivery-services'' False
       [View ''tenantsContent'' (from_file ''common/modules/table/tenantDeliveryServices/table.tenantDeliveryServices.tpl.html'')
         (Some ''TableTenantDeliveryServicesController'') [
          Input ''tenant'' [] (\<lambda>v _. getTenant (param v ''tenantId'')),
          Input ''tenantDeliveryServices'' [''tenant''] (\<lambda>_ d. deref (d ''tenant'') ''id'' (\<lambda>i. getDeliveryServices (JObj [(''tenant'', i)])))]]
       []"

definition state_tenants_edit :: ui_state where
  "state_tenants_edit =
     State ''trafficPortal.private.tenants.edit'' ''/{tenantId:[0-9]{1,8}}'' False
       [View ''tenantsContent'' (from_file ''common/modules/form/tenant/form.tenant.tpl.html'')
         (Some ''FormEditTenantController'') [
          Input ''tenant'' [] (\<lambda>v _. getTenant (param v ''tenantId''))]]
       []"

definition state_tenants_list :: ui_state where
  "state_tenants_list =
     State ''trafficPortal.private.tenants.list'' [] False
       [View ''tenantsContent'' (from_file ''common/modules/table/tenants/table.tenants.tpl.html'')
         (Some ''TableTenantsController'') [
          Input ''tenants'' [] (\<lambda>_ _. getTenants JUndef)]]
       []"

definition state_tenants_new :: ui_state where
  "state_tenants_new =
     State ''trafficPortal.private.tenants.new'' ''/new'' False
       [View ''tenantsContent'' (from_file ''common/modules/form/tenant/form.tenant.tpl.html'')
         (Some ''FormNewTenantController'') [
          Input ''tenant'' [] (\<lambda>_ _. ret (JObj []))]]
       []"

definition state_tenants_users :: ui_state where
  "state_tenants_users =
     State ''trafficPortal.private.tenants.users'' ''/{tenantId}/users'' False
       [View ''tenantsContent'' (from_file ''common/modules/table/tenantUsers/table.tenantUsers.tpl.html'')
         (Some ''TableTenantUsersController'') [
          Input ''tenant'' [] (\<lambda>v _. getTenant (param v ''tenantId'')),
          Input ''tenantUsers'' [''tenant''] (\<lambda>_ d. deref (d ''tenant'') ''id'' (\<lambda>i. getUsers (JObj [(''tenant'', i)])))]]
       []"

definition state_types :: ui_state where
  "state_types =
     State ''trafficPortal.private.types'' ''types'' True
       [View ''privateContent'' (from_file ''modules/private/types/types.tpl.html'')
         None []]
       []"

definition state_types_cacheGroups :: ui_state where
  "state_types_cacheGroups =
     State ''trafficPortal.private.types.cacheGroups'' ''/{typeId}/cache-groups'' False
       [View ''typesContent'' (from_file ''common/modules/table/typeCacheGroups/table.typeCacheGroups.tpl.html'')
         (Some ''TableTypeCacheGroupsController'') [
          Input ''type'' [] (\<lambda>v _. getType (param v ''typeId'')),
          Input ''cacheGroups'' [] (\<lambda>v _. getCacheGroups (JObj [(''type'', param v ''typeId'')]))]]
       []"

definition state_types_deliveryServices :: ui_state where
  "state_types_deliveryServices =
     State ''trafficPortal.private.types.deliveryServices'' ''/{typeId}/delivery-services'' False
       [View ''typesContent'' (from_file ''common/modules/table/typeDeliveryServices/table.typeDeliveryServices.tpl.html'')
         (Some ''TableTypeDeliveryServicesController'') [
          Input ''type'' [] (\<lambda>v _. getType (param v ''typeId'')),
          Input ''deliveryServices'' [] (\<lambda>v _. getDeliveryServices (JObj [(''type'', param v ''typeId'')]))]]
       []"

definition state_types_edit :: ui_state where
  "state_types_edit =
     State ''trafficPortal.private.types.edit'' ''/{typeId:[0-9]{1,8}}'' False
       [View ''typesContent'' (from_file ''common/modules/form/type/form.type.tpl.html'')
         (Some ''FormEditTypeController'') [
          Input ''type'' [] (\<lambda>v _. getType (param v ''typeId''))]]
       []"

definition state_types_list :: ui_state where
  "state_types_list =
     State ''trafficPortal.private.types.list'' [] False
       [View ''typesContent'' (from_file ''common/modules/table/types/table.types.tpl.html'')
         (Some ''TableTypesController'') [
          Input ''types'' [] (\<lambda>_ _. getTypes JUndef)]]
       []"

definition state_types_new :: ui_state where
  "state_types_new =
     State ''trafficPortal.private.types.new'' ''/new'' False
       [View ''typesContent'' (from_file ''common/modules/form/type/form.type.tpl.html'')
         (Some ''FormNewTypeController'') [
          Input ''type'' [] (\<lambda>_ _. ret (JObj []))]]
       []"

definition state_types_servers :: ui_state where
  "state_types_servers =
     State ''trafficPortal.private.types.servers'' ''/{typeId}/servers'' False
       [View ''typesContent'' (from_file ''common/modules/table/typeServers/table.typeServers.tpl.html'')
         (Some ''TableTypeServersController'') [
          Input ''type'' [] (\<lambda>v _. getType (param v ''typeId'')),
          Input ''servers'' [''type''] (\<lambda>_ d. deref (d ''type'') ''name'' (\<lambda>nm. getServers (JObj [(''type'', nm), (''orderby'', JStr ''hostName'')])))]]
       []"

definition state_types_staticDnsEntries :: ui_state where
  "state_types_staticDnsEntries =
     State ''trafficPortal.private.types.staticDnsEntries'' ''/{typeId}/static-dns-entries'' False
       [View ''typesContent'' (from_file ''common/modules/table/typeStaticDnsEntries/table.typeStaticDnsEntries.tpl.html'')
         (Some ''TableTypeStaticDnsEntriesController'') [
          Input ''type'' [] (\<lambda>v _. getType (param v ''typeId'')),
          Input ''staticDnsEntries'' [''type''] (\<lambda>_ d. deref (d ''type'') ''name'' (\<lambda>nm. getStaticDnsEntries (JObj [(''type'', nm)])))]]
       []"

definition state_user :: ui_state where
  "state_user =
     State ''trafficPortal.private.user'' ''user'' True
       [View ''privateContent'' (from_file ''modules/private/user/user.tpl.html'')
         (Some ''UserController'') []]
       []"

definition state_user_edit :: ui_state where
  "state_user_edit =
     State ''trafficPortal.private.user.edit'' [] False
       [View ''userContent'' (from_file ''common/modules/form/user/form.user.tpl.html'')
         (Some ''UserEditController'') []]
       []"

definition state_users :: ui_state where
  "state_users =
     State ''trafficPortal.private.users'' ''users'' True
       [View ''privateContent'' (from_file ''modules/private/users/users.tpl.html'')
         (Some ''UsersController'') []]
       []"

definition state_users_deliveryServices :: ui_state where
  "state_users_deliveryServices =
     State ''trafficPortal.private.users.deliveryServices'' ''/{userId}/delivery-services'' False
       [View ''usersContent'' (from_file ''common/modules/table/userDeliveryServices/table.userDeliveryServices.tpl.html'')
         (Some ''TableUserDeliveryServicesController'') [
          Input ''user'' [] (\<lambda>v _. getUser (param v ''userId'')),
          Input ''userDeliveryServices'' [] (\<lambda>v _. getUserDeliveryServices (param v ''userId'')),
          Input ''useTenancy'' [] (\<lambda>_ _. getParameters (JObj [(''name'', JStr ''use_tenancy''), (''configFile'', JStr ''global'')]))]]
       []"

definition state_users_edit :: ui_state where
  "state_users_edit =
     State ''trafficPortal.private.users.edit'' ''/{userId:[0-9]{1,8}}'' False
       [View ''usersContent'' (from_file ''common/modules/form/user/form.user.tpl.html'')
         (Some ''FormEditUserController'') [
          Input ''user'' [] (\<lambda>v _. getUser (param v ''userId''))]]
       []"

definition state_users_list :: ui_state where
  "state_users_list =
     State ''trafficPortal.private.users.list'' [] False
       [View ''usersContent'' (from_file ''common/modules/table/users/table.users.tpl.html'')
         (Some ''TableUsersController'') [
          Input ''users'' [] (\<lambda>_ _. getUsers JUndef)]]
       []"

definition state_users_new :: ui_state where
  "state_users_new =
     State ''trafficPortal.private.users.new'' ''/new'' False
       [View ''usersContent'' (from_file ''common/modules/form/user/form.user.tpl.html'')
         (Some ''FormNewUserController'') [
          Input ''user'' [] (\<lambda>_ _. ret (JObj []))]]
       []"

definition state_users_register :: ui_state where
  "state_users_register =
     State ''trafficPortal.private.users.register'' ''/register'' False
       [View ''usersContent'' (from_file ''common/modules/form/user/register/form.user.register.tpl.html'')
         (Some ''FormRegisterUserController'') []]
       []"

definition state_public :: ui_state where
  "state_public =
     State ''trafficPortal.public'' [] True
       [View ''navigation'' (from_file ''common/modules/navigation/navigation.tpl.html'')
         (Some ''NavigationController'') [],
        View ''header'' (from_file ''common/modules/header/header.tpl.html'')
         (Some ''HeaderController'') [],
        View ''message'' (from_file ''common/modules/message/message.tpl.html'')
         (Some ''MessageController'') [],
        View ''content'' (from_file ''modules/public/public.tpl.html'')
         None []]
       []"

definition state_public_login :: ui_state where
  "state_public_login =
     State ''trafficPortal.public.login'' [] False
       [View ''publicContent'' (from_file ''modules/public/login/login.tpl.html'')
         (Some ''LoginController'') []]
       []"

section \<open>All states\<close>

text \<open>The states in the order of their names; no result here depends on the order.\<close>

definition portal_states :: "ui_state list" where
  "portal_states =
    [state_trafficPortal,
     state_private,
     state_asns,
     state_asns_edit,
     state_asns_list,
     state_asns_new,
     state_cacheChecks,
     state_cacheGroups,
     state_cacheGroups_asns,
     state_cacheGroups_edit,
     state_cacheGroups_list,
     state_cacheGroups_new,
     state_cacheGroups_parameters,
     state_cacheGroups_servers,
     state_cacheStats,
     state_cdns,
     state_cdns_config,
     state_cdns_deliveryServices,
     state_cdns_dnssecKeys,
     state_cdns_dnssecKeys_generate,
     state_cdns_dnssecKeys_view,
     state_cdns_edit,
     state_cdns_federations,
     state_cdns_federations_deliveryServices,
     state_cdns_federations_edit,
     state_cdns_federations_list,
     state_cdns_federations_new,
     state_cdns_federations_users,
     state_cdns_list,
     state_cdns_new,
     state_cdns_profiles,
     state_cdns_servers,
     state_changeLogs,
     state_changeLogs_list,
     state_custom,
     state_dashboard,
     state_dashboard_view,
     state_deliveryServiceRequests,
     state_deliveryServiceRequests_edit,
     state_deliveryServiceRequests_list,
     state_deliveryServices,
     state_deliveryServices_clone,
     state_deliveryServices_compare,
     state_deliveryServices_edit,
     state_deliveryServices_jobs,
     state_deliveryServices_jobs_list,
     state_deliveryServices_jobs_new,
     state_deliveryServices_list,
     state_deliveryServices_new,
     state_deliveryServices_regexes,
     state_deliveryServices_regexes_edit,
     state_deliveryServices_regexes_list,
     state_deliveryServices_regexes_new,
     state_deliveryServices_servers,
     state_deliveryServices_sslKeys,
     state_deliveryServices_sslKeys_generate,
     state_deliveryServices_sslKeys_view,
     state_deliveryServices_staticDnsEntries,
     state_deliveryServices_targets,
     state_deliveryServices_targets_edit,
     state_deliveryServices_targets_list,
     state_deliveryServices_targets_new,
     state_deliveryServices_uriSigningKeys,
     state_deliveryServices_urlSigKeys,
     state_deliveryServices_users,
     state_divisions,
     state_divisions_edit,
     state_divisions_list,
     state_divisions_new,
     state_divisions_regions,
     state_iso,
     state_jobs,
     state_jobs_list,
     state_jobs_new,
     state_parameters,
     state_parameters_cacheGroups,
     state_parameters_edit,
     state_parameters_list,
     state_parameters_new,
     state_parameters_profiles,
     state_physLocations,
     state_physLocations_edit,
     state_physLocations_list,
     state_physLocations_new,
     state_physLocations_servers,
     state_profiles,
     state_profiles_compare,
     state_profiles_deliveryServices,
     state_profiles_edit,
     state_profiles_list,
     state_profiles_new,
     state_profiles_parameters,
     state_profiles_servers,
     state_regions,
     state_regions_edit,
     state_regions_list,
     state_regions_new,
     state_regions_physLocations,
     state_servers,
     state_servers_configFiles,
     state_servers_deliveryServices,
     state_servers_edit,
     state_servers_list,
     state_servers_new,
     state_staticDnsEntries,
     state_statuses,
     state_statuses_edit,
     state_statuses_list,
     state_statuses_new,
     state_statuses_servers,
     state_tenants,
     state_tenants_deliveryServices,
     state_tenants_edit,
     state_tenants_list,
     state_tenants_new,
     state_tenants_users,
     state_types,
     state_types_cacheGroups,
     state_types_deliveryServices,
     state_types_edit,
     state_types_list,
     state_types_new,
     state_types_servers,
     state_types_staticDnsEntries,
     state_user,
     state_user_edit,
     state_users,
     state_users_deliveryServices,
     state_users_edit,
     state_users_list,
     state_users_new,
     state_users_register,
     state_public,
     state_public_login]"

lemmas state_defs =
  state_trafficPortal_def
  state_private_def
  state_asns_def
  state_asns_edit_def
  state_asns_list_def
  state_asns_new_def
  state_cacheChecks_def
  state_cacheGroups_def
  state_cacheGroups_asns_def
  state_cacheGroups_edit_def
  state_cacheGroups_list_def
  state_cacheGroups_new_def
  state_cacheGroups_parameters_def
  state_cacheGroups_servers_def
  state_cacheStats_def
  state_cdns_def
  state_cdns_config_def
  state_cdns_deliveryServices_def
  state_cdns_dnssecKeys_def
  state_cdns_dnssecKeys_generate_def
  state_cdns_dnssecKeys_view_def
  state_cdns_edit_def
  state_cdns_federations_def
  state_cdns_federations_deliveryServices_def
  state_cdns_federations_edit_def
  state_cdns_federations_list_def
  state_cdns_federations_new_def
  state_cdns_federations_users_def
  state_cdns_list_def
  state_cdns_new_def
  state_cdns_profiles_def
  state_cdns_servers_def
  state_changeLogs_def
  state_changeLogs_list_def
  state_custom_def
  state_dashboard_def
  state_dashboard_view_def
  state_deliveryServiceRequests_def
  state_deliveryServiceRequests_edit_def
  state_deliveryServiceRequests_list_def
  state_deliveryServices_def
  state_deliveryServices_clone_def
  state_deliveryServices_compare_def
  state_deliveryServices_edit_def
  state_deliveryServices_jobs_def
  state_deliveryServices_jobs_list_def
  state_deliveryServices_jobs_new_def
  state_deliveryServices_list_def
  state_deliveryServices_new_def
  state_deliveryServices_regexes_def
  state_deliveryServices_regexes_edit_def
  state_deliveryServices_regexes_list_def
  state_deliveryServices_regexes_new_def
  state_deliveryServices_servers_def
  state_deliveryServices_sslKeys_def
  state_deliveryServices_sslKeys_generate_def
  state_deliveryServices_sslKeys_view_def
  state_deliveryServices_staticDnsEntries_def
  state_deliveryServices_targets_def
  state_deliveryServices_targets_edit_def
  state_deliveryServices_targets_list_def
  state_deliveryServices_targets_new_def
  state_deliveryServices_uriSigningKeys_def
  state_deliveryServices_urlSigKeys_def
  state_deliveryServices_users_def
  state_divisions_def
  state_divisions_edit_def
  state_divisions_list_def
  state_divisions_new_def
  state_divisions_regions_def
  state_iso_def
  state_jobs_def
  state_jobs_list_def
  state_jobs_new_def
  state_parameters_def
  state_parameters_cacheGroups_def
  state_parameters_edit_def
  state_parameters_list_def
  state_parameters_new_def
  state_parameters_profiles_def
  state_physLocations_def
  state_physLocations_edit_def
  state_physLocations_list_def
  state_physLocations_new_def
  state_physLocations_servers_def
  state_profiles_def
  state_profiles_compare_def
  state_profiles_deliveryServices_def
  state_profiles_edit_def
  state_profiles_list_def
  state_profiles_new_def
  state_profiles_parameters_def
  state_profiles_servers_def
  state_regions_def
  state_regions_edit_def
  state_regions_list_def
  state_regions_new_def
  state_regions_physLocations_def
  state_servers_def
  state_servers_configFiles_def
  state_servers_deliveryServices_def
  state_servers_edit_def
  state_servers_list_def
  state_servers_new_def
  state_staticDnsEntries_def
  state_statuses_def
  state_statuses_edit_def
  state_statuses_list_def
  state_statuses_new_def
  state_statuses_servers_def
  state_tenants_def
  state_tenants_deliveryServices_def
  state_tenants_edit_def
  state_tenants_list_def
  state_tenants_new_def
  state_tenants_users_def
  state_types_def
  state_types_cacheGroups_def
  state_types_deliveryServices_def
  state_types_edit_def
  state_types_list_def
  state_types_new_def
  state_types_servers_def
  state_types_staticDnsEntries_def
  state_user_def
  state_user_edit_def
  state_users_def
  state_users_deliveryServices_def
  state_users_edit_def
  state_users_list_def
  state_users_new_def
  state_users_register_def
  state_public_def
  state_public_login_def

end
