(* ===== verification/Sitemap.thy ===== *)
theory Sitemap
  imports States
begin

text \<open>
  The map of the portal: every state's ancestors and every page's URL pattern, computed from the states
  once, so that the results on pages and links need no more than these tables.
\<close>

section \<open>The names of the states are distinct\<close>

fun before :: "string \<Rightarrow> string \<Rightarrow> bool" where
  "before [] [] = False"
| "before [] (d # ds) = True"
| "before (c # cs) [] = False"
| "before (c # cs) (d # ds) = (if c = d then before cs ds else (of_char c :: nat) < of_char d)"

lemma before_irrefl: "\<not> before s s"
  by (induction s) auto

lemma before_trans: "before a b \<Longrightarrow> before b c \<Longrightarrow> before a c"
proof (induction a b arbitrary: c rule: before.induct)
  case (4 c cs d ds)
  then show ?case by (cases c) (auto split: if_splits)
qed (auto elim: before.elims)

fun ascending :: "string list \<Rightarrow> bool" where
  "ascending [] = True"
| "ascending [s] = True"
| "ascending (s # t # ss) \<longleftrightarrow> before s t \<and> ascending (t # ss)"

lemma ascending_before: "ascending (s # ss) \<Longrightarrow> t \<in> set ss \<Longrightarrow> before s t"
  by (induction ss arbitrary: s) (auto dest: before_trans)

lemma ascending_distinct: "ascending ss \<Longrightarrow> distinct ss"
proof (induction ss rule: ascending.induct)
  case (3 s t ss)
  then show ?case using ascending_before [of s "t # ss"] before_irrefl by auto
qed auto

lemma state_names_ascending: "ascending (map sname portal_states)"
  unfolding portal_states_def state_defs list.map ui_state.sel by code_simp

lemmas state_names_distinct = ascending_distinct [OF state_names_ascending]

section \<open>Ancestors\<close>

definition portal_state :: "string \<Rightarrow> ui_state option" where
  "portal_state n = find_state portal_states n"

lemma find_state_distinct:
  "distinct (map sname ss) \<Longrightarrow> s \<in> set ss \<Longrightarrow> find_state ss (sname s) = Some s"
  by (induction ss) (auto simp: find_state_def)

lemma all_found: "list_all (\<lambda>s. portal_state (sname s) = Some s) portal_states"
  unfolding portal_state_def list_all_iff
  by (intro ballI find_state_distinct state_names_distinct)

lemmas snames = state_defs [THEN arg_cong [of _ _ sname], unfolded ui_state.sel]

lemmas found = all_found [unfolded portal_states_def list.pred_inject simp_thms, unfolded snames]

definition lineages :: "(ui_state \<times> ui_state list) list" where
  "lineages =
    [(state_trafficPortal, [state_trafficPortal]),
     (state_private, [state_trafficPortal, state_private]),
     (state_asns, [state_trafficPortal, state_private, state_asns]),
     (state_asns_edit, [state_trafficPortal, state_private, state_asns, state_asns_edit]),
     (state_asns_list, [state_trafficPortal, state_private, state_asns, state_asns_list]),
     (state_asns_new, [state_trafficPortal, state_private, state_asns, state_asns_new]),
     (state_cacheChecks, [state_trafficPortal, state_private, state_cacheChecks]),
     (state_cacheGroups, [state_trafficPortal, state_private, state_cacheGroups]),
     (state_cacheGroups_asns, [state_trafficPortal, state_private, state_cacheGroups, state_cacheGroups_asns]),
     (state_cacheGroups_edit, [state_trafficPortal, state_private, state_cacheGroups, state_cacheGroups_edit]),
     (state_cacheGroups_list, [state_trafficPortal, state_private, state_cacheGroups, state_cacheGroups_list]),
     (state_cacheGroups_new, [state_trafficPortal, state_private, state_cacheGroups, state_cacheGroups_new]),
     (state_cacheGroups_parameters, [state_trafficPortal, state_private, state_cacheGroups, state_cacheGroups_parameters]),
     (state_cacheGroups_servers, [state_trafficPortal, state_private, state_cacheGroups, state_cacheGroups_servers]),
     (state_cacheStats, [state_trafficPortal, state_private, state_cacheStats]),
     (state_cdns, [state_trafficPortal, state_private, state_cdns]),
     (state_cdns_config, [state_trafficPortal, state_private, state_cdns, state_cdns_config]),
     (state_cdns_deliveryServices, [state_trafficPortal, state_private, state_cdns, state_cdns_deliveryServices]),
     (state_cdns_dnssecKeys, [state_trafficPortal, state_private, state_cdns, state_cdns_dnssecKeys]),
     (state_cdns_dnssecKeys_generate, [state_trafficPortal, state_private, state_cdns, state_cdns_dnssecKeys, state_cdns_dnssecKeys_generate]),
     (state_cdns_dnssecKeys_view, [state_trafficPortal, state_private, state_cdns, state_cdns_dnssecKeys, state_cdns_dnssecKeys_view]),
     (state_cdns_edit, [state_trafficPortal, state_private, state_cdns, state_cdns_edit]),
     (state_cdns_federations, [state_trafficPortal, state_private, state_cdns, state_cdns_federations]),
     (state_cdns_federations_deliveryServices, [state_trafficPortal, state_private, state_cdns, state_cdns_federations, state_cdns_federations_deliveryServices]),
     (state_cdns_federations_edit, [state_trafficPortal, state_private, state_cdns, state_cdns_federations, state_cdns_federations_edit]),
     (state_cdns_federations_list, [state_trafficPortal, state_private, state_cdns, state_cdns_federations, state_cdns_federations_list]),
     (state_cdns_federations_new, [state_trafficPortal, state_private, state_cdns, state_cdns_federations, state_cdns_federations_new]),
     (state_cdns_federations_users, [state_trafficPortal, state_private, state_cdns, state_cdns_federations, state_cdns_federations_users]),
     (state_cdns_list, [state_trafficPortal, state_private, state_cdns, state_cdns_list]),
     (state_cdns_new, [state_trafficPortal, state_private, state_cdns, state_cdns_new]),
     (state_cdns_profiles, [state_trafficPortal, state_private, state_cdns, state_cdns_profiles]),
     (state_cdns_servers, [state_trafficPortal, state_private, state_cdns, state_cdns_servers]),
     (state_changeLogs, [state_trafficPortal, state_private, state_changeLogs]),
     (state_changeLogs_list, [state_trafficPortal, state_private, state_changeLogs, state_changeLogs_list]),
     (state_custom, [state_trafficPortal, state_private, state_custom]),
     (state_dashboard, [state_trafficPortal, state_private, state_dashboard]),
     (state_dashboard_view, [state_trafficPortal, state_private, state_dashboard, state_dashboard_view]),
     (state_deliveryServiceRequests, [state_trafficPortal, state_private, state_deliveryServiceRequests]),
     (state_deliveryServiceRequests_edit, [state_trafficPortal, state_private, state_deliveryServiceRequests, state_deliveryServiceRequests_edit]),
     (state_deliveryServiceRequests_list, [state_trafficPortal, state_private, state_deliveryServiceRequests, state_deliveryServiceRequests_list]),
     (state_deliveryServices, [state_trafficPortal, state_private, state_deliveryServices]),
     (state_deliveryServices_clone, [state_trafficPortal, state_private, state_deliveryServices, state_deliveryServices_clone]),
     (state_deliveryServices_compare, [state_trafficPortal, state_private, state_deliveryServices, state_deliveryServices_compare]),
     (state_deliveryServices_edit, [state_trafficPortal, state_private, state_deliveryServices, state_deliveryServices_edit]),
     (state_deliveryServices_jobs, [state_trafficPortal, state_private, state_deliveryServices, state_deliveryServices_jobs]),
     (state_deliveryServices_jobs_list, [state_trafficPortal, state_private, state_deliveryServices, state_deliveryServices_jobs, state_deliveryServices_jobs_list]),
     (state_deliveryServices_jobs_new, [state_trafficPortal, state_private, state_deliveryServices, state_deliveryServices_jobs, state_deliveryServices_jobs_new]),
     (state_deliveryServices_list, [state_trafficPortal, state_private, state_deliveryServices, state_deliveryServices_list]),
     (state_deliveryServices_new, [state_trafficPortal, state_private, state_deliveryServices, state_deliveryServices_new]),
     (state_deliveryServices_regexes, [state_trafficPortal, state_private, state_deliveryServices, state_deliveryServices_regexes]),
     (state_deliveryServices_regexes_edit, [state_trafficPortal, state_private, state_deliveryServices, state_deliveryServices_regexes, state_deliveryServices_regexes_edit]),
     (state_deliveryServices_regexes_list, [state_trafficPortal, state_private, state_deliveryServices, state_deliveryServices_regexes, state_deliveryServices_regexes_list]),
     (state_deliveryServices_regexes_new, [state_trafficPortal, state_private, state_deliveryServices, state_deliveryServices_regexes, state_deliveryServices_regexes_new]),
     (state_deliveryServices_servers, [state_trafficPortal, state_private, state_deliveryServices, state_deliveryServices_servers]),
     (state_deliveryServices_sslKeys, [state_trafficPortal, state_private, state_deliveryServices, state_deliveryServices_sslKeys]),
     (state_deliveryServices_sslKeys_generate, [state_trafficPortal, state_private, state_deliveryServices, state_deliveryServices_sslKeys, state_deliveryServices_sslKeys_generate]),
     (state_deliveryServices_sslKeys_view, [state_trafficPortal, state_private, state_deliveryServices, state_deliveryServices_sslKeys, state_deliveryServices_sslKeys_view]),
     (state_deliveryServices_staticDnsEntries, [state_trafficPortal, state_private, state_deliveryServices, state_deliveryServices_staticDnsEntries]),
     (state_deliveryServices_targets, [state_trafficPortal, state_private, state_deliveryServices, state_deliveryServices_targets]),
     (state_deliveryServices_targets_edit, [state_trafficPortal, state_private, state_deliveryServices, state_deliveryServices_targets, state_deliveryServices_targets_edit]),
     (state_deliveryServices_targets_list, [state_trafficPortal, state_private, state_deliveryServices, state_deliveryServices_targets, state_deliveryServices_targets_list]),
     (state_deliveryServices_targets_new, [state_trafficPortal, state_private, state_deliveryServices, state_deliveryServices_targets, state_deliveryServices_targets_new]),
     (state_deliveryServices_uriSigningKeys, [state_trafficPortal, state_private, state_deliveryServices, state_deliveryServices_uriSigningKeys]),
     (state_deliveryServices_urlSigKeys, [state_trafficPortal, state_private, state_deliveryServices, state_deliveryServices_urlSigKeys]),
     (state_deliveryServices_users, [state_trafficPortal, state_private, state_deliveryServices, state_deliveryServices_users]),
     (state_divisions, [state_trafficPortal, state_private, state_divisions]),
     (state_divisions_edit, [state_trafficPortal, state_private, state_divisions, state_divisions_edit]),
     (state_divisions_list, [state_trafficPortal, state_private, state_divisions, state_divisions_list]),
     (state_divisions_new, [state_trafficPortal, state_private, state_divisions, state_divisions_new]),
     (state_divisions_regions, [state_trafficPortal, state_private, state_divisions, state_divisions_regions]),
     (state_iso, [state_trafficPortal, state_private, state_iso]),
     (state_jobs, [state_trafficPortal, state_private, state_jobs]),
     (state_jobs_list, [state_trafficPortal, state_private, state_jobs, state_jobs_list]),
     (state_jobs_new, [state_trafficPortal, state_private, state_jobs, state_jobs_new]),
     (state_parameters, [state_trafficPortal, state_private, state_parameters]),
     (state_parameters_cacheGroups, [state_trafficPortal, state_private, state_parameters, state_parameters_cacheGroups]),
     (state_parameters_edit, [state_trafficPortal, state_private, state_parameters, state_parameters_edit]),
     (state_parameters_list, [state_trafficPortal, state_private, state_parameters, state_parameters_list]),
     (state_parameters_new, [state_trafficPortal, state_private, state_parameters, state_parameters_new]),
     (state_parameters_profiles, [state_trafficPortal, state_private, state_parameters, state_parameters_profiles]),
     (state_physLocations, [state_trafficPortal, state_private, state_physLocations]),
     (state_physLocations_edit, [state_trafficPortal, state_private, state_physLocations, state_physLocations_edit]),
     (state_physLocations_list, [state_trafficPortal, state_private, state_physLocations, state_physLocations_list]),
     (state_physLocations_new, [state_trafficPortal, state_private, state_physLocations, state_physLocations_new]),
     (state_physLocations_servers, [state_trafficPortal, state_private, state_physLocations, state_physLocations_servers]),
     (state_profiles, [state_trafficPortal, state_private, state_profiles]),
     (state_profiles_compare, [state_trafficPortal, state_private, state_profiles, state_profiles_compare]),
     (state_profiles_deliveryServices, [state_trafficPortal, state_private, state_profiles, state_profiles_deliveryServices]),
     (state_profiles_edit, [state_trafficPortal, state_private, state_profiles, state_profiles_edit]),
     (state_profiles_list, [state_trafficPortal, state_private, state_profiles, state_profiles_list]),
     (state_profiles_new, [state_trafficPortal, state_private, state_profiles, state_profiles_new]),
     (state_profiles_parameters, [state_trafficPortal, state_private, state_profiles, state_profiles_parameters]),
     (state_profiles_servers, [state_trafficPortal, state_private, state_profiles, state_profiles_servers]),
     (state_regions, [state_trafficPortal, state_private, state_regions]),
     (state_regions_edit, [state_trafficPortal, state_private, state_regions, state_regions_edit]),
     (state_regions_list, [state_trafficPortal, state_private, state_regions, state_regions_list]),
     (state_regions_new, [state_trafficPortal, state_private, state_regions, state_regions_new]),
     (state_regions_physLocations, [state_trafficPortal, state_private, state_regions, state_regions_physLocations]),
     (state_servers, [state_trafficPortal, state_private, state_servers]),
     (state_servers_configFiles, [state_trafficPortal, state_private, state_servers, state_servers_configFiles]),
     (state_servers_deliveryServices, [state_trafficPortal, state_private, state_servers, state_servers_deliveryServices]),
     (state_servers_edit, [state_trafficPortal, state_private, state_servers, state_servers_edit]),
     (state_servers_list, [state_trafficPortal, state_private, state_servers, state_servers_list]),
     (state_servers_new, [state_trafficPortal, state_private, state_servers, state_servers_new]),
     (state_staticDnsEntries, [state_trafficPortal, state_private, state_staticDnsEntries]),
     (state_statuses, [state_trafficPortal, state_private, state_statuses]),
     (state_statuses_edit, [state_trafficPortal, state_private, state_statuses, state_statuses_edit]),
     (state_statuses_list, [state_trafficPortal, state_private, state_statuses, state_statuses_list]),
     (state_statuses_new, [state_trafficPortal, state_private, state_statuses, state_statuses_new]),
     (state_statuses_servers, [state_trafficPortal, state_private, state_statuses, state_statuses_servers]),
     (state_tenants, [state_trafficPortal, state_private, state_tenants]),
     (state_tenants_deliveryServices, [state_trafficPortal, state_private, state_tenants, state_tenants_deliveryServices]),
     (state_tenants_edit, [state_trafficPortal, state_private, state_tenants, state_tenants_edit]),
     (state_tenants_list, [state_trafficPortal, state_private, state_tenants, state_tenants_list]),
     (state_tenants_new, [state_trafficPortal, state_private, state_tenants, state_tenants_new]),
     (state_tenants_users, [state_trafficPortal, state_private, state_tenants, state_tenants_users]),
     (state_types, [state_trafficPortal, state_private, state_types]),
     (state_types_cacheGroups, [state_trafficPortal, state_private, state_types, state_types_cacheGroups]),
     (state_types_deliveryServices, [state_trafficPortal, state_private, state_types, state_types_deliveryServices]),
     (state_types_edit, [state_trafficPortal, state_private, state_types, state_types_edit]),
     (state_types_list, [state_trafficPortal, state_private, state_types, state_types_list]),
     (state_types_new, [state_trafficPortal, state_private, state_types, state_types_new]),
     (state_types_servers, [state_trafficPortal, state_private, state_types, state_types_servers]),
     (state_types_staticDnsEntries, [state_trafficPortal, state_private, state_types, state_types_staticDnsEntries]),
     (state_user, [state_trafficPortal, state_private, state_user]),
     (state_user_edit, [state_trafficPortal, state_private, state_user, state_user_edit]),
     (state_users, [state_trafficPortal, state_private, state_users]),
     (state_users_deliveryServices, [state_trafficPortal, state_private, state_users, state_users_deliveryServices]),
     (state_users_edit, [state_trafficPortal, state_private, state_users, state_users_edit]),
     (state_users_list, [state_trafficPortal, state_private, state_users, state_users_list]),
     (state_users_new, [state_trafficPortal, state_private, state_users, state_users_new]),
     (state_users_register, [state_trafficPortal, state_private, state_users, state_users_register]),
     (state_public, [state_trafficPortal, state_public]),
     (state_public_login, [state_trafficPortal, state_public, state_public_login])]"

lemma lineages_of_all: "map fst lineages = portal_states"
  unfolding lineages_def portal_states_def list.map fst_conv ..

lemma lineages: "list_all (\<lambda>(s, l). lineage portal_states (sname s) = l) lineages"
  unfolding lineages_def list.pred_inject prod.case snames lineage_def ancestors_def
    portal_state_def [symmetric, abs_def]
  by (simp add: found map_filter_simps)

lemma lineage_known: "(s, l) \<in> set lineages \<Longrightarrow> lineage portal_states (sname s) = l"
  using lineages by (auto simp: list_all_iff)

section \<open>The pages and their URLs\<close>

text \<open>The pages are the states that are not abstract: name, pattern and query parameters; they are grouped
  by the first segment of the pattern.\<close>

type_synonym page_rows = "(string \<times> piece list \<times> string list) list"

definition pages_asns :: "page_rows" where
  "pages_asns =
    [(''trafficPortal.private.asns.edit'', [Text [], Text ''asns'', Restricted ''asnId'' ''[0-9]{1,8}''], []),
     (''trafficPortal.private.asns.list'', [Text [], Text ''asns''], []),
     (''trafficPortal.private.asns.new'', [Text [], Text ''asns'', Text ''new''], [])]"

definition pages_cache_checks :: "page_rows" where
  "pages_cache_checks =
    [(''trafficPortal.private.cacheChecks'', [Text [], Text ''cache-checks''], [])]"

definition pages_cache_groups :: "page_rows" where
  "pages_cache_groups =
    [(''trafficPortal.private.cacheGroups.asns'', [Text [], Text ''cache-groups'', Arg ''cacheGroupId'', Text ''asns''], []),
     (''trafficPortal.private.cacheGroups.edit'', [Text [], Text ''cache-groups'', Restricted ''cacheGroupId'' ''[0-9]{1,8}''], []),
     (''trafficPortal.private.cacheGroups.list'', [Text [], Text ''cache-groups''], []),
     (''trafficPortal.private.cacheGroups.new'', [Text [], Text ''cache-groups'', Text ''new''], []),
     (''trafficPortal.private.cacheGroups.parameters'', [Text [], Text ''cache-groups'', Arg ''cacheGroupId'', Text ''parameters''], []),
     (''trafficPortal.private.cacheGroups.servers'', [Text [], Text ''cache-groups'', Arg ''cacheGroupId'', Text ''servers''], [])]"

definition pages_cache_stats :: "page_rows" where
  "pages_cache_stats =
    [(''trafficPortal.private.cacheStats'', [Text [], Text ''cache-stats''], [])]"

definition pages_cdns :: "page_rows" where
  "pages_cdns =
    [(''trafficPortal.private.cdns.config'', [Text [], Text ''cdns'', Arg ''cdnId'', Text ''config'', Text ''changes''], []),
     (''trafficPortal.private.cdns.deliveryServices'', [Text [], Text ''cdns'', Arg ''cdnId'', Text ''delivery-services''], []),
     (''trafficPortal.private.cdns.dnssecKeys.generate'', [Text [], Text ''cdns'', Arg ''cdnId'', Text ''dnssec-keys'', Text ''generate''], []),
     (''trafficPortal.private.cdns.dnssecKeys.view'', [Text [], Text ''cdns'', Arg ''cdnId'', Text ''dnssec-keys''], []),
     (''trafficPortal.private.cdns.edit'', [Text [], Text ''cdns'', Restricted ''cdnId'' ''[0-9]{1,8}''], []),
     (''trafficPortal.private.cdns.federations.deliveryServices'', [Text [], Text ''cdns'', Arg ''cdnId'', Text ''federations'', Restricted ''fedId'' ''[0-9]{1,8}'', Text ''delivery-services''], []),
     (''trafficPortal.private.cdns.federations.edit'', [Text [], Text ''cdns'', Arg ''cdnId'', Text ''federations'', Restricted ''fedId'' ''[0-9]{1,8}''], []),
     (''trafficPortal.private.cdns.federations.list'', [Text [], Text ''cdns'', Arg ''cdnId'', Text ''federations''], []),
     (''trafficPortal.private.cdns.federations.new'', [Text [], Text ''cdns'', Arg ''cdnId'', Text ''federations'', Text ''new''], []),
     (''trafficPortal.private.cdns.federations.users'', [Text [], Text ''cdns'', Arg ''cdnId'', Text ''federations'', Restricted ''fedId'' ''[0-9]{1,8}'', Text ''users''], []),
     (''trafficPortal.private.cdns.list'', [Text [], Text ''cdns''], []),
     (''trafficPortal.private.cdns.new'', [Text [], Text ''cdns'', Text ''new''], []),
     (''trafficPortal.private.cdns.profiles'', [Text [], Text ''cdns'', Arg ''cdnId'', Text ''profiles''], []),
     (''trafficPortal.private.cdns.servers'', [Text [], Text ''cdns'', Arg ''cdnId'', Text ''servers''], [])]"

definition pages_change_logs :: "page_rows" where
  "pages_change_logs =
    [(''trafficPortal.private.changeLogs.list'', [Text [], Text ''change-logs''], [])]"

definition pages_custom :: "page_rows" where
  "pages_custom =
    [(''trafficPortal.private.custom'', [Text [], Text ''custom''], [])]"

definition pages_dashboard :: "page_rows" where
  "pages_dashboard =
    [(''trafficPortal.private.dashboard.view'', [Text [], Text ''dashboard''], [])]"

definition pages_delivery_service_requests :: "page_rows" where
  "pages_delivery_service_requests =
    [(''trafficPortal.private.deliveryServiceRequests.edit'', [Text [], Text ''delivery-service-requests'', Restricted ''deliveryServiceRequestId'' ''[0-9]{1,8}''], [''type'', ''fulfill'']),
     (''trafficPortal.private.deliveryServiceRequests.list'', [Text [], Text ''delivery-service-requests''], [])]"

definition pages_delivery_services :: "page_rows" where
  "pages_delivery_services =
    [(''trafficPortal.private.deliveryServices.clone'', [Text [], Text ''delivery-services'', Restricted ''deliveryServiceId'' ''[0-9]{1,8}'', Text ''clone''], [''type'']),
     (''trafficPortal.private.deliveryServices.compare'', [Text [], Text ''delivery-services'', Text ''compare'', Arg ''ds1Id'', Arg ''ds2Id''], []),
     (''trafficPortal.private.deliveryServices.edit'', [Text [], Text ''delivery-services'', Restricted ''deliveryServiceId'' ''[0-9]{1,8}''], [''type'']),
     (''trafficPortal.private.deliveryServices.jobs.list'', [Text [], Text ''delivery-services'', Arg ''deliveryServiceId'', Text ''jobs''], []),
     (''trafficPortal.private.deliveryServices.jobs.new'', [Text [], Text ''delivery-services'', Arg ''deliveryServiceId'', Text ''jobs'', Text ''new''], []),
     (''trafficPortal.private.deliveryServices.list'', [Text [], Text ''delivery-services''], []),
     (''trafficPortal.private.deliveryServices.new'', [Text [], Text ''delivery-services'', Text ''new''], [''type'']),
     (''trafficPortal.private.deliveryServices.regexes.edit'', [Text [], Text ''delivery-services'', Arg ''deliveryServiceId'', Text ''regexes'', Restricted ''regexId'' ''[0-9]{1,8}''], []),
     (''trafficPortal.private.deliveryServices.regexes.list'', [Text [], Text ''delivery-services'', Arg ''deliveryServiceId'', Text ''regexes''], []),
     (''trafficPortal.private.deliveryServices.regexes.new'', [Text [], Text ''delivery-services'', Arg ''deliveryServiceId'', Text ''regexes'', Text ''new''], []),
     (''trafficPortal.private.deliveryServices.servers'', [Text [], Text ''delivery-services'', Arg ''deliveryServiceId'', Text ''servers''], []),
     (''trafficPortal.private.deliveryServices.sslKeys.generate'', [Text [], Text ''delivery-services'', Arg ''deliveryServiceId'', Text ''ssl-keys'', Text ''generate''], []),
     (''trafficPortal.private.deliveryServices.sslKeys.view'', [Text [], Text ''delivery-services'', Arg ''deliveryServiceId'', Text ''ssl-keys''], []),
     (''trafficPortal.private.deliveryServices.staticDnsEntries'', [Text [], Text ''delivery-services'', Arg ''deliveryServiceId'', Text ''static-dns-entries''], []),
     (''trafficPortal.private.deliveryServices.targets.edit'', [Text [], Text ''delivery-services'', Arg ''deliveryServiceId'', Text ''targets'', Restricted ''targetId'' ''[0-9]{1,8}''], []),
     (''trafficPortal.private.deliveryServices.targets.list'', [Text [], Text ''delivery-services'', Arg ''deliveryServiceId'', Text ''targets''], []),
     (''trafficPortal.private.deliveryServices.targets.new'', [Text [], Text ''delivery-services'', Arg ''deliveryServiceId'', Text ''targets'', Text ''new''], []),
     (''trafficPortal.private.deliveryServices.uriSigningKeys'', [Text [], Text ''delivery-services'', Arg ''deliveryServiceId'', Text ''uri-signing-keys''], []),
     (''trafficPortal.private.deliveryServices.urlSigKeys'', [Text [], Text ''delivery-services'', Arg ''deliveryServiceId'', Text ''url-sig-keys''], []),
     (''trafficPortal.private.deliveryServices.users'', [Text [], Text ''delivery-services'', Arg ''deliveryServiceId'', Text ''users''], [])]"

definition pages_divisions :: "page_rows" where
  "pages_divisions =
    [(''trafficPortal.private.divisions.edit'', [Text [], Text ''divisions'', Restricted ''divisionId'' ''[0-9]{1,8}''], []),
     (''trafficPortal.private.divisions.list'', [Text [], Text ''divisions''], []),
     (''trafficPortal.private.divisions.new'', [Text [], Text ''divisions'', Text ''new''], []),
     (''trafficPortal.private.divisions.regions'', [Text [], Text ''divisions'', Arg ''divisionId'', Text ''regions''], [])]"

definition pages_iso :: "page_rows" where
  "pages_iso =
    [(''trafficPortal.private.iso'', [Text [], Text ''iso''], [])]"

definition pages_jobs :: "page_rows" where
  "pages_jobs =
    [(''trafficPortal.private.jobs.list'', [Text [], Text ''jobs''], []),
     (''trafficPortal.private.jobs.new'', [Text [], Text ''jobs'', Text ''new''], [])]"

definition pages_parameters :: "page_rows" where
  "pages_parameters =
    [(''trafficPortal.private.parameters.cacheGroups'', [Text [], Text ''parameters'', Arg ''parameterId'', Text ''cache-groups''], []),
     (''trafficPortal.private.parameters.edit'', [Text [], Text ''parameters'', Restricted ''parameterId'' ''[0-9]{1,8}''], []),
     (''trafficPortal.private.parameters.list'', [Text [], Text ''parameters''], []),
     (''trafficPortal.private.parameters.new'', [Text [], Text ''parameters'', Text ''new''], []),
     (''trafficPortal.private.parameters.profiles'', [Text [], Text ''parameters'', Arg ''parameterId'', Text ''profiles''], [])]"

definition pages_phys_locations :: "page_rows" where
  "pages_phys_locations =
    [(''trafficPortal.private.physLocations.edit'', [Text [], Text ''phys-locations'', Restricted ''physLocationId'' ''[0-9]{1,8}''], []),
     (''trafficPortal.private.physLocations.list'', [Text [], Text ''phys-locations''], []),
     (''trafficPortal.private.physLocations.new'', [Text [], Text ''phys-locations'', Text ''new''], []),
     (''trafficPortal.private.physLocations.servers'', [Text [], Text ''phys-locations'', Arg ''physLocationId'', Text ''servers''], [])]"

definition pages_profiles :: "page_rows" where
  "pages_profiles =
    [(''trafficPortal.private.profiles.compare'', [Text [], Text ''profiles'', Text ''compare'', Arg ''profile1Id'', Arg ''profile2Id''], []),
     (''trafficPortal.private.profiles.deliveryServices'', [Text [], Text ''profiles'', Arg ''profileId'', Text ''delivery-services''], []),
     (''trafficPortal.private.profiles.edit'', [Text [], Text ''profiles'', Restricted ''profileId'' ''[0-9]{1,8}''], []),
     (''trafficPortal.private.profiles.list'', [Text [], Text ''profiles''], []),
     (''trafficPortal.private.profiles.new'', [Text [], Text ''profiles'', Text ''new''], []),
     (''trafficPortal.private.profiles.parameters'', [Text [], Text ''profiles'', Arg ''profileId'', Text ''parameters''], []),
     (''trafficPortal.private.profiles.servers'', [Text [], Text ''profiles'', Arg ''profileId'', Text ''servers''], [])]"

definition pages_regions :: "page_rows" where
  "pages_regions =
    [(''trafficPortal.private.regions.edit'', [Text [], Text ''regions'', Restricted ''regionId'' ''[0-9]{1,8}''], []),
     (''trafficPortal.private.regions.list'', [Text [], Text ''regions''], []),
     (''trafficPortal.private.regions.new'', [Text [], Text ''regions'', Text ''new''], []),
     (''trafficPortal.private.regions.physLocations'', [Text [], Text ''regions'', Arg ''regionId'', Text ''phys-locations''], [])]"

definition pages_servers :: "page_rows" where
  "pages_servers =
    [(''trafficPortal.private.servers.configFiles'', [Text [], Text ''servers'', Arg ''serverId'', Text ''config-files''], []),
     (''trafficPortal.private.servers.deliveryServices'', [Text [], Text ''servers'', Arg ''serverId'', Text ''delivery-services''], []),
     (''trafficPortal.private.servers.edit'', [Text [], Text ''servers'', Restricted ''serverId'' ''[0-9]{1,8}''], []),
     (''trafficPortal.private.servers.list'', [Text [], Text ''servers''], []),
     (''trafficPortal.private.servers.new'', [Text [], Text ''servers'', Text ''new''], [])]"

definition pages_static :: "page_rows" where
  "pages_static =
    [(''trafficPortal.private.staticDnsEntries'', [Text [], Text [], Arg ''cacheGroupId'', Text ''static-dns-entries''], [])]"

definition pages_statuses :: "page_rows" where
  "pages_statuses =
    [(''trafficPortal.private.statuses.edit'', [Text [], Text ''statuses'', Restricted ''statusId'' ''[0-9]{1,8}''], []),
     (''trafficPortal.private.statuses.list'', [Text [], Text ''statuses''], []),
     (''trafficPortal.private.statuses.new'', [Text [], Text ''statuses'', Text ''new''], []),
     (''trafficPortal.private.statuses.servers'', [Text [], Text ''statuses'', Arg ''statusId'', Text ''servers''], [])]"

definition pages_tenants :: "page_rows" where
  "pages_tenants =
    [(''trafficPortal.private.tenants.deliveryServices'', [Text [], Text ''tenants'', Arg ''tenantId'', Text ''delivery-services''], []),
     (''trafficPortal.private.tenants.edit'', [Text [], Text ''tenants'', Restricted ''tenantId'' ''[0-9]{1,8}''], []),
     (''trafficPortal.private.tenants.list'', [Text [], Text ''tenants''], []),
     (''trafficPortal.private.tenants.new'', [Text [], Text ''tenants'', Text ''new''], []),
     (''trafficPortal.private.tenants.users'', [Text [], Text ''tenants'', Arg ''tenantId'', Text ''users''], [])]"

definition pages_types :: "page_rows" where
  "pages_types =
    [(''trafficPortal.private.types.cacheGroups'', [Text [], Text ''types'', Arg ''typeId'', Text ''cache-groups''], []),
     (''trafficPortal.private.types.deliveryServices'', [Text [], Text ''types'', Arg ''typeId'', Text ''delivery-services''], []),
     (''trafficPortal.private.types.edit'', [Text [], Text ''types'', Restricted ''typeId'' ''[0-9]{1,8}''], []),
     (''trafficPortal.private.types.list'', [Text [], Text ''types''], []),
     (''trafficPortal.private.types.new'', [Text [], Text ''types'', Text ''new''], []),
     (''trafficPortal.private.types.servers'', [Text [], Text ''types'', Arg ''typeId'', Text ''servers''], []),
     (''trafficPortal.private.types.staticDnsEntries'', [Text [], Text ''types'', Arg ''typeId'', Text ''static-dns-entries''], [])]"

definition pages_user :: "page_rows" where
  "pages_user =
    [(''trafficPortal.private.user.edit'', [Text [], Text ''user''], [])]"

definition pages_users :: "page_rows" where
  "pages_users =
    [(''trafficPortal.private.users.deliveryServices'', [Text [], Text ''users'', Arg ''userId'', Text ''delivery-services''], []),
     (''trafficPortal.private.users.edit'', [Text [], Text ''users'', Restricted ''userId'' ''[0-9]{1,8}''], []),
     (''trafficPortal.private.users.list'', [Text [], Text ''users''], []),
     (''trafficPortal.private.users.new'', [Text [], Text ''users'', Text ''new''], []),
     (''trafficPortal.private.users.register'', [Text [], Text ''users'', Text ''register''], [])]"

definition pages_login :: "page_rows" where
  "pages_login =
    [(''trafficPortal.public.login'', [Text [], Text []], [])]"

definition site_groups :: "(string \<times> page_rows) list" where
  "site_groups =
    [(''asns'', pages_asns),
     (''cache-checks'', pages_cache_checks),
     (''cache-groups'', pages_cache_groups),
     (''cache-stats'', pages_cache_stats),
     (''cdns'', pages_cdns),
     (''change-logs'', pages_change_logs),
     (''custom'', pages_custom),
     (''dashboard'', pages_dashboard),
     (''delivery-service-requests'', pages_delivery_service_requests),
     (''delivery-services'', pages_delivery_services),
     (''divisions'', pages_divisions),
     (''iso'', pages_iso),
     (''jobs'', pages_jobs),
     (''parameters'', pages_parameters),
     (''phys-locations'', pages_phys_locations),
     (''profiles'', pages_profiles),
     (''regions'', pages_regions),
     (''servers'', pages_servers),
     ([], pages_static),
     (''statuses'', pages_statuses),
     (''tenants'', pages_tenants),
     (''types'', pages_types),
     (''user'', pages_user),
     (''users'', pages_users),
     ([], pages_login)]"

definition site :: page_rows where
  "site = concat (map snd site_groups)"

lemmas group_defs =
  pages_asns_def
  pages_cache_checks_def
  pages_cache_groups_def
  pages_cache_stats_def
  pages_cdns_def
  pages_change_logs_def
  pages_custom_def
  pages_dashboard_def
  pages_delivery_service_requests_def
  pages_delivery_services_def
  pages_divisions_def
  pages_iso_def
  pages_jobs_def
  pages_parameters_def
  pages_phys_locations_def
  pages_profiles_def
  pages_regions_def
  pages_servers_def
  pages_static_def
  pages_statuses_def
  pages_tenants_def
  pages_types_def
  pages_user_def
  pages_users_def
  pages_login_def

definition page_row :: "ui_state \<times> ui_state list \<Rightarrow> page_rows" where
  "page_row sl =
     (case sl of (s, l) \<Rightarrow>
        if is_abstract s then []
        else [(sname s, pieces (concat (map (url_path \<circ> surl) l)), concat (map (url_query \<circ> surl) l))])"

lemma site_rows: "concat (map page_row lineages) = site"
  unfolding site_def site_groups_def group_defs lineages_def page_row_def state_defs prod.case ui_state.sel
    list.map comp_def snd_conv concat.simps append.simps
  by code_simp

text \<open>Where a location leads, over the table.\<close>

fun site_match :: "location \<Rightarrow> string \<times> piece list \<times> string list \<Rightarrow> (string \<times> (string \<times> js) list) option" where
  "site_match l (n, ps, qs) =
     (if list_all2 fits ps (segments (path l))
      then Some (n, binds ps (segments (path l)) @ query_params qs (search l)) else None)"

lemma map_filter_agree:
  "(\<And>x. x \<in> set xs \<Longrightarrow> f x = g x) \<Longrightarrow> List.map_filter f xs = List.map_filter g xs"
  by (induction xs) (auto simp: map_filter_simps split: option.splits)

lemma destinations_site:
  assumes "reads_urls m"
  shows "destinations portal_states m l = List.map_filter (site_match l) site"
proof -
  have row: "(if is_abstract s then None
       else map_option (\<lambda>ps. (sname s, ps @ query_params (queries portal_states (sname s)) (search l)))
              (m (pattern portal_states (sname s)) (path l))) =
     (case page_row (s, lin) of [] \<Rightarrow> None | r # _ \<Rightarrow> site_match l r)"
    if "(s, lin) \<in> set lineages" for s lin
    using that by (simp add: page_row_def reads_urlsD [OF assms] documented_match_def pattern_def
        queries_def lineage_known)
  have one: "length (page_row sl) \<le> 1" for sl by (simp add: page_row_def split: prod.splits)
  have "List.map_filter (\<lambda>sl. case page_row sl of [] \<Rightarrow> None | r # _ \<Rightarrow> site_match l r) xs =
      List.map_filter (site_match l) (concat (map page_row xs))" for xs
  proof (induction xs)
    case (Cons sl xs)
    then show ?case using one [of sl] by (cases "page_row sl") (auto simp: map_filter_def)
  qed (simp add: map_filter_def)
  then have "List.map_filter (site_match l) site =
      List.map_filter (\<lambda>sl. case page_row sl of [] \<Rightarrow> None | r # _ \<Rightarrow> site_match l r) lineages"
    by (simp add: site_rows)
  also have "\<dots> = List.map_filter (\<lambda>(s, lin). if is_abstract s then None
       else map_option (\<lambda>ps. (sname s, ps @ query_params (queries portal_states (sname s)) (search l)))
              (m (pattern portal_states (sname s)) (path l))) lineages"
    by (rule map_filter_agree) (auto simp: row)
  also have "\<dots> = destinations portal_states m l"
    unfolding destinations_def lineages_of_all [symmetric]
    by (simp add: map_filter_def filter_map comp_def case_prod_unfold)
  finally show ?thesis by simp
qed

end
