(* ===== verification/Visits.thy ===== *)
theory Visits
  imports Sitemap
begin

text \<open>
  What opening a page asks of the server, and when the page is shown.
\<close>

section \<open>Opening a page only reads\<close>

text \<open>The calls a page may make while it opens: reads, and the login a token in the URL stands for.\<close>

fun reading :: "string \<Rightarrow> call \<Rightarrow> bool" where
  "reading root (RGetList p q) = True"
| "reading root (RGet p q) = True"
| "reading root (RCustomGet p u) = True"
| "reading root (HGet u q) = True"
| "reading root (HPost u x) = (u = root @ ''user/login/token'' \<and> (\<exists>t. x = JObj [(''t'', JStr t)]))"
| "reading root _ = False"

lemmas get_defs =
  getASN_def getASNs_def getCDN_def getCDNFederation_def
  getCDNFederations_def getCDNs_def getCacheChecks_def getCacheGroup_def
  getCacheGroupParameters_def getCacheGroups_def getCacheStats_def getChangeLogs_def
  getCurrentSnapshot_def getDNSSECKeys_def getDeliveryService_def getDeliveryServiceRegex_def
  getDeliveryServiceRegexes_def getDeliveryServiceRequests_def getDeliveryServiceServers_def getDeliveryServiceTarget_def
  getDeliveryServiceTargets_def getDeliveryServiceUrlSigKeys_def getDeliveryServices_def getDivision_def
  getDivisions_def getEdgeStatusCount_def getFederationDeliveryServices_def getFederationFederationResolvers_def
  getFederationUsers_def getJobs_def getKeys_def getNewSnapshot_def
  getOSVersions_def getParameter_def getParameterCacheGroups_def getParameterProfiles_def
  getParameters_def getPhysLocation_def getPhysLocations_def getProfile_def
  getProfileParameters_def getProfiles_def getRegion_def getRegions_def
  getServer_def getServerConfigFiles_def getServerDeliveryServices_def getServers_def
  getSslKeys_def getStaticDnsEntries_def getStatus_def getStatuses_def
  getTenant_def getTenants_def getType_def getTypes_def
  getUser_def getUserDeliveryServices_def getUsers_def

lemma calls_get:
  "P (RGetList p q) \<Longrightarrow> keeps (calls_only root P) (rest_getList p q)"
  "P (RGet p q) \<Longrightarrow> keeps (calls_only root P) (rest_get p q)"
  "P (RCustomGet p u) \<Longrightarrow> keeps (calls_only root P) (rest_customGET p u)"
  "P (HGet (root @ u) q) \<Longrightarrow> keeps (calls_only root P) (api (\<lambda>u. HGet u q) u)"
  "P (HPost (root @ u) x) \<Longrightarrow> keeps (calls_only root P) (api (\<lambda>u. HPost u x) u)"
  "P (HGet f q) \<Longrightarrow> keeps (calls_only root P) (http (HGet f q))"
  unfolding rest_customGET_def
  by (rule calls.rest_calls calls.rest calls.api calls.http, rule calls_only_send, simp)+

lemma calls_only_models [keeps_intros]:
  "calls_only root P w (broadcast_getChangeLogs w)" "calls_only root P w (setUser u w)"
  "calls_only root P w (resetUser w)" "calls_only root P w (setProperties ps w)"
  by (intro calls_only_same_log; simp add: broadcast_getChangeLogs_def setUser_def resetUser_def
      setProperties_def onUserUpdated_def onGetChangeLogs_def record_event_def)+

lemma calls_login_by_token:
  "(\<And>t. P (HPost (root @ ''user/login/token'') (JObj [(''t'', JStr t)]))) \<Longrightarrow>
     keeps (calls_only root P) login_by_token"
  unfolding login_by_token_def tokenLogin_def reject_undefined_def
  by (rule keeps_with_world) (auto intro!: keeps_intros calls_get split: option.splits)

lemma calls_user:
  "P (HGet (root @ ''user/current'') JUndef) \<Longrightarrow> keeps (calls_only root P) known_or_fetched_user"
  unfolding known_or_fetched_user_def getCurrentUser_def
  by (rule keeps_with_world) (auto intro!: keeps_intros calls_get)

lemma calls_properties:
  "P (HGet ''traffic_portal_properties.json'' JUndef) \<Longrightarrow> keeps (calls_only root P) resolve_properties"
  unfolding resolve_properties_def getProperties_def by (intro keeps_intros calls_get) auto

lemma calls_default_ds: "keeps (calls_only root P) (default_ds type)"
  unfolding default_ds_def by (intro keeps_intros; simp add: calls.ret calls.throw split: js.splits)

lemma calls_compared_ds:
  "(\<And>i. P (RGet [One ''deliveryservices'' i] JUndef)) \<Longrightarrow> keeps (calls_only root P) (compared_ds rs)"
  unfolding compared_ds_def
  by (auto intro!: keeps_intros calls_get simp: getDeliveryService_def split: list.splits)

lemma later_get_settled [keeps_intros]:
  "later_keeps (calls_only root P) (resolve_response v)"
  "later_keeps (calls_only root P) (reject_undefined e)"
  unfolding resolve_response_def reject_undefined_def by (intro keeps_intros)+

lemma states_read:
  "list_all (\<lambda>s. list_all (\<lambda>j. \<forall>v d. keeps (calls_only root (reading root)) (icode (snd j) v d))
     (jobs_of s)) portal_states"
  unfolding portal_states_def state_defs jobs_of_def ui_state.sel ui_view.sel list.pred_inject
    list.map concat.simps append.simps snd_conv input.sel get_defs
  by (intro conjI allI TrueI keeps_intros calls_get calls_login_by_token calls_user calls_properties
      calls_default_ds calls_compared_ds; simp)

lemma find_state_in: "find_state ss n = Some s \<Longrightarrow> s \<in> set ss"
  unfolding find_state_def by (induction ss) (auto split: if_splits)

lemma lineage_in: "t \<in> set (lineage ss n) \<Longrightarrow> t \<in> set ss"
  by (auto simp: lineage_def map_filter_def intro: find_state_in)

lemma page_jobs_keep: "jobs_keep (calls_only root (reading root)) v (page_jobs portal_states n)"
  using states_read lineage_in by (fastforce simp: jobs_keep_def page_jobs_def list_all_iff)

text \<open>C13. Opening any page, in any order and whatever the server answers, only reads: every call it makes
  is a read, save the login that a token in the URL stands for.\<close>

theorem opening_only_reads:
  assumes "opened v (page_jobs portal_states n) w s w'"
  shows "\<exists>cs. sent w' = sent w @ cs \<and> list_all (reading (apiRoot w)) cs"
  using calls.loads [OF assms page_jobs_keep [of "apiRoot w"]] by (simp add: calls_only_def)

section \<open>When a page is shown\<close>

definition page_startable :: "ui_state list \<Rightarrow> bool" where
  "page_startable l = startable (concat (map jobs_of l))"

lemma pages_startable: "list_all (\<lambda>(s, l). page_startable l) lineages"
  unfolding lineages_def page_startable_def startable_def state_defs jobs_of_def ui_state.sel ui_view.sel
    list.pred_inject list.map prod.case concat.simps append.simps
  by (simp add: key_def home_def)

lemma page_startable:
  assumes "t \<in> set portal_states" shows "startable (page_jobs portal_states (sname t))"
proof -
  obtain l where l: "(t, l) \<in> set lineages"
    using assms unfolding lineages_of_all [symmetric] by auto
  then have "page_startable l" using pages_startable by (auto simp: list_all_iff)
  then show ?thesis by (simp add: page_jobs_def page_startable_def lineage_known [OF l])
qed

text \<open>C14. Every page of the portal opens without getting stuck: from any point of its opening, whatever
  has happened so far, the opening comes to rest; and it comes to rest with all its data there exactly
  when no function was refused and none was left unanswered.\<close>

theorem page_opens:
  assumes "t \<in> set portal_states" "opened v (page_jobs portal_states (sname t)) w s w'"
  shows "(\<exists>s2 w2. (opens v (page_jobs portal_states (sname t)))\<^sup>*\<^sup>* (s, w') (s2, w2) \<and>
            at_rest v (page_jobs portal_states (sname t)) s2 w2) \<and>
         (at_rest v (page_jobs portal_states (sname t)) s w' \<longrightarrow>
            shows_page (page_jobs portal_states (sname t)) s = (refused s = [] \<and> unanswered s = []))"
  using comes_to_rest shown_iff [OF assms(2) _ page_startable [OF assms(1)]] by blast

section \<open>One way to open a page: each function in turn\<close>

text \<open>Running the functions one after the other, each to its end, is one of the openings.\<close>

fun load_page :: "visit \<Rightarrow> job list \<Rightarrow> job list \<Rightarrow> ((string \<times> string) \<times> js) list \<Rightarrow> world \<Rightarrow>
    (((string \<times> string) \<times> js) list \<times> world) option" where
  "load_page v all [] ks w = Some (ks, w)"
| "load_page v all (j # js) ks w =
     (case run (icode (snd j) v (\<lambda>n. case map_of ks (home all (fst j) n) of None \<Rightarrow> JUndef | Some x \<Rightarrow> x)) w of
        (Fulfilled x, w') \<Rightarrow> load_page v all js (ks @ [(key j, x)]) w'
      | _ \<Rightarrow> None)"

definition loaded :: "job list \<Rightarrow> ((string \<times> string) \<times> js) list \<Rightarrow> loading" where
  "loaded js ks = \<lparr>known = ks, waiting = js, pending = [], refused = [], unanswered = []\<rparr>"

lemma load_page_opens:
  "in_order all seen js \<Longrightarrow> set seen = set (map fst ks) \<Longrightarrow> load_page v all js ks w = Some (ks', w') \<Longrightarrow>
     (opens v all)\<^sup>*\<^sup>* (loaded js ks, w) (loaded [] ks', w')"
proof (induction js arbitrary: seen ks w)
  case (Cons j js)
  obtain own i where j: "j = (own, i)" by fastforce
  let ?s = "loaded (j # js) ks"
  define d where "d = local_data all ?s own"
  have data: "d = (\<lambda>n. case map_of ks (home all own n) of None \<Rightarrow> JUndef | Some x \<Rightarrow> x)"
    by (simp add: d_def fun_eq_iff local_data_def given_def loaded_def)
  obtain x w2 where r: "run (icode i v d) w = (Fulfilled x, w2)"
    "load_page v all js (ks @ [(key j, x)]) w2 = Some (ks', w')"
    using Cons.prems(3) by (auto simp: j data split: prod.splits outcome.splits)
  obtain l w1 where l: "icode i v d w = (l, w1)" "l w1 = (Fulfilled x, w2)"
    using r(1) by (auto simp: run_def split: prod.splits)
  have "\<forall>n\<in>set (ineeds i). given all ?s own n \<noteq> None"
    using Cons.prems(1,2) by (auto simp: j given_def loaded_def list_all_iff map_of_eq_None_iff)
  then have "opens v all (?s, w) (?s\<lparr>waiting := [] @ js, pending := pending ?s @ [((own, iname i), l)]\<rparr>, w1)"
    by (intro opens.start [OF _ _ l(1) [unfolded d_def]]) (simp_all add: loaded_def j)
  moreover have "opens v all (?s\<lparr>waiting := [] @ js, pending := pending ?s @ [((own, iname i), l)]\<rparr>, w1)
      (loaded js (ks @ [(key j, x)]), w2)"
    using opens.fulfil [of "?s\<lparr>waiting := js, pending := [((own, iname i), l)]\<rparr>" "[]" "(own, iname i)" l "[]"
        w1 x w2 v all] l(2)
    by (simp add: loaded_def j key_def)
  moreover have "(opens v all)\<^sup>*\<^sup>* (loaded js (ks @ [(key j, x)]), w2) (loaded [] ks', w')"
    by (rule Cons.IH [of "key j # seen"]) (use Cons.prems(1,2) r(2) in auto)
  ultimately show ?case by (meson converse_rtranclp_into_rtranclp)
qed simp

lemma load_page_opened:
  "startable js \<Longrightarrow> load_page v js js [] w = Some (ks, w') \<Longrightarrow> opened v js w (loaded [] ks) w'"
  using load_page_opens [of js "[]" js "[]"] by (simp add: startable_def opened_def closed_page_def loaded_def)

text \<open>An example: the list of ASNs, opened by a user who is known already.\<close>

definition example_visit :: visit where
  "example_visit = \<lparr>stateParams = [], localNow = ''2018-01-02 03:04:05'', utcNow = ''2018-01-02 03:04:05''\<rparr>"

definition example_portal :: world where
  "example_portal = (start_world accept_all close_all)\<lparr>userLoaded := True\<rparr>"

definition example_page :: "job list" where
  "example_page = page_jobs portal_states (sname state_asns_list)"

section \<open>What a page asks for\<close>

text \<open>For the pages whose functions take only the parameters of the URL: the calls that fetch their data.\<close>

definition page_fetches :: "(ui_state \<times> (visit \<Rightarrow> call list)) list" where
  "page_fetches =
    [(state_asns_edit, \<lambda>v. [RGet [One ''asns'' (param v ''asnId'')] JUndef]),
     (state_asns_list, \<lambda>_. [RGetList [All ''asns''] JUndef]),
     (state_cacheGroups_asns, \<lambda>v. [RGet [One ''cachegroups'' (param v ''cacheGroupId'')] JUndef,
        RGetList [All ''asns''] (JObj [(''cachegroup'', param v ''cacheGroupId'')])]),
     (state_cacheGroups_edit, \<lambda>v. [RGet [One ''cachegroups'' (param v ''cacheGroupId'')] JUndef]),
     (state_cacheGroups_list, \<lambda>_. [RGetList [All ''cachegroups''] JUndef]),
     (state_cacheGroups_parameters, \<lambda>v. [RGet [One ''cachegroups'' (param v ''cacheGroupId'')] JUndef,
        RGetList [One ''cachegroups'' (param v ''cacheGroupId''), All ''parameters''] JUndef]),
     (state_cacheGroups_servers, \<lambda>v. [RGet [One ''cachegroups'' (param v ''cacheGroupId'')] JUndef,
        RGetList [All ''servers''] (JObj [(''cachegroup'', param v ''cacheGroupId''), (''orderby'', JStr ''hostName'')])]),
     (state_cdns_deliveryServices, \<lambda>v. [RGet [One ''cdns'' (param v ''cdnId'')] JUndef,
        RGetList [All ''deliveryservices''] (JObj [(''cdn'', param v ''cdnId'')])]),
     (state_cdns_edit, \<lambda>v. [RGet [One ''cdns'' (param v ''cdnId'')] JUndef]),
     (state_cdns_federations_new, \<lambda>v. [RGet [One ''cdns'' (param v ''cdnId'')] JUndef,
        RGetList [All ''users''] (JObj []),
        RGetList [All ''deliveryservices''] (JObj [(''cdn'', param v ''cdnId'')])]),
     (state_cdns_profiles, \<lambda>v. [RGet [One ''cdns'' (param v ''cdnId'')] JUndef,
        RGetList [All ''profiles''] (JObj [(''cdn'', param v ''cdnId'')])]),
     (state_cdns_servers, \<lambda>v. [RGet [One ''cdns'' (param v ''cdnId'')] JUndef,
        RGetList [All ''servers''] (JObj [(''cdn'', param v ''cdnId''), (''orderby'', JStr ''hostName'')])]),
     (state_deliveryServiceRequests_list, \<lambda>_. [RGetList [All ''deliveryservice_requests''] JUndef]),
     (state_deliveryServices_clone, \<lambda>v. [RGet [One ''deliveryservices'' (param v ''deliveryServiceId'')] JUndef,
        RGetList [All ''types''] (JObj [(''useInTable'', JStr ''deliveryservice'')])]),
     (state_deliveryServices_edit, \<lambda>v. [RGet [One ''deliveryservices'' (param v ''deliveryServiceId'')] JUndef,
        RGetList [All ''types''] (JObj [(''useInTable'', JStr ''deliveryservice'')])]),
     (state_deliveryServices_jobs_list, \<lambda>v. [RGet [One ''deliveryservices'' (param v ''deliveryServiceId'')] JUndef,
        RGetList [All ''jobs''] (JObj [(''dsId'', param v ''deliveryServiceId'')])]),
     (state_deliveryServices_jobs_new, \<lambda>v. [RGet [One ''deliveryservices'' (param v ''deliveryServiceId'')] JUndef]),
     (state_deliveryServices_list, \<lambda>_. [RGetList [All ''deliveryservices''] JUndef]),
     (state_deliveryServices_regexes_edit, \<lambda>v. [RGet [One ''deliveryservices'' (param v ''deliveryServiceId'')] JUndef,
        RGet [One ''deliveryservices'' (param v ''deliveryServiceId''), One ''regexes'' (param v ''regexId'')] JUndef]),
     (state_deliveryServices_regexes_list, \<lambda>v. [RGet [One ''deliveryservices'' (param v ''deliveryServiceId'')] JUndef,
        RGetList [One ''deliveryservices'' (param v ''deliveryServiceId''), All ''regexes''] JUndef]),
     (state_deliveryServices_regexes_new, \<lambda>v. [RGet [One ''deliveryservices'' (param v ''deliveryServiceId'')] JUndef]),
     (state_deliveryServices_servers, \<lambda>v. [RGet [One ''deliveryservices'' (param v ''deliveryServiceId'')] JUndef,
        RGetList [One ''deliveryservices'' (param v ''deliveryServiceId''), All ''servers''] JUndef]),
     (state_deliveryServices_staticDnsEntries, \<lambda>v. [RGet [One ''deliveryservices'' (param v ''deliveryServiceId'')] JUndef,
        RGetList [All ''staticdnsentries''] (param v ''deliveryServiceId'')]),
     (state_deliveryServices_targets_edit, \<lambda>v. [RGet [One ''deliveryservices'' (param v ''deliveryServiceId'')] JUndef,
        RGet [One ''steering'' (param v ''deliveryServiceId''), One ''targets'' (param v ''targetId'')] JUndef]),
     (state_deliveryServices_targets_list, \<lambda>v. [RGet [One ''deliveryservices'' (param v ''deliveryServiceId'')] JUndef,
        RGetList [One ''steering'' (param v ''deliveryServiceId''), All ''targets''] JUndef]),
     (state_deliveryServices_users, \<lambda>v. [RGet [One ''deliveryservices'' (param v ''deliveryServiceId'')] JUndef,
        RGetList [All ''users''] JUndef]),
     (state_divisions_edit, \<lambda>v. [RGet [One ''divisions'' (param v ''divisionId'')] JUndef]),
     (state_divisions_list, \<lambda>_. [RGetList [All ''divisions''] JUndef]),
     (state_divisions_regions, \<lambda>v. [RGet [One ''divisions'' (param v ''divisionId'')] JUndef,
        RGetList [All ''regions''] (JObj [(''division'', param v ''divisionId'')])]),
     (state_jobs_list, \<lambda>_. [RGetList [All ''jobs''] JUndef]),
     (state_parameters_cacheGroups, \<lambda>v. [RGet [One ''parameters'' (param v ''parameterId'')] JUndef,
        RGetList [One ''parameters'' (param v ''parameterId''), All ''cachegroups''] JUndef]),
     (state_parameters_edit, \<lambda>v. [RGet [One ''parameters'' (param v ''parameterId'')] JUndef]),
     (state_parameters_list, \<lambda>_. [RGetList [All ''parameters''] JUndef]),
     (state_parameters_profiles, \<lambda>v. [RGet [One ''parameters'' (param v ''parameterId'')] JUndef,
        RGetList [One ''parameters'' (param v ''parameterId''), All ''profiles''] JUndef]),
     (state_physLocations_edit, \<lambda>v. [RGet [One ''phys_locations'' (param v ''physLocationId'')] JUndef]),
     (state_physLocations_list, \<lambda>_. [RGetList [All ''phys_locations''] JUndef]),
     (state_physLocations_servers, \<lambda>v. [RGet [One ''phys_locations'' (param v ''physLocationId'')] JUndef,
        RGetList [All ''servers''] (JObj [(''physLocation'', param v ''physLocationId''), (''orderby'', JStr ''hostName'')])]),
     (state_profiles_deliveryServices, \<lambda>v. [RGet [One ''profiles'' (param v ''profileId'')] JUndef,
        RGetList [All ''deliveryservices''] (JObj [(''profile'', param v ''profileId'')])]),
     (state_profiles_edit, \<lambda>v. [RGet [One ''profiles'' (param v ''profileId'')] JUndef]),
     (state_profiles_list, \<lambda>_. [RGetList [All ''profiles''] JUndef]),
     (state_profiles_parameters, \<lambda>v. [RGet [One ''profiles'' (param v ''profileId'')] JUndef,
        RGetList [One ''profiles'' (param v ''profileId''), All ''parameters''] JUndef]),
     (state_profiles_servers, \<lambda>v. [RGet [One ''profiles'' (param v ''profileId'')] JUndef,
        RGetList [All ''servers''] (JObj [(''profileId'', param v ''profileId''), (''orderby'', JStr ''hostName'')])]),
     (state_regions_edit, \<lambda>v. [RGet [One ''regions'' (param v ''regionId'')] JUndef]),
     (state_regions_list, \<lambda>_. [RGetList [All ''regions''] JUndef]),
     (state_regions_physLocations, \<lambda>v. [RGet [One ''regions'' (param v ''regionId'')] JUndef,
        RGetList [All ''phys_locations''] (JObj [(''region'', param v ''regionId'')])]),
     (state_servers_deliveryServices, \<lambda>v. [RGet [One ''servers'' (param v ''serverId'')] JUndef,
        RGetList [One ''servers'' (param v ''serverId''), All ''deliveryservices''] JUndef]),
     (state_servers_edit, \<lambda>v. [RGet [One ''servers'' (param v ''serverId'')] JUndef]),
     (state_servers_list, \<lambda>_. [RGetList [All ''servers''] (JObj [(''orderby'', JStr ''hostName'')])]),
     (state_staticDnsEntries, \<lambda>v. [RGet [One ''cachegroups'' (param v ''cacheGroupId'')] JUndef,
        RGetList [All ''staticdnsentries''] (JObj [(''cachegroup'', param v ''cacheGroupId'')])]),
     (state_statuses_edit, \<lambda>v. [RGet [One ''statuses'' (param v ''statusId'')] JUndef]),
     (state_statuses_list, \<lambda>_. [RGetList [All ''statuses''] JUndef]),
     (state_tenants_edit, \<lambda>v. [RGet [One ''tenants'' (param v ''tenantId'')] JUndef]),
     (state_tenants_list, \<lambda>_. [RGetList [All ''tenants''] JUndef]),
     (state_types_cacheGroups, \<lambda>v. [RGet [One ''types'' (param v ''typeId'')] JUndef,
        RGetList [All ''cachegroups''] (JObj [(''type'', param v ''typeId'')])]),
     (state_types_deliveryServices, \<lambda>v. [RGet [One ''types'' (param v ''typeId'')] JUndef,
        RGetList [All ''deliveryservices''] (JObj [(''type'', param v ''typeId'')])]),
     (state_types_edit, \<lambda>v. [RGet [One ''types'' (param v ''typeId'')] JUndef]),
     (state_types_list, \<lambda>_. [RGetList [All ''types''] JUndef]),
     (state_users_deliveryServices, \<lambda>v. [RGet [One ''users'' (param v ''userId'')] JUndef,
        RGetList [One ''users'' (param v ''userId''), All ''deliveryservices''] JUndef,
        RGetList [All ''parameters''] (JObj [(''name'', JStr ''use_tenancy''), (''configFile'', JStr ''global'')])]),
     (state_users_edit, \<lambda>v. [RGet [One ''users'' (param v ''userId'')] JUndef]),
     (state_users_list, \<lambda>_. [RGetList [All ''users''] JUndef])]"

text \<open>The calls every page makes, for the portal itself and the user.\<close>

definition housekeeping :: "string \<Rightarrow> call \<Rightarrow> bool" where
  "housekeeping root c \<longleftrightarrow>
     c = HGet ''traffic_portal_properties.json'' JUndef \<or> c = HGet (root @ ''user/current'') JUndef \<or>
     (\<exists>t. c = HPost (root @ ''user/login/token'') (JObj [(''t'', JStr t)]))"

definition asks_only :: "string \<Rightarrow> call list \<Rightarrow> call \<Rightarrow> bool" where
  "asks_only root cs c \<longleftrightarrow> housekeeping root c \<or> c \<in> set cs"

lemma asks_only_simps [simp]:
  "asks_only root cs (HGet ''traffic_portal_properties.json'' JUndef)"
  "asks_only root cs (HGet (root @ ''user/current'') JUndef)"
  "asks_only root cs (HPost (root @ ''user/login/token'') (JObj [(''t'', JStr t)]))"
  by (simp_all add: asks_only_def housekeeping_def)

lemmas lineage_facts = lineages [unfolded lineages_def list.pred_inject prod.case simp_thms, unfolded snames]

lemmas unfold_page = page_jobs_def lineage_facts list.map concat.simps append.simps

definition keeps_jobs :: "string \<Rightarrow> (visit \<Rightarrow> call list) \<Rightarrow> ui_state \<Rightarrow> bool" where
  "keeps_jobs root asks t =
     (\<forall>v. list_all (\<lambda>j. \<forall>d. keeps (calls_only root (asks_only root (asks v))) (icode (snd j) v d)) (jobs_of t))"

definition starts_jobs :: "(visit \<Rightarrow> call list) \<Rightarrow> ui_state \<Rightarrow> bool" where
  "starts_jobs asks t =
     (\<forall>v. list_all (\<lambda>c. list_ex (\<lambda>j. \<forall>d w. sent (snd (icode (snd j) v d w)) = sent w @ [c]) (jobs_of t)) (asks v))"

lemma sent_rest_get: "sent (snd (rest_get p q w)) = sent w @ [RGet p q]"
  and sent_rest_getList: "sent (snd (rest_getList p q w)) = sent w @ [RGetList p q]"
  using makes_rest by (simp_all add: makes_def)

lemmas job_simps = jobs_of_def ui_state.sel ui_view.sel list.pred_inject list.map concat.simps append.simps
  snd_conv input.sel

lemma asks_own: "list_all (\<lambda>(t, asks). keeps_jobs root asks t) page_fetches"
  unfolding page_fetches_def list.pred_inject prod.case keeps_jobs_def state_defs job_simps get_defs
  by (intro conjI allI TrueI keeps_intros calls_get; simp add: asks_only_def)

lemma starts_own: "list_all (\<lambda>(t, asks). starts_jobs asks t) page_fetches"
  unfolding page_fetches_def list.pred_inject prod.case starts_jobs_def state_defs job_simps get_defs
  by (simp add: sent_rest_get sent_rest_getList)

lemma groups_without_jobs:
  "jobs_of state_asns = []"
  "jobs_of state_cacheGroups = []"
  "jobs_of state_cdns = []"
  "jobs_of state_cdns_dnssecKeys = []"
  "jobs_of state_cdns_federations = []"
  "jobs_of state_changeLogs = []"
  "jobs_of state_deliveryServiceRequests = []"
  "jobs_of state_deliveryServices = []"
  "jobs_of state_deliveryServices_jobs = []"
  "jobs_of state_deliveryServices_regexes = []"
  "jobs_of state_deliveryServices_sslKeys = []"
  "jobs_of state_deliveryServices_targets = []"
  "jobs_of state_divisions = []"
  "jobs_of state_jobs = []"
  "jobs_of state_parameters = []"
  "jobs_of state_physLocations = []"
  "jobs_of state_profiles = []"
  "jobs_of state_regions = []"
  "jobs_of state_servers = []"
  "jobs_of state_statuses = []"
  "jobs_of state_tenants = []"
  "jobs_of state_types = []"
  "jobs_of state_user = []"
  "jobs_of state_users = []"
  "jobs_of state_public = []"
  by (simp_all only: state_defs job_simps)

lemma jobs_of_page:
  "list_all (\<lambda>(t, asks). page_jobs portal_states (sname t) =
     jobs_of state_trafficPortal @ jobs_of state_private @ jobs_of t) page_fetches"
  unfolding page_fetches_def list.pred_inject prod.case page_jobs_def snames
  by (simp only: lineage_facts list.map concat.simps groups_without_jobs append.simps append_Nil2 simp_thms
      list.pred_inject)

lemma asks_common:
  "\<forall>j\<in>set (jobs_of state_trafficPortal @ jobs_of state_private).
     keeps (calls_only root (asks_only root cs)) (icode (snd j) v d)"
  unfolding state_trafficPortal_def state_private_def job_simps
  by (auto intro!: calls_login_by_token calls_user calls_properties)

lemma page_asks:
  assumes "(t, asks) \<in> set page_fetches"
  shows "jobs_keep (calls_only root (asks_only root (asks v))) v (page_jobs portal_states (sname t))"
proof -
  have "page_jobs portal_states (sname t) = jobs_of state_trafficPortal @ jobs_of state_private @ jobs_of t"
    using jobs_of_page assms by (auto simp: list_all_iff)
  moreover have "keeps_jobs root asks t" using asks_own assms by (auto simp: list_all_iff)
  ultimately show ?thesis
    using asks_common [of root "asks v" v] by (auto simp: jobs_keep_def keeps_jobs_def list_all_iff)
qed

lemma keeps_log_grows:
  assumes "\<And>root. keeps (calls_only root (P root)) p" shows "keeps log_grows p"
  unfolding keeps_def later_keeps_def
proof (intro allI conjI)
  fix w u
  from assms show "log_grows w (snd (p w))" "log_grows u (snd (fst (p w) u))"
    unfolding keeps_def later_keeps_def calls_only_def log_grows_def prefix_def by blast+
qed

lemma page_log_grows: "jobs_keep log_grows v (page_jobs portal_states n)"
  unfolding jobs_keep_def
proof (intro ballI allI)
  fix j d assume j: "j \<in> set (page_jobs portal_states n)"
  show "keeps log_grows (icode (snd j) v d)"
    using page_jobs_keep j unfolding jobs_keep_def by (intro keeps_log_grows) blast
qed

lemma started_sent:
  assumes o: "opened v js w s w'" and grow: "jobs_keep log_grows v js" and j: "j \<in> set js"
    and c: "\<And>d u. sent (snd (icode (snd j) v d u)) = sent u @ [c]"
  shows "\<exists>cs. sent w' = sent w @ cs \<and> (j \<in> set (waiting s) \<or> c \<in> set cs)"
proof -
  have "kept_so_far log_grows v (fst t') \<and>
      (\<exists>cs. sent (snd t') = sent w @ cs \<and> (j \<in> set (waiting (fst t')) \<or> c \<in> set cs))"
    if "(opens v js)\<^sup>*\<^sup>* (closed_page js, w) t'" for t'
    using that
  proof (induction rule: rtranclp_induct)
    case base
    then show ?case using grow j by (simp add: kept_so_far_def closed_page_def)
  next
    case (step t t')
    have both: "kept_so_far log_grows v (fst t') \<and> log_grows (snd t) (snd t')"
      using opens_keeps [OF step(2)] step(3) by blast
    then have k: "kept_so_far log_grows v (fst t')" and g: "prefix (sent (snd t)) (sent (snd t'))"
      by (simp_all only: log_grows_def)
    have "j \<in> set (waiting (fst t')) \<or> sent (snd t') = sent (snd t) @ [c]" if "j \<in> set (waiting (fst t))"
      using step(2) that
    proof (cases rule: opens.cases)
      case (start s xs own i ys w l w')
      then show ?thesis using that c [of "local_data js s own" w] by (cases "j = (own, i)") auto
    qed auto
    with step(3) g k show ?case unfolding prefix_def by fastforce
  qed
  from this [of "(s, w')"] o show ?thesis by (simp add: opened_def)
qed

lemma page_fetches_states: "list_all (\<lambda>(t, asks). t \<in> set portal_states) page_fetches"
  unfolding page_fetches_def portal_states_def list.pred_inject prod.case
  by (simp only: list.set insert_iff simp_thms list.pred_inject)

lemma example_jobs:
  "example_page = jobs_of state_trafficPortal @ jobs_of state_private @ jobs_of state_asns_list"
  unfolding example_page_def page_jobs_def snames
  by (simp only: lineage_facts list.map concat.simps groups_without_jobs append.simps append_Nil2)

lemma example_calls:
  "map_option (sent \<circ> snd) (load_page example_visit example_page example_page [] example_portal) =
     Some [HGet ''traffic_portal_properties.json'' JUndef, RGetList [All ''asns''] JUndef]"
  unfolding example_jobs by code_simp

lemma example_startable: "startable example_page"
  unfolding example_page_def by (rule page_startable) (simp add: portal_states_def)

lemma example_opening:
  "\<exists>ks w'. opened example_visit example_page example_portal (loaded [] ks) w' \<and>
     sent w' = [HGet ''traffic_portal_properties.json'' JUndef, RGetList [All ''asns''] JUndef]"
  using example_calls load_page_opened [OF example_startable] by fastforce

lemma example_at_rest: "at_rest v js (loaded [] ks) w"
  by (auto simp: at_rest_def loaded_def elim: opens.cases)

lemma example_portal_fields: "sent example_portal = []" "apiRoot example_portal = ''/api/1.3/''"
  by (simp_all add: example_portal_def)

lemma opening_only_reads_witness:
  "\<exists>s w'. opened example_visit example_page example_portal s w' \<and> length (sent w') = 2 \<and>
     list_all (reading ''/api/1.3/'') (sent w')"
proof -
  obtain ks w' where o: "opened example_visit example_page example_portal (loaded [] ks) w'"
    "sent w' = [HGet ''traffic_portal_properties.json'' JUndef, RGetList [All ''asns''] JUndef]"
    using example_opening by blast
  from opening_only_reads [OF o(1) [unfolded example_page_def]]
  have "list_all (reading ''/api/1.3/'') (sent w')" by (auto simp: example_portal_fields)
  with o show ?thesis by (intro exI conjI) auto
qed

lemma page_opens_witness:
  "\<exists>ks w'. opened example_visit example_page example_portal (loaded [] ks) w' \<and>
     shows_page example_page (loaded [] ks)"
proof -
  obtain ks w' where o: "opened example_visit example_page example_portal (loaded [] ks) w'"
    using example_opening by blast
  have "state_asns_list \<in> set portal_states" by (simp add: portal_states_def)
  from page_opens [OF this o [unfolded example_page_def]] o show ?thesis
    using example_at_rest by (auto simp: example_page_def loaded_def)
qed

text \<open>For the pages whose data follow from the URL alone: an opening makes no calls but the portal's own
  and the ones listed for the page, with the parameters of the URL; and when the page is shown, each of
  those has been made.\<close>

lemma page_asks_exactly:
  assumes page: "(t, asks) \<in> set page_fetches" and o: "opened v (page_jobs portal_states (sname t)) w s w'"
  shows "\<exists>cs. sent w' = sent w @ cs \<and> list_all (asks_only (apiRoot w) (asks v)) cs \<and>
    (shows_page (page_jobs portal_states (sname t)) s \<longrightarrow> set (asks v) \<subseteq> set cs)"
proof -
  let ?js = "page_jobs portal_states (sname t)"
  from calls.loads [OF o page_asks [OF page, of "apiRoot w"]]
  obtain cs where cs: "sent w' = sent w @ cs" "list_all (asks_only (apiRoot w) (asks v)) cs"
    by (auto simp: calls_only_def)
  have t: "t \<in> set portal_states" using page_fetches_states page by (auto simp: list_all_iff)
  have "c \<in> set cs" if shown: "shows_page ?js s" and c: "c \<in> set (asks v)" for c
  proof -
    have nw: "waiting s = []" by (rule shown_all [OF o page_startable [OF t] shown])
    obtain j where j: "j \<in> set (jobs_of t)" "\<And>d u. sent (snd (icode (snd j) v d u)) = sent u @ [c]"
      using starts_own page c by (fastforce simp: starts_jobs_def list_all_iff list_ex_iff)
    then have "j \<in> set ?js" using jobs_of_page page by (auto simp: list_all_iff)
    from started_sent [OF o page_log_grows this j(2)] cs(1) nw show ?thesis by auto
  qed
  with cs show ?thesis by blast
qed

end
