(* ===== verification/Assign.thy ===== *)
theory Assign
  imports Dialogs
begin

text \<open>
  The dialogs that assign resources to each other (\<open>table/*/TableAssign*Controller.js\<close>,
  \<open>Table*UnassignedController.js\<close>): a list of rows with a \<open>selected\<close> mark, a box that marks all
  rows the table shows, and the ids handed back on submit.  Six of them work alike; the one for a
  user's delivery services keeps a list of ids of its own.

  The abstract specification of the six is a set of ids, and the dialogs refine it.
\<close>

section \<open>The marked rows\<close>

text \<open>\<open>rows\<close> are the objects of the list, \<open>picked\<close> is what \<open>updateSelectedCount\<close> stored.\<close>

record assign_dialog =
  rows :: "js list"
  picked :: "js list"

definition is_selected :: "js \<Rightarrow> bool" where
  "is_selected row \<longleftrightarrow> js_eq (fld row ''selected'') (JBool True)"

definition mark_row :: "bool \<Rightarrow> js \<Rightarrow> js" where
  "mark_row b row = set_fld row ''selected'' (JBool b)"

definition updateSelectedCount :: "assign_dialog \<Rightarrow> assign_dialog" where
  "updateSelectedCount d = d\<lparr>picked := filter is_selected (rows d)\<rparr>"

text \<open>The rows start with the mark of those already assigned; the count is updated when the
  document is ready.\<close>

definition is_assigned :: "js list \<Rightarrow> js \<Rightarrow> bool" where
  "is_assigned assigned row \<longleftrightarrow> list_ex (\<lambda>a. js_eq (fld a ''id'') (fld row ''id'')) assigned"

definition init_assign :: "js list \<Rightarrow> js list \<Rightarrow> assign_dialog" where
  "init_assign all assigned =
     updateSelectedCount
       \<lparr>rows = map (\<lambda>row. if is_assigned assigned row then mark_row True row else row) all,
        picked = []\<rparr>"

text \<open>\<open>visible\<close> are the numbers the table's rows have as their ids.\<close>

definition markVisible :: "int list \<Rightarrow> bool \<Rightarrow> assign_dialog \<Rightarrow> assign_dialog" where
  "markVisible visible b d =
     updateSelectedCount
       (d\<lparr>rows := map (\<lambda>row. case fld row ''id'' of
            JNum i \<Rightarrow> if i \<in> set visible then mark_row b row else row
          | _ \<Rightarrow> row) (rows d)\<rparr>)"

definition selectAll :: "int list \<Rightarrow> bool \<Rightarrow> assign_dialog \<Rightarrow> assign_dialog" where
  "selectAll visible checked d =
     (if checked then markVisible visible True d else markVisible visible False d)"

text \<open>The box of a row writes the row's mark and then calls \<open>onChange\<close>.\<close>

definition onChange :: "nat \<Rightarrow> bool \<Rightarrow> assign_dialog \<Rightarrow> assign_dialog" where
  "onChange k b d =
     updateSelectedCount
       (if k < length (rows d) then d\<lparr>rows := (rows d)[k := mark_row b (rows d ! k)]\<rparr> else d)"

definition submit :: "assign_dialog \<Rightarrow> js list" where
  "submit d = map (\<lambda>row. fld row ''id'') (picked d)"

section \<open>The specification: a set of ids\<close>

datatype assign_event = SelectAll "int list" bool | Change nat bool

fun assign_step :: "assign_event \<Rightarrow> assign_dialog \<Rightarrow> assign_dialog" where
  "assign_step (SelectAll visible b) d = selectAll visible b d"
| "assign_step (Change k b) d = onChange k b d"

definition assign_run :: "assign_event list \<Rightarrow> assign_dialog \<Rightarrow> assign_dialog" where
  "assign_run es d = fold assign_step es d"

text \<open>\<open>ids\<close> are the ids of the list, in its order.\<close>

fun spec_step :: "int list \<Rightarrow> assign_event \<Rightarrow> int set \<Rightarrow> int set" where
  "spec_step ids (SelectAll visible b) s =
     (if b then s \<union> (set visible \<inter> set ids) else s - set visible)"
| "spec_step ids (Change k b) s =
     (if k < length ids then (if b then insert (ids ! k) s else s - {ids ! k}) else s)"

definition spec_run :: "int list \<Rightarrow> assign_event list \<Rightarrow> int set \<Rightarrow> int set" where
  "spec_run ids es s = fold (spec_step ids) es s"

section \<open>Refinement\<close>

definition rows_of :: "int list \<Rightarrow> assign_dialog \<Rightarrow> bool" where
  "rows_of ids d \<longleftrightarrow>
     list_all is_object (rows d) \<and> map (\<lambda>row. fld row ''id'') (rows d) = map JNum ids \<and>
     picked d = filter is_selected (rows d)"

definition selected_ids :: "int list \<Rightarrow> assign_dialog \<Rightarrow> int set" where
  "selected_ids ids d = {ids ! k | k. k < length ids \<and> is_selected (rows d ! k)}"

lemma is_selected_mark [simp]: "is_object row \<Longrightarrow> is_selected (mark_row b row) = b"
  by (simp add: is_selected_def mark_row_def)

lemma mark_row_simps [simp]:
  "is_object (mark_row b row) = is_object row"
  "is_object row \<Longrightarrow> fld (mark_row b row) ''id'' = fld row ''id''"
  by (simp_all add: mark_row_def)

lemma rows_ofD:
  assumes "rows_of ids d"
  shows "length (rows d) = length ids"
    and "k < length ids \<Longrightarrow> fld (rows d ! k) ''id'' = JNum (ids ! k)"
    and "k < length ids \<Longrightarrow> is_object (rows d ! k)"
proof -
  have m: "map (\<lambda>row. fld row ''id'') (rows d) = map JNum ids" using assms by (simp add: rows_of_def)
  then show len: "length (rows d) = length ids" by (metis length_map)
  show "k < length ids \<Longrightarrow> fld (rows d ! k) ''id'' = JNum (ids ! k)" using m len by (metis nth_map)
  show "k < length ids \<Longrightarrow> is_object (rows d ! k)"
    using assms len by (simp add: rows_of_def list_all_length)
qed

lemma rows_of_intro:
  assumes "length (rows d) = length ids"
    and "\<And>k. k < length ids \<Longrightarrow> fld (rows d ! k) ''id'' = JNum (ids ! k) \<and> is_object (rows d ! k)"
    and "picked d = filter is_selected (rows d)"
  shows "rows_of ids d"
  unfolding rows_of_def using assms by (auto simp: list_all_length intro!: nth_equalityI)

lemma markVisible_nth:
  assumes "rows_of ids d" "k < length ids"
  shows "rows (markVisible visible b d) ! k =
    (if ids ! k \<in> set visible then mark_row b (rows d ! k) else rows d ! k)"
  using assms rows_ofD [OF assms(1)] by (simp add: markVisible_def updateSelectedCount_def)

lemma rows_of_step: "rows_of ids d \<Longrightarrow> rows_of ids (assign_step e d)"
proof (cases e)
  case (SelectAll visible b)
  assume r: "rows_of ids d"
  have "rows_of ids (markVisible visible b d)" for b
  proof (rule rows_of_intro)
    show "length (rows (markVisible visible b d)) = length ids"
      using rows_ofD [OF r] by (simp add: markVisible_def updateSelectedCount_def)
    show "picked (markVisible visible b d) = filter is_selected (rows (markVisible visible b d))"
      by (simp add: markVisible_def updateSelectedCount_def)
  qed (simp add: markVisible_nth [OF r] rows_ofD [OF r])
  then show ?thesis using SelectAll by (simp add: selectAll_def)
next
  case (Change k b)
  assume r: "rows_of ids d"
  show ?thesis unfolding Change assign_step.simps
    by (rule rows_of_intro)
       (use rows_ofD [OF r] in \<open>auto simp: onChange_def updateSelectedCount_def nth_list_update\<close>)
qed

lemma selected_nth:
  "distinct ids \<Longrightarrow> k < length ids \<Longrightarrow> ids ! k \<in> selected_ids ids d \<longleftrightarrow> is_selected (rows d ! k)"
  by (auto simp: selected_ids_def nth_eq_iff_index_eq)

lemma selected_sub: "selected_ids ids d \<subseteq> set ids"
  by (auto simp: selected_ids_def)

lemma spec_step_sub: "s \<subseteq> set ids \<Longrightarrow> spec_step ids e s \<subseteq> set ids"
  by (cases e) auto

lemma selected_step:
  assumes r: "rows_of ids d" and dis: "distinct ids"
  shows "selected_ids ids (assign_step e d) = spec_step ids e (selected_ids ids d)"
proof (rule set_eqI)
  fix x
  show "x \<in> selected_ids ids (assign_step e d) \<longleftrightarrow> x \<in> spec_step ids e (selected_ids ids d)"
  proof (cases "x \<in> set ids")
    case False
    then show ?thesis using selected_sub spec_step_sub [OF selected_sub] by blast
  next
    case True
    then obtain k where k: "k < length ids" "x = ids ! k" by (auto simp: in_set_conv_nth)
    show ?thesis
    proof (cases e)
      case (SelectAll visible b)
      have "is_selected (rows (markVisible visible c d) ! k) =
          (if ids ! k \<in> set visible then c else is_selected (rows d ! k))" for c
        using k rows_ofD [OF r] by (simp add: markVisible_nth [OF r])
      then show ?thesis
        using k True by (simp add: SelectAll selectAll_def selected_nth [OF dis])
    next
      case (Change j b)
      have "is_selected (rows (onChange j b d) ! k) = (if k = j then b else is_selected (rows d ! k))"
        using k rows_ofD [OF r] by (simp add: onChange_def updateSelectedCount_def nth_list_update)
      then show ?thesis
        using k dis by (auto simp: Change selected_nth [OF dis] nth_eq_iff_index_eq)
    qed
  qed
qed

lemma rows_of_run: "rows_of ids d \<Longrightarrow> rows_of ids (assign_run es d)"
  unfolding assign_run_def by (induction es arbitrary: d) (auto simp: rows_of_step)

lemma selected_run:
  "rows_of ids d \<Longrightarrow> distinct ids \<Longrightarrow>
     selected_ids ids (assign_run es d) = spec_run ids es (selected_ids ids d)"
  unfolding assign_run_def spec_run_def
  by (induction es arbitrary: d) (auto simp: rows_of_step selected_step)

lemma submit_selected:
  assumes "rows_of ids d"
  shows "set (submit d) = JNum ` selected_ids ids d"
proof -
  have "set (submit d) = (\<lambda>row. fld row ''id'') ` set (filter is_selected (rows d))"
    using assms by (simp add: submit_def rows_of_def)
  also have "\<dots> = (\<lambda>k. fld (rows d ! k) ''id'') ` {k. k < length ids \<and> is_selected (rows d ! k)}"
    using rows_ofD(1) [OF assms] by (auto simp: in_set_conv_nth)
  also have "\<dots> = JNum ` selected_ids ids d"
    using rows_ofD(2) [OF assms] by (auto simp: selected_ids_def)
  finally show ?thesis .
qed

section \<open>The delivery services of a user (TableUserDSUnassignedController.js)\<close>

record user_dialog =
  selectedDSs :: "js list"
  selectedDeliveryServiceIds :: "js list"

definition user_init :: "js list \<Rightarrow> js list \<Rightarrow> user_dialog" where
  "user_init dss assigned =
     \<lparr>selectedDSs = map (\<lambda>ds. if is_assigned assigned ds then mark_row True ds else ds) dss,
      selectedDeliveryServiceIds = map (\<lambda>ds. fld ds ''id'') (filter (is_assigned assigned) dss)\<rparr>"

definition addDS :: "js \<Rightarrow> user_dialog \<Rightarrow> user_dialog" where
  "addDS dsId d =
     (if dsId \<in> set (selectedDeliveryServiceIds d) then d
      else d\<lparr>selectedDeliveryServiceIds := selectedDeliveryServiceIds d @ [dsId]\<rparr>)"

definition removeDS :: "js \<Rightarrow> user_dialog \<Rightarrow> user_dialog" where
  "removeDS dsId d =
     d\<lparr>selectedDeliveryServiceIds := filter (\<lambda>i. i \<noteq> dsId) (selectedDeliveryServiceIds d)\<rparr>"

definition markDSs :: "bool \<Rightarrow> user_dialog \<Rightarrow> user_dialog" where
  "markDSs b d = d\<lparr>selectedDSs := map (mark_row b) (selectedDSs d)\<rparr>"

definition user_selectAll :: "bool \<Rightarrow> user_dialog \<Rightarrow> user_dialog" where
  "user_selectAll checked d =
     (if checked
      then (markDSs True d)\<lparr>selectedDeliveryServiceIds := map (\<lambda>ds. fld ds ''id'') (selectedDSs d)\<rparr>
      else (markDSs False d)\<lparr>selectedDeliveryServiceIds := []\<rparr>)"

definition updateDeliveryServices :: "bool \<Rightarrow> js \<Rightarrow> user_dialog \<Rightarrow> user_dialog" where
  "updateDeliveryServices checked dsId d = (if checked then addDS dsId d else removeDS dsId d)"

definition allSelected :: "user_dialog \<Rightarrow> bool" where
  "allSelected d \<longleftrightarrow> length (selectedDSs d) = length (selectedDeliveryServiceIds d)"

datatype user_event = UserAll bool | UserBox bool js

fun user_step :: "user_event \<Rightarrow> user_dialog \<Rightarrow> user_dialog" where
  "user_step (UserAll b) d = user_selectAll b d"
| "user_step (UserBox b i) d = updateDeliveryServices b i d"

definition user_run :: "user_event list \<Rightarrow> user_dialog \<Rightarrow> user_dialog" where
  "user_run es d = fold user_step es d"

text \<open>The boxes on the page are those of the list, whose ids differ.\<close>

definition user_ok :: "js list \<Rightarrow> user_dialog \<Rightarrow> bool" where
  "user_ok ids d \<longleftrightarrow>
     list_all is_object (selectedDSs d) \<and> map (\<lambda>ds. fld ds ''id'') (selectedDSs d) = ids \<and>
     distinct (selectedDeliveryServiceIds d) \<and> set (selectedDeliveryServiceIds d) \<subseteq> set ids"

fun on_page :: "js list \<Rightarrow> user_event \<Rightarrow> bool" where
  "on_page ids (UserBox b i) = (i \<in> set ids)"
| "on_page ids (UserAll b) = True"

lemma user_ok_step: "user_ok ids d \<Longrightarrow> distinct ids \<Longrightarrow> on_page ids e \<Longrightarrow> user_ok ids (user_step e d)"
  by (cases e)
     (auto simp: user_ok_def user_selectAll_def markDSs_def updateDeliveryServices_def addDS_def
        removeDS_def list_all_iff comp_def cong: map_cong)

lemma user_ok_run:
  "user_ok ids d \<Longrightarrow> distinct ids \<Longrightarrow> list_all (on_page ids) es \<Longrightarrow> user_ok ids (user_run es d)"
  unfolding user_run_def by (induction es arbitrary: d) (auto simp: user_ok_step)

lemma user_ok_all:
  assumes "user_ok ids d" "distinct ids"
  shows "allSelected d \<longleftrightarrow> set (selectedDeliveryServiceIds d) = set ids"
proof -
  have len: "length (selectedDSs d) = length ids" using assms(1) by (auto simp: user_ok_def)
  have card: "card (set (selectedDeliveryServiceIds d)) = length (selectedDeliveryServiceIds d)"
    "card (set ids) = length ids"
    using assms by (simp_all add: user_ok_def distinct_card)
  show ?thesis
    using assms(1) len card unfolding allSelected_def user_ok_def
    by (metis List.finite_set card_subset_eq)
qed

section \<open>Properties\<close>

text \<open>C9. Whatever boxes are ticked, cleared or marked all at once, an assignment dialog hands back
  exactly the ids the specification has in its set.\<close>

theorem assign_refines_set:
  assumes "rows_of ids d" "distinct ids"
  shows "set (submit (assign_run es d)) = JNum ` spec_run ids es (selected_ids ids d)"
  using submit_selected [OF rows_of_run [OF assms(1)]] selected_run [OF assms] by metis

theorem assign_refines_set_witness:
  "set (submit (assign_run [Change 0 True, SelectAll [2] True]
     (init_assign [JObj [(''id'', JNum 1)], JObj [(''id'', JNum 2)]] []))) = {JNum 1, JNum 2}"
proof -
  let ?d = "init_assign [JObj [(''id'', JNum 1)], JObj [(''id'', JNum 2)]] []"
  have r: "rows_of [1, 2] ?d"
    by (simp add: rows_of_def init_assign_def updateSelectedCount_def is_assigned_def is_selected_def)
  have s: "selected_ids [1, 2] ?d = {}"
    by (auto simp: selected_ids_def init_assign_def updateSelectedCount_def is_assigned_def
        is_selected_def less_Suc_eq nth_Cons')
  have "set (submit (assign_run [Change 0 True, SelectAll [2] True] ?d)) =
      JNum ` spec_run [1, 2] [Change 0 True, SelectAll [2] True] (selected_ids [1, 2] ?d)"
    by (rule assign_refines_set [OF r]) simp
  then show ?thesis by (auto simp: s spec_run_def)
qed

text \<open>The dialog for a user's delivery services never holds an id twice or an id that is not
  listed, whatever boxes are clicked, and its box for all is ticked exactly when every id is
  held.\<close>

lemma user_dialog_ids:
  assumes "user_ok ids d" "distinct ids" "list_all (on_page ids) es"
  shows "distinct (selectedDeliveryServiceIds (user_run es d)) \<and>
    set (selectedDeliveryServiceIds (user_run es d)) \<subseteq> set ids \<and>
    (allSelected (user_run es d) \<longleftrightarrow> set (selectedDeliveryServiceIds (user_run es d)) = set ids)"
proof -
  have "user_ok ids (user_run es d)" using assms by (rule user_ok_run)
  then show ?thesis using user_ok_all [OF _ assms(2)] by (auto simp: user_ok_def)
qed

end
