(* ===== verification/Tables.thy ===== *)
theory Tables
  imports Assign DsForms
begin

text \<open>
  The tables with actions of their own (\<open>common/modules/table/*/Table*Controller.js\<close>): linking and
  unlinking resources through the assignment dialogs, queueing updates for servers, comparing and
  creating.  What a table does is one dialog or two, one call, and a reload of the page.
\<close>

section \<open>Actions of a table\<close>

text \<open>\<open>service.op(...).then(function() { $scope.refresh(); })\<close>.\<close>

definition reload_after :: "op \<Rightarrow> op" where
  "reload_after p = when_done p refresh"

text \<open>A confirmation with a title and a message, then the action.\<close>

definition confirmed :: "string \<Rightarrow> string \<Rightarrow> op \<Rightarrow> op" where
  "confirmed title msg p = on_close (dialog_confirm (message_params title msg)) (\<lambda>_. p)"

text \<open>A CDN chosen among those the service lists, then the action on its id.\<close>

definition with_cdn :: "string \<Rightarrow> (js \<Rightarrow> op) \<Rightarrow> op" where
  "with_cdn title f =
     on_close (dialog_select_from (message_params title ''Please select a CDN'') (getCDNs False))
       (\<lambda>cdn. deref cdn ''id'' f)"

section \<open>The assignment dialogs, opened from a table\<close>

text \<open>The answer of the user is what was clicked: \<open>{ visible: [...], checked: b }\<close> for the box that
  marks all the rows the table shows, \<open>{ row: k, checked: b }\<close> for the box of a row.  The dialog's
  lists are fetched before it opens; it closes with the ids of the marked rows.\<close>

definition nums :: "js list \<Rightarrow> int list" where
  "nums xs = List.map_filter (\<lambda>x. case x of JNum n \<Rightarrow> Some n | _ \<Rightarrow> None) xs"

definition click_of :: "js \<Rightarrow> assign_event option" where
  "click_of c =
     (case (fld c ''visible'', fld c ''row'') of
        (JArr xs, _) \<Rightarrow> Some (SelectAll (nums xs) (truthy (fld c ''checked'')))
      | (_, JNum k) \<Rightarrow> if 0 \<le> k then Some (Change (nat k) (truthy (fld c ''checked''))) else None
      | _ \<Rightarrow> None)"

definition clicks_of :: "js \<Rightarrow> assign_event list" where
  "clicks_of v = List.map_filter click_of (elems v)"

definition handed_back :: "js \<Rightarrow> js \<Rightarrow> js \<Rightarrow> js" where
  "handed_back all assigned clicks =
     JArr (submit (assign_run (clicks_of clicks) (init_assign (elems all) (elems assigned))))"

definition dialog_assign :: "string \<Rightarrow> js \<Rightarrow> op \<Rightarrow> js \<Rightarrow> op" where
  "dialog_assign controller owner collection assigned =
     then1 collection (\<lambda>all.
       then1 (open_modal controller owner all) (\<lambda>clicks. ret (handed_back all assigned clicks)))"


section \<open>TableServersController.js, TableCDNServersController.js, TableCacheGroupServersController.js\<close>

definition servers_queueServerUpdates :: "js \<Rightarrow> op" where
  "servers_queueServerUpdates cdnId = reload_after (queueCDNUpdates cdnId)"

definition servers_clearServerUpdates :: "js \<Rightarrow> op" where
  "servers_clearServerUpdates cdnId = reload_after (clearCDNUpdates cdnId)"

definition servers_confirmQueueServerUpdates :: op where
  "servers_confirmQueueServerUpdates = with_cdn ''Queue Server Updates'' servers_queueServerUpdates"

definition servers_confirmClearServerUpdates :: op where
  "servers_confirmClearServerUpdates = with_cdn ''Clear Server Updates'' servers_clearServerUpdates"

definition editServer :: "js \<Rightarrow> op" where
  "editServer i = navigateToPath (''/servers/'' @ to_str i)"

definition new_server_page :: op where
  "new_server_page = navigateToPath ''/servers/new''"

definition cdnServers_queue :: "js \<Rightarrow> op" where
  "cdnServers_queue cdn = reload_after (queueCDNUpdates (fld cdn ''id''))"

definition cdnServers_clear :: "js \<Rightarrow> op" where
  "cdnServers_clear cdn = reload_after (clearCDNUpdates (fld cdn ''id''))"

definition cdnServers_queueServerUpdates :: "js \<Rightarrow> op" where
  "cdnServers_queueServerUpdates cdn =
     confirmed (''Queue Server Updates: '' @ to_str (fld cdn ''name''))
       (''Are you sure you want to queue server updates for all '' @ to_str (fld cdn ''name'') @
        '' servers?'')
       (cdnServers_queue cdn)"

definition cdnServers_clearServerUpdates :: "js \<Rightarrow> op" where
  "cdnServers_clearServerUpdates cdn =
     confirmed (''Clear Server Updates: '' @ to_str (fld cdn ''name''))
       (''Are you sure you want to clear server updates for all '' @ to_str (fld cdn ''name'') @
        '' servers?'')
       (cdnServers_clear cdn)"

definition cgServers_queueServerUpdates :: "js \<Rightarrow> js \<Rightarrow> op" where
  "cgServers_queueServerUpdates cacheGroup cdnId =
     reload_after (queueCacheGroupUpdates (fld cacheGroup ''id'') cdnId)"

definition cgServers_clearServerUpdates :: "js \<Rightarrow> js \<Rightarrow> op" where
  "cgServers_clearServerUpdates cacheGroup cdnId =
     reload_after (clearCacheGroupUpdates (fld cacheGroup ''id'') cdnId)"

definition cgServers_confirmQueueServerUpdates :: "js \<Rightarrow> op" where
  "cgServers_confirmQueueServerUpdates cacheGroup =
     with_cdn (''Queue Server Updates: '' @ to_str (fld cacheGroup ''name''))
       (cgServers_queueServerUpdates cacheGroup)"

definition cgServers_confirmClearServerUpdates :: "js \<Rightarrow> op" where
  "cgServers_confirmClearServerUpdates cacheGroup =
     with_cdn (''Clear Server Updates: '' @ to_str (fld cacheGroup ''name''))
       (cgServers_clearServerUpdates cacheGroup)"

section \<open>TableDeliveryServicesController.js, TableProfilesController.js\<close>

text \<open>\<open>deliveryServiceUtils.protocols[ds.protocol]\<close> and \<open>qstrings[ds.qstringIgnore]\<close>
  (DeliveryServiceUtils.js): the key is the text of the value.\<close>

definition ds_protocols :: "(string \<times> js) list" where
  "ds_protocols = [(''0'', JStr ''HTTP''), (''1'', JStr ''HTTPS''), (''2'', JStr ''HTTP AND HTTPS''),
     (''3'', JStr ''HTTP TO HTTPS'')]"

definition ds_qstrings :: "(string \<times> js) list" where
  "ds_qstrings = [(''0'', JStr ''USE''), (''1'', JStr ''IGNORE''), (''2'', JStr ''DROP'')]"

definition protocol_of :: "js \<Rightarrow> js" where
  "protocol_of ds = lookup (to_str (fld ds ''protocol'')) ds_protocols"

definition qstring_of :: "js \<Rightarrow> js" where
  "qstring_of ds = lookup (to_str (fld ds ''qstringIgnore'')) ds_qstrings"

definition table_createDeliveryService :: "js \<Rightarrow> op" where
  "table_createDeliveryService typeName =
     navigateToPath (''/delivery-services/new?type='' @ to_str typeName)"

definition table_editDeliveryService :: "js \<Rightarrow> op" where
  "table_editDeliveryService ds =
     navigateToPath (''/delivery-services/'' @ to_str (fld ds ''id'') @ ''?type='' @
       to_str (fld ds ''type''))"

definition selectDSType :: op where
  "selectDSType =
     on_close (dialog_select (message_params ''Create Delivery Service''
         ''Please select a content routing category'') routing_categories)
       (\<lambda>type. deref type ''name'' table_createDeliveryService)"

text \<open>Two items of the collection, compared on a page below the list.\<close>

fun nth_elem :: "js \<Rightarrow> nat \<Rightarrow> js" where
  "nth_elem (JArr xs) k = (if k < length xs then xs ! k else JUndef)"
| "nth_elem _ k = JUndef"

definition compare_two :: "js \<Rightarrow> op" where
  "compare_two items =
     deref (nth_elem items 0) ''id'' (\<lambda>a. deref (nth_elem items 1) ''id'' (\<lambda>b.
       eff (append_path (''/compare/'' @ to_str a @ ''/'' @ to_str b))))"

definition compareDSs :: op where
  "compareDSs =
     on_close (dialog_compare (set_fld (message_params ''Compare Delivery Services''
         ''Please select 2 delivery services to compare'') ''label'' (JStr ''xmlId''))
         (getDeliveryServices JUndef))
       compare_two"

definition compareProfiles :: op where
  "compareProfiles =
     on_close (dialog_compare (message_params ''Compare Profile Parameters''
         ''Please select 2 profiles to compare parameters'') (getProfiles JUndef))
       compare_two"

definition editProfile :: "js \<Rightarrow> op" where
  "editProfile i = navigateToPath (''/profiles/'' @ to_str i)"

definition new_profile_page :: op where
  "new_profile_page = navigateToPath ''/profiles/new''"

definition table_importProfile :: "(string \<Rightarrow> js option) \<Rightarrow> op" where
  "table_importProfile parse =
     on_close (dialog_import parse (message_params ''Import Profile'' ''Drop Profile Here''))
       (\<lambda>importJSON. detach (importProfile importJSON))"


section \<open>TableServerDeliveryServicesController.js, TableDeliveryServiceServersController.js\<close>

definition server_removeDeliveryService :: "js \<Rightarrow> js \<Rightarrow> op" where
  "server_removeDeliveryService server dsId =
     reload_after (deleteDeliveryServiceServer dsId (fld server ''id''))"

definition confirmRemoveDS :: "js \<Rightarrow> js \<Rightarrow> op" where
  "confirmRemoveDS server ds =
     confirmed ''Remove Delivery Service from Server?''
       (''Are you sure you want to remove '' @ to_str (fld ds ''xmlId'') @ '' from this server?'')
       (server_removeDeliveryService server (fld ds ''id''))"

definition clone_message :: "js list \<Rightarrow> string" where
  "clone_message serverDeliveryServices =
     ''Please select an edge cache to assign these '' @
     show_nat (length serverDeliveryServices) @
     '' delivery services to.<br><br>Warning - Any delivery services currently assigned to the selected edge cache will be lost and replaced with these delivery service assignments...''"

text \<open>The page of the chosen server is shown whether or not the assignment was accepted: the
  promise of the service is fulfilled either way.\<close>

definition cloneDsAssignments :: "js list \<Rightarrow> op" where
  "cloneDsAssignments serverDeliveryServices =
     on_close (dialog_select_from
         (message_params ''Clone Delivery Service Assignments'' (clone_message serverDeliveryServices))
         (getServers (JObj [(''type'', JStr ''EDGE''), (''orderby'', JStr ''hostName'')])))
       (\<lambda>selectedServer. deref selectedServer ''id'' (\<lambda>i.
          when_done
            (assignDeliveryServices selectedServer
               (JArr (map (\<lambda>ds. fld ds ''id'') serverDeliveryServices)) True True)
            (navigateToPath (''/servers/'' @ to_str i @ ''/delivery-services''))))"

definition server_selectDeliveryServices :: "js \<Rightarrow> js \<Rightarrow> op" where
  "server_selectDeliveryServices server serverDeliveryServices =
     on_close (dialog_assign ''TableAssignDeliveryServicesController'' server
         (getDeliveryServices (JObj [(''cdn'', fld server ''cdnId'')])) serverDeliveryServices)
       (\<lambda>selectedDsIds. reload_after (assignDeliveryServices server selectedDsIds True False))"

definition ds_removeServer :: "js \<Rightarrow> js \<Rightarrow> op" where
  "ds_removeServer deliveryService serverId =
     reload_after (deleteDeliveryServiceServer (fld deliveryService ''id'') serverId)"

definition confirmRemoveServer :: "js \<Rightarrow> js \<Rightarrow> op" where
  "confirmRemoveServer deliveryService server =
     confirmed ''Remove Server from Delivery Service?''
       (''Are you sure you want to remove '' @ to_str (fld server ''hostName'') @
        '' from this delivery service?'')
       (ds_removeServer deliveryService (fld server ''id''))"

definition selectServers :: "js \<Rightarrow> js \<Rightarrow> op" where
  "selectServers deliveryService servers =
     on_close (dialog_assign ''TableAssignDSServersController'' deliveryService
         (getEligibleDeliveryServiceServers (fld deliveryService ''id'')) servers)
       (\<lambda>selectedServerIds. reload_after
          (assignDeliveryServiceServers (fld deliveryService ''id'') selectedServerIds))"

section \<open>TableUserDeliveryServicesController.js\<close>

definition user_removeDS :: "js \<Rightarrow> js \<Rightarrow> op" where
  "user_removeDS user dsId = reload_after (deleteUserDeliveryService (fld user ''id'') dsId)"

text \<open>This dialog keeps ids of its own: \<open>{ all: b }\<close> is its box for all, \<open>{ id: i, checked: b }\<close>
  the box of a delivery service.\<close>

definition user_click_of :: "js \<Rightarrow> user_event" where
  "user_click_of c =
     (if fld c ''all'' \<noteq> JUndef then UserAll (truthy (fld c ''all''))
      else UserBox (truthy (fld c ''checked'')) (fld c ''id''))"

definition dialog_userDSs :: "js \<Rightarrow> js \<Rightarrow> op" where
  "dialog_userDSs user userDeliveryServices =
     then1 (getDeliveryServices JUndef) (\<lambda>all.
       then1 (open_modal ''TableUserDSUnassignedController'' user all)
         (\<lambda>clicks. ret (JArr (selectedDeliveryServiceIds
            (user_run (map user_click_of (elems clicks))
               (user_init (elems all) (elems userDeliveryServices)))))))"

definition selectDSs :: "js \<Rightarrow> js \<Rightarrow> op" where
  "selectDSs user userDeliveryServices =
     on_close (dialog_userDSs user userDeliveryServices)
       (\<lambda>selectedDSIds. reload_after (assignUserDeliveryServices (fld user ''id'') selectedDSIds))"

section \<open>TableCacheGroupParametersController.js, TableCacheGroupParamsUnassignedController.js\<close>

definition addParam :: "js \<Rightarrow> js list \<Rightarrow> js list" where
  "addParam paramId selectedParams =
     (if paramId \<in> set selectedParams then selectedParams else selectedParams @ [paramId])"

definition removeParam :: "js \<Rightarrow> js list \<Rightarrow> js list" where
  "removeParam paramId selectedParams = filter (\<lambda>i. i \<noteq> paramId) selectedParams"

definition updateParams :: "js \<Rightarrow> js list \<Rightarrow> js list" where
  "updateParams click selectedParams =
     (if truthy (fld click ''checked'') then addParam (fld click ''id'') selectedParams
      else removeParam (fld click ''id'') selectedParams)"

definition dialog_cgParams :: "js \<Rightarrow> op" where
  "dialog_cgParams cg =
     then1 (getCacheGroupUnassignedParams (fld cg ''id'')) (\<lambda>parameters.
       then1 (open_modal ''TableCacheGroupParamsUnassignedController'' cg parameters)
         (\<lambda>clicks. ret (JArr (fold updateParams (elems clicks) []))))"

definition cg_removeParameter :: "js \<Rightarrow> js \<Rightarrow> op" where
  "cg_removeParameter cacheGroup paramId =
     reload_after (unlinkCacheGroupParameter (fld cacheGroup ''id'') paramId)"

definition massagedArray :: "js \<Rightarrow> js \<Rightarrow> js" where
  "massagedArray cacheGroup selectedParams =
     JArr (map (\<lambda>p. JObj [(''cacheGroupId'', fld cacheGroup ''id''), (''parameterId'', p)])
       (elems selectedParams))"

definition cg_selectParams :: "js \<Rightarrow> op" where
  "cg_selectParams cacheGroup =
     on_close (dialog_cgParams cacheGroup)
       (\<lambda>selectedParams. reload_after
          (linkCacheGroupParameters (massagedArray cacheGroup selectedParams)))"


section \<open>TableProfileParametersController.js, TableParameterProfilesController.js\<close>

text \<open>A profile is used by delivery services or by servers; the question says how many use it,
  which is fetched first.\<close>

definition is_ds_profile :: "js \<Rightarrow> bool" where
  "is_ds_profile profile \<longleftrightarrow> js_eq (fld profile ''type'') (JStr ''DS_PROFILE'')"

definition users_of_profile :: "js \<Rightarrow> op" where
  "users_of_profile profile =
     (if is_ds_profile profile then getDeliveryServices (JObj [(''profile'', fld profile ''id'')])
      else getServers (JObj [(''profileId'', fld profile ''id'')]))"

definition used_by :: "js \<Rightarrow> js \<Rightarrow> string" where
  "used_by profile n =
     ''The '' @ to_str (fld profile ''name'') @ '' profile is used by '' @ to_str n @
     (if is_ds_profile profile then '' delivery service(s)'' else '' server(s)'') @ ''. ''"

definition remove_message :: "js \<Rightarrow> js \<Rightarrow> js \<Rightarrow> string" where
  "remove_message profile parameter n =
     used_by profile n @ ''Are you sure you want to remove the '' @ to_str (fld parameter ''name'') @
     '' parameter from this profile?''"

definition profile_removeParameter :: "js \<Rightarrow> js \<Rightarrow> op" where
  "profile_removeParameter profile paramId =
     reload_after (unlinkProfileParameter (fld profile ''id'') paramId)"

definition profile_linkParameters :: "js \<Rightarrow> js \<Rightarrow> op" where
  "profile_linkParameters profile paramIds =
     reload_after (linkProfileParameters (fld profile ''id'') paramIds)"

definition confirmRemoveParam :: "js \<Rightarrow> js \<Rightarrow> op" where
  "confirmRemoveParam profile parameter =
     when_result (users_of_profile profile) (\<lambda>result. deref result ''length'' (\<lambda>n.
       confirmed ''Remove Parameter from Profile?'' (remove_message profile parameter n)
         (profile_removeParameter profile (fld parameter ''id''))))"

definition profile_selectParams :: "js \<Rightarrow> js \<Rightarrow> op" where
  "profile_selectParams profile profileParameters =
     on_close (dialog_assign ''TableProfileParamsUnassignedController'' profile
         (getParameters JUndef) profileParameters)
       (\<lambda>selectedParamIds.
          when_result (users_of_profile profile) (\<lambda>result. deref result ''length'' (\<lambda>n.
            confirmed (''Modify '' @ to_str (fld profile ''name'') @ '' parameters'')
              (used_by profile n @ ''Are you sure you want to modify the parameters?'')
              (profile_linkParameters profile selectedParamIds))))"

definition param_removeProfile :: "js \<Rightarrow> js \<Rightarrow> op" where
  "param_removeProfile parameter profileId =
     reload_after (unlinkProfileParameter profileId (fld parameter ''id''))"

definition confirmRemoveProfile :: "js \<Rightarrow> js \<Rightarrow> op" where
  "confirmRemoveProfile parameter profile =
     when_result (users_of_profile profile) (\<lambda>result. deref result ''length'' (\<lambda>n.
       confirmed ''Remove Parameter from Profile?'' (remove_message profile parameter n)
         (param_removeProfile parameter (fld profile ''id''))))"

definition param_selectProfiles :: "js \<Rightarrow> js \<Rightarrow> op" where
  "param_selectProfiles parameter parameterProfiles =
     on_close (dialog_assign ''TableParamProfilesUnassignedController'' parameter
         (getProfiles JUndef) parameterProfiles)
       (\<lambda>selectedProfileIds.
          confirmed (''Assign profiles to '' @ to_str (fld parameter ''name''))
            (''Are you sure you want to modify the profiles assigned to '' @
             to_str (fld parameter ''name'') @ ''?'')
            (reload_after (linkParamProfiles (fld parameter ''id'') selectedProfileIds)))"

section \<open>TableCDNFederationDeliveryServicesController.js, TableCDNFederationUsersController.js\<close>

definition federation_removeDS :: "js \<Rightarrow> js \<Rightarrow> op" where
  "federation_removeDS federation dsId =
     reload_after (deleteFederationDeliveryService (fld federation ''id'') dsId)"

definition federation_confirmRemoveDS :: "js \<Rightarrow> js \<Rightarrow> op" where
  "federation_confirmRemoveDS federation ds =
     confirmed ''Remove Delivery Service from Federation?''
       (''Are you sure you want to remove '' @ to_str (fld ds ''xmlId'') @ '' from this federation?'')
       (federation_removeDS federation (fld ds ''id''))"

definition federation_selectDSs :: "js \<Rightarrow> js \<Rightarrow> js \<Rightarrow> op" where
  "federation_selectDSs cdn federation deliveryServices =
     on_close (dialog_assign ''TableAssignFederationDeliveryServicesController'' federation
         (getDeliveryServices (JObj [(''cdn'', fld cdn ''id'')])) deliveryServices)
       (\<lambda>selectedDsIds. reload_after
          (assignFederationDeliveryServices (fld federation ''id'') selectedDsIds True))"

definition federation_removeUser :: "js \<Rightarrow> js \<Rightarrow> op" where
  "federation_removeUser federation userId =
     reload_after (deleteFederationUser (fld federation ''id'') userId)"

definition federation_confirmRemoveUser :: "js \<Rightarrow> js \<Rightarrow> op" where
  "federation_confirmRemoveUser federation user =
     confirmed ''Remove User from Federation?''
       (''Are you sure you want to remove '' @ to_str (fld user ''username'') @
        '' from this federation?'')
       (federation_removeUser federation (fld user ''id''))"

definition federation_selectUsers :: "js \<Rightarrow> js \<Rightarrow> op" where
  "federation_selectUsers federation users =
     on_close (dialog_assign ''TableAssignFederationUsersController'' federation (getUsers JUndef) users)
       (\<lambda>selectedUserIds. reload_after
          (assignFederationUsers (fld federation ''id'') selectedUserIds True))"

section \<open>TableServerConfigFilesController.js, TableCDNFederationsController.js\<close>

text \<open>The text of a file is fetched when its dialog opens.\<close>

definition view_config_file :: "string \<Rightarrow> string \<Rightarrow> op" where
  "view_config_file name url =
     on_close (then1 (getServerConfigFile url)
         (open_modal ''DialogTextController'' (JObj [(''title'', JStr name)])))
       (\<lambda>_. ret JUndef)"

definition new_federation_page :: op where
  "new_federation_page = eff (append_path ''/new'')"

definition editFederation :: "js \<Rightarrow> op" where
  "editFederation federation = eff (append_path (''/'' @ to_str (fld federation ''id'')))"


section \<open>What the actions send\<close>

text \<open>A mutation sends its one call and nothing else, whatever the answer.\<close>

lemma sent_fault_alerts [simp]: "sent (snd (run (fault_alerts d f) w)) = sent w"
  by (simp add: fault_alerts_def run_deref split: option.splits)

lemma sent_mutation:
  assumes "\<And>v. sent (snd (run p v)) = sent v @ [c v]"
  shows "sent (snd (run (then2 p (\<lambda>_. say t d) (fault_alerts d')) w)) = sent w @ [c w]"
proof -
  obtain r u where "run p w = (r, u)" by fastforce
  then show ?thesis using assms [of w] by (cases r) (simp_all add: run_then2)
qed

lemma sent_rest: "sent (snd (run (rest operation c) w)) = sent w @ [c]"
proof -
  obtain r u where "run (http c) w = (r, u)" by fastforce
  then show ?thesis
    using run_http_frame(1) [of c w r u]
    by (cases r) (auto simp: rest_def run_deferred split: option.splits)
qed

lemma sent_api: "sent (snd (run (api c u) w)) = sent w @ [c (apiRoot w @ u)]"
  using run_http_frame(1) by (simp add: api_def) (metis surjective_pairing)

lemma sent_reload_after [simp]: "sent (snd (run (reload_after p) w)) = sent (snd (run p w))"
  by (cases "run p w") (simp add: reload_after_def run_when_done split: outcome.splits)

lemma sent_note_digest [simp]: "sent (digest (note_asked c p x w)) = sent w"
  by simp

text \<open>A fetched list, the dialog over it, and what follows with the ids handed back.\<close>

lemma run_getList:
  assumes "srv w (sent w @ [RGetList p q]) (RGetList p q) = Ok v"
    and "responseInterceptor v ''getList'' = Some x"
  shows "run (rest_getList p q) w = (Fulfilled x, answered_ok (RGetList p q) w)"
  using assms by (simp add: rest_getList_def rest_def run_deferred run_http_Ok answered_ok_def)

lemma answered_ok_oracles [simp]:
  "ask (answered_ok c w) = ask w" "srv (answered_ok c w) = srv w" "apiRoot (answered_ok c w) = apiRoot w"
  by (simp_all add: answered_ok_def send_def)

lemma sent_after_dialog_assign:
  assumes "srv w (sent w @ [RGetList p q]) (RGetList p q) = Ok v"
    and "responseInterceptor v ''getList'' = Some all"
    and "ask w controller owner all = Close clicks"
    and "\<And>ids v. sent (snd (run (link ids) v)) = sent v @ [c ids (apiRoot v)]"
  shows "sent (snd (run (on_close (dialog_assign controller owner (rest_getList p q) assigned)
            (\<lambda>ids. reload_after (link ids))) w)) =
    sent w @ [RGetList p q, c (handed_back all assigned clicks) (apiRoot w)]"
  using assms(3)
  by (simp add: run_on_close dialog_assign_def run_then1 run_getList [OF assms(1,2)] run_open_modal assms(4))


text \<open>What the dialog hands back: the ids of the specification, started from those assigned.\<close>

definition assigned_ids :: "int list \<Rightarrow> js list \<Rightarrow> int set" where
  "assigned_ids ids assigned = {i \<in> set ids. list_ex (\<lambda>a. js_eq (fld a ''id'') (JNum i)) assigned}"

definition plain_rows :: "int list \<Rightarrow> js list \<Rightarrow> bool" where
  "plain_rows ids all \<longleftrightarrow>
     list_all (\<lambda>row. is_object row \<and> fld row ''selected'' = JUndef) all \<and>
     map (\<lambda>row. fld row ''id'') all = map JNum ids"

lemma plain_rowsD:
  assumes "plain_rows ids all"
  shows "length all = length ids"
    and "k < length ids \<Longrightarrow> fld (all ! k) ''id'' = JNum (ids ! k)"
    and "k < length ids \<Longrightarrow> is_object (all ! k) \<and> fld (all ! k) ''selected'' = JUndef"
proof -
  have m: "map (\<lambda>row. fld row ''id'') all = map JNum ids" using assms by (simp add: plain_rows_def)
  then show len: "length all = length ids" by (metis length_map)
  show "k < length ids \<Longrightarrow> fld (all ! k) ''id'' = JNum (ids ! k)" using m len by (metis nth_map)
  show "k < length ids \<Longrightarrow> is_object (all ! k) \<and> fld (all ! k) ''selected'' = JUndef"
    using assms len by (simp add: plain_rows_def list_all_length)
qed

lemma init_assign_rows:
  assumes "plain_rows ids all"
  shows "rows_of ids (init_assign all assigned)"
    and "selected_ids ids (init_assign all assigned) = assigned_ids ids assigned"
proof -
  note d = plain_rowsD [OF assms]
  let ?d = "init_assign all assigned"
  have r: "rows ?d ! k = (if is_assigned assigned (all ! k) then mark_row True (all ! k) else all ! k)"
    if "k < length ids" for k
    using that d(1) by (simp add: init_assign_def updateSelectedCount_def)
  show "rows_of ids ?d"
  proof (rule rows_of_intro)
    show "length (rows ?d) = length ids" using d(1) by (simp add: init_assign_def updateSelectedCount_def)
    show "picked ?d = filter is_selected (rows ?d)" by (simp add: init_assign_def updateSelectedCount_def)
  qed (simp add: r d)
  have "is_selected (rows ?d ! k) \<longleftrightarrow> list_ex (\<lambda>a. js_eq (fld a ''id'') (JNum (ids ! k))) assigned"
    if "k < length ids" for k
  proof -
    have "\<not> is_selected (all ! k)" using that d(3) by (simp add: is_selected_def)
    then show ?thesis using that d(2,3) by (simp add: r is_assigned_def del: js_eq.simps)
  qed
  then show "selected_ids ids ?d = assigned_ids ids assigned"
    by (auto simp: selected_ids_def assigned_ids_def in_set_conv_nth simp del: js_eq.simps)
qed

lemma handed_back_spec:
  assumes "plain_rows ids (elems all)" "distinct ids"
  shows "\<exists>xs. handed_back all assigned clicks = JArr xs \<and>
    set xs = JNum ` spec_run ids (clicks_of clicks) (assigned_ids ids (elems assigned))"
proof -
  note i = init_assign_rows [OF assms(1), of "elems assigned"]
  show ?thesis
    using submit_selected [OF rows_of_run [OF i(1)]] selected_run [OF i(1) assms(2)] i(2)
    by (simp add: handed_back_def)
qed

section \<open>Properties\<close>

text \<open>The tables that link the chosen resources at once, by name: the dialog each opens, the list it
  fetches, and the call it makes.\<close>

datatype assign_table = DSServers | ServerDSs | FederationDSs | FederationUsers

fun table_select :: "assign_table \<Rightarrow> js \<Rightarrow> js \<Rightarrow> js \<Rightarrow> op" where
  "table_select DSServers cdn owner assigned = selectServers owner assigned"
| "table_select ServerDSs cdn owner assigned = server_selectDeliveryServices owner assigned"
| "table_select FederationDSs cdn owner assigned = federation_selectDSs cdn owner assigned"
| "table_select FederationUsers cdn owner assigned = federation_selectUsers owner assigned"

fun table_dialog :: "assign_table \<Rightarrow> string" where
  "table_dialog DSServers = ''TableAssignDSServersController''"
| "table_dialog ServerDSs = ''TableAssignDeliveryServicesController''"
| "table_dialog FederationDSs = ''TableAssignFederationDeliveryServicesController''"
| "table_dialog FederationUsers = ''TableAssignFederationUsersController''"

fun table_list :: "assign_table \<Rightarrow> js \<Rightarrow> js \<Rightarrow> call" where
  "table_list DSServers cdn owner =
     RGetList [One ''deliveryservices'' (fld owner ''id''), All ''servers/eligible''] JUndef"
| "table_list ServerDSs cdn owner =
     RGetList [All ''deliveryservices''] (JObj [(''cdn'', fld owner ''cdnId'')])"
| "table_list FederationDSs cdn owner =
     RGetList [All ''deliveryservices''] (JObj [(''cdn'', fld cdn ''id'')])"
| "table_list FederationUsers cdn owner = RGetList [All ''users''] JUndef"

fun table_link :: "assign_table \<Rightarrow> js \<Rightarrow> js \<Rightarrow> string \<Rightarrow> call" where
  "table_link DSServers owner ids root =
     RPost [All ''deliveryserviceserver'']
       (JObj [(''dsId'', fld owner ''id''), (''servers'', ids), (''replace'', JBool True)])"
| "table_link ServerDSs owner ids root =
     RPost [All (''servers/'' @ to_str (fld owner ''id'') @ ''/deliveryservices?replace=true'')] ids"
| "table_link FederationDSs owner ids root =
     HPost (root @ ''federations/'' @ to_str (fld owner ''id'') @ ''/deliveryservices'')
       (JObj [(''dsIds'', ids), (''replace'', JBool True)])"
| "table_link FederationUsers owner ids root =
     HPost (root @ ''federations/'' @ to_str (fld owner ''id'') @ ''/users'')
       (JObj [(''userIds'', ids), (''replace'', JBool True)])"

lemma table_select_calls:
  assumes "srv w (sent w @ [table_list k cdn owner]) (table_list k cdn owner) = Ok v"
    and "responseInterceptor v ''getList'' = Some all"
    and "ask w (table_dialog k) owner all = Close clicks"
  shows "sent (snd (run (table_select k cdn owner assigned) w)) =
    sent w @ [table_list k cdn owner, table_link k owner (handed_back all assigned clicks) (apiRoot w)]"
proof (cases k)
  case DSServers
  then show ?thesis
    using assms
    by (simp add: selectServers_def getEligibleDeliveryServiceServers_def
        sent_after_dialog_assign [where c = "\<lambda>ids root. table_link DSServers owner ids root"]
        assignDeliveryServiceServers_def sent_mutation sent_rest rest_post_def)
next
  case ServerDSs
  then show ?thesis
    using assms
    by (simp add: server_selectDeliveryServices_def getDeliveryServices_def
        sent_after_dialog_assign [where c = "\<lambda>ids root. table_link ServerDSs owner ids root"]
        assignDeliveryServices_def sent_mutation sent_rest rest_post_def)
next
  case FederationDSs
  then show ?thesis
    using assms
    by (simp add: federation_selectDSs_def getDeliveryServices_def
        sent_after_dialog_assign [where c = "\<lambda>ids root. table_link FederationDSs owner ids root"]
        assignFederationDeliveryServices_def sent_mutation sent_api)
next
  case FederationUsers
  then show ?thesis
    using assms
    by (simp add: federation_selectUsers_def getUsers_def
        sent_after_dialog_assign [where c = "\<lambda>ids root. table_link FederationUsers owner ids root"]
        assignFederationUsers_def sent_mutation sent_api)
qed


text \<open>C10. What a table links is what was marked: for whatever is clicked in the assignment dialog, the
  table makes two calls, for the list and for the link, and the ids of the second are those of the
  specification, started from the ids already linked.\<close>

theorem tables_link_what_was_marked:
  assumes "srv w (sent w @ [table_list k cdn owner]) (table_list k cdn owner) = Ok v"
    and "responseInterceptor v ''getList'' = Some all" "plain_rows ids (elems all)" "distinct ids"
    and "ask w (table_dialog k) owner all = Close clicks"
  shows "\<exists>xs. sent (snd (run (table_select k cdn owner assigned) w)) =
      sent w @ [table_list k cdn owner, table_link k owner (JArr xs) (apiRoot w)] \<and>
    set xs = JNum ` spec_run ids (clicks_of clicks) (assigned_ids ids (elems assigned))"
  using handed_back_spec [OF assms(3,4), of assigned clicks]
    table_select_calls [OF assms(1,2,5), of assigned] by auto

theorem tables_link_what_was_marked_witness:
  "\<exists>xs. sent (snd (run (table_select DSServers JUndef (JObj [(''id'', JNum 9)]) (JArr [JObj [(''id'', JNum 2)]]))
      (start_world (\<lambda>calls c. Ok (JObj [(''response'', JArr [JObj [(''id'', JNum 1)], JObj [(''id'', JNum 2)]])]))
        (\<lambda>controller params collection. Close (JArr [JObj [(''row'', JNum 0), (''checked'', JBool True)]]))))) =
    [RGetList [One ''deliveryservices'' (JNum 9), All ''servers/eligible''] JUndef,
     RPost [All ''deliveryserviceserver''] (JObj [(''dsId'', JNum 9), (''servers'', JArr xs), (''replace'', JBool True)])] \<and>
    set xs = {JNum 1, JNum 2}"
proof -
  let ?all = "JArr [JObj [(''id'', JNum 1)], JObj [(''id'', JNum 2)]]"
  let ?c = "JArr [JObj [(''row'', JNum 0), (''checked'', JBool True)]]"
  let ?w = "start_world (\<lambda>calls c. Ok (JObj [(''response'', ?all)])) (\<lambda>controller params collection. Close ?c)"
  let ?o = "JObj [(''id'', JNum 9)]" and ?as = "JArr [JObj [(''id'', JNum 2)]]"
  have a: "srv ?w (sent ?w @ [table_list DSServers JUndef ?o]) (table_list DSServers JUndef ?o) =
      Ok (JObj [(''response'', ?all)])" by simp
  have b: "responseInterceptor (JObj [(''response'', ?all)]) ''getList'' = Some ?all"
    by (simp add: responseInterceptor_def)
  have c: "plain_rows [1, 2] (elems ?all)" by (simp add: plain_rows_def)
  have d: "distinct [1 :: int, 2]" by simp
  have e: "ask ?w (table_dialog DSServers) ?o ?all = Close ?c" by simp
  have s: "spec_run [1, 2] (clicks_of ?c) (assigned_ids [1, 2] [JObj [(''id'', JNum 2)]]) = {1, 2}"
    by (auto simp: spec_run_def clicks_of_def click_of_def assigned_ids_def List.map_filter_def)
  from tables_link_what_was_marked [OF a b c d e, of ?as] show ?thesis by (simp add: s)
qed


text \<open>The tables that unlink a resource, by name, and the path each deletes.\<close>

datatype removal = ServerDS | DSServer | UserDS | CacheGroupParam | ProfileParam | ParamProfile | FederationUser

fun removal_op :: "removal \<Rightarrow> js \<Rightarrow> js \<Rightarrow> op" where
  "removal_op ServerDS owner i = server_removeDeliveryService owner i"
| "removal_op DSServer owner i = ds_removeServer owner i"
| "removal_op UserDS owner i = user_removeDS owner i"
| "removal_op CacheGroupParam owner i = cg_removeParameter owner i"
| "removal_op ProfileParam owner i = profile_removeParameter owner i"
| "removal_op ParamProfile owner i = param_removeProfile owner i"
| "removal_op FederationUser owner i = federation_removeUser owner i"

fun removal_path :: "removal \<Rightarrow> string \<Rightarrow> string \<Rightarrow> string" where
  "removal_path ServerDS x i = ''deliveryservice_server/'' @ i @ ''/'' @ x"
| "removal_path DSServer x i = ''deliveryservice_server/'' @ x @ ''/'' @ i"
| "removal_path UserDS x i = ''deliveryservice_user/'' @ i @ ''/'' @ x"
| "removal_path CacheGroupParam x i = ''cachegroupparameters/'' @ x @ ''/'' @ i"
| "removal_path ProfileParam x i = ''profileparameters/'' @ x @ ''/'' @ i"
| "removal_path ParamProfile x i = ''profileparameters/'' @ i @ ''/'' @ x"
| "removal_path FederationUser x i = ''federations/'' @ x @ ''/users/'' @ i"

definition removal_call :: "removal \<Rightarrow> js \<Rightarrow> js \<Rightarrow> string \<Rightarrow> call" where
  "removal_call k owner i root =
     HDelete (root @ removal_path k (to_str (fld owner ''id'')) (to_str i))"

lemma refused_http_delete:
  assumes "srv w (sent w @ [HDelete u]) (HDelete u) = Err f" "reported f"
  shows "run (httpService_delete u) w = (Rejected f, answered_err (HDelete u) f w)"
  using assms
  by (simp add: httpService_delete_def run_deferred run_http_Err responseError_def reported_def
      answered_err_def)

lemma refused_removal_run:
  assumes "srv w (sent w @ [HDelete u]) (HDelete u) = Err f" "reported f"
  shows "run (reload_after (then2 (httpService_delete u) ok (fault_alerts True))) w =
    (Fulfilled JUndef, state_reload (setMessages (alerts_of f) True (answered_err (HDelete u) f w)))"
  using refused_http_delete [OF assms] run_fault_alerts [OF assms(2)]
  by (simp add: reload_after_def run_when_done run_then2)

lemmas removal_defs =
  server_removeDeliveryService_def ds_removeServer_def user_removeDS_def cg_removeParameter_def
  profile_removeParameter_def param_removeProfile_def federation_removeUser_def
  deleteDeliveryServiceServer_def deleteUserDeliveryService_def unlinkCacheGroupParameter_def
  unlinkProfileParameter_def deleteFederationUser_def

lemma run_reload_then_with_world:
  "run (reload_after (then2 (with_world p) ok bad)) w = run (reload_after (then2 (p w) ok bad)) w"
  by (simp add: reload_after_def run_when_done run_then2)

lemma removal_refused_run:
  assumes "srv w (sent w @ [removal_call k owner i (apiRoot w)]) (removal_call k owner i (apiRoot w)) = Err f"
    and "reported f"
  shows "run (removal_op k owner i) w = (Fulfilled JUndef, state_reload (setMessages (alerts_of f) True
    (answered_err (removal_call k owner i (apiRoot w)) f w)))"
  using assms
  by (cases k) (simp_all add: removal_call_def removal_defs run_reload_then_with_world refused_removal_run)


text \<open>A removal the server refuses: nothing on the page says so.  The service leaves the alerts for the
  next page, the table only reloads its own, and so the alerts stay hidden until the user goes to
  some other page, which shows them.\<close>

lemma refused_removal_is_shown_elsewhere:
  assumes "srv w (sent w @ [removal_call k owner i (apiRoot w)]) (removal_call k owner i (apiRoot w)) = Err f"
    and "reported f" "fld f ''status'' \<noteq> JNum 401" "loc w = shown w"
  shows "case run (removal_op k owner i) w of (r, w') \<Rightarrow>
    sent w' = sent w @ [removal_call k owner i (apiRoot w)] \<and> reloads w' = Suc (reloads w) \<and>
    loc w' = loc w \<and> messages w' = messages w \<and> displayed (location_changed w') = alerts_of f"
proof -
  let ?c = "removal_call k owner i (apiRoot w)"
  have "messages (answered_err ?c f w) = messages w" "reloads (answered_err ?c f w) = reloads w"
    using assms(3,4) by (simp_all add: answered_err_def onRejection_def digest_idle send_def Let_def)
  then show ?thesis
    using assms(2)
    by (simp add: removal_refused_run [OF assms(1,2)] setMessages_def message_box_def reported_def
        location_changed_def onLocationChangeStart_def onLocationChangeSuccess_def resetMessages_def
        state_reload_def)
qed

lemma run_with_cdn:
  assumes "srv w (sent w @ [HGet (apiRoot w @ ''cdns'') JUndef]) (HGet (apiRoot w @ ''cdns'') JUndef) =
      Ok (JObj [(''data'', JObj [(''response'', JArr cdns)])])"
    and "list = filter (\<lambda>cdn. \<not> js_eq (fld cdn ''name'') (JStr ''ALL'')) cdns"
    and "ask w ''DialogSelectController'' (message_params title ''Please select a CDN'') (JArr list) = Close chosen"
  shows "\<exists>u. run (with_cdn title g) w = run (deref (find_by_id list chosen) ''id'' g) u \<and>
    sent u = sent w @ [HGet (apiRoot w @ ''cdns'') JUndef]"
proof -
  let ?c = "HGet (apiRoot w @ ''cdns'') JUndef"
  have "run (getCDNs False) w = (Fulfilled (JArr list), answered_ok ?c w)"
    by (simp add: getCDNs_def api_def run_deferred run_http_Ok [OF assms(1)] deref_later_eq assms(2)
        answered_ok_def del: js_eq.simps)
  then show ?thesis
    using assms(3)
    by (auto simp: with_cdn_def run_on_close dialog_select_from_def run_then1 run_dialog_select)
qed

text \<open>C35. Updates are queued and cleared from the table of servers only for a CDN that is in the list,
  has the id chosen, and is not the one called \<open>ALL\<close>; a choice that is none of these sends nothing.\<close>

theorem queued_for_a_listed_cdn:
  assumes "(p, action) \<in> {(servers_confirmQueueServerUpdates, ''queue''),
      (servers_confirmClearServerUpdates, ''dequeue'')}"
    and "srv w (sent w @ [HGet (apiRoot w @ ''cdns'') JUndef]) (HGet (apiRoot w @ ''cdns'') JUndef) =
      Ok (JObj [(''data'', JObj [(''response'', JArr cdns)])])"
    and "\<And>params list. ask w ''DialogSelectController'' params list = Close chosen"
    and "sent (snd (run p w)) = sent w @ calls"
  shows "calls = [HGet (apiRoot w @ ''cdns'') JUndef] \<or>
    (\<exists>cdn \<in> set cdns. fld cdn ''name'' \<noteq> JStr ''ALL'' \<and>
       num_eq (parse_int (fld cdn ''id'')) (parse_int chosen) \<and>
       calls = [HGet (apiRoot w @ ''cdns'') JUndef,
         RCustomPost [One ''cdns'' (fld cdn ''id'')] ''queue_update'' (JObj [(''action'', JStr action)])])"
proof -
  define list where "list = filter (\<lambda>cdn. \<not> js_eq (fld cdn ''name'') (JStr ''ALL'')) cdns"
  let ?get = "HGet (apiRoot w @ ''cdns'') JUndef" and ?cdn = "find_by_id list chosen"
  let ?post = "\<lambda>i. RCustomPost [One ''cdns'' i] ''queue_update'' (JObj [(''action'', JStr action)])"
  obtain title g where p: "p = with_cdn title g"
    and g: "\<And>i u. sent (snd (run (g i) u)) = sent u @ [?post i]"
    using assms(1)
    by (auto simp: servers_confirmQueueServerUpdates_def servers_confirmClearServerUpdates_def
        servers_queueServerUpdates_def servers_clearServerUpdates_def queueCDNUpdates_def
        clearCDNUpdates_def sent_mutation sent_rest rest_customPOST_def)
  obtain u where u: "run p w = run (deref ?cdn ''id'' g) u" "sent u = sent w @ [?get]"
    using run_with_cdn [OF assms(2) list_def assms(3)] unfolding p by blast
  show ?thesis
  proof (cases "getp ?cdn ''id''")
    case None
    then show ?thesis using u assms(4) by (simp add: run_deref)
  next
    case (Some i)
    then have i: "fld ?cdn ''id'' = i" and "?cdn \<noteq> JUndef" by (auto simp: fld_def)
    then have "?cdn \<in> set list" "num_eq (parse_int i) (parse_int chosen)"
      using find_by_id_sound [OF refl] by auto
    moreover have "calls = [?get, ?post i]" using u assms(4) Some g by (simp add: run_deref)
    ultimately show ?thesis using i by (intro disjI2 bexI [of _ ?cdn]) (auto simp: list_def)
  qed
qed

theorem queued_for_a_listed_cdn_witness:
  "sent (snd (run servers_confirmClearServerUpdates (start_world
      (\<lambda>calls c. Ok (JObj [(''data'', JObj [(''response'',
         JArr [JObj [(''name'', JStr ''ALL''), (''id'', JNum 1)]])])]))
      (\<lambda>controller params collection. Close (JNum 1))))) = [HGet ''/api/1.3/cdns'' JUndef]"
proof -
  let ?cdns = "[JObj [(''name'', JStr ''ALL''), (''id'', JNum 1)]]"
  let ?w = "start_world (\<lambda>calls c. Ok (JObj [(''data'', JObj [(''response'', JArr ?cdns)])]))
      (\<lambda>controller params collection. Close (JNum 1))"
  have a: "(servers_confirmClearServerUpdates, ''dequeue'') \<in> {(servers_confirmQueueServerUpdates, ''queue''),
      (servers_confirmClearServerUpdates, ''dequeue'')}" by simp
  have b: "srv ?w (sent ?w @ [HGet (apiRoot ?w @ ''cdns'') JUndef]) (HGet (apiRoot ?w @ ''cdns'') JUndef) =
      Ok (JObj [(''data'', JObj [(''response'', JArr ?cdns)])])" by simp
  have c: "\<And>params list. ask ?w ''DialogSelectController'' params list = Close (JNum 1)" by simp
  from queued_for_a_listed_cdn [OF a b c, of "sent (snd (run servers_confirmClearServerUpdates ?w))"]
  show ?thesis by simp
qed

end
