(* ===== verification/Pages.thy ===== *)
theory Pages
  imports Tables Tenants
begin

text \<open>
  The controllers the edit and new forms of a resource share (\<open>common/modules/form/*/Form*Controller.js\<close>):
  the lists of options they fetch when they are created, their links to other pages, and the actions
  besides saving and deleting; the pages of DNSSEC and URL signature keys; the navigation menu.
\<close>

section \<open>Lists of options and links\<close>

text \<open>\<open>service.getX(...).then(function(result) { $scope.x = result; })\<close>.\<close>

definition fetch_into :: "string \<Rightarrow> op \<Rightarrow> op" where
  "fetch_into key p = when_result p (\<lambda>result. eff (set_scope key result))"

text \<open>Statements in a row.\<close>

fun each :: "op list \<Rightarrow> op" where
  "each [] = ret JUndef"
| "each (p # ps) = seq p (each ps)"

text \<open>\<open>$location.path($location.path() + link)\<close>.\<close>

definition view_link :: "string \<Rightarrow> op" where
  "view_link link = eff (append_path link)"

definition use_in_table :: "string \<Rightarrow> js" where
  "use_in_table t = JObj [(''useInTable'', JStr t)]"

section \<open>FormServerController.js\<close>

definition not_ds_profile :: "js \<Rightarrow> bool" where
  "not_ds_profile profile \<longleftrightarrow> \<not> js_eq (fld profile ''type'') (JStr ''DS_PROFILE'')"

definition server_profiles :: "js \<Rightarrow> op" where
  "server_profiles cdnId =
     when_result (getProfiles (JObj [(''orderby'', JStr ''name''), (''cdn'', cdnId)]))
       (\<lambda>result. eff (set_scope ''profiles'' (JArr (filter not_ds_profile (elems result)))))"

definition server_cdn_filter :: "js \<Rightarrow> js" where
  "server_cdn_filter server = (if truthy (fld server ''cdnId'') then fld server ''cdnId'' else JNum 0)"

definition FormServer_init :: "js \<Rightarrow> op" where
  "FormServer_init server =
     each [fetch_into ''physLocations'' (getPhysLocations JUndef),
           fetch_into ''cacheGroups'' (getCacheGroups JUndef),
           fetch_into ''types'' (getTypes (use_in_table ''server'')),
           fetch_into ''cdns'' (getCDNs True),
           server_profiles (server_cdn_filter server)]"

text \<open>The server edited is the form's object, in the scope.\<close>

definition FormServer_onCDNChange :: op where
  "FormServer_onCDNChange =
     seq (eff (\<lambda>w. set_scope ''server'' (set_fld (scope w ''server'') ''profileId'' JNull) w))
         (with_world (\<lambda>w. server_profiles (fld (scope w ''server'') ''cdnId'')))"

definition alerts_of_result :: "js \<Rightarrow> op" where
  "alerts_of_result result =
     deref result ''data'' (\<lambda>d. deref d ''alerts'' (\<lambda>a. eff (setMessages a False)))"

definition FormServer_updateStatus :: "js \<Rightarrow> js \<Rightarrow> op" where
  "FormServer_updateStatus server status =
     detach (then2 (updateServerStatus (fld server ''id'')
               (JObj [(''status'', fld status ''id''), (''offlineReason'', fld status ''offlineReason'')]))
       (\<lambda>result. then1 (alerts_of_result result) (\<lambda>_. refresh))
       alerts_of_result)"

definition FormServer_confirmStatusUpdate :: "js \<Rightarrow> op" where
  "FormServer_confirmStatusUpdate server =
     on_close (dialog_select_status server (with_world (\<lambda>w. ret (scope w ''statuses''))))
       (FormServer_updateStatus server)"

definition FormServer_queueServerUpdates :: "js \<Rightarrow> op" where
  "FormServer_queueServerUpdates server = reload_after (queueServerUpdates (fld server ''id''))"

definition FormServer_clearServerUpdates :: "js \<Rightarrow> op" where
  "FormServer_clearServerUpdates server = reload_after (clearServerUpdates (fld server ''id''))"

definition FormServer_links :: "(string \<times> string) list" where
  "FormServer_links = [(''viewConfigFiles'', ''/config-files''), (''viewDeliveryServices'', ''/delivery-services'')]"

section \<open>FormCDNController.js\<close>

definition FormCDN_links :: "(string \<times> string) list" where
  "FormCDN_links =
     [(''manageDNSSEC'', ''/dnssec-keys''), (''manageFederations'', ''/federations''),
      (''viewConfig'', ''/config/changes''), (''viewProfiles'', ''/profiles''),
      (''viewServers'', ''/servers''), (''viewDeliveryServices'', ''/delivery-services'')]"

definition FormCDN_queueServerUpdates :: "js \<Rightarrow> op" where
  "FormCDN_queueServerUpdates cdn =
     confirmed (''Queue Server Updates: '' @ to_str (fld cdn ''name''))
       (''Are you sure you want to queue server updates for all '' @ to_str (fld cdn ''name'') @ '' servers?'')
       (detach (queueCDNUpdates (fld cdn ''id'')))"

definition FormCDN_clearServerUpdates :: "js \<Rightarrow> op" where
  "FormCDN_clearServerUpdates cdn =
     confirmed (''Clear Server Updates: '' @ to_str (fld cdn ''name''))
       (''Are you sure you want to clear server updates for all '' @ to_str (fld cdn ''name'') @ '' servers?'')
       (detach (clearCDNUpdates (fld cdn ''id'')))"

section \<open>FormProfileController.js\<close>

definition profile_types :: "string list" where
  "profile_types =
     [''ATS_PROFILE'', ''TR_PROFILE'', ''TM_PROFILE'', ''TS_PROFILE'', ''TP_PROFILE'', ''INFLUXDB_PROFILE'',
      ''RIAK_PROFILE'', ''SPLUNK_PROFILE'', ''DS_PROFILE'', ''ORG_PROFILE'', ''KAFKA_PROFILE'',
      ''LOGSTASH_PROFILE'', ''ES_PROFILE'', ''UNK_PROFILE'']"

definition FormProfile_init :: op where
  "FormProfile_init = each [fetch_into ''cdns'' (getCDNs True)]"

definition FormProfile_links :: "(string \<times> string) list" where
  "FormProfile_links =
     [(''viewParams'', ''/parameters''), (''viewServers'', ''/servers''),
      (''viewDeliveryServices'', ''/delivery-services'')]"

definition FormProfile_cloneProfile :: "js \<Rightarrow> op" where
  "FormProfile_cloneProfile profile =
     (let name = to_str (fld profile ''name'')
      in on_close (dialog_input (message_params ''Clone Profile''
             (''Your are about to clone the '' @ name @ '' profile. Your clone will have the same attributes and parameter assignments as the '' @
              name @ '' profile.<br><br>Please enter a name for your cloned profile.'')))
           (\<lambda>clonedProfileName. detach (cloneProfile name (to_str clonedProfileName))))"

text \<open>\<open>fileUtils.exportJSON\<close> hands the value to the browser as a file; the file is kept in the scope.\<close>

definition export_file :: "js \<Rightarrow> js \<Rightarrow> string \<Rightarrow> op" where
  "export_file content name extension =
     eff (set_scope ''#file'' (JObj [(''content'', content), (''name'', name), (''extension'', JStr extension)]))"

definition FormProfile_exportProfile :: "js \<Rightarrow> op" where
  "FormProfile_exportProfile profile =
     when_result (exportProfile (fld profile ''id''))
       (\<lambda>result. export_file result (fld profile ''name'') ''traffic_ops'')"

section \<open>The forms of cache groups, ASNs, regions, locations, targets, regexes, jobs, statuses, types, divisions, parameters\<close>

definition FormCacheGroup_init :: op where
  "FormCacheGroup_init =
     each [fetch_into ''cacheGroups'' (getCacheGroups JUndef),
           fetch_into ''types'' (getTypes (use_in_table ''cachegroup''))]"

definition FormCacheGroup_links :: "(string \<times> string) list" where
  "FormCacheGroup_links =
     [(''viewAsns'', ''/asns''), (''viewParams'', ''/parameters''), (''viewServers'', ''/servers''),
      (''viewStaticDnsEntries'', ''/static-dns-entries'')]"

definition FormASN_init :: op where
  "FormASN_init = each [fetch_into ''cachegroups'' (getCacheGroups JUndef)]"

definition FormRegion_init :: op where
  "FormRegion_init = each [fetch_into ''divisions'' (getDivisions JUndef)]"

definition FormRegion_links :: "(string \<times> string) list" where
  "FormRegion_links = [(''viewPhysLocations'', ''/phys-locations'')]"

definition FormPhysLocation_init :: op where
  "FormPhysLocation_init = each [fetch_into ''regions'' (getRegions JUndef)]"

definition FormPhysLocation_links :: "(string \<times> string) list" where
  "FormPhysLocation_links = [(''viewServers'', ''/servers'')]"

definition FormDeliveryServiceTarget_init :: op where
  "FormDeliveryServiceTarget_init =
     each [fetch_into ''deliveryServices'' (getDeliveryServices JUndef),
           fetch_into ''types'' (getTypes (use_in_table ''steering_target''))]"

definition FormDeliveryServiceRegex_init :: op where
  "FormDeliveryServiceRegex_init = each [fetch_into ''types'' (getTypes (use_in_table ''regex''))]"

definition FormJob_init :: op where
  "FormJob_init = each [fetch_into ''deliveryservices'' (getDeliveryServices JUndef)]"

definition FormStatus_links :: "(string \<times> string) list" where
  "FormStatus_links = [(''viewServers'', ''/servers'')]"

definition FormType_links :: "(string \<times> string) list" where
  "FormType_links =
     [(''viewServers'', ''/servers''), (''viewDeliveryServices'', ''/delivery-services''),
      (''viewCacheGroups'', ''/cache-groups''), (''viewStaticDnsEntries'', ''/static-dns-entries'')]"

definition FormDivision_links :: "(string \<times> string) list" where
  "FormDivision_links = [(''viewRegions'', ''/regions'')]"

definition FormParameter_links :: "(string \<times> string) list" where
  "FormParameter_links = [(''viewProfiles'', ''/profiles''), (''viewCacheGroups'', ''/cache-groups'')]"

definition FormFederation_links :: "(string \<times> string) list" where
  "FormFederation_links = [(''viewDeliveryServices'', ''/delivery-services''), (''viewUsers'', ''/users'')]"

section \<open>FormUserController.js, FormRegisterUserController.js, FormTenantController.js\<close>

text \<open>The tenants are put in the scope and given their levels; when that throws, they stay without.\<close>

definition tenants_with_levels :: op where
  "tenants_with_levels =
     when_result (getTenants JUndef)
       (\<lambda>result. seq (eff (set_scope ''tenants'' result))
          (case addLevels (elems result) of
             None \<Rightarrow> throw type_error
           | Some ts \<Rightarrow> eff (set_scope ''tenants'' (JArr ts))))"

definition roles_by_level :: op where
  "roles_by_level = fetch_into ''roles'' (getRoles (JObj [(''orderby'', JStr ''priv_level DESC'')]))"

definition FormUser_init :: op where
  "FormUser_init = each [roles_by_level, tenants_with_levels]"

definition FormUser_links :: "(string \<times> string) list" where
  "FormUser_links = [(''viewDeliveryServices'', ''/delivery-services'')]"

definition role_label :: "js \<Rightarrow> string" where
  "role_label role = to_str (fld role ''name'') @ '' ('' @ to_str (fld role ''privLevel'') @ '')''"

text \<open>\<open>'-'.repeat(n)\<close>: \<open>None\<close> is the \<open>RangeError\<close> for a negative count; a level that was not set is read as 0.\<close>

definition dashes :: "js \<Rightarrow> string option" where
  "dashes n =
     (case n of JNum k \<Rightarrow> (if k < 0 then None else Some (replicate (nat k) (CHR ''-''))) | _ \<Rightarrow> Some [])"

definition tenantLabel :: "js \<Rightarrow> string option" where
  "tenantLabel tenant =
     map_option (\<lambda>d. d @ '' '' @ to_str (fld tenant ''name'')) (dashes (fld tenant ''level''))"

definition FormRegisterUser_init :: op where
  "FormRegisterUser_init = each [roles_by_level, tenants_with_levels]"

definition FormTenant_init :: op where
  "FormTenant_init = each [tenants_with_levels]"

definition FormTenant_links :: "(string \<times> string) list" where
  "FormTenant_links = [(''viewUsers'', ''/users''), (''viewDSs'', ''/delivery-services'')]"

section \<open>FormISOController.js\<close>

definition iso_start :: js where "iso_start = JObj [(''dhcp'', JStr ''no'')]"

definition isDHCP :: "js \<Rightarrow> bool" where
  "isDHCP spec \<longleftrightarrow> js_eq (fld spec ''dhcp'') (JStr ''yes'')"

definition fqdn :: "js \<Rightarrow> string" where
  "fqdn server = to_str (fld server ''hostName'') @ ''.'' @ to_str (fld server ''domainName'')"

text \<open>\<open>angular.extend(a, b)\<close> for objects: the fields of \<open>b\<close> are written into \<open>a\<close>.\<close>

definition extend :: "js \<Rightarrow> js \<Rightarrow> js" where
  "extend a b = (case b of JObj kvs \<Rightarrow> fold (\<lambda>(k, v) o'. set_fld o' k v) kvs a | _ \<Rightarrow> a)"

definition copyServerAttributes :: "js \<Rightarrow> js \<Rightarrow> js" where
  "copyServerAttributes spec selectedServer = extend spec selectedServer"

definition FormISO_generate :: "js \<Rightarrow> op" where
  "FormISO_generate spec =
     when_result (generateISO spec)
       (\<lambda>result. seq (eff anchor_scroll)
          (deref result ''isoURL'' (\<lambda>u. eff (setMessages (success (''ISO created at '' @ to_str u)) False))))"

section \<open>DNSSEC keys (FormCdnDnssecKeysController.js, FormGenerateCdnDnssecKeysController.js)\<close>

definition ksk_new :: "js \<Rightarrow> js \<Rightarrow> js" where
  "ksk_new cdn dnssecKeys =
     (let keys = fld dnssecKeys (to_str (fld cdn ''name''))
      in if truthy keys
         then (case find (\<lambda>ksk. js_eq (fld ksk ''status'') (JStr ''new'')) (elems (fld keys ''ksk'')) of
                 None \<Rightarrow> JUndef | Some k \<Rightarrow> k)
         else JNull)"

definition generateLabel :: "js \<Rightarrow> string" where
  "generateLabel new = (if truthy new then ''Regenerate DNSSEC Keys'' else ''Generate DNSSEC Keys'')"

definition dnssec_title :: "js \<Rightarrow> js \<Rightarrow> string" where
  "dnssec_title cdn new =
     (if truthy new then ''Regenerate DNSSEC Keys [ '' else ''Generate DNSSEC Keys [ '') @
     to_str (fld cdn ''name'') @ '' ]''"

definition dnssec_message :: "js \<Rightarrow> js \<Rightarrow> string" where
  "dnssec_message cdn new =
     (if truthy new
      then ''This will regenerate DNSSEC keys for the '' @ to_str (fld cdn ''name'') @
           '' CDN and all associated Delivery Services. A new DS Record will be created and needs to be added to the parent zone in order for DNSSEC to work properly.''
      else ''This will generate DNSSEC keys for the '' @ to_str (fld cdn ''name'') @
           '' CDN and all associated Delivery Services.'')"

definition warning_alert :: "string \<Rightarrow> js" where
  "warning_alert t = JArr [JObj [(''level'', JStr ''warning''), (''text'', JStr t)]]"

definition announce_cancelled :: "string \<Rightarrow> op" where
  "announce_cancelled title = eff (setMessages (warning_alert (title @ '' cancelled'')) False)"

definition dnssec_confirmGenerate :: "js \<Rightarrow> js \<Rightarrow> op" where
  "dnssec_confirmGenerate cdn new =
     (let title = dnssec_title cdn new
      in then2 (dialog_confirm (message_params title
             (dnssec_message cdn new @ ''<br><br>Are you sure you want to proceed?'')))
           (\<lambda>_. view_link ''/generate'')
           (\<lambda>_. announce_cancelled title))"

definition dnssec_generate :: "js \<Rightarrow> js \<Rightarrow> op" where
  "dnssec_generate cdn dnssecKeysRequest =
     when_result (generateDNSSECKeys dnssecKeysRequest)
       (\<lambda>result. deref result ''data'' (\<lambda>d. deref d ''alerts'' (\<lambda>a.
          seq (eff (setMessages a True))
              (navigateToPath (''/cdns/'' @ to_str (fld cdn ''id'') @ ''/dnssec-keys'')))))"

definition enter_params :: "string \<Rightarrow> string \<Rightarrow> js \<Rightarrow> js" where
  "enter_params title msg key = JObj [(''title'', JStr title), (''message'', JStr msg), (''key'', key)]"

text \<open>The name of the CDN has to be typed in.  The controller never sets \<open>ksk_new\<close> in its scope, so its
  texts are those for a first generation unless an enclosing scope has it.\<close>

definition dnssec_confirm_and_generate :: "js \<Rightarrow> js \<Rightarrow> js \<Rightarrow> op" where
  "dnssec_confirm_and_generate cdn new dnssecKeysRequest =
     (let title = dnssec_title cdn new
      in then2 (dialog_confirm_enter (enter_params title
             (''This action CANNOT be undone. '' @ dnssec_message cdn new @
              ''<br><br>Please type in the name of the CDN to confirm.'') (fld cdn ''name'')))
           (\<lambda>_. dnssec_generate cdn dnssecKeysRequest)
           (\<lambda>_. announce_cancelled title))"

section \<open>URL signature keys (DeliveryServiceUrlSigKeysController.js)\<close>

definition key_row :: "string \<times> js \<Rightarrow> js" where
  "key_row kv =
     JObj [(''sortBy'', parse_int (JStr (drop 3 (fst kv)))),
           (''label'', JStr (fst kv)), (''urlSigKey'', snd kv)]"

definition urlSigKeys_rows :: "js \<Rightarrow> js list" where
  "urlSigKeys_rows urlSigKeys = (case urlSigKeys of JObj kvs \<Rightarrow> map key_row kvs | _ \<Rightarrow> [])"

definition urlsig_generate :: "js \<Rightarrow> op" where
  "urlsig_generate deliveryService =
     then1 (dialog_confirm (message_params ''Confirmation required''
         (''Are you sure you want to generate new URL signature keys for '' @
          to_str (fld deliveryService ''xmlId'') @ ''?'')))
       (\<lambda>_. reload_after (generateUrlSigKeys (to_str (fld deliveryService ''xmlId''))))"

definition copy_params :: "js \<Rightarrow> js" where
  "copy_params deliveryService =
     JObj [(''title'', JStr (''Copy URL Sig Keys to: '' @ to_str (fld deliveryService ''xmlId''))),
           (''message'', JStr ''Please select a Delivery Service to copy from:''), (''label'', JStr ''xmlId'')]"

definition signed_others :: "js \<Rightarrow> op" where
  "signed_others deliveryService =
     then1 (getDeliveryServices (JObj [(''signed'', JBool True)]))
       (\<lambda>result. ret (JArr (filter (\<lambda>ds. \<not> js_same (fld ds ''id'') (fld deliveryService ''id'')) (elems result))))"

definition selectCopyFromDS :: "js \<Rightarrow> op" where
  "selectCopyFromDS deliveryService =
     then1 (dialog_select_from (copy_params deliveryService) (signed_others deliveryService))
       (\<lambda>copyFromDs. deref copyFromDs ''xmlId'' (\<lambda>x.
          reload_after (copyUrlSigKeys (to_str (fld deliveryService ''xmlId'')) (to_str x))))"

section \<open>SSL keys (FormDeliveryServiceSslKeysController.js, FormGenerateDeliveryServiceSslKeysController.js)\<close>

definition sslKeys_generateKeys :: "js \<Rightarrow> op" where
  "sslKeys_generateKeys deliveryService =
     navigateToPath (''/delivery-services/'' @ to_str (fld deliveryService ''id'') @ ''/ssl-keys/generate'')"

definition ssl_page :: "js \<Rightarrow> string" where
  "ssl_page deliveryService = ''/delivery-services/'' @ to_str (fld deliveryService ''id'') @ ''/ssl-keys''"

text \<open>The objects of the page, which the services write, are in the scope.\<close>

definition sslKeys_save :: "js \<Rightarrow> op" where
  "sslKeys_save deliveryService =
     on_close (dialog_confirm (JObj [(''title'', JStr (''Add New SSL Keys for Delivery Service: '' @
         to_str (fld deliveryService ''xmlId'')))]))
       (\<lambda>_. when_done (addSslKeys ''sslKeys'' deliveryService) (eff anchor_scroll))"

definition sslKeys_confirmGenerate :: "js \<Rightarrow> js \<Rightarrow> op" where
  "sslKeys_confirmGenerate deliveryService sslKeys =
     on_close (dialog_confirm (message_params
         (''Generate New SSL Keys for Delivery Service: '' @ to_str (fld deliveryService ''xmlId''))
         '' (replacing any previous keys)''))
       (\<lambda>_. when_done (generateSslKeys deliveryService sslKeys ''sslRequest'')
              (navigateToPath (ssl_page deliveryService)))"

section \<open>NavigationController.js\<close>

definition nav_logout :: op where
  "nav_logout = detach logout"

definition nav_releaseVersion :: op where
  "nav_releaseVersion =
     when_result getReleaseVersionInfo
       (\<lambda>result. deref result ''data'' (\<lambda>d. detach (open_modal ''ReleaseController'' d JUndef)))"

definition customURL :: "js \<Rightarrow> string" where
  "customURL item =
     (if truthy (fld item ''embed'') then ''/#!/custom?url='' @ encodeURIComponent (to_str (fld item ''url''))
      else to_str (fld item ''url''))"

definition customTarget :: "js \<Rightarrow> string" where
  "customTarget item = (if truthy (fld item ''embed'') then ''_self'' else ''_blank'')"

section \<open>What the pages call\<close>

lemma makes_ret [makes_intros]: "makes (\<lambda>_. []) (ret v)"
  by (intro makes_none keeps_intros)

lemma silent_scope [keeps_intros]: "silent w (set_scope k v w)"
  by (simp add: silent_def set_scope_def)

lemma makes_fetch [makes_intros]: "makes cs p \<Longrightarrow> makes cs (fetch_into key p)"
  unfolding fetch_into_def by (intro makes_intros keeps_intros)

lemma makes_lists [makes_intros]:
  "makes (\<lambda>_. [RGetList [All ''phys_locations''] q]) (getPhysLocations q)"
  "makes (\<lambda>_. [RGetList [All ''cachegroups''] q]) (getCacheGroups q)"
  "makes (\<lambda>_. [RGetList [All ''types''] q]) (getTypes q)"
  "makes (\<lambda>_. [RGetList [All ''profiles''] q]) (getProfiles q)"
  "makes (\<lambda>_. [RGetList [All ''divisions''] q]) (getDivisions q)"
  "makes (\<lambda>_. [RGetList [All ''regions''] q]) (getRegions q)"
  "makes (\<lambda>_. [RGetList [All ''deliveryservices''] q]) (getDeliveryServices q)"
  "makes (\<lambda>_. [RGetList [All ''roles''] q]) (getRoles q)"
  "makes (\<lambda>_. [RGetList [All ''tenants''] q]) (getTenants q)"
  "makes (\<lambda>root. [HGet (root @ ''cdns'') JUndef]) (getCDNs all)"
  unfolding getPhysLocations_def getCacheGroups_def getTypes_def getProfiles_def getDivisions_def
    getRegions_def getDeliveryServices_def getRoles_def getTenants_def getCDNs_def reject_undefined_def
  by (intro makes_intros keeps_intros)+

lemma makes_profiles [makes_intros]:
  "makes (\<lambda>_. [RGetList [All ''profiles''] (JObj [(''orderby'', JStr ''name''), (''cdn'', i)])]) (server_profiles i)"
  unfolding server_profiles_def by (intro makes_intros keeps_intros)

lemma makes_levels [makes_intros]: "makes (\<lambda>_. [RGetList [All ''tenants''] JUndef]) tenants_with_levels"
proof -
  have "keeps silent (case m of None \<Rightarrow> throw type_error | Some ts \<Rightarrow> eff (set_scope ''tenants'' (JArr ts)))"
    for m :: "js list option"
    by (cases m) (auto intro: keeps_intros)
  then show ?thesis unfolding tenants_with_levels_def by (intro makes_intros keeps_intros)
qed

datatype form_page =
    ServerPage js | ProfilePage | CacheGroupPage | ASNPage | RegionPage | PhysLocationPage | TargetPage
  | RegexPage | JobPage | UserPage | RegisterPage | TenantPage

fun page_init :: "form_page \<Rightarrow> op" where
  "page_init (ServerPage server) = FormServer_init server"
| "page_init ProfilePage = FormProfile_init"
| "page_init CacheGroupPage = FormCacheGroup_init"
| "page_init ASNPage = FormASN_init"
| "page_init RegionPage = FormRegion_init"
| "page_init PhysLocationPage = FormPhysLocation_init"
| "page_init TargetPage = FormDeliveryServiceTarget_init"
| "page_init RegexPage = FormDeliveryServiceRegex_init"
| "page_init JobPage = FormJob_init"
| "page_init UserPage = FormUser_init"
| "page_init RegisterPage = FormRegisterUser_init"
| "page_init TenantPage = FormTenant_init"

abbreviation list_of :: "string \<Rightarrow> js \<Rightarrow> call" where
  "list_of r q \<equiv> RGetList [All r] q"

fun page_calls :: "form_page \<Rightarrow> string \<Rightarrow> call list" where
  "page_calls (ServerPage server) root =
     [list_of ''phys_locations'' JUndef, list_of ''cachegroups'' JUndef,
      list_of ''types'' (use_in_table ''server''), HGet (root @ ''cdns'') JUndef,
      list_of ''profiles'' (JObj [(''orderby'', JStr ''name''), (''cdn'', server_cdn_filter server)])]"
| "page_calls ProfilePage root = [HGet (root @ ''cdns'') JUndef]"
| "page_calls CacheGroupPage root =
     [list_of ''cachegroups'' JUndef, list_of ''types'' (use_in_table ''cachegroup'')]"
| "page_calls ASNPage root = [list_of ''cachegroups'' JUndef]"
| "page_calls RegionPage root = [list_of ''divisions'' JUndef]"
| "page_calls PhysLocationPage root = [list_of ''regions'' JUndef]"
| "page_calls TargetPage root =
     [list_of ''deliveryservices'' JUndef, list_of ''types'' (use_in_table ''steering_target'')]"
| "page_calls RegexPage root = [list_of ''types'' (use_in_table ''regex'')]"
| "page_calls JobPage root = [list_of ''deliveryservices'' JUndef]"
| "page_calls UserPage root =
     [list_of ''roles'' (JObj [(''orderby'', JStr ''priv_level DESC'')]), list_of ''tenants'' JUndef]"
| "page_calls RegisterPage root =
     [list_of ''roles'' (JObj [(''orderby'', JStr ''priv_level DESC'')]), list_of ''tenants'' JUndef]"
| "page_calls TenantPage root = [list_of ''tenants'' JUndef]"

lemmas page_defs =
  FormServer_init_def FormProfile_init_def FormCacheGroup_init_def FormASN_init_def FormRegion_init_def
  FormPhysLocation_init_def FormDeliveryServiceTarget_init_def FormDeliveryServiceRegex_init_def
  FormJob_init_def FormUser_init_def FormRegisterUser_init_def FormTenant_init_def roles_by_level_def

lemma makes_page: "makes (page_calls k) (page_init k)"
proof -
  have eq: "makes cs p \<Longrightarrow> cs = ds \<Longrightarrow> makes ds p" for cs ds p by simp
  show ?thesis
    by (induction k; unfold page_init.simps page_defs each.simps)
      (rule eq, (rule makes_intros)+, simp add: fun_eq_iff)+
qed


section \<open>The profiles offered for a server\<close>

lemma server_profiles_offered:
  assumes "srv w (sent w @ [list_of ''profiles'' q]) (list_of ''profiles'' q) = Ok v"
    and "responseInterceptor v ''getList'' = Some all" "q = JObj [(''orderby'', JStr ''name''), (''cdn'', cdnId)]"
  shows "scope (snd (run (server_profiles cdnId) w)) ''profiles'' = JArr (filter not_ds_profile (elems all))"
proof -
  have "run (getProfiles q) w = (Fulfilled all, answered_ok (list_of ''profiles'' q) w)"
    unfolding getProfiles_def by (rule run_getList) (rule assms(1,2))+
  then show ?thesis
    using assms(3) by (simp add: server_profiles_def when_result_def run_detach run_then1 set_scope_def)
qed

section \<open>Copying URL signature keys\<close>

definition copy_call :: "js \<Rightarrow> js \<Rightarrow> string \<Rightarrow> call" where
  "copy_call to_ds from_ds root =
     HPost (root @ ''deliveryservices/xmlId/'' @ to_str (fld to_ds ''xmlId'') @ ''/urlkeys/copyFromXmlId/'' @
       to_str (fld from_ds ''xmlId'')) JUndef"

lemma sent_copy:
  "sent (snd (run (reload_after (copyUrlSigKeys (to_str (fld a ''xmlId'')) (to_str (fld b ''xmlId'')))) w)) =
     sent w @ [copy_call a b (apiRoot w)]"
proof -
  have "keeps silent (eff (setMessages m d))" for m d by (intro keeps_intros silent.message)
  then have "makes (\<lambda>root. [copy_call a b root]) (copyUrlSigKeys (to_str (fld a ''xmlId'')) (to_str (fld b ''xmlId'')))"
    unfolding copyUrlSigKeys_def copy_call_def show_and_resolve_def
    using makes_api [of "\<lambda>u. HPost u JUndef"
      "''deliveryservices/xmlId/'' @ to_str (fld a ''xmlId'') @ ''/urlkeys/copyFromXmlId/'' @ to_str (fld b ''xmlId'')"]
    by (intro makes_deferred keeps_intros silent.message) simp
  then show ?thesis using makes_run by simp
qed

text \<open>C37. The signature keys of a delivery service are copied only from another one that the server lists
  as signed and that has the id chosen; otherwise nothing but the list is asked for.\<close>

theorem keys_are_copied_from_another:
  assumes "srv w (sent w @ [list_of ''deliveryservices'' (JObj [(''signed'', JBool True)])])
      (list_of ''deliveryservices'' (JObj [(''signed'', JBool True)])) = Ok v"
    and "responseInterceptor v ''getList'' = Some all"
    and "\<And>params list. ask w ''DialogSelectController'' params list = Close chosen"
    and "sent (snd (run (selectCopyFromDS deliveryService) w)) = sent w @ calls"
  shows "calls = [list_of ''deliveryservices'' (JObj [(''signed'', JBool True)])] \<or>
    (\<exists>ds \<in> set (elems all). \<not> js_same (fld ds ''id'') (fld deliveryService ''id'') \<and>
       num_eq (parse_int (fld ds ''id'')) (parse_int chosen) \<and>
       calls = [list_of ''deliveryservices'' (JObj [(''signed'', JBool True)]),
                copy_call deliveryService ds (apiRoot w)])"
proof -
  let ?get = "list_of ''deliveryservices'' (JObj [(''signed'', JBool True)])"
  define list where "list = filter (\<lambda>ds. \<not> js_same (fld ds ''id'') (fld deliveryService ''id'')) (elems all)"
  let ?ds = "find_by_id list chosen"
  define u where "u = digest (note_asked ''DialogSelectController'' (copy_params deliveryService) (JArr list)
      (answered_ok ?get w))"
  have "run (getDeliveryServices (JObj [(''signed'', JBool True)])) w = (Fulfilled all, answered_ok ?get w)"
    unfolding getDeliveryServices_def by (rule run_getList) (rule assms(1,2))+
  then have run: "run (selectCopyFromDS deliveryService) w = run (deref ?ds ''xmlId'' (\<lambda>x.
      reload_after (copyUrlSigKeys (to_str (fld deliveryService ''xmlId'')) (to_str x)))) u"
    using assms(3)
    by (simp add: selectCopyFromDS_def signed_others_def dialog_select_from_def run_then1 run_dialog_select
        list_def u_def)
  have u: "sent u = sent w @ [?get]" "apiRoot u = apiRoot w" by (simp_all add: u_def)
  show ?thesis
  proof (cases "getp ?ds ''xmlId''")
    case None
    then show ?thesis using run u assms(4) by (simp add: run_deref)
  next
    case (Some x)
    then have x: "fld ?ds ''xmlId'' = x" and "?ds \<noteq> JUndef" by (auto simp: fld_def)
    then have "?ds \<in> set list" "num_eq (parse_int (fld ?ds ''id'')) (parse_int chosen)"
      using find_by_id_sound [OF refl] by auto
    moreover have "calls = [?get, copy_call deliveryService ?ds (apiRoot w)]"
      using run u assms(4) Some sent_copy [of deliveryService ?ds u] x by (simp add: run_deref)
    ultimately show ?thesis by (intro disjI2 bexI [of _ ?ds]) (auto simp: list_def)
  qed
qed

theorem keys_are_copied_from_another_witness:
  "sent (snd (run (selectCopyFromDS (JObj [(''id'', JNum 1), (''xmlId'', JStr ''a'')])) (start_world
      (\<lambda>calls c. Ok (JObj [(''response'', JArr [JObj [(''id'', JNum 1), (''xmlId'', JStr ''a'')]])]))
      (\<lambda>controller params collection. Close (JNum 1))))) =
    [list_of ''deliveryservices'' (JObj [(''signed'', JBool True)])]"
proof -
  let ?all = "JArr [JObj [(''id'', JNum 1), (''xmlId'', JStr ''a'')]]"
  let ?ds = "JObj [(''id'', JNum 1), (''xmlId'', JStr ''a'')]"
  let ?w = "start_world (\<lambda>calls c. Ok (JObj [(''response'', ?all)])) (\<lambda>controller params collection. Close (JNum 1))"
  have a: "srv ?w (sent ?w @ [list_of ''deliveryservices'' (JObj [(''signed'', JBool True)])])
      (list_of ''deliveryservices'' (JObj [(''signed'', JBool True)])) = Ok (JObj [(''response'', ?all)])" by simp
  have b: "responseInterceptor (JObj [(''response'', ?all)]) ''getList'' = Some ?all"
    by (simp add: responseInterceptor_def)
  have c: "\<And>params list. ask ?w ''DialogSelectController'' params list = Close (JNum 1)" by simp
  from keys_are_copied_from_another [OF a b c, of ?ds "sent (snd (run (selectCopyFromDS ?ds) ?w))"]
  show ?thesis by simp
qed

end
