(* ===== verification/Lists.thy ===== *)
theory Lists
  imports Pages
begin

text \<open>
  The tables that only list (\<open>common/modules/table/*/Table*Controller.js\<close>): what each controller is given,
  what it puts on the scope, the handlers of its rows and buttons, and the table it turns into a
  DataTable.  The tables with actions of their own are in \<open>Tables\<close>.
\<close>

section \<open>A list page\<close>

text \<open>The names a controller is injected with, the scope names that stand for something injected (data, or a
  function of a utility service), and the functions it defines on the scope, with their arguments as
  a list: an argument that is not given is undefined.\<close>

datatype list_page =
  ListPage (injected: "string list") (scope_names: "(string \<times> string) list")
    (handlers: "(string \<times> (js list \<Rightarrow> op)) list") (table_options: js)

definition arg :: "js list \<Rightarrow> nat \<Rightarrow> js" where
  "arg a k = (if k < length a then a ! k else JUndef)"

text \<open>The options all these pages give DataTables: pages of 25 rows, no initial sorting.\<close>

definition data_table :: "string \<Rightarrow> js" where
  "data_table selector =
     JObj [(''selector'', JStr selector),
       (''aLengthMenu'', JArr [JArr [JNum 25, JNum 50, JNum 100, JNum (-1)],
          JArr [JNum 25, JNum 50, JNum 100, JStr ''All'']]),
       (''iDisplayLength'', JNum 25), (''aaSorting'', JArr [])]"

text \<open>\<open>alert\<close> shows a text and waits for the user.\<close>

definition alert_user :: "string \<Rightarrow> op" where
  "alert_user msg = eff (note_asked ''alert'' (JStr msg) JUndef)"

definition handler :: "list_page \<Rightarrow> string \<Rightarrow> (js list \<Rightarrow> op) option" where
  "handler p h = map_of (handlers p) h"

section \<open>The pages\<close>

definition TableASNsController :: list_page where
  "TableASNsController =
     ListPage
      [''asns'', ''$scope'', ''$state'', ''locationUtils'']
      [(''asns'', ''asns'')]
      [(''editASN'', \<lambda>a. navigateToPath (''/asns/'' @ to_str (arg a 0))),
       (''createASN'', \<lambda>_. navigateToPath (''/asns/new'')),
       (''refresh'', \<lambda>_. refresh)]
      (data_table ''#asnsTable'')"

definition TableCacheGroupAsnsController :: list_page where
  "TableCacheGroupAsnsController =
     ListPage
      [''cacheGroup'', ''asns'', ''$scope'', ''$state'', ''locationUtils'']
      [(''cacheGroup'', ''cacheGroup''),
       (''asns'', ''asns''),
       (''navigateToPath'', ''locationUtils.navigateToPath'')]
      [(''editASN'', \<lambda>a. navigateToPath (''/asns/'' @ to_str (arg a 0))),
       (''refresh'', \<lambda>_. refresh)]
      (data_table ''#parametersTable'')"

definition TableCacheGroupStaticDnsEntriesController :: list_page where
  "TableCacheGroupStaticDnsEntriesController =
     ListPage
      [''cacheGroup'', ''staticDnsEntries'', ''$scope'', ''$state'', ''locationUtils'']
      [(''cacheGroup'', ''cacheGroup''),
       (''staticDnsEntries'', ''staticDnsEntries''),
       (''navigateToPath'', ''locationUtils.navigateToPath'')]
      [(''refresh'', \<lambda>_. refresh)]
      (data_table ''#staticDnsEntriesTable'')"

definition TableCacheGroupsController :: list_page where
  "TableCacheGroupsController =
     ListPage
      [''cacheGroups'', ''$scope'', ''$state'', ''locationUtils'']
      [(''cacheGroups'', ''cacheGroups'')]
      [(''editCacheGroup'', \<lambda>a. navigateToPath (''/cache-groups/'' @ to_str (arg a 0))),
       (''createCacheGroup'', \<lambda>_. navigateToPath (''/cache-groups/new'')),
       (''refresh'', \<lambda>_. refresh)]
      (data_table ''#cacheGroupsTable'')"

definition TableCDNDeliveryServicesController :: list_page where
  "TableCDNDeliveryServicesController =
     ListPage
      [''cdn'', ''deliveryServices'', ''$scope'', ''$state'', ''dateUtils'', ''deliveryServiceUtils'', ''locationUtils'']
      [(''cdn'', ''cdn''),
       (''deliveryServices'', ''deliveryServices''),
       (''getRelativeTime'', ''dateUtils.getRelativeTime''),
       (''navigateToPath'', ''locationUtils.navigateToPath'')]
      [(''protocol'', \<lambda>a. ret (protocol_of (arg a 0))),
       (''qstring'', \<lambda>a. ret (qstring_of (arg a 0))),
       (''editDeliveryService'', \<lambda>a. table_editDeliveryService (arg a 0)),
       (''refresh'', \<lambda>_. refresh)]
      (data_table ''#deliveryServicesTable'')"

definition TableCDNFederationsController :: list_page where
  "TableCDNFederationsController =
     ListPage
      [''cdn'', ''federations'', ''$scope'', ''$state'', ''$location'', ''locationUtils'']
      [(''cdn'', ''cdn''),
       (''federations'', ''federations''),
       (''navigateToPath'', ''locationUtils.navigateToPath'')]
      [(''createFederation'', \<lambda>_. view_link (''/new'')),
       (''editFederation'', \<lambda>a. deref (arg a 0) ''id'' (\<lambda>x1. view_link (''/'' @ to_str x1))),
       (''refresh'', \<lambda>_. refresh)]
      (data_table ''#federationsTable'')"

definition TableCDNProfilesController :: list_page where
  "TableCDNProfilesController =
     ListPage
      [''cdn'', ''profiles'', ''$scope'', ''$state'', ''locationUtils'']
      [(''cdn'', ''cdn''),
       (''profiles'', ''profiles''),
       (''navigateToPath'', ''locationUtils.navigateToPath'')]
      [(''editProfile'', \<lambda>a. navigateToPath (''/profiles/'' @ to_str (arg a 0))),
       (''refresh'', \<lambda>_. refresh)]
      (data_table ''#profilesTable'')"

definition TableCDNsController :: list_page where
  "TableCDNsController =
     ListPage
      [''cdns'', ''$scope'', ''$state'', ''locationUtils'']
      [(''cdns'', ''cdns'')]
      [(''editCDN'', \<lambda>a. navigateToPath (''/cdns/'' @ to_str (arg a 0))),
       (''createCDN'', \<lambda>_. navigateToPath (''/cdns/new'')),
       (''refresh'', \<lambda>_. refresh)]
      (data_table ''#cdnsTable'')"

definition TableChangeLogsController :: list_page where
  "TableChangeLogsController =
     ListPage
      [''changeLogs'', ''$scope'', ''$state'', ''dateUtils'']
      [(''changeLogs'', ''changeLogs''),
       (''getRelativeTime'', ''dateUtils.getRelativeTime'')]
      [(''refresh'', \<lambda>_. refresh)]
      (data_table ''#changeLogsTable'')"

definition TableDeliveryServiceJobsController :: list_page where
  "TableDeliveryServiceJobsController =
     ListPage
      [''deliveryService'', ''jobs'', ''$scope'', ''$state'', ''$location'', ''locationUtils'']
      [(''deliveryService'', ''deliveryService''),
       (''dsJobs'', ''jobs''),
       (''navigateToPath'', ''locationUtils.navigateToPath'')]
      [(''createJob'', \<lambda>_. view_link (''/new'')),
       (''refresh'', \<lambda>_. refresh)]
      (data_table ''#dsJobsTable'')"

definition TableDeliveryServiceRegexesController :: list_page where
  "TableDeliveryServiceRegexesController =
     ListPage
      [''deliveryService'', ''regexes'', ''$scope'', ''$state'', ''locationUtils'']
      [(''deliveryService'', ''deliveryService''),
       (''regexes'', ''regexes''),
       (''navigateToPath'', ''locationUtils.navigateToPath'')]
      [(''editRegex'', \<lambda>a. navigateToPath (''/delivery-services/'' @ to_str (arg a 0) @ ''/regexes/'' @ to_str (arg a 1))),
       (''createRegex'', \<lambda>a. navigateToPath (''/delivery-services/'' @ to_str (arg a 0) @ ''/regexes/new'')),
       (''refresh'', \<lambda>_. refresh)]
      (data_table ''#regexesTable'')"

definition TableDeliveryServiceStaticDnsEntriesController :: list_page where
  "TableDeliveryServiceStaticDnsEntriesController =
     ListPage
      [''deliveryService'', ''staticDnsEntries'', ''$scope'', ''$state'', ''locationUtils'']
      [(''deliveryService'', ''deliveryService''),
       (''staticDnsEntries'', ''staticDnsEntries''),
       (''navigateToPath'', ''locationUtils.navigateToPath'')]
      [(''refresh'', \<lambda>_. refresh)]
      (data_table ''#staticDnsEntriesTable'')"

definition TableDeliveryServiceTargetsController :: list_page where
  "TableDeliveryServiceTargetsController =
     ListPage
      [''deliveryService'', ''targets'', ''$scope'', ''$state'', ''locationUtils'', ''deliveryServiceService'']
      [(''deliveryService'', ''deliveryService''),
       (''targets'', ''targets''),
       (''navigateToPath'', ''locationUtils.navigateToPath'')]
      [(''editTarget'', \<lambda>a. navigateToPath (''/delivery-services/'' @ to_str (arg a 0) @ ''/targets/'' @ to_str (arg a 1))),
       (''createTarget'', \<lambda>a. navigateToPath (''/delivery-services/'' @ to_str (arg a 0) @ ''/targets/new'')),
       (''refresh'', \<lambda>_. refresh)]
      (data_table ''#targetsTable'')"

definition TableDeliveryServiceUsersController :: list_page where
  "TableDeliveryServiceUsersController =
     ListPage
      [''deliveryService'', ''users'', ''$scope'', ''$state'', ''locationUtils'']
      [(''deliveryService'', ''deliveryService''),
       (''users'', ''users''),
       (''navigateToPath'', ''locationUtils.navigateToPath'')]
      [(''addUser'', \<lambda>_. alert_user ''not hooked up yet: addUser to ds''),
       (''removeUser'', \<lambda>_. alert_user ''not hooked up yet: removeUser from ds''),
       (''isAdmin'', \<lambda>a. deref (arg a 0) ''role'' (\<lambda>r. ret (JBool (js_eq r (JNum 4))))),
       (''refresh'', \<lambda>_. refresh)]
      (data_table ''#usersTable'')"

definition TableDivisionRegionsController :: list_page where
  "TableDivisionRegionsController =
     ListPage
      [''division'', ''divisionRegions'', ''$scope'', ''$state'', ''locationUtils'']
      [(''division'', ''division''),
       (''divisionRegions'', ''divisionRegions''),
       (''navigateToPath'', ''locationUtils.navigateToPath'')]
      [(''editRegion'', \<lambda>a. navigateToPath (''/regions/'' @ to_str (arg a 0))),
       (''refresh'', \<lambda>_. refresh)]
      (data_table ''#regionsTable'')"

definition TableDivisionsController :: list_page where
  "TableDivisionsController =
     ListPage
      [''divisions'', ''$scope'', ''$state'', ''locationUtils'']
      [(''divisions'', ''divisions'')]
      [(''editDivision'', \<lambda>a. navigateToPath (''/divisions/'' @ to_str (arg a 0))),
       (''createDivision'', \<lambda>_. navigateToPath (''/divisions/new'')),
       (''refresh'', \<lambda>_. refresh)]
      (data_table ''#divisionsTable'')"

definition TableJobsController :: list_page where
  "TableJobsController =
     ListPage
      [''jobs'', ''$scope'', ''$state'', ''locationUtils'']
      [(''jobs'', ''jobs'')]
      [(''createJob'', \<lambda>_. navigateToPath (''/jobs/new'')),
       (''refresh'', \<lambda>_. refresh)]
      (data_table ''#jobsTable'')"

definition TableParameterCacheGroupsController :: list_page where
  "TableParameterCacheGroupsController =
     ListPage
      [''parameter'', ''cacheGroups'', ''$scope'', ''$state'', ''locationUtils'']
      [(''parameter'', ''parameter''),
       (''cacheGroups'', ''cacheGroups''),
       (''navigateToPath'', ''locationUtils.navigateToPath'')]
      [(''addCacheGroup'', \<lambda>_. alert_user ''not hooked up yet: add cg to parameter''),
       (''removeCacheGroup'', \<lambda>_. alert_user ''not hooked up yet: remove cg from parameter''),
       (''refresh'', \<lambda>_. refresh)]
      (data_table ''#cacheGroupsTable'')"

definition TableParametersController :: list_page where
  "TableParametersController =
     ListPage
      [''parameters'', ''$scope'', ''$state'', ''locationUtils'']
      [(''parameters'', ''parameters'')]
      [(''editParameter'', \<lambda>a. navigateToPath (''/parameters/'' @ to_str (arg a 0))),
       (''createParameter'', \<lambda>_. navigateToPath (''/parameters/new'')),
       (''refresh'', \<lambda>_. refresh)]
      (data_table ''#parametersTable'')"

definition TablePhysLocationServersController :: list_page where
  "TablePhysLocationServersController =
     ListPage
      [''physLocation'', ''servers'', ''$scope'', ''$state'', ''locationUtils'', ''serverUtils'']
      [(''physLocation'', ''physLocation''),
       (''servers'', ''servers''),
       (''ssh'', ''serverUtils.ssh''),
       (''isOffline'', ''serverUtils.isOffline''),
       (''offlineReason'', ''serverUtils.offlineReason''),
       (''navigateToPath'', ''locationUtils.navigateToPath'')]
      [(''editServer'', \<lambda>a. navigateToPath (''/servers/'' @ to_str (arg a 0))),
       (''refresh'', \<lambda>_. refresh)]
      (data_table ''#serversTable'')"

definition TablePhysLocationsController :: list_page where
  "TablePhysLocationsController =
     ListPage
      [''physLocations'', ''$scope'', ''$state'', ''locationUtils'']
      [(''physLocations'', ''physLocations'')]
      [(''editPhysLocation'', \<lambda>a. navigateToPath (''/phys-locations/'' @ to_str (arg a 0))),
       (''createPhysLocation'', \<lambda>_. navigateToPath (''/phys-locations/new'')),
       (''refresh'', \<lambda>_. refresh)]
      (data_table ''#physLocationsTable'')"

definition TableProfileDeliveryServicesController :: list_page where
  "TableProfileDeliveryServicesController =
     ListPage
      [''profile'', ''deliveryServices'', ''$scope'', ''$state'', ''dateUtils'', ''deliveryServiceUtils'', ''locationUtils'']
      [(''profile'', ''profile''),
       (''deliveryServices'', ''deliveryServices''),
       (''getRelativeTime'', ''dateUtils.getRelativeTime''),
       (''navigateToPath'', ''locationUtils.navigateToPath'')]
      [(''protocol'', \<lambda>a. ret (protocol_of (arg a 0))),
       (''qstring'', \<lambda>a. ret (qstring_of (arg a 0))),
       (''editDeliveryService'', \<lambda>a. table_editDeliveryService (arg a 0)),
       (''refresh'', \<lambda>_. refresh)]
      (data_table ''#deliveryServicesTable'')"

definition TableProfileServersController :: list_page where
  "TableProfileServersController =
     ListPage
      [''profile'', ''servers'', ''$scope'', ''$state'', ''locationUtils'', ''serverUtils'']
      [(''profile'', ''profile''),
       (''servers'', ''servers''),
       (''ssh'', ''serverUtils.ssh''),
       (''isOffline'', ''serverUtils.isOffline''),
       (''offlineReason'', ''serverUtils.offlineReason''),
       (''navigateToPath'', ''locationUtils.navigateToPath'')]
      [(''editServer'', \<lambda>a. navigateToPath (''/servers/'' @ to_str (arg a 0))),
       (''refresh'', \<lambda>_. refresh)]
      (data_table ''#serversTable'')"

definition TableRegionPhysLocationsController :: list_page where
  "TableRegionPhysLocationsController =
     ListPage
      [''region'', ''physLocations'', ''$scope'', ''$state'', ''locationUtils'']
      [(''region'', ''region''),
       (''physLocations'', ''physLocations''),
       (''navigateToPath'', ''locationUtils.navigateToPath'')]
      [(''editPhysLocation'', \<lambda>a. navigateToPath (''/phys-locations/'' @ to_str (arg a 0))),
       (''createPhysLocation'', \<lambda>_. navigateToPath (''/phys-locations/new'')),
       (''refresh'', \<lambda>_. refresh)]
      (data_table ''#physLocationsTable'')"

definition TableRegionsController :: list_page where
  "TableRegionsController =
     ListPage
      [''regions'', ''$scope'', ''$state'', ''locationUtils'']
      [(''regions'', ''regions'')]
      [(''editRegion'', \<lambda>a. navigateToPath (''/regions/'' @ to_str (arg a 0))),
       (''createRegion'', \<lambda>_. navigateToPath (''/regions/new'')),
       (''refresh'', \<lambda>_. refresh)]
      (data_table ''#regionsTable'')"

definition TableStatusServersController :: list_page where
  "TableStatusServersController =
     ListPage
      [''status'', ''servers'', ''$scope'', ''$state'', ''locationUtils'', ''serverUtils'']
      [(''status'', ''status''),
       (''servers'', ''servers''),
       (''ssh'', ''serverUtils.ssh''),
       (''isOffline'', ''serverUtils.isOffline''),
       (''offlineReason'', ''serverUtils.offlineReason''),
       (''navigateToPath'', ''locationUtils.navigateToPath'')]
      [(''editServer'', \<lambda>a. navigateToPath (''/servers/'' @ to_str (arg a 0))),
       (''refresh'', \<lambda>_. refresh)]
      (data_table ''#serversTable'')"

definition TableStatusesController :: list_page where
  "TableStatusesController =
     ListPage
      [''statuses'', ''$scope'', ''$state'', ''locationUtils'']
      [(''statuses'', ''statuses'')]
      [(''editStatus'', \<lambda>a. navigateToPath (''/statuses/'' @ to_str (arg a 0))),
       (''createStatus'', \<lambda>_. navigateToPath (''/statuses/new'')),
       (''refresh'', \<lambda>_. refresh)]
      (data_table ''#statusesTable'')"

definition TableTenantDeliveryServicesController :: list_page where
  "TableTenantDeliveryServicesController =
     ListPage
      [''tenant'', ''tenantDeliveryServices'', ''$scope'', ''$state'', ''dateUtils'', ''deliveryServiceUtils'', ''locationUtils'']
      [(''tenant'', ''tenant''),
       (''tenantDeliveryServices'', ''tenantDeliveryServices''),
       (''getRelativeTime'', ''dateUtils.getRelativeTime''),
       (''navigateToPath'', ''locationUtils.navigateToPath'')]
      [(''protocol'', \<lambda>a. ret (protocol_of (arg a 0))),
       (''qstring'', \<lambda>a. ret (qstring_of (arg a 0))),
       (''editDeliveryService'', \<lambda>a. table_editDeliveryService (arg a 0)),
       (''refresh'', \<lambda>_. refresh)]
      (data_table ''#tenantDSsTable'')"

definition TableTenantUsersController :: list_page where
  "TableTenantUsersController =
     ListPage
      [''tenant'', ''tenantUsers'', ''$scope'', ''$state'', ''locationUtils'']
      [(''tenant'', ''tenant''),
       (''tenantUsers'', ''tenantUsers''),
       (''navigateToPath'', ''locationUtils.navigateToPath'')]
      [(''editUser'', \<lambda>a. navigateToPath (''/users/'' @ to_str (arg a 0))),
       (''refresh'', \<lambda>_. refresh)]
      (data_table ''#tenantUsersTable'')"

definition TableTenantsController :: list_page where
  "TableTenantsController =
     ListPage
      [''tenants'', ''$scope'', ''$state'', ''locationUtils'']
      [(''tenants'', ''tenants'')]
      [(''editTenant'', \<lambda>a. navigateToPath (''/tenants/'' @ to_str (arg a 0))),
       (''createTenant'', \<lambda>_. navigateToPath (''/tenants/new'')),
       (''refresh'', \<lambda>_. refresh)]
      (data_table ''#tenantsTable'')"

definition TableTypeCacheGroupsController :: list_page where
  "TableTypeCacheGroupsController =
     ListPage
      [''type'', ''cacheGroups'', ''$scope'', ''$state'', ''locationUtils'']
      [(''type'', ''type''),
       (''cacheGroups'', ''cacheGroups''),
       (''navigateToPath'', ''locationUtils.navigateToPath'')]
      [(''editCacheGroup'', \<lambda>a. navigateToPath (''/cache-groups/'' @ to_str (arg a 0))),
       (''refresh'', \<lambda>_. refresh)]
      (data_table ''#cacheGroupsTable'')"

definition TableTypeDeliveryServicesController :: list_page where
  "TableTypeDeliveryServicesController =
     ListPage
      [''type'', ''deliveryServices'', ''$scope'', ''$state'', ''dateUtils'', ''deliveryServiceUtils'', ''locationUtils'']
      [(''type'', ''type''),
       (''deliveryServices'', ''deliveryServices''),
       (''getRelativeTime'', ''dateUtils.getRelativeTime''),
       (''navigateToPath'', ''locationUtils.navigateToPath'')]
      [(''protocol'', \<lambda>a. ret (protocol_of (arg a 0))),
       (''qstring'', \<lambda>a. ret (qstring_of (arg a 0))),
       (''editDeliveryService'', \<lambda>a. table_editDeliveryService (arg a 0)),
       (''refresh'', \<lambda>_. refresh)]
      (data_table ''#deliveryServicesTable'')"

definition TableTypeServersController :: list_page where
  "TableTypeServersController =
     ListPage
      [''type'', ''servers'', ''$scope'', ''$state'', ''locationUtils'', ''serverUtils'']
      [(''type'', ''type''),
       (''servers'', ''servers''),
       (''ssh'', ''serverUtils.ssh''),
       (''isOffline'', ''serverUtils.isOffline''),
       (''offlineReason'', ''serverUtils.offlineReason''),
       (''navigateToPath'', ''locationUtils.navigateToPath'')]
      [(''editServer'', \<lambda>a. navigateToPath (''/servers/'' @ to_str (arg a 0))),
       (''refresh'', \<lambda>_. refresh)]
      (data_table ''#serversTable'')"

definition TableTypeStaticDnsEntriesController :: list_page where
  "TableTypeStaticDnsEntriesController =
     ListPage
      [''type'', ''staticDnsEntries'', ''$scope'', ''$state'', ''locationUtils'']
      [(''type'', ''type''),
       (''staticDnsEntries'', ''staticDnsEntries''),
       (''navigateToPath'', ''locationUtils.navigateToPath'')]
      [(''refresh'', \<lambda>_. refresh)]
      (data_table ''#staticDnsEntriesTable'')"

definition TableTypesController :: list_page where
  "TableTypesController =
     ListPage
      [''types'', ''$scope'', ''$state'', ''locationUtils'']
      [(''types'', ''types'')]
      [(''editType'', \<lambda>a. navigateToPath (''/types/'' @ to_str (arg a 0))),
       (''createType'', \<lambda>_. navigateToPath (''/types/new'')),
       (''refresh'', \<lambda>_. refresh)]
      (data_table ''#typesTable'')"

definition TableUsersController :: list_page where
  "TableUsersController =
     ListPage
      [''users'', ''$scope'', ''$state'', ''locationUtils'']
      [(''users'', ''users'')]
      [(''editUser'', \<lambda>a. navigateToPath (''/users/'' @ to_str (arg a 0))),
       (''create'', \<lambda>_. navigateToPath (''/users/new'')),
       (''register'', \<lambda>_. navigateToPath (''/users/register'')),
       (''refresh'', \<lambda>_. refresh)]
      (data_table ''#usersTable'')"

section \<open>All of them\<close>

definition list_pages :: "(string \<times> list_page) list" where
  "list_pages =
    [(''TableASNsController'', TableASNsController),
     (''TableCacheGroupAsnsController'', TableCacheGroupAsnsController),
     (''TableCacheGroupStaticDnsEntriesController'', TableCacheGroupStaticDnsEntriesController),
     (''TableCacheGroupsController'', TableCacheGroupsController),
     (''TableCDNDeliveryServicesController'', TableCDNDeliveryServicesController),
     (''TableCDNFederationsController'', TableCDNFederationsController),
     (''TableCDNProfilesController'', TableCDNProfilesController),
     (''TableCDNsController'', TableCDNsController),
     (''TableChangeLogsController'', TableChangeLogsController),
     (''TableDeliveryServiceJobsController'', TableDeliveryServiceJobsController),
     (''TableDeliveryServiceRegexesController'', TableDeliveryServiceRegexesController),
     (''TableDeliveryServiceStaticDnsEntriesController'', TableDeliveryServiceStaticDnsEntriesController),
     (''TableDeliveryServiceTargetsController'', TableDeliveryServiceTargetsController),
     (''TableDeliveryServiceUsersController'', TableDeliveryServiceUsersController),
     (''TableDivisionRegionsController'', TableDivisionRegionsController),
     (''TableDivisionsController'', TableDivisionsController),
     (''TableJobsController'', TableJobsController),
     (''TableParameterCacheGroupsController'', TableParameterCacheGroupsController),
     (''TableParametersController'', TableParametersController),
     (''TablePhysLocationServersController'', TablePhysLocationServersController),
     (''TablePhysLocationsController'', TablePhysLocationsController),
     (''TableProfileDeliveryServicesController'', TableProfileDeliveryServicesController),
     (''TableProfileServersController'', TableProfileServersController),
     (''TableRegionPhysLocationsController'', TableRegionPhysLocationsController),
     (''TableRegionsController'', TableRegionsController),
     (''TableStatusServersController'', TableStatusServersController),
     (''TableStatusesController'', TableStatusesController),
     (''TableTenantDeliveryServicesController'', TableTenantDeliveryServicesController),
     (''TableTenantUsersController'', TableTenantUsersController),
     (''TableTenantsController'', TableTenantsController),
     (''TableTypeCacheGroupsController'', TableTypeCacheGroupsController),
     (''TableTypeDeliveryServicesController'', TableTypeDeliveryServicesController),
     (''TableTypeServersController'', TableTypeServersController),
     (''TableTypeStaticDnsEntriesController'', TableTypeStaticDnsEntriesController),
     (''TableTypesController'', TableTypesController),
     (''TableUsersController'', TableUsersController)]"

lemmas list_page_defs =
  TableASNsController_def
  TableCacheGroupAsnsController_def
  TableCacheGroupStaticDnsEntriesController_def
  TableCacheGroupsController_def
  TableCDNDeliveryServicesController_def
  TableCDNFederationsController_def
  TableCDNProfilesController_def
  TableCDNsController_def
  TableChangeLogsController_def
  TableDeliveryServiceJobsController_def
  TableDeliveryServiceRegexesController_def
  TableDeliveryServiceStaticDnsEntriesController_def
  TableDeliveryServiceTargetsController_def
  TableDeliveryServiceUsersController_def
  TableDivisionRegionsController_def
  TableDivisionsController_def
  TableJobsController_def
  TableParameterCacheGroupsController_def
  TableParametersController_def
  TablePhysLocationServersController_def
  TablePhysLocationsController_def
  TableProfileDeliveryServicesController_def
  TableProfileServersController_def
  TableRegionPhysLocationsController_def
  TableRegionsController_def
  TableStatusServersController_def
  TableStatusesController_def
  TableTenantDeliveryServicesController_def
  TableTenantUsersController_def
  TableTenantsController_def
  TableTypeCacheGroupsController_def
  TableTypeDeliveryServicesController_def
  TableTypeServersController_def
  TableTypeStaticDnsEntriesController_def
  TableTypesController_def
  TableUsersController_def

end
