(* ===== verification/Navigation.thy ===== *)
theory Navigation
  imports Visits Lists
begin

text \<open>
  Where the links of the portal lead: addresses built from fixed texts and ids are matched against the
  table of pages once and for all, whatever the ids are.
\<close>

section \<open>Segments of a path\<close>

lemma split_on_none: "d \<notin> set x \<Longrightarrow> split_on d x = [x]"
  by (induction x) (auto simp: split_on_def)

lemma split_on_nonempty: "split_on d x \<noteq> []"
  by (cases x) (auto simp: split_on_def)

lemma split_on_first: "d \<notin> set x \<Longrightarrow> split_on d (x @ d # y) = x # split_on d y"
proof (induction x)
  case Nil
  then show ?case by (simp add: split_on_def)
next
  case (Cons c x)
  then show ?case by (auto simp: split_on_def)
qed

definition path_of :: "string list \<Rightarrow> string" where
  "path_of xs = concat (map (Cons (CHR ''/'')) xs)"

lemma segments_path_of:
  "xs \<noteq> [] \<Longrightarrow> \<forall>x\<in>set xs. CHR ''/'' \<notin> set x \<Longrightarrow> segments (path_of xs) = [] # xs"
proof (induction xs)
  case (Cons x xs)
  have "segments (path_of (x # xs)) = [] # split_on (CHR ''/'') (x @ path_of xs)"
    using split_on_first [of "CHR ''/''" "[]"] by (simp add: segments_def path_of_def)
  also have "split_on (CHR ''/'') (x @ path_of xs) = x # xs"
  proof (cases xs)
    case Nil
    then show ?thesis using Cons.prems by (simp add: path_of_def split_on_none)
  next
    case (Cons y ys)
    have "segments (path_of (y # ys)) = [] # y # ys" using Cons.IH Cons.prems Cons by simp
    then have "split_on (CHR ''/'') (y @ path_of ys) = y # ys"
      using split_on_first [of "CHR ''/''" "[]"] by (simp add: segments_def path_of_def)
    then show ?thesis using Cons.prems Cons by (simp add: path_of_def split_on_first)
  qed
  finally show ?case .
qed simp

section \<open>Addresses with ids\<close>

text \<open>A segment of an address is a fixed text or the k-th id.\<close>

datatype link_step = Fixed string | Given nat

fun filled :: "nat list \<Rightarrow> link_step \<Rightarrow> string" where
  "filled ids (Fixed t) = t"
| "filled ids (Given k) = show_nat (ids ! k)"

definition address :: "link_step list \<Rightarrow> nat list \<Rightarrow> string" where
  "address ls ids = path_of (map (filled ids) ls)"

text \<open>What a piece of a pattern does with a step, when every id has at most eight digits (or when every id
  has more).\<close>

fun takes :: "bool \<Rightarrow> piece \<Rightarrow> link_step \<Rightarrow> bool" where
  "takes short (Text t) (Fixed x) = (t = x)"
| "takes short (Text t) (Given k) = False"
| "takes short (Arg n) s = True"
| "takes short (Restricted n r) (Fixed x) = (if r = short_id then is_short_id x else False)"
| "takes short (Restricted n r) (Given k) = (if short then r = short_id else False)"

fun takes_all :: "bool \<Rightarrow> piece list \<Rightarrow> link_step list \<Rightarrow> bool" where
  "takes_all short [] [] = True"
| "takes_all short (p # ps) (s # ss) = (if takes short p s then takes_all short ps ss else False)"
| "takes_all short _ _ = False"

fun step_binds :: "piece list \<Rightarrow> link_step list \<Rightarrow> (string \<times> link_step) list" where
  "step_binds (p # ps) (s # ss) =
     (case bound_name p of None \<Rightarrow> step_binds ps ss | Some n \<Rightarrow> (n, s) # step_binds ps ss)"
| "step_binds _ _ = []"

text \<open>The pages an address leads to, with the steps its parameters come from.\<close>

fun leads_from ::
  "bool \<Rightarrow> link_step list \<Rightarrow> page_rows \<Rightarrow>
     (string \<times> (string \<times> link_step) list \<times> string list) list" where
  "leads_from short ls [] = []"
| "leads_from short ls ((n, ps, qs) # xs) =
     (if takes_all short ps (Fixed [] # ls)
      then (n, step_binds ps (Fixed [] # ls), qs) # leads_from short ls xs
      else leads_from short ls xs)"

definition leads :: "link_step list \<Rightarrow> (string \<times> (string \<times> link_step) list \<times> string list) list" where
  "leads ls = leads_from True ls site"

definition digits_only :: "string \<Rightarrow> bool" where
  "digits_only x \<longleftrightarrow> x \<noteq> [] \<and> list_all is_digit x"

fun texts_ok :: "piece list \<Rightarrow> bool" where
  "texts_ok [] = True"
| "texts_ok (Text t # ps) = (if digits_only t then False else texts_ok ps)"
| "texts_ok (_ # ps) = texts_ok ps"

lemma site_texts_ok: "list_all (\<lambda>(n, ps, qs). texts_ok ps) site"
  unfolding site_def site_groups_def group_defs list.map snd_conv concat.simps append.simps by code_simp

lemma takes_all_lengths: "takes_all short ps ss \<Longrightarrow> length ps = length ss"
  by (induction short ps ss rule: takes_all.induct) (auto split: if_splits)

definition ids_are :: "bool \<Rightarrow> nat list \<Rightarrow> bool" where
  "ids_are short ids \<longleftrightarrow> (\<forall>i\<in>set ids. (length (show_nat i) \<le> 8) = short)"

fun uses :: "nat \<Rightarrow> link_step \<Rightarrow> bool" where
  "uses n (Fixed t) = True"
| "uses n (Given k) = (k < n)"

lemma fits_filled:
  assumes "ids_are short ids" "uses (length ids) s" "\<forall>t. p = Text t \<longrightarrow> \<not> digits_only t"
  shows "fits p (filled ids s) = takes short p s"
proof -
  have "digits_only (show_nat n)" for n by (simp add: digits_only_def show_nat_digits)
  then show ?thesis using assms
    by (cases p; cases s) (auto simp: ids_are_def is_short_id_def show_nat_digits)
qed

lemma fits_all_filled:
  assumes "ids_are short ids" "texts_ok ps" "\<forall>s\<in>set ss. uses (length ids) s"
  shows "list_all2 fits ps (map (filled ids) ss) = takes_all short ps ss"
  using assms
proof (induction short ps ss rule: takes_all.induct)
  case (2 short p ps s ss)
  have "texts_ok ps" "\<forall>t. p = Text t \<longrightarrow> \<not> digits_only t"
    using 2(3) by (cases p; simp split: if_splits)+
  then show ?case using 2 fits_filled [OF 2(2)] by auto
qed auto


lemma binds_filled:
  "list_all2 fits ps (map (filled ids) ss) \<Longrightarrow>
     binds ps (map (filled ids) ss) = map (\<lambda>(n, s). (n, JStr (filled ids s))) (step_binds ps ss)"
proof (induction ps ss rule: step_binds.induct)
  case (1 p ps s ss)
  then show ?case by (cases "bound_name p") (simp_all add: binds_def map_filter_simps)
qed (auto simp: binds_def map_filter_def)

lemma show_nat_no_slash: "CHR ''/'' \<notin> set (show_nat n)"
proof -
  have "\<not> is_digit (CHR ''/'')" by (simp add: is_digit_def)
  then show ?thesis using show_nat_digits [of n] unfolding list_all_iff by blast
qed

definition plain_link :: "nat \<Rightarrow> link_step list \<Rightarrow> bool" where
  "plain_link n ls \<longleftrightarrow>
     ls \<noteq> [] \<and> list_all (uses n) ls \<and>
     list_all (\<lambda>s. case s of Fixed t \<Rightarrow> CHR ''/'' \<notin> set t | Given k \<Rightarrow> True) ls"

lemma segments_address:
  assumes "plain_link n ls"
  shows "segments (address ls ids) = map (filled ids) (Fixed [] # ls)"
proof -
  have "CHR ''/'' \<notin> set (filled ids s)" if "s \<in> set ls" for s
    using assms that show_nat_no_slash by (cases s) (auto simp: plain_link_def list_all_iff)
  then show ?thesis using assms by (simp add: address_def segments_path_of plain_link_def)
qed

lemma site_matches:
  assumes short: "ids_are short ids" and link: "plain_link (length ids) ls"
    and rows: "list_all (\<lambda>(n, ps, qs). texts_ok ps) xs"
  shows "List.map_filter (site_match \<lparr>path = address ls ids, search = qs\<rparr>) xs =
    List.map_filter (\<lambda>(n, ps, ks). if takes_all short ps (Fixed [] # ls)
       then Some (n, map (\<lambda>(k, s). (k, JStr (filled ids s))) (step_binds ps (Fixed [] # ls)) @ query_params ks qs)
       else None) xs"
proof (rule map_filter_agree)
  fix x assume x: "x \<in> set xs"
  obtain n ps ks where [simp]: "x = (n, ps, ks)" by (cases x)
  have uses: "\<forall>s\<in>set (Fixed [] # ls). uses (length ids) s"
    using link by (auto simp: plain_link_def list_all_iff)
  have ok: "texts_ok ps" using rows x by (auto simp: list_all_iff)
  note f = fits_all_filled [OF short ok uses]
  have "list_all2 fits ps (map (filled ids) (Fixed [] # ls)) \<Longrightarrow>
      binds ps (map (filled ids) (Fixed [] # ls)) =
      map (\<lambda>(k, s). (k, JStr (filled ids s))) (step_binds ps (Fixed [] # ls))"
    by (rule binds_filled)
  with f show "site_match \<lparr>path = address ls ids, search = qs\<rparr> x =
    (case x of (n, ps, ks) \<Rightarrow> if takes_all short ps (Fixed [] # ls)
       then Some (n, map (\<lambda>(k, s). (k, JStr (filled ids s))) (step_binds ps (Fixed [] # ls)) @ query_params ks qs)
       else None)"
    by (simp add: segments_address [OF link] del: list.map)
qed

lemma leads_from_eq:
  "List.map_filter (\<lambda>(n, ps, ks). if takes_all short ps (Fixed [] # ls)
       then Some (n, map (\<lambda>(k, s). (k, JStr (filled ids s))) (step_binds ps (Fixed [] # ls)) @ query_params ks qs)
       else None) xs =
   map (\<lambda>(n, bs, ks). (n, map (\<lambda>(k, s). (k, JStr (filled ids s))) bs @ query_params ks qs)) (leads_from short ls xs)"
  by (induction xs) (auto simp: map_filter_simps)


lemma destinations_address:
  assumes "reads_urls m" "ids_are short ids" "plain_link (length ids) ls"
  shows "destinations portal_states m \<lparr>path = address ls ids, search = qs\<rparr> =
    map (\<lambda>(n, bs, ks). (n, map (\<lambda>(k, s). (k, JStr (filled ids s))) bs @ query_params ks qs))
      (leads_from short ls site)"
  by (simp only: destinations_site [OF assms(1)] site_matches [OF assms(2,3) site_texts_ok] leads_from_eq)

section \<open>Links of the list pages\<close>

text \<open>What a browser does with an address that has no query, no fragment and nothing escaped.\<close>

definition plain_text :: "string \<Rightarrow> bool" where
  "plain_text = list_all (\<lambda>c. c \<noteq> CHR ''?'' \<and> c \<noteq> CHR ''#'' \<and> c \<noteq> CHR ''%'')"

definition plain_urls :: "(string \<Rightarrow> location) \<Rightarrow> bool" where
  "plain_urls parse \<longleftrightarrow> (\<forall>u. plain_text u \<longrightarrow> parse u = \<lparr>path = u, search = []\<rparr>)"

fun plain_step :: "link_step \<Rightarrow> bool" where
  "plain_step (Fixed t) = plain_text t"
| "plain_step (Given k) = True"

lemma plain_digits: "plain_text (show_nat n)"
  using show_nat_digits [of n] by (auto simp: plain_text_def list_all_iff is_digit_def)

lemma plain_path: "list_all plain_text xs \<Longrightarrow> plain_text (path_of xs)"
  by (induction xs) (auto simp: plain_text_def path_of_def)

lemma parse_address:
  assumes "plain_urls parse" "list_all plain_step ls"
  shows "parse (address ls ids) = \<lparr>path = address ls ids, search = []\<rparr>"
proof -
  have "plain_text (filled ids s)" if "s \<in> set ls" for s
    using assms(2) that plain_digits by (cases s) (auto simp: list_all_iff)
  then have "plain_text (address ls ids)"
    unfolding address_def by (intro plain_path) (simp add: list_all_iff)
  with assms(1) show ?thesis by (simp add: plain_urls_def)
qed

text \<open>The rows and buttons of the list pages that lead elsewhere: the page, the handler, the address with
  its ids, the page it is meant for, and the parameters that page gets.\<close>

definition list_links :: "(list_page \<times> string \<times> link_step list \<times> string \<times> (string \<times> link_step) list) list" where
  "list_links =
    [(TableASNsController, ''editASN'', [Fixed ''asns'', Given 0],
        ''trafficPortal.private.asns.edit'', [(''asnId'', Given 0)]),
     (TableASNsController, ''createASN'', [Fixed ''asns'', Fixed ''new''],
        ''trafficPortal.private.asns.new'', []),
     (TableCacheGroupAsnsController, ''editASN'', [Fixed ''asns'', Given 0],
        ''trafficPortal.private.asns.edit'', [(''asnId'', Given 0)]),
     (TableCacheGroupsController, ''editCacheGroup'', [Fixed ''cache-groups'', Given 0],
        ''trafficPortal.private.cacheGroups.edit'', [(''cacheGroupId'', Given 0)]),
     (TableCacheGroupsController, ''createCacheGroup'', [Fixed ''cache-groups'', Fixed ''new''],
        ''trafficPortal.private.cacheGroups.new'', []),
     (TableCDNProfilesController, ''editProfile'', [Fixed ''profiles'', Given 0],
        ''trafficPortal.private.profiles.edit'', [(''profileId'', Given 0)]),
     (TableCDNsController, ''editCDN'', [Fixed ''cdns'', Given 0],
        ''trafficPortal.private.cdns.edit'', [(''cdnId'', Given 0)]),
     (TableCDNsController, ''createCDN'', [Fixed ''cdns'', Fixed ''new''],
        ''trafficPortal.private.cdns.new'', []),
     (TableDeliveryServiceRegexesController, ''editRegex'', [Fixed ''delivery-services'', Given 0, Fixed ''regexes'', Given 1],
        ''trafficPortal.private.deliveryServices.regexes.edit'', [(''deliveryServiceId'', Given 0), (''regexId'', Given 1)]),
     (TableDeliveryServiceRegexesController, ''createRegex'', [Fixed ''delivery-services'', Given 0, Fixed ''regexes'', Fixed ''new''],
        ''trafficPortal.private.deliveryServices.regexes.new'', [(''deliveryServiceId'', Given 0)]),
     (TableDeliveryServiceTargetsController, ''editTarget'', [Fixed ''delivery-services'', Given 0, Fixed ''targets'', Given 1],
        ''trafficPortal.private.deliveryServices.targets.edit'', [(''deliveryServiceId'', Given 0), (''targetId'', Given 1)]),
     (TableDeliveryServiceTargetsController, ''createTarget'', [Fixed ''delivery-services'', Given 0, Fixed ''targets'', Fixed ''new''],
        ''trafficPortal.private.deliveryServices.targets.new'', [(''deliveryServiceId'', Given 0)]),
     (TableDivisionRegionsController, ''editRegion'', [Fixed ''regions'', Given 0],
        ''trafficPortal.private.regions.edit'', [(''regionId'', Given 0)]),
     (TableDivisionsController, ''editDivision'', [Fixed ''divisions'', Given 0],
        ''trafficPortal.private.divisions.edit'', [(''divisionId'', Given 0)]),
     (TableDivisionsController, ''createDivision'', [Fixed ''divisions'', Fixed ''new''],
        ''trafficPortal.private.divisions.new'', []),
     (TableJobsController, ''createJob'', [Fixed ''jobs'', Fixed ''new''],
        ''trafficPortal.private.jobs.new'', []),
     (TableParametersController, ''editParameter'', [Fixed ''parameters'', Given 0],
        ''trafficPortal.private.parameters.edit'', [(''parameterId'', Given 0)]),
     (TableParametersController, ''createParameter'', [Fixed ''parameters'', Fixed ''new''],
        ''trafficPortal.private.parameters.new'', []),
     (TablePhysLocationServersController, ''editServer'', [Fixed ''servers'', Given 0],
        ''trafficPortal.private.servers.edit'', [(''serverId'', Given 0)]),
     (TablePhysLocationsController, ''editPhysLocation'', [Fixed ''phys-locations'', Given 0],
        ''trafficPortal.private.physLocations.edit'', [(''physLocationId'', Given 0)]),
     (TablePhysLocationsController, ''createPhysLocation'', [Fixed ''phys-locations'', Fixed ''new''],
        ''trafficPortal.private.physLocations.new'', []),
     (TableProfileServersController, ''editServer'', [Fixed ''servers'', Given 0],
        ''trafficPortal.private.servers.edit'', [(''serverId'', Given 0)]),
     (TableRegionPhysLocationsController, ''editPhysLocation'', [Fixed ''phys-locations'', Given 0],
        ''trafficPortal.private.physLocations.edit'', [(''physLocationId'', Given 0)]),
     (TableRegionPhysLocationsController, ''createPhysLocation'', [Fixed ''phys-locations'', Fixed ''new''],
        ''trafficPortal.private.physLocations.new'', []),
     (TableRegionsController, ''editRegion'', [Fixed ''regions'', Given 0],
        ''trafficPortal.private.regions.edit'', [(''regionId'', Given 0)]),
     (TableRegionsController, ''createRegion'', [Fixed ''regions'', Fixed ''new''],
        ''trafficPortal.private.regions.new'', []),
     (TableStatusServersController, ''editServer'', [Fixed ''servers'', Given 0],
        ''trafficPortal.private.servers.edit'', [(''serverId'', Given 0)]),
     (TableStatusesController, ''editStatus'', [Fixed ''statuses'', Given 0],
        ''trafficPortal.private.statuses.edit'', [(''statusId'', Given 0)]),
     (TableStatusesController, ''createStatus'', [Fixed ''statuses'', Fixed ''new''],
        ''trafficPortal.private.statuses.new'', []),
     (TableTenantUsersController, ''editUser'', [Fixed ''users'', Given 0],
        ''trafficPortal.private.users.edit'', [(''userId'', Given 0)]),
     (TableTenantsController, ''editTenant'', [Fixed ''tenants'', Given 0],
        ''trafficPortal.private.tenants.edit'', [(''tenantId'', Given 0)]),
     (TableTenantsController, ''createTenant'', [Fixed ''tenants'', Fixed ''new''],
        ''trafficPortal.private.tenants.new'', []),
     (TableTypeCacheGroupsController, ''editCacheGroup'', [Fixed ''cache-groups'', Given 0],
        ''trafficPortal.private.cacheGroups.edit'', [(''cacheGroupId'', Given 0)]),
     (TableTypeServersController, ''editServer'', [Fixed ''servers'', Given 0],
        ''trafficPortal.private.servers.edit'', [(''serverId'', Given 0)]),
     (TableTypesController, ''editType'', [Fixed ''types'', Given 0],
        ''trafficPortal.private.types.edit'', [(''typeId'', Given 0)]),
     (TableTypesController, ''createType'', [Fixed ''types'', Fixed ''new''],
        ''trafficPortal.private.types.new'', []),
     (TableUsersController, ''editUser'', [Fixed ''users'', Given 0],
        ''trafficPortal.private.users.edit'', [(''userId'', Given 0)]),
     (TableUsersController, ''create'', [Fixed ''users'', Fixed ''new''],
        ''trafficPortal.private.users.new'', []),
     (TableUsersController, ''register'', [Fixed ''users'', Fixed ''register''],
        ''trafficPortal.private.users.register'', [])]"

definition one_page :: "bool \<Rightarrow> link_step list \<Rightarrow> string \<Rightarrow> (string \<times> link_step) list \<Rightarrow>
    string list \<Rightarrow> page_rows \<Rightarrow> bool" where
  "one_page short ls target bs ks rs \<longleftrightarrow>
     list_all (\<lambda>(n, ps, qs). if takes_all short ps (Fixed [] # ls)
        then n = target \<and> step_binds ps (Fixed [] # ls) = bs \<and> qs = ks else True) rs \<and>
     list_ex (\<lambda>(n, ps, qs). takes_all short ps (Fixed [] # ls)) rs"

lemma leads_from_one:
  assumes "one_page short ls target bs ks rs" "distinct (map fst rs)"
  shows "leads_from short ls rs = [(target, bs, ks)]"
  using assms
proof (induction rs)
  case (Cons r rs)
  obtain n ps qs where [simp]: "r = (n, ps, qs)" by (cases r)
  have none: "leads_from short ls rs = []"
    if "target \<notin> fst ` set rs" "list_all (\<lambda>(n, ps, qs). if takes_all short ps (Fixed [] # ls)
        then n = target \<and> step_binds ps (Fixed [] # ls) = bs \<and> qs = ks else True) rs" for rs
    using that by (induction rs) (auto split: if_splits)
  show ?case
    using Cons none [of rs] by (cases "takes_all short ps (Fixed [] # ls)") (auto simp: one_page_def)
qed (simp add: one_page_def)

lemma site_names_distinct: "distinct (map fst site)"
proof -
  have "map fst (concat (map page_row ls)) = map (sname \<circ> fst) (filter (Not \<circ> is_abstract \<circ> fst) ls)" for ls
    by (induction ls) (auto simp: page_row_def)
  then have "map fst site = map sname (filter (Not \<circ> is_abstract) (map fst lineages))"
    unfolding site_rows [symmetric] by (simp add: filter_map comp_assoc)
  then show ?thesis using state_names_distinct by (simp add: lineages_of_all distinct_map_filter)
qed

text \<open>Only the pages of a link's first segment matter.\<close>

definition group :: "string \<Rightarrow> page_rows" where
  "group g = concat (map snd (filter (\<lambda>(h, rs). h = g) site_groups))"

fun starts_with :: "string \<Rightarrow> piece list \<Rightarrow> bool" where
  "starts_with g (Text a # Text b # ps) = (a = [] \<and> b = g)"
| "starts_with g _ = False"

lemma groups_start: "list_all (\<lambda>(g, rs). list_all (\<lambda>(n, ps, qs). starts_with g ps) rs) site_groups"
  unfolding site_groups_def group_defs by simp

lemma starts_elsewhere:
  "starts_with h ps \<Longrightarrow> h \<noteq> g \<Longrightarrow> \<not> takes_all short ps (Fixed [] # Fixed g # ls)"
  by (induction h ps rule: starts_with.induct) simp_all

lemma one_page_group:
  assumes "one_page short (Fixed g # ls) target bs ks (group g)"
  shows "one_page short (Fixed g # ls) target bs ks site"
proof -
  have other: "\<not> takes_all short ps (Fixed [] # Fixed g # ls)"
    if "(h, rs) \<in> set site_groups" "(n, ps, qs) \<in> set rs" "h \<noteq> g" for h rs n ps qs
  proof -
    have "starts_with h ps" using groups_start that(1,2) by (fastforce simp: list_all_iff)
    then show ?thesis using that(3) by (rule starts_elsewhere)
  qed
  have in_group: "(n, ps, qs) \<in> set (group g)"
    if r: "(n, ps, qs) \<in> set site" and t: "takes_all short ps (Fixed [] # Fixed g # ls)" for n ps qs
  proof -
    obtain h rs where h: "(h, rs) \<in> set site_groups" "(n, ps, qs) \<in> set rs"
      using r by (auto simp: site_def)
    with other t have "h = g" by blast
    with h show ?thesis by (force simp: group_def)
  qed
  have sub: "set (group g) \<subseteq> set site" by (auto simp: site_def group_def)
  show ?thesis
    unfolding one_page_def list_all_iff list_ex_iff
  proof (intro conjI ballI)
    fix r assume "r \<in> set site"
    moreover obtain n ps qs where "r = (n, ps, qs)" by (rule prod_cases3)
    ultimately show "case r of (n, ps, qs) \<Rightarrow> if takes_all short ps (Fixed [] # Fixed g # ls)
        then n = target \<and> step_binds ps (Fixed [] # Fixed g # ls) = bs \<and> qs = ks else True"
      using in_group assms unfolding one_page_def list_all_iff by fastforce
  next
    show "\<exists>r\<in>set site. case r of (n, ps, qs) \<Rightarrow> takes_all short ps (Fixed [] # Fixed g # ls)"
      using sub assms unfolding one_page_def list_ex_iff by blast
  qed
qed

lemma list_links_plain:
  "list_all (\<lambda>(p, h, ls, target, bs). plain_link 2 ls \<and> list_all plain_step ls) list_links"
  unfolding list_links_def list.pred_inject prod.case by (simp add: plain_link_def plain_text_def)

lemma list_links_one_page:
  "list_all (\<lambda>(p, h, ls, target, bs). one_page True ls target bs [] site) list_links"
  unfolding list_links_def list.pred_inject prod.case
  by (intro conjI TrueI one_page_group; simp add: group_def site_groups_def; unfold group_defs;
      simp add: one_page_def short_id_def is_short_id_def is_digit_def)

definition goes_to :: "(js list \<Rightarrow> op) option \<Rightarrow> link_step list \<Rightarrow> bool" where
  "goes_to h ls =
     (case h of
        None \<Rightarrow> False
      | Some f \<Rightarrow> \<forall>i k. f [JNum (int i), JNum (int k)] = navigateToPath (address ls [i, k]))"

lemma to_str_nat: "to_str (JNum (int n)) = show_nat n"
  by (simp add: show_int_def)

lemma arg_simps: "arg (x # xs) 0 = x" "arg (x # xs) (Suc k) = arg xs k"
  by (simp_all add: arg_def)

lemma goes_to_some:
  "(\<And>i k. f [JNum (int i), JNum (int k)] = navigateToPath (address ls [i, k])) \<Longrightarrow> goes_to (Some f) ls"
  by (simp add: goes_to_def)

lemma list_links_handlers:
  "list_all (\<lambda>(p, h, ls, target, bs). goes_to (handler p h) ls) list_links"
  unfolding list_links_def list.pred_inject prod.case
  by (intro conjI TrueI; simp add: list_page_defs handler_def goes_to_def address_def path_of_def arg_simps
      to_str_nat del: to_str.simps)

lemma show_nat_fits: "0 < d \<Longrightarrow> length (show_nat n) \<le> d \<longleftrightarrow> n < 10 ^ d"
proof (induction n arbitrary: d rule: show_nat.induct)
  case (1 n)
  show ?case
  proof (cases "n < 10")
    case True
    have "(10::nat) \<le> 10 ^ d" using 1(2) by (cases d) simp_all
    with True 1(2) show ?thesis by (simp add: show_nat_small)
  next
    case False
    show ?thesis
    proof (cases "d = 1")
      case True
      then show ?thesis using False by (simp add: show_nat_step)
    next
      case d1: False
      then obtain e where e: "d = Suc e" "0 < e" using 1(2) by (cases d) auto
      have "length (show_nat n) \<le> d \<longleftrightarrow> length (show_nat (n div 10)) \<le> e"
        using False e by (simp add: show_nat_step)
      also have "\<dots> \<longleftrightarrow> n div 10 < 10 ^ e" using 1(1) [OF False e(2)] .
      also have "\<dots> \<longleftrightarrow> n < 10 ^ d" by (simp add: e(1) div_less_iff_less_mult mult.commute)
      finally show ?thesis .
    qed
  qed
qed

lemma ids_are_iff: "ids_are short ids \<longleftrightarrow> (\<forall>i\<in>set ids. (i < 10 ^ 8) = short)"
  by (simp add: ids_are_def show_nat_fits)

lemma one_page_leads:
  assumes "reads_urls m" "ids_are True ids" "plain_link (length ids) ls" "one_page True ls target bs ks site"
  shows "destinations portal_states m \<lparr>path = address ls ids, search = qs\<rparr> =
    [(target, map (\<lambda>(n, s). (n, JStr (filled ids s))) bs @ query_params ks qs)]"
  by (simp add: destinations_address [OF assms(1-3)] leads_from_one [OF assms(4) site_names_distinct])

lemma no_query [simp]: "query_params [] qs = []"
  by (simp add: query_params_def map_filter_def)

lemma list_link_known:
  assumes "(p, h, ls, target, bs) \<in> set list_links"
  shows "plain_link 2 ls" "list_all plain_step ls" "one_page True ls target bs [] site" "goes_to (handler p h) ls"
  using assms list_links_plain list_links_one_page list_links_handlers by (auto simp: list_all_iff)

text \<open>The rows and buttons of the list pages lead where they are meant to: for every id of at most eight
  digits the address a handler goes to belongs to exactly one page, the one for that kind of thing, and
  the page's parameters are the ids of the row.\<close>

lemma list_links_lead:
  assumes "reads_urls m" "plain_urls (parseUrl w)" "(p, h, ls, target, bs) \<in> set list_links"
    and "i < 10 ^ 8" "k < 10 ^ 8"
  shows "\<exists>f. handler p h = Some f \<and>
    destinations portal_states m (loc (snd (run (f [JNum (int i), JNum (int k)]) w))) =
      [(target, map (\<lambda>(n, s). (n, JStr (filled [i, k] s))) bs)]"
proof -
  note known = list_link_known [OF assms(3)]
  obtain f where f: "handler p h = Some f"
    "f [JNum (int i), JNum (int k)] = navigateToPath (address ls [i, k])"
    using known(4) by (auto simp: goes_to_def split: option.splits)
  have "loc (snd (run (navigateToPath (address ls [i, k])) w)) = \<lparr>path = address ls [i, k], search = []\<rparr>"
    using parse_address [OF assms(2) known(2)] by (simp add: navigateToPath_def set_url_def)
  moreover have "ids_are True [i, k]" using assms(4,5) by (simp add: ids_are_iff)
  ultimately show ?thesis
    using f known(1) one_page_leads [OF assms(1) _ _ known(3), of "[i, k]" "[]"]
    by (simp add: numeral_2_eq_2)
qed

lemma shown_digits: "show_nat 4 = ''4''" "show_nat 5 = ''5''" "show_nat 7 = ''7''"
  by code_simp+

lemma start_world_plain: "plain_urls (parseUrl (start_world s u))"
  by (simp add: plain_urls_def)

lemma asn_row:
  "(TableASNsController, ''editASN'', [Fixed ''asns'', Given 0], ''trafficPortal.private.asns.edit'',
     [(''asnId'', Given 0)]) \<in> set list_links"
  by (simp add: list_links_def)

section \<open>Ids the URLs have no room for\<close>

definition no_page :: "bool \<Rightarrow> link_step list \<Rightarrow> page_rows \<Rightarrow> bool" where
  "no_page short ls rs \<longleftrightarrow> list_all (\<lambda>(n, ps, qs). if takes_all short ps (Fixed [] # ls) then False else True) rs"

lemma leads_from_none: "no_page short ls rs \<Longrightarrow> leads_from short ls rs = []"
  by (induction rs) (auto simp: no_page_def split: if_splits)

lemma no_page_group:
  assumes "no_page short (Fixed g # ls) (group g)" shows "no_page short (Fixed g # ls) site"
proof -
  have "\<not> takes_all short ps (Fixed [] # Fixed g # ls)" if r: "(n, ps, qs) \<in> set site" for n ps qs
  proof -
    obtain h rs where h: "(h, rs) \<in> set site_groups" "(n, ps, qs) \<in> set rs"
      using r by (auto simp: site_def)
    show ?thesis
    proof (cases "h = g")
      case True
      with h have "(n, ps, qs) \<in> set (group g)" by (force simp: group_def)
      with assms show ?thesis by (auto simp: no_page_def list_all_iff)
    next
      case False
      have "starts_with h ps" using groups_start h by (fastforce simp: list_all_iff)
      then show ?thesis using False by (rule starts_elsewhere)
    qed
  qed
  then show ?thesis by (auto simp: no_page_def list_all_iff)
qed

lemma no_page_leads:
  assumes "reads_urls m" "ids_are short ids" "plain_link (length ids) ls" "no_page short ls site"
  shows "destinations portal_states m \<lparr>path = address ls ids, search = qs\<rparr> = []"
  by (simp add: destinations_address [OF assms(1-3)] leads_from_none [OF assms(4)])

definition one_id :: "link_step list \<Rightarrow> bool" where
  "one_id ls \<longleftrightarrow> (case ls of [Fixed g, Given k] \<Rightarrow> k = 0 | _ \<Rightarrow> False)"

lemma list_links_long:
  "list_all (\<lambda>(p, h, ls, target, bs). one_id ls \<longrightarrow> no_page False ls site) list_links"
  unfolding list_links_def list.pred_inject prod.case one_id_def list.case link_step.case nat.case simp_thms
  by (intro conjI TrueI impI no_page_group; simp add: group_def site_groups_def; unfold group_defs;
      simp add: no_page_def short_id_def is_short_id_def is_digit_def)




section \<open>Links of the forms\<close>

text \<open>A link of a form appends to the address of the form's page.\<close>

definition form_link :: "(string \<times> string) list \<Rightarrow> string \<Rightarrow> op" where
  "form_link links n = (case map_of links n of None \<Rightarrow> throw type_error | Some l \<Rightarrow> view_link l)"

definition form_links :: "(op \<times> link_step list \<times> link_step list \<times> string \<times> (string \<times> link_step) list) list" where
  "form_links =
    [(form_link FormServer_links ''viewConfigFiles'', [Fixed ''servers'', Given 0], [Fixed ''config-files''],
        ''trafficPortal.private.servers.configFiles'', [(''serverId'', Given 0)]),
     (form_link FormServer_links ''viewDeliveryServices'', [Fixed ''servers'', Given 0], [Fixed ''delivery-services''],
        ''trafficPortal.private.servers.deliveryServices'', [(''serverId'', Given 0)]),
     (form_link FormCDN_links ''manageDNSSEC'', [Fixed ''cdns'', Given 0], [Fixed ''dnssec-keys''],
        ''trafficPortal.private.cdns.dnssecKeys.view'', [(''cdnId'', Given 0)]),
     (form_link FormCDN_links ''manageFederations'', [Fixed ''cdns'', Given 0], [Fixed ''federations''],
        ''trafficPortal.private.cdns.federations.list'', [(''cdnId'', Given 0)]),
     (form_link FormCDN_links ''viewConfig'', [Fixed ''cdns'', Given 0], [Fixed ''config'', Fixed ''changes''],
        ''trafficPortal.private.cdns.config'', [(''cdnId'', Given 0)]),
     (form_link FormCDN_links ''viewProfiles'', [Fixed ''cdns'', Given 0], [Fixed ''profiles''],
        ''trafficPortal.private.cdns.profiles'', [(''cdnId'', Given 0)]),
     (form_link FormCDN_links ''viewServers'', [Fixed ''cdns'', Given 0], [Fixed ''servers''],
        ''trafficPortal.private.cdns.servers'', [(''cdnId'', Given 0)]),
     (form_link FormCDN_links ''viewDeliveryServices'', [Fixed ''cdns'', Given 0], [Fixed ''delivery-services''],
        ''trafficPortal.private.cdns.deliveryServices'', [(''cdnId'', Given 0)]),
     (form_link FormProfile_links ''viewParams'', [Fixed ''profiles'', Given 0], [Fixed ''parameters''],
        ''trafficPortal.private.profiles.parameters'', [(''profileId'', Given 0)]),
     (form_link FormProfile_links ''viewServers'', [Fixed ''profiles'', Given 0], [Fixed ''servers''],
        ''trafficPortal.private.profiles.servers'', [(''profileId'', Given 0)]),
     (form_link FormProfile_links ''viewDeliveryServices'', [Fixed ''profiles'', Given 0], [Fixed ''delivery-services''],
        ''trafficPortal.private.profiles.deliveryServices'', [(''profileId'', Given 0)]),
     (form_link FormCacheGroup_links ''viewAsns'', [Fixed ''cache-groups'', Given 0], [Fixed ''asns''],
        ''trafficPortal.private.cacheGroups.asns'', [(''cacheGroupId'', Given 0)]),
     (form_link FormCacheGroup_links ''viewParams'', [Fixed ''cache-groups'', Given 0], [Fixed ''parameters''],
        ''trafficPortal.private.cacheGroups.parameters'', [(''cacheGroupId'', Given 0)]),
     (form_link FormCacheGroup_links ''viewServers'', [Fixed ''cache-groups'', Given 0], [Fixed ''servers''],
        ''trafficPortal.private.cacheGroups.servers'', [(''cacheGroupId'', Given 0)]),
     (form_link FormRegion_links ''viewPhysLocations'', [Fixed ''regions'', Given 0], [Fixed ''phys-locations''],
        ''trafficPortal.private.regions.physLocations'', [(''regionId'', Given 0)]),
     (form_link FormPhysLocation_links ''viewServers'', [Fixed ''phys-locations'', Given 0], [Fixed ''servers''],
        ''trafficPortal.private.physLocations.servers'', [(''physLocationId'', Given 0)]),
     (form_link FormStatus_links ''viewServers'', [Fixed ''statuses'', Given 0], [Fixed ''servers''],
        ''trafficPortal.private.statuses.servers'', [(''statusId'', Given 0)]),
     (form_link FormType_links ''viewServers'', [Fixed ''types'', Given 0], [Fixed ''servers''],
        ''trafficPortal.private.types.servers'', [(''typeId'', Given 0)]),
     (form_link FormType_links ''viewDeliveryServices'', [Fixed ''types'', Given 0], [Fixed ''delivery-services''],
        ''trafficPortal.private.types.deliveryServices'', [(''typeId'', Given 0)]),
     (form_link FormType_links ''viewCacheGroups'', [Fixed ''types'', Given 0], [Fixed ''cache-groups''],
        ''trafficPortal.private.types.cacheGroups'', [(''typeId'', Given 0)]),
     (form_link FormType_links ''viewStaticDnsEntries'', [Fixed ''types'', Given 0], [Fixed ''static-dns-entries''],
        ''trafficPortal.private.types.staticDnsEntries'', [(''typeId'', Given 0)]),
     (form_link FormDivision_links ''viewRegions'', [Fixed ''divisions'', Given 0], [Fixed ''regions''],
        ''trafficPortal.private.divisions.regions'', [(''divisionId'', Given 0)]),
     (form_link FormParameter_links ''viewProfiles'', [Fixed ''parameters'', Given 0], [Fixed ''profiles''],
        ''trafficPortal.private.parameters.profiles'', [(''parameterId'', Given 0)]),
     (form_link FormParameter_links ''viewCacheGroups'', [Fixed ''parameters'', Given 0], [Fixed ''cache-groups''],
        ''trafficPortal.private.parameters.cacheGroups'', [(''parameterId'', Given 0)]),
     (form_link FormUser_links ''viewDeliveryServices'', [Fixed ''users'', Given 0], [Fixed ''delivery-services''],
        ''trafficPortal.private.users.deliveryServices'', [(''userId'', Given 0)]),
     (form_link FormTenant_links ''viewUsers'', [Fixed ''tenants'', Given 0], [Fixed ''users''],
        ''trafficPortal.private.tenants.users'', [(''tenantId'', Given 0)]),
     (form_link FormTenant_links ''viewDSs'', [Fixed ''tenants'', Given 0], [Fixed ''delivery-services''],
        ''trafficPortal.private.tenants.deliveryServices'', [(''tenantId'', Given 0)]),
     (viewTargets, [Fixed ''delivery-services'', Given 0], [Fixed ''targets''],
        ''trafficPortal.private.deliveryServices.targets.list'', [(''deliveryServiceId'', Given 0)]),
     (viewServers, [Fixed ''delivery-services'', Given 0], [Fixed ''servers''],
        ''trafficPortal.private.deliveryServices.servers'', [(''deliveryServiceId'', Given 0)]),
     (viewRegexes, [Fixed ''delivery-services'', Given 0], [Fixed ''regexes''],
        ''trafficPortal.private.deliveryServices.regexes.list'', [(''deliveryServiceId'', Given 0)]),
     (viewJobs, [Fixed ''delivery-services'', Given 0], [Fixed ''jobs''],
        ''trafficPortal.private.deliveryServices.jobs.list'', [(''deliveryServiceId'', Given 0)]),
     (manageSslKeys, [Fixed ''delivery-services'', Given 0], [Fixed ''ssl-keys''],
        ''trafficPortal.private.deliveryServices.sslKeys.view'', [(''deliveryServiceId'', Given 0)]),
     (manageUrlSigKeys, [Fixed ''delivery-services'', Given 0], [Fixed ''url-sig-keys''],
        ''trafficPortal.private.deliveryServices.urlSigKeys'', [(''deliveryServiceId'', Given 0)]),
     (manageUriSigningKeys, [Fixed ''delivery-services'', Given 0], [Fixed ''uri-signing-keys''],
        ''trafficPortal.private.deliveryServices.uriSigningKeys'', [(''deliveryServiceId'', Given 0)]),
     (viewStaticDnsEntries, [Fixed ''delivery-services'', Given 0], [Fixed ''static-dns-entries''],
        ''trafficPortal.private.deliveryServices.staticDnsEntries'', [(''deliveryServiceId'', Given 0)]),
     (form_link FormFederation_links ''viewDeliveryServices'', [Fixed ''cdns'', Given 0, Fixed ''federations'', Given 1], [Fixed ''delivery-services''],
        ''trafficPortal.private.cdns.federations.deliveryServices'', [(''cdnId'', Given 0), (''fedId'', Given 1)]),
     (form_link FormFederation_links ''viewUsers'', [Fixed ''cdns'', Given 0, Fixed ''federations'', Given 1], [Fixed ''users''],
        ''trafficPortal.private.cdns.federations.users'', [(''cdnId'', Given 0), (''fedId'', Given 1)])]"

definition appends :: "op \<Rightarrow> link_step list \<Rightarrow> bool" where
  "appends p tail \<longleftrightarrow> (\<forall>w. snd (run p w) = append_path (address tail []) w)"

lemmas form_link_defs =
  FormServer_links_def FormCDN_links_def FormProfile_links_def FormCacheGroup_links_def
  FormRegion_links_def FormPhysLocation_links_def FormStatus_links_def FormType_links_def
  FormDivision_links_def FormParameter_links_def FormFederation_links_def FormUser_links_def
  FormTenant_links_def viewTargets_def viewServers_def viewRegexes_def viewJobs_def manageSslKeys_def
  manageUrlSigKeys_def manageUriSigningKeys_def viewStaticDnsEntries_def

lemma form_links_append:
  "list_all (\<lambda>(p, base, tail, target, bs). appends p tail) form_links"
  unfolding form_links_def list.pred_inject prod.case
  by (intro conjI TrueI; simp add: form_link_def form_link_defs view_link_def view_below_def appends_def
      address_def path_of_def)

fun is_fixed :: "link_step \<Rightarrow> bool" where
  "is_fixed (Fixed t) = True"
| "is_fixed (Given k) = False"

lemma form_links_plain:
  "list_all (\<lambda>(p, base, tail, target, bs). plain_link 2 (base @ tail) \<and> list_all is_fixed tail) form_links"
  unfolding form_links_def list.pred_inject prod.case by (simp add: plain_link_def)

lemma form_links_one_page:
  "list_all (\<lambda>(p, base, tail, target, bs). one_page True (base @ tail) target bs [] site) form_links"
  unfolding form_links_def list.pred_inject prod.case append.simps
  by (intro conjI TrueI one_page_group; simp add: group_def site_groups_def; unfold group_defs;
      simp add: one_page_def short_id_def is_short_id_def is_digit_def)

lemma address_append: "address (ls @ ms) ids = address ls ids @ address ms ids"
  by (simp add: address_def path_of_def)

lemma address_fixed: "list_all is_fixed ms \<Longrightarrow> address ms ids = address ms []"
proof (induction ms)
  case (Cons s ms)
  then show ?case by (cases s) (simp_all add: address_def path_of_def)
qed (simp add: address_def)

text \<open>C16. Every link of a form leads to the page it is meant for: from the address of the thing that is edited,
  whatever query that address has, appending the link gives an address of exactly one page, which gets
  the ids of the form's address as its parameters.\<close>

theorem form_links_lead:
  assumes "reads_urls m" "(p, base, tail, target, bs) \<in> set form_links"
    and "path (loc w) = address base [i, k]" "i < 10 ^ 8" "k < 10 ^ 8"
  shows "destinations portal_states m (loc (snd (run p w))) =
    [(target, map (\<lambda>(n, s). (n, JStr (filled [i, k] s))) bs)]"
proof -
  have app: "appends p tail" and plain: "plain_link 2 (base @ tail)" "list_all is_fixed tail"
    and one: "one_page True (base @ tail) target bs [] site"
    using assms(2) form_links_append form_links_plain form_links_one_page by (auto simp: list_all_iff)
  have "loc (snd (run p w)) = \<lparr>path = address (base @ tail) [i, k], search = search (loc w)\<rparr>"
    using app assms(3) address_fixed [OF plain(2), of "[i, k]"]
    by (cases "loc w") (simp add: appends_def append_path_def set_path_def address_append)
  moreover have "ids_are True [i, k]" using assms(4,5) by (simp add: ids_are_iff)
  ultimately show ?thesis
    using one_page_leads [OF assms(1) _ _ one, of "[i, k]" "search (loc w)"] plain(1)
    by (simp add: numeral_2_eq_2)
qed

lemma form_links_lead_witness:
  "destinations portal_states documented_match
     (loc (snd (run (form_link FormServer_links ''viewConfigFiles'')
       ((start_world accept_all close_all)\<lparr>loc := \<lparr>path = ''/servers/5'', search = []\<rparr>\<rparr>)))) =
   [(''trafficPortal.private.servers.configFiles'', [(''serverId'', JStr ''5'')])]"
proof -
  have "(form_link FormServer_links ''viewConfigFiles'', [Fixed ''servers'', Given 0], [Fixed ''config-files''],
      ''trafficPortal.private.servers.configFiles'', [(''serverId'', Given 0)]) \<in> set form_links"
    by (simp add: form_links_def)
  from form_links_lead [OF documented_match this, of
      "(start_world accept_all close_all)\<lparr>loc := \<lparr>path = ''/servers/5'', search = []\<rparr>\<rparr>" 5 0]
  show ?thesis by (simp add: address_def path_of_def shown_digits)
qed


text \<open>C30. One link of a form leads nowhere: the static DNS entries of a cache group are registered as a state
  directly under \<open>trafficPortal.private\<close>, so from a cache group's page the link gives an address that no
  page has.\<close>

theorem cacheGroup_static_dns_leads_nowhere:
  assumes "reads_urls m" "path (loc w) = address [Fixed ''cache-groups'', Given 0] [i]"
  shows "destinations portal_states m
    (loc (snd (run (form_link FormCacheGroup_links ''viewStaticDnsEntries'') w))) = []"
proof -
  let ?ls = "[Fixed ''cache-groups'', Given 0, Fixed ''static-dns-entries'']"
  have "no_page short ?ls site" for short
    by (rule no_page_group) (simp add: group_def site_groups_def no_page_def pages_cache_groups_def
        short_id_def is_short_id_def is_digit_def)
  then have "no_page (i < 10 ^ 8) ?ls site" .
  moreover have "ids_are (i < 10 ^ 8) [i]" "plain_link (length [i]) ?ls"
    by (simp_all add: ids_are_iff plain_link_def)
  moreover have "loc (snd (run (form_link FormCacheGroup_links ''viewStaticDnsEntries'') w)) =
      \<lparr>path = address ?ls [i], search = search (loc w)\<rparr>"
    using assms(2) by (cases "loc w") (simp add: form_link_def FormCacheGroup_links_def view_link_def append_path_def
        set_path_def address_def path_of_def)
  ultimately show ?thesis using no_page_leads [OF assms(1)] by simp
qed

lemma cacheGroup_static_dns_leads_nowhere_witness:
  "destinations portal_states documented_match
     (loc (snd (run (form_link FormCacheGroup_links ''viewStaticDnsEntries'')
       ((start_world accept_all close_all)\<lparr>loc := \<lparr>path = ''/cache-groups/5'', search = []\<rparr>\<rparr>)))) = []"
  by (rule cacheGroup_static_dns_leads_nowhere [OF documented_match, of _ 5])
    (simp add: address_def path_of_def shown_digits)


section \<open>From a row to its record\<close>

text \<open>The records the edit pages are for: the state, the parameter with the id, and the collection of the API
  that the record belongs to.\<close>

definition records :: "(ui_state \<times> string \<times> string) list" where
  "records =
    [(state_asns_edit, ''asnId'', ''asns''),
     (state_cacheGroups_edit, ''cacheGroupId'', ''cachegroups''),
     (state_cdns_edit, ''cdnId'', ''cdns''),
     (state_divisions_edit, ''divisionId'', ''divisions''),
     (state_parameters_edit, ''parameterId'', ''parameters''),
     (state_physLocations_edit, ''physLocationId'', ''phys_locations''),
     (state_profiles_edit, ''profileId'', ''profiles''),
     (state_regions_edit, ''regionId'', ''regions''),
     (state_servers_edit, ''serverId'', ''servers''),
     (state_statuses_edit, ''statusId'', ''statuses''),
     (state_tenants_edit, ''tenantId'', ''tenants''),
     (state_types_edit, ''typeId'', ''types''),
     (state_users_edit, ''userId'', ''users'')]"

text \<open>The request for the record of a collection with an id.\<close>

definition record_call :: "string \<Rightarrow> nat \<Rightarrow> call" where
  "record_call coll i = RGet [One coll (JStr (show_nat i))] JUndef"

definition record_page :: "ui_state \<Rightarrow> string \<Rightarrow> string \<Rightarrow> bool" where
  "record_page t k coll \<longleftrightarrow>
     (\<exists>asks. (t, asks) \<in> set page_fetches \<and> (\<forall>v. asks v = [RGet [One coll (param v k)] JUndef]))"

lemma in_page_fetches:
  "(\<exists>asks. (t, asks) \<in> set ((t', a) # xs) \<and> Q asks) \<longleftrightarrow> (t = t' \<and> Q a) \<or> (\<exists>asks. (t, asks) \<in> set xs \<and> Q asks)"
  by auto

lemma records_pages: "list_all (\<lambda>(t, k, coll). record_page t k coll) records"
  unfolding records_def list.pred_inject prod.case record_page_def page_fetches_def in_page_fetches
  by (simp only: simp_thms list.pred_inject)

lemma records_link:
  "list_all (\<lambda>(p, h, ls, target, bs). one_id ls \<longrightarrow>
     list_ex (\<lambda>(t, k, coll). sname t = target \<and> bs = [(k, Given 0)]) records) list_links"
  unfolding list_links_def list.pred_inject prod.case one_id_def list.case link_step.case nat.case simp_thms
    records_def list_ex_Cons_iff list_ex_Nil_iff snames
  by simp

text \<open>C6. From a row to its record: for every row that is told by one id of at most eight digits, its
  link leads to exactly one page, and however that page opens, it asks the server for the record with
  that id in the collection the page is for, and for nothing else but the portal's own data; when the
  page is shown, it has asked for the record.\<close>

theorem row_shows_its_record:
  assumes "reads_urls m" "plain_urls (parseUrl w)" "(p, h, ls, target, bs) \<in> set list_links"
    and "one_id ls" "i < 10 ^ 8"
  shows "\<exists>f ps t k coll. handler p h = Some f \<and> (t, k, coll) \<in> set records \<and>
    destinations portal_states m (loc (snd (run (f [JNum (int i), JNum (int i)]) w))) = [(sname t, ps)] \<and>
    (\<forall>v u s u'. stateParams v = ps \<longrightarrow> opened v (page_jobs portal_states (sname t)) u s u' \<longrightarrow>
       (\<exists>cs. sent u' = sent u @ cs \<and> list_all (asks_only (apiRoot u) [record_call coll i]) cs \<and>
          (shows_page (page_jobs portal_states (sname t)) s \<longrightarrow> record_call coll i \<in> set cs)))"
proof -
  obtain t k coll where r: "(t, k, coll) \<in> set records" "sname t = target" "bs = [(k, Given 0)]"
    using records_link assms(3,4) by (fastforce simp: list_all_iff list_ex_iff)
  then obtain asks where a: "(t, asks) \<in> set page_fetches" "\<And>v. asks v = [RGet [One coll (param v k)] JUndef]"
    using records_pages by (fastforce simp: list_all_iff record_page_def)
  let ?ps = "[(k, JStr (show_nat i))]"
  obtain f where f: "handler p h = Some f"
    "destinations portal_states m (loc (snd (run (f [JNum (int i), JNum (int i)]) w))) = [(sname t, ?ps)]"
    using list_links_lead [OF assms(1-3,5,5)] r by auto
  have "asks v = [record_call coll i]" if "stateParams v = ?ps" for v
    using a(2) that by (simp add: param_def lookup_def record_call_def)
  then have "\<exists>cs. sent u' = sent u @ cs \<and> list_all (asks_only (apiRoot u) [record_call coll i]) cs \<and>
      (shows_page (page_jobs portal_states (sname t)) s \<longrightarrow> record_call coll i \<in> set cs)"
    if "stateParams v = ?ps" "opened v (page_jobs portal_states (sname t)) u s u'" for v u s u'
    using page_asks_exactly [OF a(1) that(2)] that(1) by simp
  with f r(1) show ?thesis by blast
qed

lemma row_shows_its_record_witness:
  "\<exists>f ps t k coll. handler TableASNsController ''editASN'' = Some f \<and> (t, k, coll) \<in> set records \<and>
    destinations portal_states documented_match
      (loc (snd (run (f [JNum 7, JNum 7]) (start_world accept_all close_all)))) = [(sname t, ps)] \<and>
    (\<forall>v u s u'. stateParams v = ps \<longrightarrow> opened v (page_jobs portal_states (sname t)) u s u' \<longrightarrow>
       (\<exists>cs. sent u' = sent u @ cs \<and> list_all (asks_only (apiRoot u) [record_call coll 7]) cs \<and>
          (shows_page (page_jobs portal_states (sname t)) s \<longrightarrow> record_call coll 7 \<in> set cs)))"
  using row_shows_its_record [OF documented_match start_world_plain asn_row, of 7] by (simp add: one_id_def)


section \<open>Delivery services carry their type\<close>

text \<open>What a browser does with an address that has one query parameter and nothing escaped.\<close>

definition query_text :: "string \<Rightarrow> bool" where
  "query_text t \<longleftrightarrow> plain_text t \<and> CHR ''&'' \<notin> set t \<and> CHR ''='' \<notin> set t \<and> CHR ''+'' \<notin> set t"

definition query_urls :: "(string \<Rightarrow> location) \<Rightarrow> bool" where
  "query_urls parse \<longleftrightarrow>
     (\<forall>u k t. plain_text u \<longrightarrow> query_text k \<longrightarrow> query_text t \<longrightarrow>
        parse (u @ ''?'' @ k @ ''='' @ t) = \<lparr>path = u, search = [(k, t)]\<rparr>)"

definition ds_templates :: "(string \<times> js) list" where
  "ds_templates =
    [(''ANY_MAP'', JStr ''common/modules/form/deliveryService/form.deliveryService.anyMap.tpl.html''),
     (''DNS'', JStr ''common/modules/form/deliveryService/form.deliveryService.DNS.tpl.html''),
     (''HTTP'', JStr ''common/modules/form/deliveryService/form.deliveryService.HTTP.tpl.html''),
     (''STEERING'', JStr ''common/modules/form/deliveryService/form.deliveryService.Steering.tpl.html'')]"

lemma template_category:
  "param v ''type'' = JStr t \<Longrightarrow> template_by_type v = Some (lookup (type_category t) ds_templates)"
  by (simp add: template_by_type_def type_category_def ds_templates_def lookup_def)

lemma no_type_no_template: "param v ''type'' = JUndef \<Longrightarrow> template_by_type v = None"
  by (simp add: template_by_type_def)

lemma ds_page:
  "one_page True [Fixed ''delivery-services'', Given 0] ''trafficPortal.private.deliveryServices.edit''
     [(''deliveryServiceId'', Given 0)] [''type''] site"
  by (rule one_page_group) (simp add: group_def site_groups_def one_page_def pages_delivery_services_def
      short_id_def is_short_id_def is_digit_def)

text \<open>C19. A row of a table of delivery services opens the edit page of that delivery service, with its id and
  its type, and the template the page chooses is that of the category whose types its form offers.\<close>

theorem ds_row_opens_its_form:
  assumes "reads_urls m" "query_urls (parseUrl w)" "fld ds ''id'' = JNum (int i)" "i < 10 ^ 8"
    and "fld ds ''type'' = JStr t" "query_text t"
  shows "destinations portal_states m (loc (snd (run (table_editDeliveryService ds) w))) =
      [(''trafficPortal.private.deliveryServices.edit'',
        [(''deliveryServiceId'', JStr (show_nat i)), (''type'', JStr t)])] \<and>
    (\<forall>v. stateParams v = [(''deliveryServiceId'', JStr (show_nat i)), (''type'', JStr t)] \<longrightarrow>
       template_by_type v = Some (lookup (type_category t) ds_templates))"
proof -
  let ?ls = "[Fixed ''delivery-services'', Given 0]"
  have type_text: "query_text ''type''" by (simp add: query_text_def plain_text_def)
  have "plain_text (address ?ls [i])"
    using plain_digits [of i] by (simp add: address_def path_of_def plain_text_def)
  then have "parseUrl w (address ?ls [i] @ ''?'' @ ''type'' @ ''='' @ t) =
      \<lparr>path = address ?ls [i], search = [(''type'', t)]\<rparr>"
    using assms(2,6) type_text unfolding query_urls_def by blast
  then have "loc (snd (run (table_editDeliveryService ds) w)) =
      \<lparr>path = address ?ls [i], search = [(''type'', t)]\<rparr>"
    using assms(3,5) by (simp add: table_editDeliveryService_def navigateToPath_def set_url_def
        address_def path_of_def show_int_def)
  moreover have "ids_are True [i]" "plain_link (length [i]) ?ls"
    using assms(4) by (simp_all add: ids_are_iff plain_link_def)
  ultimately show ?thesis
    using one_page_leads [OF assms(1) _ _ ds_page, of "[i]" "[(''type'', t)]"] template_category
    by (simp add: query_params_def map_filter_simps param_def lookup_def)
qed

definition split_query :: "string \<Rightarrow> location" where
  "split_query u =
     (case dropWhile (\<lambda>c. c \<noteq> CHR ''?'') u of
        [] \<Rightarrow> \<lparr>path = u, search = []\<rparr>
      | c # q \<Rightarrow> \<lparr>path = takeWhile (\<lambda>c. c \<noteq> CHR ''?'') u,
          search = [(takeWhile (\<lambda>c. c \<noteq> CHR ''='') q, tl (dropWhile (\<lambda>c. c \<noteq> CHR ''='') q))]\<rparr>)"

lemma takeWhile_stop:
  "d \<notin> set u \<Longrightarrow> takeWhile (\<lambda>c. c \<noteq> d) (u @ d # v) = u \<and> dropWhile (\<lambda>c. c \<noteq> d) (u @ d # v) = d # v"
  by (induction u) auto

lemma split_query: "query_urls split_query"
  unfolding query_urls_def
proof (intro allI impI)
  fix u k t assume "plain_text u" "query_text k"
  then have "CHR ''?'' \<notin> set u" "CHR ''='' \<notin> set k"
    by (auto simp: plain_text_def query_text_def list_all_iff)
  then show "split_query (u @ ''?'' @ k @ ''='' @ t) = \<lparr>path = u, search = [(k, t)]\<rparr>"
    using takeWhile_stop [of "CHR ''?''" u "k @ ''='' @ t"] takeWhile_stop [of "CHR ''=''" k t]
    by (simp add: split_query_def)
qed

lemma ds_row_opens_its_form_witness:
  "destinations portal_states documented_match
     (loc (snd (run (table_editDeliveryService (JObj [(''id'', JNum 4), (''type'', JStr ''HTTP_LIVE'')]))
       ((start_world accept_all close_all)\<lparr>parseUrl := split_query\<rparr>)))) =
   [(''trafficPortal.private.deliveryServices.edit'',
     [(''deliveryServiceId'', JStr ''4''), (''type'', JStr ''HTTP_LIVE'')])]"
proof -
  let ?ds = "JObj [(''id'', JNum 4), (''type'', JStr ''HTTP_LIVE'')]"
  let ?w = "(start_world accept_all close_all)\<lparr>parseUrl := split_query\<rparr>"
  have "query_urls (parseUrl ?w)" by (simp add: split_query)
  from ds_row_opens_its_form [OF documented_match this, of ?ds 4 "''HTTP_LIVE''"] show ?thesis
    by (simp add: fld_def lookup_def query_text_def plain_text_def shown_digits)
qed


end
