(* ===== verification/Lifecycle.thy ===== *)
theory Lifecycle
  imports DsRequests
begin

text \<open>
  The life of a delivery service request: the workflow Traffic Ops enforces
  (\<open>lib/go-tc/deliveryservice_requests.go\<close>), what the pages of Traffic Portal ask of it, and several
  users who act on pages they have loaded at different times.
\<close>

section \<open>The workflow (lib/go-tc/deliveryservice_requests.go)\<close>

type_synonym RequestStatus = string

definition RequestStatusInvalid :: RequestStatus where "RequestStatusInvalid = ''invalid''"
definition RequestStatusDraft :: RequestStatus where "RequestStatusDraft = ''draft''"
definition RequestStatusSubmitted :: RequestStatus where "RequestStatusSubmitted = ''submitted''"
definition RequestStatusRejected :: RequestStatus where "RequestStatusRejected = ''rejected''"
definition RequestStatusPending :: RequestStatus where "RequestStatusPending = ''pending''"
definition RequestStatusComplete :: RequestStatus where "RequestStatusComplete = ''complete''"

lemmas status_texts =
  RequestStatusInvalid_def RequestStatusDraft_def RequestStatusSubmitted_def
  RequestStatusRejected_def RequestStatusPending_def RequestStatusComplete_def

definition RequestStatuses :: "RequestStatus list" where
  "RequestStatuses = [''draft'', ''submitted'', ''rejected'', ''pending'', ''complete'']"

text \<open>The second component is the error, \<open>None\<close> for \<open>nil\<close>.\<close>

definition RequestStatusFromString :: "string \<Rightarrow> RequestStatus \<times> string option" where
  "RequestStatusFromString rs =
     (if rs = [] then (RequestStatusDraft, None)
      else case find (\<lambda>s. s = rs) RequestStatuses of
             Some s \<Rightarrow> (s, None)
           | None \<Rightarrow> (RequestStatusInvalid, Some (rs @ '' is not a valid RequestStatus name'')))"

definition ValidTransition :: "RequestStatus \<Rightarrow> RequestStatus \<Rightarrow> string option" where
  "ValidTransition r to' =
     (if r = RequestStatusRejected \<or> r = RequestStatusComplete
      then Some (r @ '' request cannot be changed'')
      else if r = to' then None
      else if to' = RequestStatusDraft \<and> r = RequestStatusSubmitted then None
      else if to' = RequestStatusSubmitted \<and> r = RequestStatusDraft then None
      else if to' = RequestStatusRejected \<and> r = RequestStatusSubmitted then None
      else if to' = RequestStatusPending \<and> r = RequestStatusSubmitted then None
      else if to' = RequestStatusComplete \<and> r = RequestStatusPending then None
      else Some (''invalid transition from '' @ r @ '' to '' @ to'))"

text \<open>What the handlers of Traffic Ops check before they store a status or delete
  (\<open>deliveryservice/request/requests.go\<close>); \<open>None\<close> is no objection.\<close>

definition quoted :: "string \<Rightarrow> string" where
  "quoted s = CHR 0x27 # s @ [CHR 0x27]"

definition request_Update :: "RequestStatus \<Rightarrow> RequestStatus option \<Rightarrow> string option" where
  "request_Update current requested =
     (case requested of
        None \<Rightarrow> Some ''Missing status for DeliveryServiceRequest''
      | Some t \<Rightarrow>
          if current \<noteq> RequestStatusDraft \<and> current \<noteq> RequestStatusSubmitted
          then Some (''Cannot change DeliveryServiceRequest in '' @ quoted current @ '' status.'')
          else if t \<noteq> RequestStatusDraft \<and> t \<noteq> RequestStatusSubmitted
          then Some (''Cannot change DeliveryServiceRequest status from '' @ quoted current @
                     '' to '' @ quoted t)
          else None)"

definition request_status_Update :: "RequestStatus \<Rightarrow> RequestStatus \<Rightarrow> string option" where
  "request_status_Update current requested = ValidTransition current requested"

definition request_Delete :: "RequestStatus \<Rightarrow> string option" where
  "request_Delete st =
     (if st = RequestStatusComplete \<or> st = RequestStatusPending \<or> st = RequestStatusRejected
      then Some (''cannot delete a deliveryservice_request with state '' @ st) else None)"

section \<open>What a call asks of a request\<close>

text \<open>A call that updates the request (\<open>Whole\<close>), or its status only (\<open>StatusOnly\<close>), asks for the
  status in its body; the request can also be deleted.\<close>

datatype asking_for = Whole string | StatusOnly string | Removal

definition asked_of :: "string \<Rightarrow> js \<Rightarrow> call \<Rightarrow> asking_for option" where
  "asked_of root i c =
     (case c of
        HPut u body \<Rightarrow>
          (case fld body ''status'' of
             JStr s \<Rightarrow>
               (if u = root @ ''deliveryservice_requests/'' @ to_str i then Some (Whole s)
                else if u = root @ ''deliveryservice_requests/'' @ to_str i @ ''/status''
                then Some (StatusOnly s) else None)
           | _ \<Rightarrow> None)
      | RRemove p \<Rightarrow> (if p = [One ''deliveryservice_requests'' i] then Some Removal else None)
      | _ \<Rightarrow> None)"

text \<open>Whether the server's workflow has no objection in a status.  A name that is no status is refused
  when the body is read (\<open>UnmarshalJSON\<close>).\<close>

fun allowed :: "RequestStatus \<Rightarrow> asking_for \<Rightarrow> bool" where
  "allowed s (Whole t) \<longleftrightarrow> snd (RequestStatusFromString t) = None \<and> request_Update s (Some t) = None"
| "allowed s (StatusOnly t) \<longleftrightarrow> snd (RequestStatusFromString t) = None \<and> request_status_Update s t = None"
| "allowed s Removal \<longleftrightarrow> request_Delete s = None"

section \<open>The actions of the pages\<close>

text \<open>The actions of the table and of the form, each with the guard its button has.\<close>

datatype req_action =
    AssignSelf bool
  | EditStatus
  | Reject
  | Complete
  | DeleteRow
  | FormEditStatus
  | Fulfill bool js
  | SaveForm js
  | DeleteForm js

fun action_op :: "req_action \<Rightarrow> js \<Rightarrow> op" where
  "action_op (AssignSelf b) request = assignRequest request b"
| "action_op EditStatus request = editStatus request"
| "action_op Reject request = rejectRequest request"
| "action_op Complete request = completeRequest request"
| "action_op DeleteRow request = deleteRequest request"
| "action_op FormEditStatus request = form_editStatus request"
| "action_op (Fulfill dirty ds) request = fulfillRequest request (fld request ''changeType'') dirty ds"
| "action_op (SaveForm ds) request = save_request request ds"
| "action_op (DeleteForm ds) request = confirm_delete_request request (fld request ''id'') ds"

fun enabled :: "req_action \<Rightarrow> js \<Rightarrow> bool" where
  "enabled (AssignSelf b) request = open_request request"
| "enabled EditStatus request = open_request request"
| "enabled Reject request = rejectable request"
| "enabled Complete request = completeable request"
| "enabled DeleteRow request = open_request request"
| "enabled FormEditStatus request = form_open request"
| "enabled (Fulfill dirty ds) request = form_fulfillable request"
| "enabled (SaveForm ds) request = saveable request"
| "enabled (DeleteForm ds) request = deletable request"

lemmas guard_defs =
  open_request_def rejectable_def completeable_def form_open_def form_fulfillable_def saveable_def
  deletable_def has_status_def


section \<open>What the actions ask\<close>

text \<open>\<open>Q\<close> holds of everything that is asked for.\<close>

definition asks :: "string \<Rightarrow> js \<Rightarrow> (asking_for \<Rightarrow> bool) \<Rightarrow> call \<Rightarrow> bool" where
  "asks root i Q c \<longleftrightarrow> (case asked_of root i c of None \<Rightarrow> True | Some t \<Rightarrow> Q t)"

abbreviation asking :: "string \<Rightarrow> js \<Rightarrow> (asking_for \<Rightarrow> bool) \<Rightarrow> world \<Rightarrow> world \<Rightarrow> bool" where
  "asking root i Q \<equiv> calls_only root (asks root i Q)"

lemma asks_simps [simp]:
  "asks root i Q (RGetList p x)" "asks root i Q (RPost p x)" "p \<noteq> [One ''deliveryservice_requests'' i] \<Longrightarrow> asks root i Q (RRemove p)"
  "Q Removal \<Longrightarrow> asks root i Q (RRemove [One ''deliveryservice_requests'' j])"
  "asks root i Q (status_call i t root) = Q (StatusOnly t)" "asks root i Q (assign_call i u root)"
  by (simp_all add: asks_def asked_of_def status_call_def assign_call_def)

lemma asking_moves [keeps_intros]:
  "calls_only root P w (set_url u w)" "calls_only root P w (state_reload w)"
  "calls_only root P w (anchor_scroll w)" "calls_only root P w (set_scope k v w)"
  by (auto intro!: calls_only_same_log simp: location_defs)

lemma asking_navigate [keeps_intros]: "keeps (calls_only root P) (navigateToPath u)"
  and asking_refresh [keeps_intros]: "keeps (calls_only root P) refresh"
  unfolding navigateToPath_def refresh_def by (intro keeps_intros)+

lemma asking_status [keeps_intros]:
  "Q (StatusOnly t) \<Longrightarrow> keeps (asking root i Q) (updateDeliveryServiceRequestStatus i t)"
  unfolding updateDeliveryServiceRequestStatus_def
  by (intro keeps_intros calls.http_now calls_only_send) simp_all

lemma asking_assign [keeps_intros]: "keeps (asking root i Q) (assignDeliveryServiceRequest i u)"
  unfolding assignDeliveryServiceRequest_def
  by (intro keeps_intros calls.http_now calls_only_send) simp_all

lemma asking_update [keeps_intros]:
  "fld x ''status'' = JStr t \<Longrightarrow> Q (Whole t) \<Longrightarrow> keeps (asking root i Q) (updateDeliveryServiceRequest i x)"
  unfolding updateDeliveryServiceRequest_def
  by (intro keeps_intros calls.api calls_only_send) (simp add: asks_def asked_of_def)

lemma asking_delete_request [keeps_intros]:
  "Q Removal \<Longrightarrow> keeps (asking root i Q) (deleteDeliveryServiceRequest j d)"
  unfolding deleteDeliveryServiceRequest_def
  by (intro keeps_intros calls.rest_calls calls_only_send) simp_all

lemma asking_ds [keeps_intros]:
  "keeps (asking root i Q) (createDeliveryService ds)"
  "keeps (asking root i Q) (updateDeliveryService ds d)"
  "keeps (asking root i Q) (confirm_and_delete ds)"
  unfolding createDeliveryService_def updateDeliveryService_def confirm_and_delete_def
    deleteDeliveryService_def
  by (intro keeps_intros calls.rest_calls calls.api calls_only_send calls.message;
      simp add: asks_def asked_of_def split: js.splits)+

lemma asking_refuse [keeps_intros]: "keeps (calls_only root P) refuse_complete"
  unfolding refuse_complete_def by (intro keeps_intros calls.message)


lemma allowed_simps [simp]:
  "allowed s (Whole ''draft'') \<longleftrightarrow> s \<in> {''draft'', ''submitted''}"
  "allowed s (Whole ''submitted'') \<longleftrightarrow> s \<in> {''draft'', ''submitted''}"
  "allowed s (StatusOnly ''rejected'') \<longleftrightarrow> s = ''submitted''"
  "allowed s (StatusOnly ''pending'') \<longleftrightarrow> s \<in> {''submitted'', ''pending''}"
  "allowed s (StatusOnly ''complete'') \<longleftrightarrow> s = ''pending''"
  "allowed s Removal \<longleftrightarrow> s \<notin> {''complete'', ''pending'', ''rejected''}"
  by (auto simp: RequestStatusFromString_def RequestStatuses_def ValidTransition_def request_Update_def
      request_status_Update_def request_Delete_def status_texts)

declare allowed.simps [simp del]

text \<open>The dialog for a choice closes with an item of its collection or none.\<close>

lemma select_closes_with_item:
  assumes "\<And>v. v \<in> insert JUndef (set (elems x)) \<Longrightarrow> f v = g v"
  shows "on_close (dialog_select p x) f = on_close (dialog_select p x) g"
proof -
  have "find_by_id (elems x) s \<in> insert JUndef (set (elems x))" for s
    using find_by_id_sound [OF refl] by fastforce
  then have "f (find_by_id (elems x) s) = g (find_by_id (elems x) s)" for s by (rule assms)
  then show ?thesis
    by (auto simp: on_close_def dialog_select_def then1_def then2_def open_modal_def run_def ret_def
        throw_def fun_eq_iff split: answer.splits)
qed

lemma keeps_select:
  assumes "\<And>v. v \<in> insert JUndef (set (elems x)) \<Longrightarrow> keeps (calls_only root P) (f v)"
  shows "keeps (calls_only root P) (on_close (dialog_select p x) f)"
proof -
  let ?g = "\<lambda>v. if v \<in> insert JUndef (set (elems x)) then f v else ret JUndef"
  have "keeps (calls_only root P) (on_close (dialog_select p x) ?g)"
    by (intro keeps_intros) (auto intro: assms keeps_intros)
  also have "on_close (dialog_select p x) ?g = on_close (dialog_select p x) f"
    by (rule select_closes_with_item) simp
  finally show ?thesis .
qed

lemma asking_set_status:
  assumes "is_object request" "Q (Whole t)"
  shows "keeps (asking root (fld request ''id'') Q) (set_request_status request t)"
proof -
  have u: "keeps (asking root (fld request ''id'') Q)
      (updateDeliveryServiceRequest (fld request ''id'') (set_fld request ''status'' (JStr t)))"
    by (rule asking_update) (use assms in simp_all)
  show ?thesis
    unfolding set_request_status_def Let_def store_request_def
    by (intro keeps_intros) (use u assms(1) in simp)
qed

lemma asking_form_editStatus:
  assumes "is_object request" "fld request ''status'' = JStr s"
    and "s = ''pending'' \<Longrightarrow> Q (StatusOnly ''complete'')"
    and "s \<in> {''draft'', ''submitted''} \<Longrightarrow> Q (Whole ''draft'') \<and> Q (Whole ''submitted'')"
  shows "keeps (asking root (fld request ''id'') Q) (form_editStatus request)"
  unfolding form_editStatus_def
proof (rule keeps_select)
  fix v
  assume v: "v \<in> insert JUndef (set (elems (form_statuses request)))"
  have c: "Q (StatusOnly ''complete'')" if "js_same i COMPLETE" "getp v ''id'' = Some i" for i
  proof -
    have "s = ''pending''"
      using v that assms(2)
      by (auto simp: form_statuses_def has_status_def draft_or_submit_def option_item_def status_defs
          split: if_splits)
    then show ?thesis using assms(3) by simp
  qed
  have d: "Q (Whole ''draft'') \<and> Q (Whole ''submitted'')"
    if "js_same i DRAFT \<or> js_same i SUBMITTED" "getp v ''id'' = Some i" for i
  proof -
    have "s \<in> {''draft'', ''submitted''}"
      using v that assms(2)
      by (auto simp: form_statuses_def has_status_def draft_or_submit_def option_item_def status_defs
          split: if_splits)
    then show ?thesis using assms(4) by simp
  qed
  have "keeps (asking root (fld request ''id'') Q)
      (if js_same i DRAFT then set_request_status request ''draft''
       else if js_same i SUBMITTED then set_request_status request ''submitted''
       else if js_same i COMPLETE then with_world (\<lambda>w.
         if \<not> assigned_to_user request w then refuse_complete
         else when_done (updateDeliveryServiceRequestStatus (fld request ''id'') ''complete'') refresh)
       else ret JUndef)" if "getp v ''id'' = Some i" for i
    using c [OF _ that] d [OF _ that] assms(1)
    by (auto intro!: keeps_intros asking_set_status)
  then show "keeps (asking root (fld request ''id'') Q) (deref v ''id'' (\<lambda>i.
      if js_same i DRAFT then set_request_status request ''draft''
      else if js_same i SUBMITTED then set_request_status request ''submitted''
      else if js_same i COMPLETE then with_world (\<lambda>w.
        if \<not> assigned_to_user request w then refuse_complete
        else when_done (updateDeliveryServiceRequestStatus (fld request ''id'') ''complete'') refresh)
      else ret JUndef))"
    by (cases "getp v ''id''") (auto simp: deref_def intro: keeps_intros)
qed


lemma asking_update_status:
  "is_object request \<Longrightarrow> Q (Whole t) \<Longrightarrow>
     keeps (asking root (fld request ''id'') Q)
       (updateDeliveryServiceRequest (fld request ''id'') (set_fld request ''status'' (JStr t)))"
  by (rule asking_update) simp_all

lemma asking_fulfill:
  assumes "fld request ''status'' = JStr t" "Q (Whole t)" "Q (StatusOnly ''pending'')"
  shows "keeps (asking root (fld request ''id'') Q) (fulfillRequest request changeType dirty ds)"
proof -
  have "\<forall>p\<in>set (fulfill_promises request dirty u). keeps (asking root (fld request ''id'') Q) p" for u
    using assms by (auto simp: fulfill_promises_def intro!: asking_update asking_assign asking_status)
  then show ?thesis
    unfolding fulfillRequest_def fulfill_confirmed_def Let_def
    by (auto intro!: keeps_intros)
qed

lemma action_asks:
  assumes "is_object request" "fld request ''status'' = JStr s" "enabled a request"
    and "\<And>t. allowed s t \<Longrightarrow> t \<noteq> StatusOnly ''complete'' \<Longrightarrow> Q t"
    and "a \<in> {Complete, FormEditStatus} \<Longrightarrow> s = ''pending'' \<Longrightarrow> Q (StatusOnly ''complete'')"
  shows "keeps (asking root (fld request ''id'') Q) (action_op a request)"
proof (cases a)
  case (AssignSelf b)
  show ?thesis
    unfolding AssignSelf action_op.simps assignRequest_def Let_def by (auto intro!: keeps_intros)
next
  case EditStatus
  then have "Q (Whole ''draft'')" "Q (Whole ''submitted'')"
    using assms(2-4) by (auto simp: guard_defs)
  then have u: "keeps (asking root (fld request ''id'') Q)
      (let request' = set_fld request ''status'' (JStr (if js_eq i DRAFT then ''draft'' else ''submitted''))
       in seq (eff (set_scope ''request'' request'))
            (when_done (updateDeliveryServiceRequest (fld request' ''id'') request') refresh))" for i
    using assms(1) by (auto simp: Let_def intro!: keeps_intros asking_update_status)
  show ?thesis
    unfolding EditStatus action_op.simps editStatus_def by (intro keeps_intros u)
next
  case Reject
  then have "Q (StatusOnly ''rejected'')" using assms(2-4) by (auto simp: guard_defs)
  then show ?thesis
    unfolding Reject action_op.simps rejectRequest_def by (auto intro!: keeps_intros)
next
  case Complete
  then have "Q (StatusOnly ''complete'')" using assms(2,3,5) by (auto simp: guard_defs)
  then show ?thesis
    unfolding Complete action_op.simps completeRequest_def by (auto intro!: keeps_intros)
next
  case DeleteRow
  then have "Q Removal"
    using assms(2-4) by (auto simp: guard_defs)
  then show ?thesis
    unfolding DeleteRow action_op.simps deleteRequest_def Let_def by (auto intro!: keeps_intros)
next
  case FormEditStatus
  then have "s \<in> {''draft'', ''submitted''} \<Longrightarrow> Q (Whole ''draft'') \<and> Q (Whole ''submitted'')"
    "s = ''pending'' \<Longrightarrow> Q (StatusOnly ''complete'')"
    using assms(4,5) by auto
  then show ?thesis
    unfolding FormEditStatus action_op.simps using assms(1,2) by (intro asking_form_editStatus)
next
  case (Fulfill dirty ds)
  then have "Q (Whole ''submitted'')" "Q (StatusOnly ''pending'')" "fld request ''status'' = JStr ''submitted''"
    using assms(2-4) by (auto simp: guard_defs)
  then show ?thesis unfolding Fulfill action_op.simps by (intro asking_fulfill)
next
  case (SaveForm ds)
  then have q: "Q (Whole ''draft'')" "Q (Whole ''submitted'')"
    using assms(2-4) by (auto simp: guard_defs)
  have u: "keeps (asking root (fld request ''id'') Q) (updateDeliveryServiceRequest (fld request ''id'')
      (set_fld (set_fld request ''status'' (JStr t)) ''deliveryService'' ds))" if "Q (Whole t)" for t
    by (rule asking_update) (use that assms(1) in simp_all)
  show ?thesis
    unfolding SaveForm action_op.simps save_request_def Let_def store_request_def
    using assms(1) q by (intro keeps_intros calls.message) (auto intro!: u)
next
  case (DeleteForm ds)
  then have "Q Removal"
    using assms(2-4) by (auto simp: guard_defs)
  then show ?thesis
    unfolding DeleteForm action_op.simps confirm_delete_request_def by (auto intro!: keeps_intros)
qed

text \<open>Somebody who is not the assignee never asks for a completion.\<close>

lemma asking_run:
  "keeps (asking (apiRoot w) i Q) p \<Longrightarrow>
     \<exists>cs. sent (snd (run p w)) = sent w @ cs \<and> list_all (asks (apiRoot w) i Q) cs"
  using calls.of_run [of "apiRoot w" "asks (apiRoot w) i Q" p w]
  by (metis calls_only_def surjective_pairing)

lemma asking_form_editStatus_other:
  assumes "fld request ''status'' = JStr ''pending''" "\<not> assigned_to_user request w"
  shows "\<exists>cs. sent (snd (run (form_editStatus request) w)) = sent w @ cs \<and> list_all P cs"
proof -
  have c: "form_statuses request = JArr [option_item COMPLETE ''Complete'']"
    using assms(1) by (simp add: form_statuses_def has_status_def)
  have g: "x = COMPLETE"
    if "getp (find_by_id (elems (JArr [option_item COMPLETE ''Complete''])) v) ''id'' = Some x" for v x
    using that by (auto simp: find_by_id_def option_item_def split: if_splits)
  have d: "\<not> js_same COMPLETE DRAFT" "\<not> js_same COMPLETE SUBMITTED" "js_same COMPLETE COMPLETE"
    by (simp_all add: status_defs)
  have e: "assigned_to_user request (digest (note_asked n q x w)) = assigned_to_user request w" for n q x
    by (simp add: assigned_to_user_def current_user_id_def)
  have "sent (snd (run (form_editStatus request) w)) = sent w"
    unfolding form_editStatus_def run_on_close run_dialog_select c
    using assms(2)
    by (auto simp: run_deref d e refuse_complete_def anchor_scroll_def setMessages_def
        simp del: elems.simps dest!: g split: answer.splits option.splits)
  then show ?thesis by (intro exI [of _ "[]"]) simp
qed

lemma action_calls:
  assumes "is_object request" "fld request ''status'' = JStr s" "enabled a request"
  shows "\<exists>cs. sent (snd (run (action_op a request) w)) = sent w @ cs \<and>
    list_all (asks (apiRoot w) (fld request ''id'')
      (\<lambda>x. allowed s x \<and> (x = StatusOnly ''complete'' \<longrightarrow> assigned_to_user request w))) cs"
    (is "\<exists>cs. _ \<and> list_all (asks _ _ ?Q) cs")
proof (cases "assigned_to_user request w \<or> a \<notin> {Complete, FormEditStatus} \<or> s \<noteq> ''pending''")
  case True
  have "keeps (asking (apiRoot w) (fld request ''id'') ?Q) (action_op a request)"
    using True by (intro action_asks [OF assms]) auto
  then show ?thesis by (rule asking_run)
next
  case False
  then consider "a = Complete" | "a = FormEditStatus" by blast
  then show ?thesis
  proof cases
    case 1
    then show ?thesis
      using False by (auto simp: completeRequest_def refuse_complete_def anchor_scroll_def setMessages_def)
  next
    case 2
    then show ?thesis using False assms(2) asking_form_editStatus_other by simp
  qed
qed


section \<open>Several users at work on one request\<close>

text \<open>Who made a change: a page, with the user's number, the request as the page holds it and the
  user's id; or another client of the API.\<close>

datatype actor = Page nat js js | Other

record change =
  made_by :: actor
  before :: RequestStatus
  after_it :: "RequestStatus option"

text \<open>The request as Traffic Ops holds it (\<open>None\<close> once it is deleted), the pages of the users, which
  may be out of date, and the changes made so far.\<close>

record desk =
  status :: "RequestStatus option"
  pages :: "nat \<Rightarrow> js option"
  changes :: "change list"

fun result_of :: "asking_for \<Rightarrow> RequestStatus option" where
  "result_of (Whole t) = Some t"
| "result_of (StatusOnly t) = Some t"
| "result_of Removal = None"

definition change_to :: "actor \<Rightarrow> RequestStatus \<Rightarrow> asking_for \<Rightarrow> desk \<Rightarrow> desk" where
  "change_to who s x d =
     d\<lparr>status := result_of x,
       changes := changes d @ [\<lparr>made_by = who, before = s, after_it = result_of x\<rparr>]\<rparr>"

inductive desk_step :: "js \<Rightarrow> desk \<Rightarrow> desk \<Rightarrow> bool" for i :: js where
  load: "status d = Some s \<Longrightarrow> is_object request \<Longrightarrow> fld request ''id'' = i \<Longrightarrow>
    fld request ''status'' = JStr s \<Longrightarrow>
    desk_step i d (d\<lparr>pages := (pages d)(u := Some request)\<rparr>)"
| act: "status d = Some s \<Longrightarrow> pages d u = Some request \<Longrightarrow> enabled a request \<Longrightarrow>
    c \<in> set (drop (length (sent w)) (sent (snd (run (action_op a request) w)))) \<Longrightarrow>
    asked_of (apiRoot w) i c = Some x \<Longrightarrow> allowed s x \<Longrightarrow>
    desk_step i d (change_to (Page u request (current_user_id w)) s x d)"
| other: "status d = Some s \<Longrightarrow> allowed s x \<Longrightarrow> desk_step i d (change_to Other s x d)"

inductive_cases desk_stepE: "desk_step i d d'"

definition fresh_desk :: "RequestStatus \<Rightarrow> desk" where
  "fresh_desk s = \<lparr>status = Some s, pages = (\<lambda>_. None), changes = []\<rparr>"

text \<open>The changes lead from one status to another.\<close>

fun leads :: "RequestStatus option \<Rightarrow> change list \<Rightarrow> RequestStatus option \<Rightarrow> bool" where
  "leads s [] t \<longleftrightarrow> s = t"
| "leads s (c # cs) t \<longleftrightarrow> s = Some (before c) \<and> leads (after_it c) cs t"

lemma leads_append: "leads s (cs @ ds) u \<longleftrightarrow> (\<exists>t. leads s cs t \<and> leads t ds u)"
  by (induction cs arbitrary: s) auto

text \<open>A change that completes a request, as a page makes it.\<close>

fun rightful :: "actor \<Rightarrow> bool" where
  "rightful (Page u request me) \<longleftrightarrow>
     fld request ''status'' = JStr ''pending'' \<and> js_eq (fld request ''assigneeId'') me"
| "rightful Other \<longleftrightarrow> True"

definition lawful :: "change \<Rightarrow> bool" where
  "lawful c \<longleftrightarrow>
     (\<exists>x. allowed (before c) x \<and> after_it c = result_of x \<and>
        (x = StatusOnly ''complete'' \<longrightarrow> rightful (made_by c)))"

definition well_loaded :: "js \<Rightarrow> desk \<Rightarrow> bool" where
  "well_loaded i d \<longleftrightarrow>
     (\<forall>u request. pages d u = Some request \<longrightarrow>
        is_object request \<and> fld request ''id'' = i \<and> (\<exists>s. fld request ''status'' = JStr s))"

definition desk_ok :: "js \<Rightarrow> RequestStatus \<Rightarrow> desk \<Rightarrow> bool" where
  "desk_ok i s0 d \<longleftrightarrow>
     well_loaded i d \<and> leads (Some s0) (changes d) (status d) \<and> list_all lawful (changes d)"

lemma desk_ok_change:
  assumes "desk_ok i s0 d" "status d = Some s" "allowed s x"
    and "x = StatusOnly ''complete'' \<Longrightarrow> rightful who"
  shows "desk_ok i s0 (change_to who s x d)"
  using assms by (auto simp: desk_ok_def change_to_def leads_append lawful_def well_loaded_def)

lemma page_is_rightful:
  assumes "is_object request" "fld request ''id'' = i" "fld request ''status'' = JStr s'"
    and "enabled a request" "c \<in> set (drop (length (sent w)) (sent (snd (run (action_op a request) w))))"
    and "asked_of (apiRoot w) i c = Some (StatusOnly ''complete'')"
  shows "rightful (Page u request (current_user_id w))"
proof -
  obtain cs where "sent (snd (run (action_op a request) w)) = sent w @ cs"
    "list_all (asks (apiRoot w) i
      (\<lambda>x. allowed s' x \<and> (x = StatusOnly ''complete'' \<longrightarrow> assigned_to_user request w))) cs"
    using action_calls [OF assms(1,3,4), of w] assms(2) by blast
  then show ?thesis
    using assms(3,5,6) by (auto simp: list_all_iff asks_def assigned_to_user_def)
qed

lemma desk_ok_step: "desk_step i d d' \<Longrightarrow> desk_ok i s0 d \<Longrightarrow> desk_ok i s0 d'"
proof (induction rule: desk_step.induct)
  case (load d s request u)
  then show ?case by (auto simp: desk_ok_def well_loaded_def)
next
  case (act d s u request a c w x)
  then obtain s' where "is_object request" "fld request ''id'' = i" "fld request ''status'' = JStr s'"
    unfolding desk_ok_def well_loaded_def by blast
  then show ?case
    using act page_is_rightful by (intro desk_ok_change) auto
next
  case (other d s x)
  then show ?case by (intro desk_ok_change) auto
qed

lemma desk_ok_reachable:
  assumes "(desk_step i)\<^sup>*\<^sup>* (fresh_desk s0) d" shows "desk_ok i s0 d"
  using assms
proof (induction rule: rtranclp_induct)
  case base
  show ?case by (simp add: desk_ok_def fresh_desk_def well_loaded_def)
next
  case (step d d')
  then show ?case using desk_ok_step by blast
qed

lemma allowed_pending: "allowed s x \<Longrightarrow> result_of x = Some ''pending'' \<Longrightarrow> s \<in> {''submitted'', ''pending''}"
  by (cases x) (auto simp: allowed.simps request_Update_def request_status_Update_def ValidTransition_def
      status_texts split: if_splits)

lemma allowed_complete:
  "allowed s x \<Longrightarrow> result_of x = Some ''complete'' \<Longrightarrow> s = ''pending'' \<and> x = StatusOnly ''complete''"
  by (cases x) (auto simp: allowed.simps request_Update_def request_status_Update_def ValidTransition_def
      status_texts split: if_splits)

lemma lawful_pending:
  "lawful c \<Longrightarrow> after_it c = Some ''pending'' \<Longrightarrow> before c \<in> {''submitted'', ''pending''}"
  unfolding lawful_def using allowed_pending by fastforce

lemma lawful_complete:
  "lawful c \<Longrightarrow> after_it c = Some ''complete'' \<Longrightarrow> before c = ''pending'' \<and> rightful (made_by c)"
  unfolding lawful_def using allowed_complete by fastforce

lemma pending_was_submitted:
  assumes "leads (Some s0) cs (Some ''pending'')" "list_all lawful cs" "s0 \<noteq> ''pending''"
  shows "\<exists>as c bs. cs = as @ c # bs \<and> before c = ''submitted'' \<and> after_it c = Some ''pending'' \<and>
    (\<forall>b\<in>set bs. before b = ''pending'' \<and> after_it b = Some ''pending'')"
  using assms(1,2)
proof (induction cs rule: rev_induct)
  case Nil
  then show ?case using assms(3) by simp
next
  case (snoc c cs)
  then have c: "leads (Some s0) cs (Some (before c))" "after_it c = Some ''pending''" "lawful c"
    by (auto simp: leads_append)
  then consider "before c = ''submitted''" | "before c = ''pending''" using lawful_pending by blast
  then show ?case
  proof cases
    case 1
    then show ?thesis
      using c by (intro exI [of _ cs] exI [of _ c] exI [of _ "[]"]) simp
  next
    case 2
    then obtain as b bs where "cs = as @ b # bs" "before b = ''submitted''" "after_it b = Some ''pending''"
      "\<forall>b\<in>set bs. before b = ''pending'' \<and> after_it b = Some ''pending''"
      using snoc c(1) by auto
    then show ?thesis
      using c 2 by (intro exI [of _ as] exI [of _ b] exI [of _ "bs @ [c]"]) auto
  qed
qed


lemma completing_step:
  assumes "status d = Some ''pending''" "pages d u = Some request" "has_status request ''pending''"
    and "ask w ''DialogConfirmController'' complete_params JUndef = Close v"
    and "assigned_to_user request w"
  shows "desk_step (fld request ''id'') d
    (change_to (Page u request (current_user_id w)) ''pending'' (StatusOnly ''complete'') d)"
proof (rule desk_step.act [of _ _ _ _ Complete])
  obtain r w' where "run (when_done (updateDeliveryServiceRequestStatus (fld request ''id'') ''complete'') refresh)
      (digest (note_asked ''DialogConfirmController'' complete_params JUndef w)) = (r, w')" by fastforce
  then have "run (completeRequest request) w = (r, w')"
    "sent w' = sent w @ [status_call (fld request ''id'') ''complete'' (apiRoot w)]"
    using assms(4,5) call_then_refresh [OF run_status, of "fld request ''id''" "''complete''" _ r w']
    by (simp_all add: completeRequest_def run_on_close run_dialog_confirm)
  then show "status_call (fld request ''id'') ''complete'' (apiRoot w) \<in>
      set (drop (length (sent w)) (sent (snd (run (action_op Complete request) w))))" by simp
qed (use assms in \<open>auto simp: completeable_def asked_of_def status_call_def\<close>)

text \<open>A request for concrete runs, and a portal whose user it is assigned to.\<close>

definition sample_request :: js where
  "sample_request =
     JObj [(''id'', JNum 7), (''status'', JStr ''pending''), (''assigneeId'', JNum 3)]"

definition assignee_world :: world where
  "assignee_world = (start_world accept_all close_all)\<lparr>userUser := JObj [(''id'', JNum 3)]\<rparr>"

lemma sample_completes:
  "sent (snd (run (action_op Complete sample_request) assignee_world)) =
     [status_call (JNum 7) ''complete'' ''/api/1.3/'']"
proof -
  let ?w0 = "digest (note_asked ''DialogConfirmController'' complete_params JUndef assignee_world)"
  obtain r w' where w': "run (when_done (updateDeliveryServiceRequestStatus (JNum 7) ''complete'') refresh) ?w0 = (r, w')"
    by fastforce
  have "sent w' = sent ?w0 @ [status_call (JNum 7) ''complete'' (apiRoot ?w0)]"
    using call_then_refresh [OF run_status w'] by simp
  then show ?thesis
    using w' by (simp add: completeRequest_def run_on_close run_dialog_confirm assigned_to_user_def
        current_user_id_def sample_request_def assignee_world_def close_all_def)
qed



end
