(* ===== verification/Snapshots.thy ===== *)
theory Snapshots
  imports Tables
begin

text \<open>
  The page that compares the running configuration of a CDN with the one a snapshot would make
  (\<open>ConfigController.js\<close>), the page that compares two profiles or delivery services
  (\<open>CompareController.js\<close>), and the header's ways to the first.

  The difference of two values is computed by a library; it is the argument \<open>diffJson\<close> of the
  definitions, a list of parts.  What the pages write into an element of the document is kept in
  the scope, under \<open>#\<close> and the element's id.
\<close>

section \<open>Parts of a difference\<close>

record diff_part =
  part_added :: bool
  part_removed :: bool
  part_count :: nat
  part_value :: string

type_synonym differ = "js \<Rightarrow> js \<Rightarrow> diff_part list"

definition newline :: char where "newline = CHR 0x0A"

definition text_lines :: "string \<Rightarrow> string list" where
  "text_lines s = split_at newline s"

definition of_lines :: "string list \<Rightarrow> string" where
  "of_lines ls = join_with [newline] ls"

text \<open>\<open>xs.splice(i, 0, x)\<close>.\<close>

definition splice_in :: "int \<Rightarrow> 'a \<Rightarrow> 'a list \<Rightarrow> 'a list" where
  "splice_in i x xs =
     (let n = int (length xs);
          k = nat (if i < 0 then max (n + i) 0 else min i n)
      in take k xs @ x # drop k xs)"

definition stars :: string where "stars = replicate 17 (CHR ''*'')"

definition truncated_mark :: string where
  "truncated_mark =
     of_lines [[], stars, ''*   TRUNCATED   *'', stars, []]"

text \<open>The elements that \<open>_.each\<close> keeps: those with an index below the context or within the context
  of the end.\<close>

definition context_elements :: "int \<Rightarrow> string list \<Rightarrow> string list" where
  "context_elements context partArr =
     map fst (filter (\<lambda>(element, index). int index < context \<or> int index > int (length partArr) - context)
       (zip partArr [0..<length partArr]))"

definition changed_part :: "diff_part \<Rightarrow> bool" where
  "changed_part part \<longleftrightarrow> part_added part \<or> part_removed part"

definition truncate_part :: "int \<Rightarrow> diff_part \<Rightarrow> string" where
  "truncate_part context part =
     (if \<not> changed_part part \<and> int (part_count part) > context * 2
      then of_lines (splice_in context truncated_mark (context_elements context (text_lines (part_value part))))
      else part_value part)"

definition prepend_mark :: "diff_part \<Rightarrow> string \<Rightarrow> string" where
  "prepend_mark part s =
     (if changed_part part then (if part_added part then ''++'' else ''--'') @ drop 2 s else s)"

definition part_class :: "diff_part \<Rightarrow> string" where
  "part_class part =
     (if part_added part then ''added'' else if part_removed part then ''removed'' else ''no-change'')"

definition part_div :: "int \<Rightarrow> diff_part \<Rightarrow> string \<times> string" where
  "part_div context part = (part_class part, prepend_mark part (truncate_part context part))"

definition diff_counts :: "diff_part list \<Rightarrow> int \<times> int" where
  "diff_counts parts =
     (int (length (filter part_added parts)),
      int (length (filter (\<lambda>p. \<not> part_added p \<and> part_removed p) parts)))"

section \<open>ConfigController.js\<close>

definition div_js :: "string \<times> string \<Rightarrow> js" where
  "div_js d = JObj [(''className'', JStr (fst d)), (''text'', JStr (snd d))]"

definition element :: "string \<Rightarrow> string" where
  "element destination = CHR ''#'' # destination"

definition set_element :: "string \<Rightarrow> js \<Rightarrow> world \<Rightarrow> world" where
  "set_element destination v = set_scope (element destination) v"

definition set_count :: "string \<Rightarrow> int \<times> int \<Rightarrow> world \<Rightarrow> world" where
  "set_count destination n w =
     set_scope (destination @ ''Count'')
       (set_fld (set_fld (scope w (destination @ ''Count'')) ''added'' (JNum (fst n))) ''removed'' (JNum (snd n))) w"

definition no_first_snapshot :: js where
  "no_first_snapshot = JStr ''Diff failed. You may need to perform your first snapshot.''"

definition performDiff :: "differ \<Rightarrow> int \<Rightarrow> js \<Rightarrow> js \<Rightarrow> string \<Rightarrow> world \<Rightarrow> world" where
  "performDiff diffJson context oldJSON newJSON destination w =
     (if truthy oldJSON then
        (let parts = diffJson oldJSON newJSON
         in set_element destination (JArr (map (\<lambda>p. div_js (part_div context p)) parts))
              (set_count destination (diff_counts parts) w))
      else set_element destination no_first_snapshot w)"

text \<open>\<open>$timeout(f, t)\<close> as a statement: \<open>f\<close> runs in a later turn.\<close>

definition timeout_do :: "(world \<Rightarrow> world) \<Rightarrow> op" where
  "timeout_do f = detach (then1 (ret JUndef) (\<lambda>_. eff f))"

definition generating :: js where
  "generating = JStr ''<i class=\"fa fa-refresh fa-spin fa-1x fa-fw\"></i> Generating diff...''"

text \<open>A section of the configuration: the element it is shown in, and its field in a snapshot.\<close>

definition diff_section :: "differ \<Rightarrow> int \<Rightarrow> js \<Rightarrow> js \<Rightarrow> string \<Rightarrow> op" where
  "diff_section diffJson context oldJSON newJSON destination =
     seq (eff (set_element destination generating))
         (timeout_do (performDiff diffJson context oldJSON newJSON destination))"

definition diffConfig :: "differ \<Rightarrow> int \<Rightarrow> js \<Rightarrow> js \<Rightarrow> op" where
  "diffConfig diffJson context currentSnapshot newSnapshot =
     diff_section diffJson context (fld currentSnapshot ''config'') (fld newSnapshot ''config'') ''config''"

definition diffContentRouters :: "differ \<Rightarrow> int \<Rightarrow> js \<Rightarrow> js \<Rightarrow> op" where
  "diffContentRouters diffJson context currentSnapshot newSnapshot =
     diff_section diffJson context (fld currentSnapshot ''contentRouters'')
       (fld newSnapshot ''contentRouters'') ''contentRouters''"

definition diffMonitors :: "differ \<Rightarrow> int \<Rightarrow> js \<Rightarrow> js \<Rightarrow> op" where
  "diffMonitors diffJson context currentSnapshot newSnapshot =
     diff_section diffJson context (fld currentSnapshot ''monitors'') (fld newSnapshot ''monitors'') ''monitors''"

definition diffContentServers :: "differ \<Rightarrow> int \<Rightarrow> js \<Rightarrow> js \<Rightarrow> op" where
  "diffContentServers diffJson context currentSnapshot newSnapshot =
     diff_section diffJson context (fld currentSnapshot ''contentServers'')
       (fld newSnapshot ''contentServers'') ''contentServers''"

definition diffDeliveryServices :: "differ \<Rightarrow> int \<Rightarrow> js \<Rightarrow> js \<Rightarrow> op" where
  "diffDeliveryServices diffJson context currentSnapshot newSnapshot =
     diff_section diffJson context (fld currentSnapshot ''deliveryServices'')
       (fld newSnapshot ''deliveryServices'') ''deliveryServices''"

definition diffEdgeLocations :: "differ \<Rightarrow> int \<Rightarrow> js \<Rightarrow> js \<Rightarrow> op" where
  "diffEdgeLocations diffJson context currentSnapshot newSnapshot =
     diff_section diffJson context (fld currentSnapshot ''edgeLocations'')
       (fld newSnapshot ''edgeLocations'') ''edgeLocations''"

definition diffStats :: "differ \<Rightarrow> int \<Rightarrow> js \<Rightarrow> js \<Rightarrow> op" where
  "diffStats diffJson context currentSnapshot newSnapshot =
     diff_section diffJson context (fld currentSnapshot ''stats'') (fld newSnapshot ''stats'') ''stats''"

definition no_counts :: "string \<Rightarrow> js" where
  "no_counts templateUrl =
     JObj [(''added'', JNum 0), (''removed'', JNum 0), (''templateUrl'', JStr templateUrl)]"

definition init_counts :: "world \<Rightarrow> world" where
  "init_counts w =
     set_scope ''statsCount'' (no_counts ''statsPopoverTemplate.html'')
      (set_scope ''edgeLocationsCount'' (no_counts ''elPopoverTemplate.html'')
      (set_scope ''deliveryServicesCount'' (no_counts ''dsPopoverTemplate.html'')
      (set_scope ''contentServersCount'' (no_counts ''csPopoverTemplate.html'')
      (set_scope ''monitorsCount'' (no_counts ''mPopoverTemplate.html'')
      (set_scope ''contentRoutersCount'' (no_counts ''crPopoverTemplate.html'')
      (set_scope ''configCount'' (no_counts ''configPopoverTemplate.html'') w))))))"

text \<open>The page when the document is ready: the sections one after the other.\<close>

definition config_page :: "differ \<Rightarrow> int \<Rightarrow> js \<Rightarrow> js \<Rightarrow> op" where
  "config_page diffJson context currentSnapshot newSnapshot =
     seq (eff init_counts)
      (seq (diffConfig diffJson context currentSnapshot newSnapshot)
      (seq (diffContentRouters diffJson context currentSnapshot newSnapshot)
      (seq (diffMonitors diffJson context currentSnapshot newSnapshot)
      (seq (diffContentServers diffJson context currentSnapshot newSnapshot)
      (seq (diffDeliveryServices diffJson context currentSnapshot newSnapshot)
      (seq (diffEdgeLocations diffJson context currentSnapshot newSnapshot)
           (diffStats diffJson context currentSnapshot newSnapshot)))))))"

definition confirmSnapshot :: "js \<Rightarrow> js \<Rightarrow> op" where
  "confirmSnapshot page_cdn cdn =
     confirmed ''Perform Snapshot''
       (''Are you sure you want to snapshot the '' @ to_str (fld cdn ''name'') @ '' config?'')
       (detach (snapshot page_cdn))"

section \<open>CompareController.js\<close>

definition compare_div :: "string \<Rightarrow> string \<Rightarrow> diff_part \<Rightarrow> js" where
  "compare_div item1Name item2Name part =
     JObj
       [(''className'', JStr (if part_added part then ''item2''
                             else if part_removed part then ''item1'' else ''same'')),
        (''source'', JStr (if part_added part then item2Name
                          else if part_removed part then item1Name else [])),
        (''text'', JStr (part_value part))]"

definition compare_performDiff :: "differ \<Rightarrow> string \<Rightarrow> string \<Rightarrow> js \<Rightarrow> js \<Rightarrow> string \<Rightarrow> world \<Rightarrow> world" where
  "compare_performDiff diffJson item1Name item2Name item1JSON item2JSON destination =
     (if truthy item1JSON \<and> truthy item2JSON
      then set_element destination
             (JArr (map (compare_div item1Name item2Name) (diffJson item1JSON item2JSON)))
      else set_element destination (JStr ''Diff failed.''))"

text \<open>The library's decoration of a response is no field of the model's values, so
  \<open>Restangular.stripRestangular\<close> changes nothing.\<close>

definition compare_items :: "differ \<Rightarrow> string \<Rightarrow> string \<Rightarrow> js \<Rightarrow> js \<Rightarrow> op" where
  "compare_items diffJson item1Name item2Name item1 item2 =
     seq (eff (set_element ''diff''
           (JStr ''<i class=\"fa fa-refresh fa-spin fa-1x fa-fw\"></i> Comparing...'')))
         (eff (compare_performDiff diffJson item1Name item2Name item1 item2 ''diff''))"

section \<open>HeaderController.js\<close>

definition isState :: "string \<Rightarrow> world \<Rightarrow> bool" where
  "isState s w \<longleftrightarrow> contains (stateName w) s"

definition header_getChangeLogs :: op where
  "header_getChangeLogs =
     seq (eff (set_scope ''loadingChangeLogs'' (JBool True)))
      (seq (eff (set_scope ''changeLogs'' (JArr [])))
        (when_result (getChangeLogs (JObj [(''limit'', JNum 6)]))
          (\<lambda>response. seq (eff (set_scope ''loadingChangeLogs'' (JBool False)))
             (eff (set_scope ''changeLogs'' response)))))"

definition header_logout :: op where
  "header_logout = detach logout"

definition header_confirmQueueServerUpdates :: op where
  "header_confirmQueueServerUpdates = with_cdn ''Queue Server Updates'' (\<lambda>i. detach (queueCDNUpdates i))"

definition header_snapshot :: op where
  "header_snapshot =
     with_cdn ''Diff CDN Config Snapshot''
       (\<lambda>i. eff (set_path (''/cdns/'' @ to_str i @ ''/config/changes'')))"

section \<open>Lines\<close>

lemma split_at_nonempty [simp]: "split_at c s \<noteq> []"
  by (induction s) (auto split: list.splits)

lemma split_at_no_sep: "l \<in> set (split_at c s) \<Longrightarrow> c \<notin> set l"
  by (induction s arbitrary: l) (auto split: list.splits if_splits)

lemma split_at_append: "c \<notin> set l \<Longrightarrow> split_at c (l @ c # s) = l # split_at c s"
  by (induction l) auto

lemma split_at_last: "c \<notin> set l \<Longrightarrow> split_at c l = [l]"
  by (induction l) auto

lemma join_with_Cons: "ls \<noteq> [] \<Longrightarrow> join_with sep (l # ls) = l @ sep @ join_with sep ls"
  by (cases ls) simp_all

lemma split_at_join:
  "\<forall>l\<in>set ls. c \<notin> set l \<Longrightarrow> ls \<noteq> [] \<Longrightarrow> split_at c (join_with [c] ls) = ls"
proof (induction ls)
  case (Cons l ls)
  then show ?case
    by (cases "ls = []") (simp_all add: split_at_last join_with_Cons split_at_append)
qed simp

text \<open>Reading lines back: the texts of lines without a newline.\<close>

lemma text_of_lines:
  "\<forall>l\<in>set ls. newline \<notin> set l \<Longrightarrow> ls \<noteq> [] \<Longrightarrow> text_lines (of_lines ls) = ls"
  by (simp add: text_lines_def of_lines_def split_at_join)

lemma text_lines_nonempty [simp]: "text_lines s \<noteq> []"
  by (simp add: text_lines_def)

lemma text_lines_no_newline: "l \<in> set (text_lines s) \<Longrightarrow> newline \<notin> set l"
  unfolding text_lines_def by (rule split_at_no_sep)

lemma join_with_append:
  "xs \<noteq> [] \<Longrightarrow> ys \<noteq> [] \<Longrightarrow> join_with sep (xs @ ys) = join_with sep xs @ sep @ join_with sep ys"
proof (induction xs)
  case (Cons x xs)
  then show ?case by (cases "xs = []") (simp_all add: join_with_Cons)
qed simp

lemma join_with_flatten:
  assumes "ms \<noteq> []"
  shows "join_with sep (xs @ join_with sep ms # ys) = join_with sep (xs @ ms @ ys)"
proof -
  have f: "join_with sep (join_with sep ms # ys) = join_with sep (ms @ ys)"
    using assms by (cases "ys = []") (simp, simp add: join_with_Cons join_with_append)
  show ?thesis
  proof (cases "xs = []")
    case False
    then show ?thesis
      using f assms join_with_append [OF False, of "join_with sep ms # ys" sep]
        join_with_append [OF False, of "ms @ ys" sep] by simp
  qed (use f in simp)
qed

text \<open>The elements an index condition selects.\<close>

definition select_from :: "nat \<Rightarrow> (nat \<Rightarrow> bool) \<Rightarrow> 'a list \<Rightarrow> 'a list" where
  "select_from k P xs = map fst (filter (\<lambda>(x, i). P i) (zip xs [k..<k + length xs]))"

lemma select_from_append:
  "select_from k P (xs @ ys) = select_from k P xs @ select_from (k + length xs) P ys"
proof -
  have "[k..<k + length xs + length ys] = [k..<k + length xs] @ [k + length xs..<k + length xs + length ys]"
    by (rule upt_add_eq_append) simp
  then show ?thesis by (simp add: select_from_def add.assoc [symmetric])
qed

lemma select_from_all: "(\<And>i. k \<le> i \<Longrightarrow> i < k + length xs \<Longrightarrow> P i) \<Longrightarrow> select_from k P xs = xs"
proof -
  assume "\<And>i. k \<le> i \<Longrightarrow> i < k + length xs \<Longrightarrow> P i"
  then have "filter (\<lambda>(x, i). P i) (zip xs [k..<k + length xs]) = zip xs [k..<k + length xs]"
    by (intro filter_True) (auto dest: set_zip_rightD)
  then show ?thesis by (simp add: select_from_def)
qed

lemma select_from_none: "(\<And>i. k \<le> i \<Longrightarrow> i < k + length xs \<Longrightarrow> \<not> P i) \<Longrightarrow> select_from k P xs = []"
  by (auto simp: select_from_def filter_empty_conv dest: set_zip_rightD)

lemma context_elements_ends:
  assumes "0 < c" "2 * c < Suc (length xs)"
  shows "context_elements (int c) xs = take c xs @ drop (length xs + 1 - c) xs"
proof -
  let ?n = "length xs" and ?P = "\<lambda>i. int i < int c \<or> int i > int (length xs) - int c"
  define A B C where "A = take c xs" and "B = take (?n + 1 - c - c) (drop c xs)"
    and "C = drop (?n + 1 - c) xs"
  have l: "length A = c" "length B = ?n + 1 - c - c" "length C = c - 1"
    using assms by (auto simp: A_def B_def C_def)
  have "drop (?n + 1 - c - c) (drop c xs) = C" using assms by (simp add: C_def)
  then have x: "xs = A @ B @ C"
    unfolding A_def B_def by (metis append_take_drop_id)
  have "select_from 0 ?P A = A" "select_from c ?P B = []" "select_from (c + length B) ?P C = C"
    using assms l by (auto intro!: select_from_all select_from_none)
  then have "select_from 0 ?P (A @ B @ C) = A @ C"
    by (simp only: select_from_append l(1) add_0 append_Nil)
  then have "select_from 0 ?P xs = A @ C" using x by simp
  then show ?thesis by (simp add: context_elements_def select_from_def A_def C_def)
qed

section \<open>What the page shows of a difference\<close>

definition mark_lines :: "string list" where
  "mark_lines = [[], stars, ''*   TRUNCATED   *'', stars, []]"

lemma mark_lines_no_newline: "l \<in> set mark_lines \<Longrightarrow> newline \<notin> set l"
  by (auto simp: mark_lines_def stars_def newline_def)

text \<open>The library counts the lines of a part: those that are ended by a newline, and a last one that
  is not.\<close>

definition counted :: "diff_part \<Rightarrow> bool" where
  "counted part \<longleftrightarrow>
     part_count part \<le> length (text_lines (part_value part)) \<and>
     length (text_lines (part_value part)) \<le> part_count part + 1"

lemma truncated_lines:
  assumes "0 < c" "\<not> changed_part part" "counted part" "2 * c < part_count part"
  shows "text_lines (snd (part_div (int c) part)) =
    (let ls = text_lines (part_value part) in take c ls @ mark_lines @ drop (length ls + 1 - c) ls)"
proof -
  let ?ls = "text_lines (part_value part)"
  define A C where "A = take c ?ls" and "C = drop (length ?ls + 1 - c) ?ls"
  have len: "2 * c < length ?ls" using assms(3,4) by (simp add: counted_def)
  then have e: "context_elements (int c) ?ls = A @ C"
    using context_elements_ends [OF assms(1), of ?ls] by (simp add: A_def C_def)
  have "length A = c" using len by (simp add: A_def)
  then have "splice_in (int c) truncated_mark (A @ C) = A @ truncated_mark # C"
    by (simp add: splice_in_def Let_def)
  then have "snd (part_div (int c) part) = of_lines (A @ truncated_mark # C)"
    using assms(2,4) e by (simp add: part_div_def prepend_mark_def truncate_part_def)
  also have "\<dots> = of_lines (A @ mark_lines @ C)"
    unfolding of_lines_def truncated_mark_def mark_lines_def [symmetric]
    by (rule join_with_flatten) (simp add: mark_lines_def)
  finally have t: "snd (part_div (int c) part) = of_lines (A @ mark_lines @ C)" .
  have "\<forall>l\<in>set (A @ mark_lines @ C). newline \<notin> set l"
    using mark_lines_no_newline text_lines_no_newline
    by (auto simp: A_def C_def dest: in_set_takeD in_set_dropD)
  moreover have "A @ mark_lines @ C \<noteq> []" by (simp add: mark_lines_def)
  ultimately show ?thesis by (simp add: t text_of_lines A_def C_def Let_def)
qed

text \<open>C28. An unchanged part takes at most \<open>2c + 4\<close> lines of the page, where \<open>c\<close> is the context of the
  settings; the first \<open>c\<close> of its lines and the last \<open>c - 1\<close> are shown as they are, those before a
  change with one less than those after it.\<close>

theorem unchanged_parts_are_bounded:
  assumes "0 < c" "\<not> changed_part part" "counted part"
  shows "let ls = text_lines (part_value part); shown_lines = text_lines (snd (part_div (int c) part))
    in length shown_lines \<le> 2 * c + 4 \<and> take c shown_lines = take c ls \<and>
       drop (length shown_lines - (c - 1)) shown_lines = drop (length ls - (c - 1)) ls"
proof (cases "2 * c < part_count part")
  case True
  let ?ls = "text_lines (part_value part)"
  have len: "2 * c < length ?ls" using assms(3) True by (simp add: counted_def)
  then have d: "length ?ls + 1 - c = length ?ls - (c - 1)" using assms(1) by simp
  have "length (take c ?ls @ mark_lines) = c + 5" using len by (simp add: mark_lines_def)
  moreover have "length (drop (length ?ls + 1 - c) ?ls) = c - 1" using len assms(1) by simp
  ultimately show ?thesis
    using truncated_lines [OF assms True] len d assms(1)
    by (simp add: Let_def mark_lines_def)
next
  case False
  then have "snd (part_div (int c) part) = part_value part"
    using assms(2) by (simp add: part_div_def prepend_mark_def truncate_part_def)
  moreover have "length (text_lines (part_value part)) \<le> 2 * c + 1"
    using False assms(3) by (simp add: counted_def)
  ultimately show ?thesis by (simp add: Let_def)
qed

theorem unchanged_parts_are_bounded_witness:
  "length (text_lines (snd (part_div 1
     \<lparr>part_added = False, part_removed = False, part_count = 3,
      part_value = of_lines [''a'', ''b'', ''c'', []]\<rparr>))) \<le> 6"
proof -
  let ?p = "\<lparr>part_added = False, part_removed = False, part_count = 3,
      part_value = of_lines [''a'', ''b'', ''c'', []]\<rparr>"
  have l: "text_lines (of_lines [''a'', ''b'', ''c'', []]) = [''a'', ''b'', ''c'', []]"
    by (rule text_of_lines) (simp_all add: newline_def)
  have a: "0 < (1 :: nat)" "\<not> changed_part ?p" "counted ?p"
    by (simp_all add: changed_part_def counted_def l)
  show ?thesis using unchanged_parts_are_bounded [OF a] by (simp add: Let_def)
qed

section \<open>The sections of the page\<close>

definition sections :: "string list" where
  "sections = [''config'', ''contentRouters'', ''monitors'', ''contentServers'', ''deliveryServices'',
     ''edgeLocations'', ''stats'']"

lemma run_diff_section:
  "run (diff_section diffJson context a b d) w =
     (Fulfilled JUndef, performDiff diffJson context a b d (set_element d generating w))"
  by (simp add: diff_section_def timeout_do_def run_detach run_then1)

definition section_shown :: "differ \<Rightarrow> int \<Rightarrow> js \<Rightarrow> js \<Rightarrow> js" where
  "section_shown diffJson context a b =
     (if truthy a then JArr (map (\<lambda>p. div_js (part_div context p)) (diffJson a b)) else no_first_snapshot)"

definition section_counts :: "differ \<Rightarrow> js \<Rightarrow> js \<Rightarrow> int \<times> int" where
  "section_counts diffJson a b = (if truthy a then diff_counts (diffJson a b) else (0, 0))"

text \<open>A section's name is no element's key.\<close>

definition plain_name :: "string \<Rightarrow> bool" where
  "plain_name s \<longleftrightarrow> s \<noteq> [] \<and> hd s \<noteq> CHR ''#''"

lemma element_is_no_count: "plain_name s \<Longrightarrow> element d \<noteq> s @ x"
  by (cases s) (auto simp: plain_name_def element_def)

lemma element_inj [simp]: "element d = element e \<longleftrightarrow> d = e"
  by (simp add: element_def)

lemma performDiff_own:
  assumes "plain_name d"
  shows "scope (performDiff dj c a b d w) (element d) = section_shown dj c a b"
    and "scope (performDiff dj c a b d w) (d @ ''Count'') =
      (if truthy a then set_fld (set_fld (scope w (d @ ''Count'')) ''added'' (JNum (fst (section_counts dj a b))))
         ''removed'' (JNum (snd (section_counts dj a b)))
       else scope w (d @ ''Count''))"
  using element_is_no_count [OF assms, of d "''Count''"]
  by (auto simp: performDiff_def section_shown_def section_counts_def set_element_def set_count_def
      set_scope_def Let_def)

lemma performDiff_other:
  assumes "s \<noteq> d" "plain_name s" "plain_name d"
  shows "scope (performDiff dj c a b d w) (element s) = scope w (element s)"
    and "scope (performDiff dj c a b d w) (s @ ''Count'') = scope w (s @ ''Count'')"
  using assms element_is_no_count [of s d "''Count''"] element_is_no_count [of d s "''Count''"]
  by (auto simp: performDiff_def set_element_def set_count_def set_scope_def Let_def)

lemma performDiff_sends [simp]: "sent (performDiff dj c a b d w) = sent w"
  by (simp add: performDiff_def set_element_def set_count_def set_scope_def Let_def)

definition diff_sections :: "differ \<Rightarrow> int \<Rightarrow> js \<Rightarrow> js \<Rightarrow> string list \<Rightarrow> world \<Rightarrow> world" where
  "diff_sections dj c cur new = fold (\<lambda>s. performDiff dj c (fld cur s) (fld new s) s)"

lemma diff_sections_other:
  assumes "s \<notin> set ss" "plain_name s" "\<forall>d\<in>set ss. plain_name d"
  shows "scope (diff_sections dj c cur new ss w) (element s) = scope w (element s)"
    and "scope (diff_sections dj c cur new ss w) (s @ ''Count'') = scope w (s @ ''Count'')"
  using assms
proof (induction ss arbitrary: w)
  case (Cons d ss)
  {
    case 1
    then have "s \<noteq> d" by auto
    then show ?case using 1 Cons(1) performDiff_other(1) [of s d] by (simp add: diff_sections_def)
  next
    case 2
    then have "s \<noteq> d" by auto
    then show ?case using 2 Cons(2) performDiff_other(2) [of s d] by (simp add: diff_sections_def)
  }
qed (simp_all add: diff_sections_def)

lemma diff_sections_own:
  assumes "s \<in> set ss" "distinct ss" "\<forall>d\<in>set ss. plain_name d" "scope w (s @ ''Count'') = no_counts t"
  shows "scope (diff_sections dj c cur new ss w) (element s) = section_shown dj c (fld cur s) (fld new s) \<and>
    (let n = section_counts dj (fld cur s) (fld new s);
         v = scope (diff_sections dj c cur new ss w) (s @ ''Count'')
     in fld v ''added'' = JNum (fst n) \<and> fld v ''removed'' = JNum (snd n))"
  using assms
proof (induction ss arbitrary: w)
  case (Cons d ss)
  let ?w1 = "performDiff dj c (fld cur d) (fld new d) d w"
  have step: "diff_sections dj c cur new (d # ss) w = diff_sections dj c cur new ss ?w1"
    by (simp add: diff_sections_def)
  show ?case
  proof (cases "s = d")
    case True
    then have "s \<notin> set ss" "plain_name s" "\<forall>d\<in>set ss. plain_name d" using Cons.prems by auto
    note o = diff_sections_other [OF this, of dj c cur new ?w1]
    show ?thesis
      using performDiff_own [of d dj c "fld cur d" "fld new d" w] True Cons.prems(3,4)
      by (simp add: step o [unfolded True] Let_def no_counts_def section_counts_def)
  next
    case False
    then have p: "s \<in> set ss" "distinct ss" "\<forall>d\<in>set ss. plain_name d" using Cons.prems by auto
    have "scope ?w1 (s @ ''Count'') = no_counts t"
      using performDiff_other(2) [of s d] False Cons.prems by simp
    from Cons.IH [OF p this] show ?thesis by (simp add: step)
  qed
qed simp

lemma diff_sections_sends [simp]: "sent (diff_sections dj c cur new ss w) = sent w"
  by (induction ss arbitrary: w) (simp_all add: diff_sections_def)

lemma start_diff_section:
  "diff_section dj c a b d w =
     (\<lambda>w'. (Fulfilled JUndef, performDiff dj c a b d w'), set_element d generating w)"
  by (simp add: diff_section_def timeout_do_def detach_def then1_def then2_def seq_def eff_def ret_def run_def)

definition generating_all :: "world \<Rightarrow> world" where
  "generating_all w = fold (\<lambda>s. set_element s generating) sections (init_counts w)"

lemma run_config_page:
  "run (config_page dj c cur new) w = (Fulfilled JUndef, diff_sections dj c cur new sections (generating_all w))"
  by (simp add: config_page_def seq_def run_def eff_def diffConfig_def diffContentRouters_def
      diffMonitors_def diffContentServers_def diffDeliveryServices_def diffEdgeLocations_def diffStats_def
      start_diff_section diff_sections_def generating_all_def sections_def)

lemma fold_generating:
  "plain_name s \<Longrightarrow>
     scope (fold (\<lambda>d. set_element d generating) ss w) (s @ x) = scope w (s @ x)"
  using element_is_no_count
  by (induction ss arbitrary: w) (auto simp: set_element_def set_scope_def dest: sym)

lemma init_counts_at:
  "scope (init_counts w) ''configCount'' = no_counts ''configPopoverTemplate.html''"
  "scope (init_counts w) ''contentRoutersCount'' = no_counts ''crPopoverTemplate.html''"
  "scope (init_counts w) ''monitorsCount'' = no_counts ''mPopoverTemplate.html''"
  "scope (init_counts w) ''contentServersCount'' = no_counts ''csPopoverTemplate.html''"
  "scope (init_counts w) ''deliveryServicesCount'' = no_counts ''dsPopoverTemplate.html''"
  "scope (init_counts w) ''edgeLocationsCount'' = no_counts ''elPopoverTemplate.html''"
  "scope (init_counts w) ''statsCount'' = no_counts ''statsPopoverTemplate.html''"
  by (simp_all add: init_counts_def set_scope_def)

lemma generating_all_counts:
  assumes "s \<in> set sections" shows "\<exists>t. scope (generating_all w) (s @ ''Count'') = no_counts t"
proof -
  have "plain_name s" using assms by (auto simp: sections_def plain_name_def)
  moreover have "\<exists>t. scope (init_counts w) (s @ ''Count'') = no_counts t"
    using assms init_counts_at [of w] unfolding sections_def by fastforce
  ultimately show ?thesis by (simp add: generating_all_def fold_generating)
qed

lemma generating_all_sends [simp]: "sent (generating_all w) = sent w"
  by (simp add: generating_all_def sections_def set_element_def set_scope_def init_counts_def)

text \<open>C32. Each section of the page shows the difference of its own field of the two snapshots and counts
  the parts added and removed there; without a first snapshot it says so and counts nothing.  The
  page calls nothing.\<close>

theorem sections_show_their_own_part:
  assumes "s \<in> set sections"
  shows "case run (config_page diffJson c currentSnapshot newSnapshot) w of (r, w') \<Rightarrow>
    (let a = fld currentSnapshot s; b = fld newSnapshot s; n = section_counts diffJson a b
     in scope w' (element s) = section_shown diffJson c a b \<and>
        fld (scope w' (s @ ''Count'')) ''added'' = JNum (fst n) \<and>
        fld (scope w' (s @ ''Count'')) ''removed'' = JNum (snd n) \<and> sent w' = sent w)"
proof -
  obtain t where t: "scope (generating_all w) (s @ ''Count'') = no_counts t"
    using generating_all_counts [OF assms] by blast
  have "distinct sections" "\<forall>d\<in>set sections. plain_name d"
    by (simp_all add: sections_def plain_name_def)
  note o = diff_sections_own [OF assms this t, of diffJson c currentSnapshot newSnapshot]
  then show ?thesis by (simp add: run_config_page Let_def)
qed

theorem sections_show_their_own_part_witness:
  "scope (snd (run (config_page (\<lambda>a b. []) 2 (JObj []) (JObj [])) (start_world accept_all close_all)))
     (element ''stats'') = no_first_snapshot"
proof -
  have "''stats'' \<in> set sections" by (simp add: sections_def)
  from sections_show_their_own_part [OF this, where diffJson = "\<lambda>a b. []" and c = 2 and currentSnapshot = "JObj []" and
      newSnapshot = "JObj []" and w = "start_world accept_all close_all"]
  show ?thesis by (simp add: section_shown_def Let_def split: prod.splits)
qed

text \<open>Comparing two items: every part of the difference is shown, attributed to the item it comes from.\<close>

lemma compare_items_shows:
  assumes "truthy item1" "truthy item2"
  shows "scope (snd (run (compare_items dj n1 n2 item1 item2) w)) (element ''diff'') =
    JArr (map (compare_div n1 n2) (dj item1 item2))"
  using assms by (simp add: compare_items_def compare_performDiff_def set_element_def set_scope_def)

end
