(* ===== verification/Sessions.thy ===== *)
theory Sessions
  imports ResourceForms Uri
begin

text \<open>
  Failures and sessions: which failures the interceptor of \<open>app.js\<close> reports by itself, what an
  expired session does to the page, and how logging in leads back to it
  (\<open>AuthService.js\<close>, \<open>LoginController.js\<close>, \<open>UserController.js\<close>).
\<close>

section \<open>LoginController.js, UserController.js\<close>

definition login_button :: "bool \<Rightarrow> world \<Rightarrow> world" where
  "login_button disabled = set_scope ''loginDisabled'' (JBool disabled)"

definition LoginController_login :: "js \<Rightarrow> op" where
  "LoginController_login credentials =
     seq (eff (login_button True))
       (when_done (login (to_str (fld credentials ''username'')) (to_str (fld credentials ''password'')))
          (eff (login_button False)))"

definition LoginController_resetPassword :: op where
  "LoginController_resetPassword = on_close dialog_reset (\<lambda>email. detach (resetPassword email))"

definition UserController_updateUser :: "js \<Rightarrow> bool \<Rightarrow> op" where
  "UserController_updateUser user signout =
     when_done (updateCurrentUser user) (if signout then detach logout else ret JUndef)"

definition UserController_confirmSave :: "js \<Rightarrow> js \<Rightarrow> op" where
  "UserController_confirmSave user usernameField =
     (if truthy (fld usernameField ''$dirty'') then
        on_close (dialog_confirm (message_params ''Reauthentication Required''
            (''Changing your username to '' @ to_str (fld user ''username'') @
             '' will require you to reauthenticate. Is that OK?'')))
          (\<lambda>_. UserController_updateUser user True)
      else UserController_updateUser user False)"

definition UserController_viewDeliveryServices :: "js \<Rightarrow> op" where
  "UserController_viewDeliveryServices user =
     eff (set_path (''/users/'' @ to_str (fld user ''id'') @ ''/delivery-services''))"

section \<open>Which statuses are reported\<close>

lemma show_nat_3:
  assumes "100 \<le> n" "n < 1000"
  shows "show_nat n = [digit_char (n div 100), digit_char (n div 10 mod 10), digit_char (n mod 10)]"
proof -
  have "show_nat (n div 10 div 10) = [digit_char (n div 10 div 10)]"
    using assms by (intro show_nat_small) simp
  moreover have "10 \<le> n div 10" using assms by simp
  ultimately show ?thesis
    using assms show_nat_step [of n] show_nat_step [of "n div 10"]
    by (simp add: div_mult2_eq [symmetric])
qed

lemma show_nat_length: "length (show_nat n) = 3 \<longleftrightarrow> 100 \<le> n \<and> n < 1000"
proof -
  consider "n < 10" | "10 \<le> n" "n < 100" | "100 \<le> n" "n < 1000" | "1000 \<le> n" by linarith
  then show ?thesis
  proof cases
    case 1
    then show ?thesis by (simp add: show_nat_small)
  next
    case 2
    then show ?thesis by (simp add: show_nat_step show_nat_small)
  next
    case 3
    then show ?thesis by (simp add: show_nat_3)
  next
    case 4
    then have "10 \<le> n" "10 \<le> n div 10" "10 \<le> n div 10 div 10" by linarith+
    then have "4 \<le> length (show_nat n)"
      using show_nat_nonempty [of "n div 10 div 10 div 10"]
      by (simp add: show_nat_step Suc_le_eq)
    then show ?thesis using 4 by simp
  qed
qed

lemma digit_char_eq: "d < 10 \<Longrightarrow> e < 10 \<Longrightarrow> digit_char d = digit_char e \<longleftrightarrow> d = e"
  by (metis digit_val_digit_char)

lemma digit_chars: "d < 10 \<Longrightarrow> digit_char d = CHR ''5'' \<longleftrightarrow> d = 5"
  "d < 10 \<Longrightarrow> digit_char d \<in> set ''01356789'' \<longleftrightarrow> d \<noteq> 2 \<and> d \<noteq> 4"
proof -
  have c: "CHR ''0'' = digit_char 0" "CHR ''1'' = digit_char 1" "CHR ''3'' = digit_char 3"
    "CHR ''5'' = digit_char 5" "CHR ''6'' = digit_char 6" "CHR ''7'' = digit_char 7"
    "CHR ''8'' = digit_char 8" "CHR ''9'' = digit_char 9"
    by code_simp+
  show "d < 10 \<Longrightarrow> digit_char d = CHR ''5'' \<longleftrightarrow> d = 5"
    unfolding c by (simp add: digit_char_eq)
  show "d < 10 \<Longrightarrow> digit_char d \<in> set ''01356789'' \<longleftrightarrow> d \<noteq> 2 \<and> d \<noteq> 4"
    unfolding c by (auto simp: digit_char_eq)
qed

lemma matches_5xx_length: "matches_5xx s \<Longrightarrow> length s = 3"
  by (cases s rule: matches_5xx.cases) auto

lemma matches_5xx_nat:
  "matches_5xx (show_nat n) \<longleftrightarrow> 500 \<le> n \<and> n < 600 \<and> n mod 10 \<noteq> 2 \<and> n mod 10 \<noteq> 4"
proof (cases "100 \<le> n \<and> n < 1000")
  case True
  then have d: "n div 100 < 10" "n div 10 mod 10 < 10" "n mod 10 < 10" by auto
  have "n div 100 = 5 \<longleftrightarrow> 500 \<le> n \<and> n < 600" using True by linarith
  then show ?thesis
    using True digit_chars(1) [OF d(1)] digit_chars(2) [OF d(3)] is_digit_digit_char [OF d(2)]
    by (simp only: show_nat_3 matches_5xx.simps) blast
next
  case False
  then show ?thesis using matches_5xx_length show_nat_length [of n] by force
qed

lemma responseError_status:
  assumes "fld f ''status'' = JNum (int n)" "n \<noteq> 401"
  shows "responseError f w =
    (Rejected f,
     if n = 403 \<or> n = 404 then add_timer (ShowLater (rejection_alerts f)) w
     else if 500 \<le> n \<and> n < 600 \<and> n mod 10 \<noteq> 2 \<and> n mod 10 \<noteq> 4 then
       add_timer (ShowLater (error_alert (show_nat n @ '': '' @ to_str (fld f ''statusText'')))) w
     else w)"
  using assms matches_5xx_nat [of n]
  by (auto simp: responseError_def onRejection_def Let_def show_int_def)

section \<open>Properties\<close>

text \<open>C7. Every failure is handed on to the caller.  What is reported without the caller: a session
  that has ended (401), what is forbidden or missing (403, 404), and the statuses from 500 to 599
  whose last digit is neither 2 nor 4.\<close>

theorem failures_reported:
  assumes "fld f ''status'' = JNum (int n)" "n \<noteq> 401"
  shows "responseError f w =
    (Rejected f,
     if n = 403 \<or> n = 404 then add_timer (ShowLater (rejection_alerts f)) w
     else if 500 \<le> n \<and> n < 600 \<and> n mod 10 \<noteq> 2 \<and> n mod 10 \<noteq> 4 then
       add_timer (ShowLater (error_alert (show_nat n @ '': '' @ to_str (fld f ''statusText'')))) w
     else w)"
  using assms by (rule responseError_status)

theorem failures_reported_witness:
  "responseError (JObj [(''status'', JNum 522)]) (start_world accept_all close_all) =
     (Rejected (JObj [(''status'', JNum 522)]), start_world accept_all close_all)"
proof -
  have a: "fld (JObj [(''status'', JNum 522)]) ''status'' = JNum (int 522)" by simp
  have b: "(522 :: nat) \<noteq> 401" by simp
  show ?thesis using failures_reported [OF a b, of "start_world accept_all close_all"] by simp
qed

text \<open>C4. A 401 ends the session at once: nobody is logged in any more, in the header either, and the
  change log is no longer polled; the failure still reaches the caller.\<close>

theorem unauthorized_ends_session:
  assumes "fld f ''status'' = JNum 401" "poller_inv w"
  shows "case responseError f w of (r, w') \<Rightarrow>
    r = Rejected f \<and> \<not> userLoaded w' \<and> userUser w' = JObj [] \<and> headerUser w' = JObj [] \<and>
    intervals w' = [] \<and> loc w' = loc w \<and> sent w' = sent w"
proof -
  have "intervals (broadcast_exit w) = []"
    using assms(2) by (auto simp: poller_inv_def changelog_defs split: option.splits)
  then show ?thesis
    using assms(1)
    by (simp add: responseError_def onRejection_def Let_def resetUser_def onUserUpdated_def
        record_event_def setMessages_def add_timer_def)
qed

theorem unauthorized_ends_session_witness:
  "intervals (snd (responseError (JObj [(''status'', JNum 401)])
     (broadcast_login (start_world accept_all close_all)))) = []"
proof -
  let ?w = "broadcast_login (start_world accept_all close_all)" and ?f = "JObj [(''status'', JNum 401)]"
  have "poller_inv (poller_step Login (start_world accept_all close_all))"
    by (rule poller_inv_step) (simp add: poller_inv_def)
  then have b: "poller_inv ?w" by simp
  have a: "fld ?f ''status'' = JNum 401" by simp
  from unauthorized_ends_session [OF a b] show ?thesis by (simp split: prod.splits)
qed

lemma encode_nonempty: "s \<noteq> [] \<Longrightarrow> encodeURIComponent s \<noteq> []"
  using decode_encode [of s] by auto

definition login_call :: "string \<Rightarrow> string \<Rightarrow> string \<Rightarrow> call" where
  "login_call username password root =
     HPost (root @ ''user/login'') (JObj [(''u'', JStr username), (''p'', JStr password)])"

lemma broadcast_login_frame:
  "loc (broadcast_login w) = loc w" "parseUrl (broadcast_login w) = parseUrl w"
  by (simp_all add: changelog_defs Let_def split: option.splits)

lemma run_login_redirect:
  "search_param ''redirect'' w = JStr (encodeURIComponent u) \<Longrightarrow> u \<noteq> ''undefined'' \<Longrightarrow>
     loc (snd (run login_redirect w)) = parseUrl w u"
  by (simp add: login_redirect_def decode_encode drop_search_def set_search_def set_url_def)

lemma login_to:
  assumes "search_param ''redirect'' w = JStr (encodeURIComponent u)" "u \<noteq> ''undefined''"
    and "srv w (sent w @ [login_call name pw (apiRoot w)]) (login_call name pw (apiRoot w)) = Ok v"
  shows "loc (snd (run (login name pw) w)) = parseUrl w u"
proof -
  let ?c = "login_call name pw (apiRoot w)" and ?w0 = "resetUser w"
  have http: "run (http ?c) ?w0 = (Fulfilled v, digest (send ?c ?w0))"
    by (rule run_http_Ok) (simp add: assms(3))
  let ?w1 = "broadcast_login (digest (send ?c ?w0))"
  have "run (login name pw) w = run login_redirect ?w1"
    using http by (simp add: login_def run_then2 httpService_post_def run_deferred login_call_def)
  moreover have "search_param ''redirect'' ?w1 = JStr (encodeURIComponent u)" "parseUrl ?w1 = parseUrl w"
    using assms(1) by (simp_all add: search_param_def broadcast_login_frame send_def)
  ultimately show ?thesis using run_login_redirect [OF _ assms(2)] by simp
qed

text \<open>C8. An expired session leads back to the page it expired on: when the failure arrives, the login
  page is shown with the server's alerts, and the first login that succeeds leads to the URL the
  user was on.\<close>

theorem login_returns_to_page:
  fixes f w
  defines "w1 \<equiv> run_timers (onRejection f w)"
  assumes "fld f ''status'' = JNum 401" "is_array (rejection_alerts f)" "timers w = []"
    and "urlOf w (loc w) \<notin> {''/'', ''undefined''}"
    and "map_of (search (loc w)) ''redirect'' = None"
    and "srv w (sent w @ [login_call name pw (apiRoot w)]) (login_call name pw (apiRoot w)) = Ok v"
  shows "path (loc w1) = path (parseUrl w ''/'') \<and> displayed w1 = rejection_alerts f \<and>
    loc (snd (run (login name pw) w1)) = parseUrl w (urlOf w (loc w))"
proof -
  let ?u = "urlOf w (loc w)" and ?a = "rejection_alerts f"
  define w0 where "w0 = digest ((onRejection f w)\<lparr>timers := []\<rparr>)"
  define l where "l = (parseUrl w ''/'')\<lparr>search := [(''redirect'', encodeURIComponent ?u)]\<rparr>"
  have rej: "onRejection f w = add_timer (RedirectLater ?a ?u) (resetUser (broadcast_exit w))"
    using assms(2,5,6) by (simp add: onRejection_def Let_def search_param_def)
  have w0: "loc w0 = loc w" "shown w0 = loc w" "sent w0 = sent w" "srv w0 = srv w"
    "parseUrl w0 = parseUrl w" "apiRoot w0 = apiRoot w"
    by (simp_all add: w0_def rej add_timer_def)
  have w1: "w1 = digest (fire_timer (RedirectLater ?a ?u) w0)"
    by (simp add: w1_def run_timers_def rej assms(4) w0_def)
  have fire: "fire_timer (RedirectLater ?a ?u) w0 = (setMessages ?a True w0)\<lparr>loc := l\<rparr>"
    by (simp add: set_search_def set_url_def w0 l_def)
  have w1': "w1 = digest ((setMessages ?a True w0)\<lparr>loc := l\<rparr>)" by (simp only: w1 fire)
  have "l \<noteq> loc w"
  proof
    assume "l = loc w"
    then have "search (loc w) = search l" by simp
    also have "search l = [(''redirect'', encodeURIComponent ?u)]" by (simp add: l_def)
    finally have "search (loc w) = [(''redirect'', encodeURIComponent ?u)]" .
    then show False using assms(6) by simp
  qed
  then have disp: "displayed w1 = ?a"
    using assms(3)
    by (simp add: w1' digest_def w0 setMessages_def message_box_def location_changed_def
        onLocationChangeStart_def onLocationChangeSuccess_def resetMessages_def)
  have at: "loc w1 = l" "sent w1 = sent w" "srv w1 = srv w" "parseUrl w1 = parseUrl w" "apiRoot w1 = apiRoot w"
    by (simp_all add: w1' w0)
  have "search_param ''redirect'' w1 = JStr (encodeURIComponent ?u)"
    by (simp add: search_param_def at l_def)
  then have "loc (snd (run (login name pw) w1)) = parseUrl w ?u"
    using login_to [of w1 ?u name pw v] assms(5,7) at by simp
  then show ?thesis using disp at by (simp add: l_def)
qed

theorem login_returns_to_page_witness:
  "loc (snd (run (login ''me'' ''pw'')
     (run_timers (onRejection (JObj [(''status'', JNum 401), (''data'', JObj [(''alerts'', JArr [])])])
        ((start_world accept_all close_all)\<lparr>loc := \<lparr>path = ''/cdns'', search = []\<rparr>\<rparr>))))) =
   \<lparr>path = ''/cdns'', search = []\<rparr>"
proof -
  let ?f = "JObj [(''status'', JNum 401), (''data'', JObj [(''alerts'', JArr [])])]"
  let ?w = "(start_world accept_all close_all)\<lparr>loc := \<lparr>path = ''/cdns'', search = []\<rparr>\<rparr>"
  have a: "fld ?f ''status'' = JNum 401" "is_array (rejection_alerts ?f)" "timers ?w = []"
    by (simp_all add: rejection_alerts_def)
  have b: "urlOf ?w (loc ?w) \<notin> {''/'', ''undefined''}" "map_of (search (loc ?w)) ''redirect'' = None"
    by simp_all
  have c: "srv ?w (sent ?w @ [login_call ''me'' ''pw'' (apiRoot ?w)]) (login_call ''me'' ''pw'' (apiRoot ?w)) =
      Ok (JObj [(''response'', JArr []), (''data'', JObj [])])"
    by (simp add: accept_all_def)
  from login_returns_to_page [OF a b c] show ?thesis by simp
qed

definition logout_call :: "string \<Rightarrow> call" where
  "logout_call root = HPost (root @ ''user/logout'') JUndef"

text \<open>Logging out shows none of the alerts the server sends: the handler looks for them on the
  response object, which has no such property, so the board keeps what it shows and only the
  location changes, to the login page.\<close>

lemma logout_shows_nothing:
  assumes "srv w (sent w @ [logout_call (apiRoot w)]) (logout_call (apiRoot w)) = Ok response"
    and "getp response ''alerts'' = Some JUndef" "loc w = shown w"
    and "stateName w \<noteq> ''trafficPortal.public.login''"
  shows "case run logout w of (r, w') \<Rightarrow>
    messages w' = messages w \<and> queue w' = queue w \<and> \<not> userLoaded w' \<and>
    loc w' = parseUrl w (stateUrl w ''trafficPortal.public.login'')"
proof -
  have idle: "digest (send (logout_call (apiRoot w)) (resetUser w)) = send (logout_call (apiRoot w)) (resetUser w)"
    by (rule digest_idle) (simp add: send_def assms(3))
  have st: "stateName (broadcast_exit (send (logout_call (apiRoot w)) (resetUser w))) = stateName w"
    by (simp add: send_def)
  show ?thesis
    using assms idle st
    by (simp add: logout_def logout_call_def run_then1 httpService_post_def run_deferred run_http_Ok
        run_deref setMessages_def state_go_def set_url_def send_def)
qed

section \<open>Changing one's own name\<close>

lemma run_logout_sent: "sent (snd (run logout w)) = sent w @ [logout_call (apiRoot w)]"
proof -
  let ?w0 = "resetUser w"
  obtain r u where u: "run (http (logout_call (apiRoot w))) ?w0 = (r, u)" by fastforce
  then have "sent u = sent w @ [logout_call (apiRoot w)]" using run_http_frame(1) by fastforce
  then show ?thesis
    using u
    by (auto simp: logout_def logout_call_def run_then1 httpService_post_def run_deferred run_deref
        state_go_def set_url_def split: outcome.splits option.splits)
qed

definition update_current_call :: "js \<Rightarrow> string \<Rightarrow> call" where
  "update_current_call user root = HPost (root @ ''user/current/update'') (JObj [(''user'', user)])"

lemma run_updateCurrentUser:
  "\<exists>w'. run (updateCurrentUser user) w = (Fulfilled JUndef, w') \<and>
     sent w' = sent w @ [update_current_call user (apiRoot w)] \<and> apiRoot w' = apiRoot w"
proof -
  let ?c = "update_current_call user (apiRoot w)"
  obtain r u where u: "run (http ?c) w = (r, u)" by fastforce
  note fr = run_http_frame [OF u]
  show ?thesis
    using u fr
    by (cases r) (auto simp: updateCurrentUser_def api_def run_then2 update_current_call_def setUser_def
        onUserUpdated_def record_event_def)
qed

text \<open>Confirming a change of one's own username logs the user out whether the server accepted the
  change or refused it: the update's promise is fulfilled in both cases.\<close>

lemma username_change_always_logs_out:
  assumes "truthy (fld usernameField ''$dirty'')"
    and "\<And>params. ask w ''DialogConfirmController'' params JUndef = Close v"
  shows "sent (snd (run (UserController_confirmSave user usernameField) w)) =
    sent w @ [update_current_call user (apiRoot w), logout_call (apiRoot w)]"
proof -
  let ?p = "message_params ''Reauthentication Required''
            (''Changing your username to '' @ to_str (fld user ''username'') @
             '' will require you to reauthenticate. Is that OK?'')"
  let ?w0 = "digest (note_asked ''DialogConfirmController'' ?p JUndef w)"
  obtain w1 where w1: "run (updateCurrentUser user) ?w0 = (Fulfilled JUndef, w1)"
    "sent w1 = sent ?w0 @ [update_current_call user (apiRoot ?w0)]" "apiRoot w1 = apiRoot ?w0"
    using run_updateCurrentUser by blast
  then show ?thesis
    using assms run_logout_sent [of w1]
    by (simp add: UserController_confirmSave_def UserController_updateUser_def run_on_close
        run_dialog_confirm run_when_done run_detach)
qed

end
