(* ===== verification/Outcomes.thy ===== *)
theory Outcomes
  imports ResourceForms KeyServices
begin

text \<open>
  What the promises of particular services say of what happened: federations whose assignments
  fail, snapshots, versions of SSL keys, and the CDN that is not one.
\<close>

section \<open>Federations\<close>

text \<open>A mutation through \<open>$http\<close> that swallows its failure.\<close>

definition swallowing :: "string \<Rightarrow> call \<Rightarrow> later" where
  "swallowing txt c v =
     (case answer_call c v of
        (Fulfilled x, v') \<Rightarrow> run (say txt False) v'
      | (Rejected e, v') \<Rightarrow> run (fault_alerts False e) v'
      | (Pending, v') \<Rightarrow> (Pending, v'))"

definition users_call :: "js \<Rightarrow> js \<Rightarrow> string \<Rightarrow> call" where
  "users_call fedId userIds root =
     HPost (root @ ''federations/'' @ to_str fedId @ ''/users'')
       (JObj [(''userIds'', userIds), (''replace'', JBool False)])"

definition ds_call :: "js \<Rightarrow> js \<Rightarrow> string \<Rightarrow> call" where
  "ds_call fedId dsIds root =
     HPost (root @ ''federations/'' @ to_str fedId @ ''/deliveryservices'')
       (JObj [(''dsIds'', dsIds), (''replace'', JBool False)])"

lemma then2_http:
  "then2 (with_world (\<lambda>w. http (c w))) ok bad w =
     (\<lambda>v. case answer_call (c w) v of
            (Fulfilled x, v') \<Rightarrow> run (ok x) v'
          | (Rejected e, v') \<Rightarrow> run (bad e) v'
          | (Pending, v') \<Rightarrow> (Pending, v'), send (c w) w)"
  by (simp add: then2_def with_world_def http_def)

lemma start_assign_users:
  "assignFederationUsers fedId userIds False w =
     (swallowing ''Users linked to federation'' (users_call fedId userIds (apiRoot w)),
      send (users_call fedId userIds (apiRoot w)) w)"
  by (simp add: assignFederationUsers_def api_def users_call_def then2_http swallowing_def fun_eq_iff)

lemma start_assign_ds:
  "assignFederationDeliveryServices fedId dsIds False w =
     (swallowing ''Delivery services linked to federation'' (ds_call fedId dsIds (apiRoot w)),
      send (ds_call fedId dsIds (apiRoot w)) w)"
  by (simp add: assignFederationDeliveryServices_def api_def ds_call_def then2_http swallowing_def fun_eq_iff)

definition reports_failures :: "world \<Rightarrow> bool" where
  "reports_failures w \<longleftrightarrow> (\<forall>calls c f. srv w calls c = Err f \<longrightarrow> reported f)"

text \<open>Whatever the answer, the promise is fulfilled.\<close>

lemma swallowing_fulfilled:
  assumes "reports_failures v" "swallowing txt c v = (r, v')"
  shows "kept v v' \<and> shown v' = loc v' \<and> is_fulfilled r"
proof (cases "srv v (sent v) c")
  case (Ok x)
  then have "answer_call c v = (Fulfilled x, digest v)" by (simp add: answer_call_def)
  then show ?thesis
    using assms(2) kept_trans [OF kept_digest kept_setMessages] by (auto simp: swallowing_def)
next
  case (Err f)
  then have f: "reported f" using assms(1) by (simp add: reports_failures_def)
  then have "answer_call c v = (Rejected f, onRejection f (digest v))"
    using Err by (simp add: answer_call_def responseError_def reported_def)
  then show ?thesis
    using assms(2) f kept_trans [OF kept_trans [OF kept_digest kept_onRejection] kept_setMessages]
    by (auto simp: swallowing_def run_fault_alerts)
qed

lemma q_all_swallowing:
  assumes "run (q_all [p, q]) w = (r, w')" "reports_failures w"
    and "p w = (swallowing t c, send c w)" "q (send c w) = (swallowing u d, send d (send c w))"
    and "shown w = loc w"
  shows "kept (send d (send c w)) w' \<and> shown w' = loc w' \<and> is_fulfilled r"
proof -
  let ?w1 = "send d (send c w)" and ?ls = "[swallowing t c, swallowing u d]"
  have join: "join_all ?ls ?w1 = (r, w')"
    using assms by (simp add: run_q_all)
  have "(kept ?w1 w' \<and> shown w' = loc w') \<and> (is_fulfilled r \<longleftrightarrow> (\<forall>i < length ?ls. True))"
  proof (rule join_all_inv [OF _ _ join])
    fix i v s v'
    assume i: "i < length ?ls" and k: "kept ?w1 v \<and> shown v = loc v" and run: "(?ls ! i) v = (s, v')"
    obtain x e where "?ls ! i = swallowing x e" using i by (cases i) auto
    moreover have "reports_failures v"
      using k assms(2) by (simp add: reports_failures_def kept_def)
    ultimately have "kept v v' \<and> shown v' = loc v' \<and> is_fulfilled s"
      using swallowing_fulfilled run by simp
    then show "(kept ?w1 v' \<and> shown v' = loc v') \<and> (is_fulfilled s \<longleftrightarrow> True)"
      using k kept_trans by blast
  qed (simp add: assms(5))
  then show ?thesis by simp
qed

definition create_federation_call :: "js \<Rightarrow> js \<Rightarrow> string \<Rightarrow> call" where
  "create_federation_call cdn fed root =
     HPost (root @ ''cdns/'' @ to_str (fld cdn ''name'') @ ''/federations'') fed"

text \<open>The answer to a creation: the new federation's id and alerts that report the success.\<close>

definition creation_answer :: "js \<Rightarrow> js \<Rightarrow> js" where
  "creation_answer i alerts =
     JObj [(''data'', JObj [(''response'', JObj [(''id'', i)]), (''alerts'', alerts)])]"

section \<open>Snapshots, SSL keys\<close>

definition snapshot_call :: "js \<Rightarrow> string \<Rightarrow> call" where
  "snapshot_call cdn root = HPut (root @ ''cdns/'' @ to_str (fld cdn ''id'') @ ''/snapshot'') JUndef"

lemma alerts_then_reported:
  assumes "reported f"
  shows "alerts_then d k f w = k (setMessages (alerts_of f) d w)"
proof -
  have "alerts_of f \<noteq> JUndef" using assms by (auto simp: reported_def)
  moreover from this have "fld f ''data'' \<noteq> JUndef" by (auto simp: alerts_of_def fld_def)
  ultimately show ?thesis
    by (simp add: alerts_then_def deref_later_eq after_def getp_fld alerts_of_def)
qed

lemma parse_int_nat: "parse_int (JNum (int n)) = JNum (int n)"
  by (simp add: parse_int_def show_int_def parse_int_show_nat)

definition add_call :: "js \<Rightarrow> string \<Rightarrow> call" where
  "add_call form root = HPost (root @ ''deliveryservices/sslkeys/add'') form"

lemma add_form_version:
  assumes "is_object keys" "has_own keys ''version''" "fld keys ''version'' = JNum (int n)"
  shows "is_object (add_form ds keys) \<and> has_own (add_form ds keys) ''version'' \<and>
    fld (add_form ds keys) ''version'' = JNum (int (Suc n))"
proof -
  have own: "has_own (set_fld x k v) j" if "has_own x j" for x k v j
    using that has_own_set_other by blast
  have "next_version (set_fld keys ''key'' (fld ds ''xmlId'')) = JNum (int (Suc n))"
    using assms own by (simp add: next_version_def parse_int_nat)
  then show ?thesis
    using assms own by (simp add: add_form_def Let_def)
qed

lemma addSslKeys_refused:
  assumes "\<And>calls c. \<exists>f. srv w calls c = Err f \<and> reported f"
  shows "\<exists>f. run (addSslKeys slot ds) w =
    (Rejected f, setMessages (alerts_of f) False
       (onRejection f (digest (send (add_call (add_form ds (scope w slot)) (apiRoot w))
          (set_scope slot (add_form ds (scope w slot)) w)))))"
proof -
  let ?form = "add_form ds (scope w slot)"
  let ?c = "add_call ?form (apiRoot w)" and ?w0 = "set_scope slot ?form w"
  have w0: "srv ?w0 = srv w" "apiRoot ?w0 = apiRoot w" by (simp_all add: set_scope_def)
  obtain f where f: "srv ?w0 (sent ?w0 @ [?c]) ?c = Err f" "reported f"
    using assms w0 by metis
  have "run (http ?c) ?w0 = (Rejected f, onRejection f (digest (send ?c ?w0)))"
    using run_http_Err [OF f(1)] f(2) by (simp add: responseError_def reported_def)
  then show ?thesis
    using f(2) w0
    by (auto simp: addSslKeys_def Let_def api_def run_deferred add_call_def alerts_then_reported)
qed

text \<open>One more attempt.\<close>

definition try_add :: "string \<Rightarrow> js \<Rightarrow> world \<Rightarrow> world" where
  "try_add slot ds w = snd (run (addSslKeys slot ds) w)"

section \<open>Properties\<close>
section \<open>Properties\<close>

text \<open>C34. A federation that is created is announced with the alerts of its creation on its own page,
  whether or not the user and the delivery service could be assigned to it, and in whatever order
  the server answers the two assignments: a failed assignment is swallowed.\<close>

theorem federation_created_whatever_assignments:
  assumes "srv w (sent w @ [create_federation_call cdn fed (apiRoot w)])
      (create_federation_call cdn fed (apiRoot w)) = Ok (creation_answer i alerts)"
    and "reports_failures w" "is_array alerts"
    and "parseUrl w (federation_path (fld cdn ''id'') i) \<noteq> loc w"
  shows "case settle (createFederation cdn fed) w of (r, w') \<Rightarrow>
    loc w' = parseUrl w (federation_path (fld cdn ''id'') i) \<and> displayed w' = alerts \<and>
    sent w' = sent w @ [create_federation_call cdn fed (apiRoot w),
      users_call i (JArr [fld fed ''userId'']) (apiRoot w),
      ds_call i (JArr [fld fed ''dsId'']) (apiRoot w)]"
proof -
  let ?c = "create_federation_call cdn fed (apiRoot w)"
  define w0 where "w0 = digest (send ?c w)"
  have w0: "sent w0 = sent w @ [?c]" "loc w0 = loc w" "shown w0 = loc w0" "parseUrl w0 = parseUrl w"
    "srv w0 = srv w" "apiRoot w0 = apiRoot w"
    by (simp_all add: w0_def send_def)
  have created: "run (createFederation cdn fed) w =
      run (detach (assign_new_federation cdn fed i alerts)) w0"
    using run_http_Ok [OF assms(1)]
    by (simp add: createFederation_def api_def run_then2 create_federation_call_def creation_answer_def
        run_deref w0_def)
  let ?p = "assignFederationUsers i (JArr [fld fed ''userId'']) False"
  let ?q = "assignFederationDeliveryServices i (JArr [fld fed ''dsId'']) False"
  let ?cu = "users_call i (JArr [fld fed ''userId'']) (apiRoot w)"
  let ?cd = "ds_call i (JArr [fld fed ''dsId'']) (apiRoot w)"
  obtain r u where u: "run (q_all [?p, ?q]) w0 = (r, u)" by fastforce
  have "reports_failures w0" using assms(2) w0 by (simp add: reports_failures_def)
  then have k: "kept (send ?cd (send ?cu w0)) u" "shown u = loc u" "is_fulfilled r"
    using q_all_swallowing [OF u] w0 start_assign_users start_assign_ds
    by (simp_all add: send_def)
  have u': "sent u = sent w @ [?c, ?cu, ?cd]" "loc u = loc w" "parseUrl u = parseUrl w"
    using k(1) w0 by (simp_all add: kept_def send_def)
  have "run (detach (assign_new_federation cdn fed i alerts)) w0 =
      (Fulfilled JUndef, set_url (federation_path (fld cdn ''id'') i) (setMessages alerts True u))"
    using u k(3) by (cases r) (simp_all add: run_detach assign_new_federation_def run_then2)
  then show ?thesis
    using created u' k(2) assms(3,4) leave_with_message [of alerts u]
    by (simp add: settle_def)
qed

theorem federation_created_whatever_assignments_witness:
  "\<exists>server. (\<forall>calls c. length calls = 3 \<longrightarrow> server calls c = refuse_all calls c) \<and>
     displayed (snd (settle (createFederation (JObj [(''id'', JNum 1), (''name'', JStr ''c'')])
       (JObj [(''userId'', JNum 5), (''dsId'', JNum 6)])) (start_world server close_all))) =
     success ''Federation created''"
proof -
  let ?cdn = "JObj [(''id'', JNum 1), (''name'', JStr ''c'')]"
  let ?fed = "JObj [(''userId'', JNum 5), (''dsId'', JNum 6)]"
  define server where "server = (\<lambda>calls c. if length calls = 1
    then Ok (creation_answer (JNum 9) (success ''Federation created'')) else refuse_all calls c)"
  let ?w = "start_world server close_all"
  have a: "srv ?w (sent ?w @ [create_federation_call ?cdn ?fed (apiRoot ?w)])
      (create_federation_call ?cdn ?fed (apiRoot ?w)) =
      Ok (creation_answer (JNum 9) (success ''Federation created''))"
    by (simp add: server_def)
  have b: "reports_failures ?w"
    by (auto simp: reports_failures_def server_def refuse_all_def reported_def alerts_of_def split: if_splits)
  have c: "is_array (success ''Federation created'')" by simp
  have d: "parseUrl ?w (federation_path (fld ?cdn ''id'') (JNum 9)) \<noteq> loc ?w"
    by (simp add: federation_path_def)
  from federation_created_whatever_assignments [OF a b c d]
  have "displayed (snd (settle (createFederation ?cdn ?fed) ?w)) = success ''Federation created''"
    by (simp split: prod.splits)
  moreover have "\<forall>calls c. length calls = 3 \<longrightarrow> server calls c = refuse_all calls c"
    by (simp add: server_def)
  ultimately show ?thesis by blast
qed

text \<open>Every refused attempt to store SSL keys raises the version of the form once more: after
  \<open>k\<close> refusals it stands \<open>k\<close> above the version that is stored.\<close>

lemma refused_keys_raise_version:
  assumes "\<And>calls c. \<exists>f. srv w calls c = Err f \<and> reported f"
    and "is_object (scope w slot)" "has_own (scope w slot) ''version''"
    and "fld (scope w slot) ''version'' = JNum (int n)"
  shows "fld (scope ((try_add slot ds ^^ k) w) slot) ''version'' = JNum (int (n + k))"
proof -
  have "srv ((try_add slot ds ^^ k) w) = srv w \<and>
      is_object (scope ((try_add slot ds ^^ k) w) slot) \<and>
      has_own (scope ((try_add slot ds ^^ k) w) slot) ''version'' \<and>
      fld (scope ((try_add slot ds ^^ k) w) slot) ''version'' = JNum (int (n + k))"
  proof (induction k)
    case 0
    then show ?case using assms(2-4) by simp
  next
    case (Suc k)
    let ?v = "(try_add slot ds ^^ k) w"
    obtain f where f: "run (addSslKeys slot ds) ?v =
      (Rejected f, setMessages (alerts_of f) False
         (onRejection f (digest (send (add_call (add_form ds (scope ?v slot)) (apiRoot ?v))
            (set_scope slot (add_form ds (scope ?v slot)) ?v)))))"
      using addSslKeys_refused [of ?v slot ds] assms(1) Suc by auto
    have "scope (try_add slot ds ?v) slot = add_form ds (scope ?v slot)" "srv (try_add slot ds ?v) = srv ?v"
      by (simp_all add: try_add_def f set_scope_def)
    then show ?case using Suc add_form_version [of "scope ?v slot" "n + k" ds] by simp
  qed
  then show ?thesis by blast
qed

text \<open>Snapshots are announced on the CDN's page, but the promise of \<open>snapshot\<close> is never settled,
  whatever the server answers: nothing chained to it ever runs.\<close>

lemma snapshot_announced_never_settled:
  assumes "srv w (sent w @ [snapshot_call cdn (apiRoot w)]) (snapshot_call cdn (apiRoot w)) = a"
    and "reports_failures w"
    and "parseUrl w (''/cdns/'' @ to_str (fld cdn ''id'')) \<noteq> loc w"
  shows "case settle (snapshot cdn) w of (r, w') \<Rightarrow>
    r = Pending \<and> sent w' = sent w @ [snapshot_call cdn (apiRoot w)] \<and>
    displayed w' = shown_for ''Snapshot performed'' a \<and>
    loc w' = (if is_ok a then parseUrl w (''/cdns/'' @ to_str (fld cdn ''id'')) else loc w)"
proof (cases a)
  case (Ok v)
  then have "run (http (snapshot_call cdn (apiRoot w))) w = (Fulfilled v, answered_ok (snapshot_call cdn (apiRoot w)) w)"
    using assms(1) by (simp add: run_http_Ok answered_ok_def)
  then show ?thesis
    using Ok assms(3)
    by (simp add: settle_def snapshot_def api_def run_deferred snapshot_call_def after_def leave_with_message)
next
  case (Err f)
  then have f: "reported f" using assms(1,2) by (simp add: reports_failures_def)
  have "run (http (snapshot_call cdn (apiRoot w))) w =
      (Rejected f, answered_err (snapshot_call cdn (apiRoot w)) f w)"
    using assms(1) f Err by (simp add: run_http_Err responseError_def reported_def answered_err_def)
  then show ?thesis
    using Err f
    by (simp add: settle_def snapshot_def api_def run_deferred snapshot_call_def alerts_then_reported
        digest_idle setMessages_def message_box_def reported_def)
qed

text \<open>The list of CDNs leaves out the one called \<open>ALL\<close>, which is not a CDN, unless it is asked
  for; nothing else is left out and the order stays.\<close>

lemma getCDNs_without_ALL:
  assumes "srv w (sent w @ [HGet (apiRoot w @ ''cdns'') JUndef]) (HGet (apiRoot w @ ''cdns'') JUndef) =
      Ok (JObj [(''data'', JObj [(''response'', JArr cdns)])])"
  shows "fst (run (getCDNs all) w) =
    Fulfilled (JArr (if all then cdns else filter (\<lambda>cdn. fld cdn ''name'' \<noteq> JStr ''ALL'') cdns))"
proof -
  have "str_to_num ''ALL'' = JNaN" by code_simp
  then have "js_eq v (JStr ''ALL'') \<longleftrightarrow> v = JStr ''ALL''" for v
    by (cases v) auto
  then show ?thesis
    by (simp add: getCDNs_def api_def run_deferred run_http_Ok [OF assms] deref_later_eq)
qed

lemma getCDNs_without_ALL_witness:
  "fst (run (getCDNs False) (start_world
     (\<lambda>calls c. Ok (JObj [(''data'', JObj [(''response'',
        JArr [JObj [(''name'', JStr ''ALL'')], JObj [(''name'', JStr ''cdn1'')]])])])) close_all)) =
   Fulfilled (JArr [JObj [(''name'', JStr ''cdn1'')]])"
proof -
  let ?cdns = "[JObj [(''name'', JStr ''ALL'')], JObj [(''name'', JStr ''cdn1'')]]"
  let ?w = "start_world (\<lambda>calls c. Ok (JObj [(''data'', JObj [(''response'', JArr ?cdns)])])) close_all"
  have "srv ?w (sent ?w @ [HGet (apiRoot ?w @ ''cdns'') JUndef]) (HGet (apiRoot ?w @ ''cdns'') JUndef) =
      Ok (JObj [(''data'', JObj [(''response'', JArr ?cdns)])])" by simp
  from getCDNs_without_ALL [OF this, of False] show ?thesis by simp
qed

end
