(* ===== verification/Portal.thy ===== *)
theory Portal
  imports Lifecycle Snapshots Pages Sessions Outcomes
begin

text \<open>
  Whole sessions: every action the modelled pages offer keeps the state of the models in order, so it is
  in order after any sequence of actions, answers, timeouts and changes of the location.
\<close>

section \<open>The state of the models\<close>

text \<open>A set of messages is an object; its content is a list where there is one.\<close>

definition box_typed :: "js \<Rightarrow> bool" where
  "box_typed m \<longleftrightarrow> is_object m \<and> (fld m ''content'' = JUndef \<or> is_array (fld m ''content''))"

definition board_typed :: "world \<Rightarrow> bool" where
  "board_typed w \<longleftrightarrow> box_typed (messages w) \<and> list_all box_typed (queue w)"

text \<open>At most one set of messages waits, and at most one interval polls the change log.\<close>

definition portal_ok :: "world \<Rightarrow> bool" where
  "portal_ok w \<longleftrightarrow> board_typed w \<and> length (queue w) \<le> 1 \<and> poller_inv w"

definition stays_ok :: "world \<Rightarrow> world \<Rightarrow> bool" where
  "stays_ok w w' \<longleftrightarrow> (portal_ok w \<longrightarrow> portal_ok w')"

lemma box_typed_intros [simp]:
  "box_typed (JObj [])" "is_array xs \<Longrightarrow> box_typed (message_box b xs)"
  by (simp_all add: box_typed_def message_box_def)

lemma stays_ok_same:
  "messages w' = messages w \<Longrightarrow> queue w' = queue w \<Longrightarrow> logInterval w' = logInterval w \<Longrightarrow>
     intervals w' = intervals w \<Longrightarrow> nextInterval w' = nextInterval w \<Longrightarrow> stays_ok w w'"
  by (simp add: stays_ok_def portal_ok_def board_typed_def poller_inv_def)

lemma stays_ok_message: "stays_ok w (setMessages m d w)"
  by (cases "queue w")
    (auto simp: stays_ok_def portal_ok_def board_typed_def poller_inv_def setMessages_def)

lemma stays_ok_location: "stays_ok w (location_changed w)"
  by (auto simp: stays_ok_def portal_ok_def board_typed_def poller_inv_def location_changed_def
      onLocationChangeStart_def onLocationChangeSuccess_def resetMessages_def split: list.splits)

lemma stays_ok_trans: "stays_ok u v \<Longrightarrow> stays_ok v w \<Longrightarrow> stays_ok u w"
  by (simp add: stays_ok_def)

lemma stays_ok_digest: "stays_ok w (digest w)"
proof (cases "loc w = shown w")
  case False
  have "stays_ok w (w\<lparr>shown := loc w\<rparr>)" by (rule stays_ok_same) simp_all
  then show ?thesis
    using False stays_ok_trans [OF _ stays_ok_location] by (simp add: digest_def)
qed (simp add: digest_idle stays_ok_def)

lemma stays_ok_poller: "stays_ok w (poller_step e w)"
proof -
  have "messages (poller_step e w) = messages w \<and> queue (poller_step e w) = queue w"
    by (cases e) (simp_all add: changelog_defs Let_def receiveLogCount_def split: option.splits)
  then show ?thesis
    using poller_inv_step [of w e] by (simp add: stays_ok_def portal_ok_def board_typed_def)
qed

lemma stays_ok_broadcasts [keeps_intros]:
  "stays_ok w (broadcast_exit w)" "stays_ok w (broadcast_login w)" "stays_ok w (broadcast_getChangeLogs w)"
  using stays_ok_poller [of w Exit] stays_ok_poller [of w Login] stays_ok_poller [of w ReadLogs] by simp_all

interpretation ok: world_relation stays_ok
proof unfold_locales
  show "stays_ok w (onRejection f w)" for f w
  proof -
    have "stays_ok (broadcast_exit w) (resetUser (broadcast_exit w))"
      by (intro stays_ok_same) (simp_all add: resetUser_def onUserUpdated_def record_event_def)
    then have u: "stays_ok w (resetUser (broadcast_exit w))"
      by (rule stays_ok_trans [OF stays_ok_broadcasts(1)])
    have t: "stays_ok v (add_timer t v)" for t v
      by (intro stays_ok_same) (simp_all add: add_timer_def)
    show ?thesis
      unfolding onRejection_def Let_def
      by (auto intro: stays_ok_trans [OF u] stays_ok_message t simp: stays_ok_def [of w w])
  qed
  show "stays_ok w (note_asked c p x w)" for c p x w
    by (intro stays_ok_same) (simp_all add: note_asked_def)
qed (simp add: stays_ok_def, rule stays_ok_trans, assumption+, rule stays_ok_digest,
    rule stays_ok_message)

lemma ok_send: "stays_ok w (send c w)"
  by (rule stays_ok_same) (simp_all add: send_def)

lemma ok_moves [keeps_intros]:
  "stays_ok w (set_url u w)" "stays_ok w (set_path p w)" "stays_ok w (append_path p w)"
  "stays_ok w (set_search q w)" "stays_ok w (state_go s w)" "stays_ok w (state_reload w)"
  "stays_ok w (anchor_scroll w)" "stays_ok w (set_scope k v w)"
  "stays_ok w (setMessages m d w)"
  by (intro stays_ok_same stays_ok_message; simp add: location_defs)+

lemma ok_calls [keeps_intros]:
  "keeps stays_ok (http c)" "keeps stays_ok (api k u)" "keeps stays_ok (rest o' c)"
  "keeps stays_ok (with_world (\<lambda>w. http (g w)))"
  by (intro ok.http ok.api ok.rest ok.http_now ok_send)+

lemmas rest_defs =
  rest_getList_def rest_get_def rest_post_def rest_put_def rest_remove_def rest_customPOST_def
  rest_customGET_def httpService_get_def httpService_post_def httpService_put_def httpService_delete_def

lemma ok_user [keeps_intros]:
  "stays_ok w (resetUser w)" "stays_ok w (setUser u w)" "stays_ok w (refresh_own_user u w)"
  "stays_ok w (setProperties p w)" "stays_ok w (drop_search k w)" "stays_ok w (login_button b w)"
  by (intro stays_ok_same; simp add: resetUser_def setUser_def onUserUpdated_def record_event_def
      refresh_own_user_def setProperties_def drop_search_def set_search_def login_button_def set_scope_def)+

lemma ok_handlers [keeps_intros]:
  "later_keeps stays_ok (resolve_response v)" "later_keeps stays_ok (reject_undefined v)"
  "later_keeps stays_ok (show_and_resolve v)"
  unfolding resolve_response_def reject_undefined_def show_and_resolve_def
  by (intro keeps_intros)+

lemma ok_branches [keeps_intros]:
  "(b \<Longrightarrow> keeps stays_ok p) \<Longrightarrow> (\<not> b \<Longrightarrow> keeps stays_ok q) \<Longrightarrow> keeps stays_ok (if b then p else q)"
  "keeps stays_ok p \<Longrightarrow> (\<And>x. keeps stays_ok (f x)) \<Longrightarrow>
     keeps stays_ok (case m of None \<Rightarrow> p | Some x \<Rightarrow> f x)"
  by (cases m; simp)+

lemma ok_each [keeps_intros]: "\<forall>p\<in>set ps. keeps stays_ok p \<Longrightarrow> keeps stays_ok (each ps)"
  by (induction ps) (auto intro: keeps_intros)

lemmas op_defs =
  save_form_def delete_form_def confirm_delete_def with_cdn_def fulfill_promises_def

lemma Services_ok [keeps_intros]:
  "keeps stays_ok (navigateToPath a)" "keeps stays_ok (getASNs a1)" "keeps stays_ok (getASN a2)"
  "keeps stays_ok (createASN a3)" "keeps stays_ok (updateASN a4)" "keeps stays_ok (deleteASN a5)"
  "keeps stays_ok (getCacheGroups a6)" "keeps stays_ok (getCacheGroup a7)"
  "keeps stays_ok (createCacheGroup a8)" "keeps stays_ok (updateCacheGroup a9)"
  "keeps stays_ok (deleteCacheGroup a10)" "keeps stays_ok (queueCacheGroupUpdates a11 b11)"
  "keeps stays_ok (clearCacheGroupUpdates a12 b12)" "keeps stays_ok (getParameterCacheGroups a13)"
  "keeps stays_ok (getCacheGroupHealth)" "keeps stays_ok (getDivisions a15)"
  "keeps stays_ok (getDivision a16)" "keeps stays_ok (createDivision a17)"
  "keeps stays_ok (updateDivision a18)" "keeps stays_ok (deleteDivision a19)"
  "keeps stays_ok (getParameters a20)" "keeps stays_ok (getParameter a21)"
  "keeps stays_ok (createParameter a22)" "keeps stays_ok (updateParameter a23)"
  "keeps stays_ok (deleteParameter a24)" "keeps stays_ok (getProfileParameters a25)"
  "keeps stays_ok (getProfileUnassignedParams a26)"
  "keeps stays_ok (getCacheGroupUnassignedParams a27)" "keeps stays_ok (getPhysLocations a28)"
  "keeps stays_ok (getPhysLocation a29)" "keeps stays_ok (createPhysLocation a30)"
  "keeps stays_ok (updatePhysLocation a31)" "keeps stays_ok (deletePhysLocation a32)"
  "keeps stays_ok (getRegions a33)" "keeps stays_ok (getRegion a34)"
  "keeps stays_ok (createRegion a35)" "keeps stays_ok (updateRegion a36)"
  "keeps stays_ok (deleteRegion a37)" "keeps stays_ok (getRoles a38)" "keeps stays_ok (getRole a39)"
  unfolding navigateToPath_def getASNs_def getASN_def createASN_def updateASN_def deleteASN_def
    getCacheGroups_def getCacheGroup_def createCacheGroup_def updateCacheGroup_def
    deleteCacheGroup_def queueCacheGroupUpdates_def clearCacheGroupUpdates_def
    getParameterCacheGroups_def getCacheGroupHealth_def getDivisions_def getDivision_def
    createDivision_def updateDivision_def deleteDivision_def getParameters_def getParameter_def
    createParameter_def updateParameter_def deleteParameter_def getProfileParameters_def
    getProfileUnassignedParams_def getCacheGroupUnassignedParams_def getPhysLocations_def
    getPhysLocation_def createPhysLocation_def updatePhysLocation_def deletePhysLocation_def
    getRegions_def getRegion_def createRegion_def updateRegion_def deleteRegion_def getRoles_def
    getRole_def Let_def rest_defs op_defs
  by (intro keeps_intros)+

lemma Services_ok_2 [keeps_intros]:
  "keeps stays_ok (updateRole a)" "keeps stays_ok (deleteRole a1)" "keeps stays_ok (getStatuses a2)"
  "keeps stays_ok (getStatus a3)" "keeps stays_ok (createStatus a4)"
  "keeps stays_ok (updateStatus a5)" "keeps stays_ok (deleteStatus a6)"
  "keeps stays_ok (getTenants a7)" "keeps stays_ok (getTenant a8)"
  "keeps stays_ok (createTenant a9)" "keeps stays_ok (updateTenant a10)"
  "keeps stays_ok (deleteTenant a11)" "keeps stays_ok (getTypes a12)" "keeps stays_ok (getType a13)"
  "keeps stays_ok (createType a14)" "keeps stays_ok (updateType a15)"
  "keeps stays_ok (deleteType a16)" "keeps stays_ok (getDeliveryServiceRegexes a17)"
  "keeps stays_ok (getDeliveryServiceRegex a18 b18)"
  "keeps stays_ok (createDeliveryServiceRegex a19 b19)"
  "keeps stays_ok (updateDeliveryServiceRegex a20)"
  "keeps stays_ok (deleteDeliveryServiceRegex a21 b21)" "keeps stays_ok (getProfiles a22)"
  "keeps stays_ok (getProfile a23 b23)" "keeps stays_ok (createProfile a24)"
  "keeps stays_ok (updateProfile a25)" "keeps stays_ok (deleteProfile a26)"
  "keeps stays_ok (getParameterProfiles a27)" "keeps stays_ok (getParamUnassignedProfiles a28)"
  "keeps stays_ok (result_alerts a29 b29)" "keeps stays_ok (go_to_profile a30)"
  "keeps stays_ok (cloneProfile a31 b31)" "keeps stays_ok (exportProfile a32)"
  "keeps stays_ok (importProfile a33)" "keeps stays_ok (getServers a34)"
  "keeps stays_ok (getServer a35)" "keeps stays_ok (createServer a36)"
  "keeps stays_ok (updateServer a37)" "keeps stays_ok (deleteServer a38)"
  "keeps stays_ok (getServerConfigFiles a39)"
  unfolding updateRole_def deleteRole_def getStatuses_def getStatus_def createStatus_def updateStatus_def
    deleteStatus_def getTenants_def getTenant_def createTenant_def updateTenant_def
    deleteTenant_def getTypes_def getType_def createType_def updateType_def deleteType_def
    getDeliveryServiceRegexes_def getDeliveryServiceRegex_def createDeliveryServiceRegex_def
    updateDeliveryServiceRegex_def deleteDeliveryServiceRegex_def getProfiles_def getProfile_def
    createProfile_def updateProfile_def deleteProfile_def getParameterProfiles_def
    getParamUnassignedProfiles_def result_alerts_def go_to_profile_def cloneProfile_def
    exportProfile_def importProfile_def getServers_def getServer_def createServer_def
    updateServer_def deleteServer_def getServerConfigFiles_def Let_def rest_defs op_defs
  by (intro keeps_intros)+

lemma Services_ok_3 [keeps_intros]:
  "keeps stays_ok (getServerConfigFile a)" "keeps stays_ok (getDeliveryServiceServers a1)"
  "keeps stays_ok (getUnassignedDeliveryServiceServers a2)"
  "keeps stays_ok (getEligibleDeliveryServiceServers a3)"
  "keeps stays_ok (assignDeliveryServices a4 b4 c4 d4)" "keeps stays_ok (queueServerUpdates a5)"
  "keeps stays_ok (clearServerUpdates a6)" "keeps stays_ok (getEdgeStatusCount)"
  "keeps stays_ok (getCacheStats)" "keeps stays_ok (getCacheChecks)"
  "keeps stays_ok (updateServerStatus a10 b10)"
  unfolding getServerConfigFile_def getDeliveryServiceServers_def getUnassignedDeliveryServiceServers_def
    getEligibleDeliveryServiceServers_def assignDeliveryServices_def queueServerUpdates_def
    clearServerUpdates_def getEdgeStatusCount_def getCacheStats_def getCacheChecks_def
    updateServerStatus_def Let_def rest_defs op_defs
  by (intro keeps_intros)+

lemma PortalServices_ok [keeps_intros]:
  "keeps stays_ok (getCDNs a)" "keeps stays_ok (getCDN a1)" "keeps stays_ok (createCDN a2)"
  "keeps stays_ok (updateCDN a3)" "keeps stays_ok (deleteCDN a4)"
  "keeps stays_ok (queueCDNUpdates a5)" "keeps stays_ok (clearCDNUpdates a6)"
  "keeps stays_ok (getCapacity)" "keeps stays_ok (getRoutingMethods)"
  "keeps stays_ok (getCurrentStats)" "keeps stays_ok (getCurrentSnapshot a10)"
  "keeps stays_ok (getNewSnapshot a11)" "keeps stays_ok (snapshot a12)"
  "keeps stays_ok (getDNSSECKeys a13)" "keeps stays_ok (generateDNSSECKeys a14)"
  "keeps stays_ok (getCacheGroupParameters a15)"
  "keeps stays_ok (unlinkCacheGroupParameter a16 b16)"
  "keeps stays_ok (linkCacheGroupParameters a17)" "keeps stays_ok (unlinkProfileParameter a18 b18)"
  "keeps stays_ok (linkProfileParameters a19 b19)" "keeps stays_ok (linkParamProfiles a20 b20)"
  "keeps stays_ok (getBandwidth a21 b21 c21)" "keeps stays_ok (getConnections a22 b22 c22)"
  "keeps stays_ok (changeLogService_getNewLogCount)" "keeps stays_ok (getChangeLogs a24)"
  "keeps stays_ok (getDeliveryServices a25)" "keeps stays_ok (getDeliveryService a26)"
  "keeps stays_ok (createDeliveryService a27)" "keeps stays_ok (updateDeliveryService a28 b28)"
  "keeps stays_ok (deleteDeliveryService a29 b29)" "keeps stays_ok (getServerDeliveryServices a30)"
  "keeps stays_ok (getDeliveryServiceTargets a31)"
  "keeps stays_ok (getDeliveryServiceTarget a32 b32)"
  "keeps stays_ok (updateDeliveryServiceTarget a33 b33 c33)"
  "keeps stays_ok (createDeliveryServiceTarget a34 b34)"
  "keeps stays_ok (deleteDeliveryServiceTarget a35 b35)"
  "keeps stays_ok (getUserDeliveryServices a36)"
  "keeps stays_ok (deleteDeliveryServiceServer a37 b37)"
  "keeps stays_ok (assignDeliveryServiceServers a38 b38)"
  "keeps stays_ok (getDeliveryServiceRequests a39)"
  unfolding getCDNs_def getCDN_def createCDN_def updateCDN_def deleteCDN_def queueCDNUpdates_def
    clearCDNUpdates_def getCapacity_def getRoutingMethods_def getCurrentStats_def
    getCurrentSnapshot_def getNewSnapshot_def snapshot_def getDNSSECKeys_def
    generateDNSSECKeys_def getCacheGroupParameters_def unlinkCacheGroupParameter_def
    linkCacheGroupParameters_def unlinkProfileParameter_def linkProfileParameters_def
    linkParamProfiles_def getBandwidth_def getConnections_def
    changeLogService_getNewLogCount_def getChangeLogs_def getDeliveryServices_def
    getDeliveryService_def createDeliveryService_def updateDeliveryService_def
    deleteDeliveryService_def getServerDeliveryServices_def getDeliveryServiceTargets_def
    getDeliveryServiceTarget_def updateDeliveryServiceTarget_def createDeliveryServiceTarget_def
    deleteDeliveryServiceTarget_def getUserDeliveryServices_def deleteDeliveryServiceServer_def
    assignDeliveryServiceServers_def getDeliveryServiceRequests_def Let_def rest_defs op_defs
  by (intro keeps_intros)+

lemma PortalServices_ok_2 [keeps_intros]:
  "keeps stays_ok (createDeliveryServiceRequest a b)"
  "keeps stays_ok (updateDeliveryServiceRequest a1 b1)"
  "keeps stays_ok (deleteDeliveryServiceRequest a2 b2)"
  "keeps stays_ok (assignDeliveryServiceRequest a3 b3)"
  "keeps stays_ok (updateDeliveryServiceRequestStatus a4 b4)"
  unfolding createDeliveryServiceRequest_def updateDeliveryServiceRequest_def
    deleteDeliveryServiceRequest_def assignDeliveryServiceRequest_def
    updateDeliveryServiceRequestStatus_def Let_def rest_defs op_defs
  by (intro keeps_intros)+

lemma KeyServices_ok [keeps_intros]:
  "keeps stays_ok (generateSslKeys a b c)" "keeps stays_ok (addSslKeys a1 b1)"
  "keeps stays_ok (getSslKeys a2)" "keeps stays_ok (generateUrlSigKeys a3)"
  "keeps stays_ok (copyUrlSigKeys a4 b4)" "keeps stays_ok (getDeliveryServiceUrlSigKeys a5)"
  "keeps stays_ok (getKeys a6)" "keeps stays_ok (setKeys a7 b7)"
  unfolding generateSslKeys_def addSslKeys_def getSslKeys_def generateUrlSigKeys_def copyUrlSigKeys_def
    getDeliveryServiceUrlSigKeys_def getKeys_def setKeys_def Let_def rest_defs op_defs
  by (intro keeps_intros)+

lemma FederationServices_ok [keeps_intros]:
  "keeps stays_ok (getCDNFederations a)" "keeps stays_ok (getCDNFederation a1 b1)"
  "keeps stays_ok (assignFederationUsers a2 b2 c2)"
  "keeps stays_ok (assignFederationDeliveryServices a3 b3 c3)"
  "keeps stays_ok (assign_new_federation a4 b4 c4 d4)" "keeps stays_ok (createFederation a5 b5)"
  "keeps stays_ok (updateFederation a6)" "keeps stays_ok (deleteFederation a7 b7)"
  "keeps stays_ok (getFederationUsers a8)" "keeps stays_ok (deleteFederationUser a9 b9)"
  "keeps stays_ok (getFederationDeliveryServices a10)"
  "keeps stays_ok (deleteFederationDeliveryService a11 b11)"
  "keeps stays_ok (getFederationFederationResolvers a12)"
  "keeps stays_ok (createFederationResolver a13)" "keeps stays_ok (deleteFederationResolver a14)"
  "keeps stays_ok (assignFederationResolvers a15 b15 c15)"
  unfolding getCDNFederations_def getCDNFederation_def assignFederationUsers_def
    assignFederationDeliveryServices_def assign_new_federation_def createFederation_def
    updateFederation_def deleteFederation_def getFederationUsers_def deleteFederationUser_def
    getFederationDeliveryServices_def deleteFederationDeliveryService_def
    getFederationFederationResolvers_def createFederationResolver_def
    deleteFederationResolver_def assignFederationResolvers_def Let_def rest_defs op_defs
  by (intro keeps_intros)+

lemma UserServices_ok [keeps_intros]:
  "keeps stays_ok (login_redirect)" "keeps stays_ok (login a1 b1)" "keeps stays_ok (tokenLogin a2)"
  "keeps stays_ok (logout)" "keeps stays_ok (getCurrentUser)" "keeps stays_ok (resetPassword a5)"
  "keeps stays_ok (getUsers a6)" "keeps stays_ok (getUser a7)" "keeps stays_ok (createUser a8)"
  "keeps stays_ok (updateUser a9)" "keeps stays_ok (updateCurrentUser a10)"
  "keeps stays_ok (getUnassignedUserDeliveryServices a11)"
  "keeps stays_ok (deleteUserDeliveryService a12 b12)"
  "keeps stays_ok (assignUserDeliveryServices a13 b13)" "keeps stays_ok (registerUser a14)"
  "keeps stays_ok (getJobs a15)" "keeps stays_ok (createJob a16)" "keeps stays_ok (getRegexes a17)"
  "keeps stays_ok (getStaticDnsEntries a18)" "keeps stays_ok (getOSVersions)"
  "keeps stays_ok (generateISO a20)" "keeps stays_ok (getReleaseVersionInfo)"
  "keeps stays_ok (getProperties)" "keeps stays_ok (resolve_properties)"
  unfolding login_redirect_def login_def tokenLogin_def logout_def getCurrentUser_def resetPassword_def
    getUsers_def getUser_def createUser_def updateUser_def updateCurrentUser_def
    getUnassignedUserDeliveryServices_def deleteUserDeliveryService_def
    assignUserDeliveryServices_def registerUser_def getJobs_def createJob_def getRegexes_def
    getStaticDnsEntries_def getOSVersions_def generateISO_def getReleaseVersionInfo_def
    getProperties_def resolve_properties_def Let_def rest_defs op_defs
  by (intro keeps_intros)+

lemma Dialogs_ok [keeps_intros]:
  "keeps stays_ok (dialog_confirm_enter a)" "keeps stays_ok (dialog_input a1)"
  "keeps stays_ok (dialog_reset)" "keeps stays_ok (dialog_import_result a3)"
  "keeps stays_ok (dialog_import a4 b4)" "keeps stays_ok (refresh)"
  unfolding dialog_confirm_enter_def dialog_input_def dialog_reset_def dialog_import_result_def
    dialog_import_def refresh_def Let_def rest_defs op_defs
  by (intro keeps_intros)+

lemma ok_combinators [keeps_intros]:
  "keeps stays_ok c \<Longrightarrow> keeps stays_ok (dialog_select_from p c)"
  "keeps stays_ok c \<Longrightarrow> keeps stays_ok (dialog_compare p c)"
  "keeps stays_ok c \<Longrightarrow> keeps stays_ok (dialog_select_status s c)"
  "keeps stays_ok c \<Longrightarrow> keeps stays_ok (dialog_assign n o' c a)"
  "keeps stays_ok c \<Longrightarrow> keeps stays_ok (fetch_into k c)"
  "keeps stays_ok c \<Longrightarrow> keeps stays_ok (reload_after c)"
  "keeps stays_ok c \<Longrightarrow> keeps stays_ok (confirmed t m c)"
  unfolding dialog_select_from_def dialog_compare_def dialog_select_status_def dialog_assign_def
    fetch_into_def reload_after_def confirmed_def refresh_def
  by (intro keeps_intros; assumption)+

lemma DsRequests_ok [keeps_intros]:
  "keeps stays_ok (createDeliveryServiceDeleteRequest a)" "keeps stays_ok (assignRequest a1 b1)"
  "keeps stays_ok (editStatus a2)" "keeps stays_ok (rejectRequest a3)"
  "keeps stays_ok (refuse_complete)" "keeps stays_ok (completeRequest a5)"
  "keeps stays_ok (deleteRequest a6)" "keeps stays_ok (create_new)" "keeps stays_ok (create_update)"
  "keeps stays_ok (create_delete)" "keeps stays_ok (createRequest)"
  "keeps stays_ok (open_request_form a11)" "keeps stays_ok (editDeliveryServiceRequest a12)"
  "keeps stays_ok (table_fulfillRequest a13)" "keeps stays_ok (store_request a14)"
  "keeps stays_ok (set_request_status a15 b15)" "keeps stays_ok (form_editStatus a16)"
  "keeps stays_ok (confirm_and_delete a17)" "keeps stays_ok (fulfill_confirmed a18 b18 c18 d18 e18)"
  "keeps stays_ok (fulfillRequest a19 b19 c19 d19)" "keeps stays_ok (save_request a20 b20)"
  "keeps stays_ok (confirm_delete_request a21 b21 c21)"
  unfolding createDeliveryServiceDeleteRequest_def assignRequest_def editStatus_def rejectRequest_def
    refuse_complete_def completeRequest_def deleteRequest_def create_new_def create_update_def
    create_delete_def createRequest_def open_request_form_def editDeliveryServiceRequest_def
    table_fulfillRequest_def store_request_def set_request_status_def form_editStatus_def
    confirm_and_delete_def fulfill_confirmed_def fulfillRequest_def save_request_def
    confirm_delete_request_def Let_def rest_defs op_defs
  by (intro keeps_intros)+

lemma ResourceForms_ok [keeps_intros]:
  "keeps stays_ok (asn_save a)" "keeps stays_ok (asn_delete a1)"
  "keeps stays_ok (asn_confirmDelete a2)" "keeps stays_ok (cacheGroup_save a3)"
  "keeps stays_ok (cacheGroup_delete a4)" "keeps stays_ok (cacheGroup_confirmDelete a5)"
  "keeps stays_ok (cacheGroup_confirmQueueServerUpdates a6)"
  "keeps stays_ok (cacheGroup_confirmClearServerUpdates a7)" "keeps stays_ok (cdn_save a8)"
  "keeps stays_ok (cdn_delete a9)" "keeps stays_ok (cdn_confirmDelete a10)"
  "keeps stays_ok (division_save a11)" "keeps stays_ok (division_delete a12)"
  "keeps stays_ok (division_confirmDelete a13)" "keeps stays_ok (parameter_save a14)"
  "keeps stays_ok (parameter_delete a15)" "keeps stays_ok (parameter_confirmDelete a16)"
  "keeps stays_ok (parameter_confirmSave a17)" "keeps stays_ok (physLocation_save a18)"
  "keeps stays_ok (physLocation_delete a19)" "keeps stays_ok (physLocation_confirmDelete a20)"
  "keeps stays_ok (profile_save a21)" "keeps stays_ok (profile_delete a22)"
  "keeps stays_ok (profile_confirmDelete a23)" "keeps stays_ok (region_save a24)"
  "keeps stays_ok (region_delete a25)" "keeps stays_ok (region_confirmDelete a26)"
  "keeps stays_ok (server_save a27)" "keeps stays_ok (server_delete a28)"
  "keeps stays_ok (server_confirmDelete a29)" "keeps stays_ok (server_getStatuses)"
  "keeps stays_ok (status_save a31)" "keeps stays_ok (status_delete a32)"
  "keeps stays_ok (status_confirmDelete a33)" "keeps stays_ok (tenant_save a34)"
  "keeps stays_ok (tenant_delete a35)" "keeps stays_ok (tenant_confirmDelete a36)"
  "keeps stays_ok (type_save a37)" "keeps stays_ok (type_delete a38)"
  "keeps stays_ok (type_confirmDelete a39)"
  unfolding asn_save_def asn_delete_def asn_confirmDelete_def cacheGroup_save_def cacheGroup_delete_def
    cacheGroup_confirmDelete_def cacheGroup_confirmQueueServerUpdates_def
    cacheGroup_confirmClearServerUpdates_def cdn_save_def cdn_delete_def cdn_confirmDelete_def
    division_save_def division_delete_def division_confirmDelete_def parameter_save_def
    parameter_delete_def parameter_confirmDelete_def parameter_confirmSave_def
    physLocation_save_def physLocation_delete_def physLocation_confirmDelete_def
    profile_save_def profile_delete_def profile_confirmDelete_def region_save_def
    region_delete_def region_confirmDelete_def server_save_def server_delete_def
    server_confirmDelete_def server_getStatuses_def status_save_def status_delete_def
    status_confirmDelete_def tenant_save_def tenant_delete_def tenant_confirmDelete_def
    type_save_def type_delete_def type_confirmDelete_def Let_def rest_defs op_defs
  by (intro keeps_intros)+

lemma ResourceForms_ok_2 [keeps_intros]:
  "keeps stays_ok (regex_save a b)" "keeps stays_ok (regex_delete a1 b1)"
  "keeps stays_ok (regex_confirmDelete a2 b2)" "keeps stays_ok (target_save a3 b3 c3)"
  "keeps stays_ok (target_delete a4)" "keeps stays_ok (target_confirmDelete a5)"
  "keeps stays_ok (user_confirmSave a6)" "keeps stays_ok (federation_save a7)"
  "keeps stays_ok (federation_delete a8 b8)" "keeps stays_ok (confirmDeleteFederation a9 b9)"
  "keeps stays_ok (federation_deleteResolver a10)" "keeps stays_ok (confirmDeleteResolver a11 b11)"
  "keeps stays_ok (assignFederationResolver a12 b12)"
  "keeps stays_ok (federation_createResolver a13 b13)" "keeps stays_ok (createResolver a14)"
  "keeps stays_ok (asn_new_save a15)" "keeps stays_ok (cacheGroup_new_save a16)"
  "keeps stays_ok (cdn_new_save a17)" "keeps stays_ok (division_new_save a18)"
  "keeps stays_ok (parameter_new_confirmSave a19)" "keeps stays_ok (physLocation_new_save a20)"
  "keeps stays_ok (profile_new_save a21)" "keeps stays_ok (server_new_save a22)"
  "keeps stays_ok (status_new_save a23)" "keeps stays_ok (type_new_save a24)"
  "keeps stays_ok (user_new_confirmSave a25)" "keeps stays_ok (regex_new_save a26 b26)"
  "keeps stays_ok (target_new_save a27 b27 c27)" "keeps stays_ok (federation_new_save a28 b28)"
  "keeps stays_ok (register a29)" "keeps stays_ok (region_new_save a30)"
  "keeps stays_ok (tenant_new_save a31)" "keeps stays_ok (job_created a32 b32 c32)"
  "keeps stays_ok (job_new_save a33)" "keeps stays_ok (ds_job_new_save a34 b34)"
  "keeps stays_ok (server_new_getStatuses)"
  unfolding regex_save_def regex_delete_def regex_confirmDelete_def target_save_def target_delete_def
    target_confirmDelete_def user_confirmSave_def federation_save_def federation_delete_def
    confirmDeleteFederation_def federation_deleteResolver_def confirmDeleteResolver_def
    assignFederationResolver_def federation_createResolver_def createResolver_def
    asn_new_save_def cacheGroup_new_save_def cdn_new_save_def division_new_save_def
    parameter_new_confirmSave_def physLocation_new_save_def profile_new_save_def
    server_new_save_def status_new_save_def type_new_save_def user_new_confirmSave_def
    regex_new_save_def target_new_save_def federation_new_save_def register_def
    region_new_save_def tenant_new_save_def job_created_def job_new_save_def ds_job_new_save_def
    server_new_getStatuses_def Let_def rest_defs op_defs
  by (intro keeps_intros)+

lemma DsForms_ok [keeps_intros]:
  "keeps stays_ok (ds_getCDNs)" "keeps stays_ok (ds_getProfiles)"
  "keeps stays_ok (store_tenants a2)" "keeps stays_ok (ds_getTenants)"
  "keeps stays_ok (view_below a4)" "keeps stays_ok (viewTargets)" "keeps stays_ok (viewServers)"
  "keeps stays_ok (viewRegexes)" "keeps stays_ok (viewJobs)" "keeps stays_ok (manageSslKeys)"
  "keeps stays_ok (manageUrlSigKeys)" "keeps stays_ok (manageUriSigningKeys)"
  "keeps stays_ok (viewStaticDnsEntries)" "keeps stays_ok (ds_clone a13)"
  "keeps stays_ok (edit_createDeleteRequest a14)" "keeps stays_ok (ds_save a15 b15)"
  "keeps stays_ok (ds_confirmDelete a16 b16)" "keeps stays_ok (ds_new_save a17 b17)"
  unfolding ds_getCDNs_def ds_getProfiles_def store_tenants_def ds_getTenants_def view_below_def
    viewTargets_def viewServers_def viewRegexes_def viewJobs_def manageSslKeys_def
    manageUrlSigKeys_def manageUriSigningKeys_def viewStaticDnsEntries_def ds_clone_def
    edit_createDeleteRequest_def ds_save_def ds_confirmDelete_def ds_new_save_def Let_def rest_defs op_defs
  by (intro keeps_intros)+

lemma Tables_ok [keeps_intros]:
  "keeps stays_ok (servers_queueServerUpdates a)" "keeps stays_ok (servers_clearServerUpdates a1)"
  "keeps stays_ok (servers_confirmQueueServerUpdates)"
  "keeps stays_ok (servers_confirmClearServerUpdates)" "keeps stays_ok (editServer a4)"
  "keeps stays_ok (new_server_page)" "keeps stays_ok (cdnServers_queue a6)"
  "keeps stays_ok (cdnServers_clear a7)" "keeps stays_ok (cdnServers_queueServerUpdates a8)"
  "keeps stays_ok (cdnServers_clearServerUpdates a9)"
  "keeps stays_ok (cgServers_queueServerUpdates a10 b10)"
  "keeps stays_ok (cgServers_clearServerUpdates a11 b11)"
  "keeps stays_ok (cgServers_confirmQueueServerUpdates a12)"
  "keeps stays_ok (cgServers_confirmClearServerUpdates a13)"
  "keeps stays_ok (table_createDeliveryService a14)"
  "keeps stays_ok (table_editDeliveryService a15)" "keeps stays_ok (selectDSType)"
  "keeps stays_ok (compare_two a17)" "keeps stays_ok (compareDSs)"
  "keeps stays_ok (compareProfiles)" "keeps stays_ok (editProfile a20)"
  "keeps stays_ok (new_profile_page)" "keeps stays_ok (table_importProfile a22)"
  "keeps stays_ok (server_removeDeliveryService a23 b23)" "keeps stays_ok (confirmRemoveDS a24 b24)"
  "keeps stays_ok (cloneDsAssignments a25)" "keeps stays_ok (server_selectDeliveryServices a26 b26)"
  "keeps stays_ok (ds_removeServer a27 b27)" "keeps stays_ok (confirmRemoveServer a28 b28)"
  "keeps stays_ok (selectServers a29 b29)" "keeps stays_ok (user_removeDS a30 b30)"
  "keeps stays_ok (dialog_userDSs a31 b31)" "keeps stays_ok (selectDSs a32 b32)"
  "keeps stays_ok (dialog_cgParams a33)" "keeps stays_ok (cg_removeParameter a34 b34)"
  "keeps stays_ok (cg_selectParams a35)" "keeps stays_ok (users_of_profile a36)"
  "keeps stays_ok (profile_removeParameter a37 b37)"
  "keeps stays_ok (profile_linkParameters a38 b38)" "keeps stays_ok (confirmRemoveParam a39 b39)"
  unfolding servers_queueServerUpdates_def servers_clearServerUpdates_def
    servers_confirmQueueServerUpdates_def servers_confirmClearServerUpdates_def editServer_def
    new_server_page_def cdnServers_queue_def cdnServers_clear_def
    cdnServers_queueServerUpdates_def cdnServers_clearServerUpdates_def
    cgServers_queueServerUpdates_def cgServers_clearServerUpdates_def
    cgServers_confirmQueueServerUpdates_def cgServers_confirmClearServerUpdates_def
    table_createDeliveryService_def table_editDeliveryService_def selectDSType_def
    compare_two_def compareDSs_def compareProfiles_def editProfile_def new_profile_page_def
    table_importProfile_def server_removeDeliveryService_def confirmRemoveDS_def
    cloneDsAssignments_def server_selectDeliveryServices_def ds_removeServer_def
    confirmRemoveServer_def selectServers_def user_removeDS_def dialog_userDSs_def selectDSs_def
    dialog_cgParams_def cg_removeParameter_def cg_selectParams_def users_of_profile_def
    profile_removeParameter_def profile_linkParameters_def confirmRemoveParam_def Let_def rest_defs op_defs
  by (intro keeps_intros)+

lemma Tables_ok_2 [keeps_intros]:
  "keeps stays_ok (profile_selectParams a b)" "keeps stays_ok (param_removeProfile a1 b1)"
  "keeps stays_ok (confirmRemoveProfile a2 b2)" "keeps stays_ok (param_selectProfiles a3 b3)"
  "keeps stays_ok (federation_removeDS a4 b4)" "keeps stays_ok (federation_confirmRemoveDS a5 b5)"
  "keeps stays_ok (federation_selectDSs a6 b6 c6)" "keeps stays_ok (federation_removeUser a7 b7)"
  "keeps stays_ok (federation_confirmRemoveUser a8 b8)"
  "keeps stays_ok (federation_selectUsers a9 b9)" "keeps stays_ok (view_config_file a10 b10)"
  "keeps stays_ok (new_federation_page)" "keeps stays_ok (editFederation a12)"
  unfolding profile_selectParams_def param_removeProfile_def confirmRemoveProfile_def
    param_selectProfiles_def federation_removeDS_def federation_confirmRemoveDS_def
    federation_selectDSs_def federation_removeUser_def federation_confirmRemoveUser_def
    federation_selectUsers_def view_config_file_def new_federation_page_def editFederation_def Let_def rest_defs op_defs
  by (intro keeps_intros)+

lemma Pages_ok [keeps_intros]:
  "keeps stays_ok (view_link a)" "keeps stays_ok (server_profiles a1)"
  "keeps stays_ok (FormServer_init a2)" "keeps stays_ok (FormServer_onCDNChange)"
  "keeps stays_ok (alerts_of_result a4)" "keeps stays_ok (FormServer_updateStatus a5 b5)"
  "keeps stays_ok (FormServer_confirmStatusUpdate a6)"
  "keeps stays_ok (FormServer_queueServerUpdates a7)"
  "keeps stays_ok (FormServer_clearServerUpdates a8)"
  "keeps stays_ok (FormCDN_queueServerUpdates a9)" "keeps stays_ok (FormCDN_clearServerUpdates a10)"
  "keeps stays_ok (FormProfile_init)" "keeps stays_ok (FormProfile_cloneProfile a12)"
  "keeps stays_ok (export_file a13 b13 c13)" "keeps stays_ok (FormProfile_exportProfile a14)"
  "keeps stays_ok (FormCacheGroup_init)" "keeps stays_ok (FormASN_init)"
  "keeps stays_ok (FormRegion_init)" "keeps stays_ok (FormPhysLocation_init)"
  "keeps stays_ok (FormDeliveryServiceTarget_init)" "keeps stays_ok (FormDeliveryServiceRegex_init)"
  "keeps stays_ok (FormJob_init)" "keeps stays_ok (tenants_with_levels)"
  "keeps stays_ok (roles_by_level)" "keeps stays_ok (FormUser_init)"
  "keeps stays_ok (FormRegisterUser_init)" "keeps stays_ok (FormTenant_init)"
  "keeps stays_ok (FormISO_generate a27)" "keeps stays_ok (announce_cancelled a28)"
  "keeps stays_ok (dnssec_confirmGenerate a29 b29)" "keeps stays_ok (dnssec_generate a30 b30)"
  "keeps stays_ok (dnssec_confirm_and_generate a31 b31 c31)" "keeps stays_ok (urlsig_generate a32)"
  "keeps stays_ok (signed_others a33)" "keeps stays_ok (selectCopyFromDS a34)"
  "keeps stays_ok (sslKeys_generateKeys a35)" "keeps stays_ok (sslKeys_save a36)"
  "keeps stays_ok (sslKeys_confirmGenerate a37 b37)" "keeps stays_ok (nav_logout)"
  "keeps stays_ok (nav_releaseVersion)"
  unfolding view_link_def server_profiles_def FormServer_init_def FormServer_onCDNChange_def
    alerts_of_result_def FormServer_updateStatus_def FormServer_confirmStatusUpdate_def
    FormServer_queueServerUpdates_def FormServer_clearServerUpdates_def
    FormCDN_queueServerUpdates_def FormCDN_clearServerUpdates_def FormProfile_init_def
    FormProfile_cloneProfile_def export_file_def FormProfile_exportProfile_def
    FormCacheGroup_init_def FormASN_init_def FormRegion_init_def FormPhysLocation_init_def
    FormDeliveryServiceTarget_init_def FormDeliveryServiceRegex_init_def FormJob_init_def
    tenants_with_levels_def roles_by_level_def FormUser_init_def FormRegisterUser_init_def
    FormTenant_init_def FormISO_generate_def announce_cancelled_def dnssec_confirmGenerate_def
    dnssec_generate_def dnssec_confirm_and_generate_def urlsig_generate_def signed_others_def
    selectCopyFromDS_def sslKeys_generateKeys_def sslKeys_save_def sslKeys_confirmGenerate_def
    nav_logout_def nav_releaseVersion_def Let_def rest_defs op_defs
  by (intro keeps_intros)+

lemma ok_elements [keeps_intros]:
  "stays_ok w (performDiff dj c a b d w)" "stays_ok w (init_counts w)" "stays_ok w (set_element d v w)"
  "stays_ok w (compare_performDiff dj n m a b d w)"
  by (intro stays_ok_same; simp add: performDiff_def set_element_def set_count_def set_scope_def Let_def
      init_counts_def compare_performDiff_def)+

lemma ok_timeout [keeps_intros]: "(\<And>w. stays_ok w (f w)) \<Longrightarrow> keeps stays_ok (timeout_do f)"
  unfolding timeout_do_def by (intro keeps_intros)

lemma Snapshots_ok [keeps_intros]:
  "keeps stays_ok (diff_section a b c d e)" "keeps stays_ok (diffConfig a1 b1 c1 d1)"
  "keeps stays_ok (diffContentRouters a2 b2 c2 d2)" "keeps stays_ok (diffMonitors a3 b3 c3 d3)"
  "keeps stays_ok (diffContentServers a4 b4 c4 d4)"
  "keeps stays_ok (diffDeliveryServices a5 b5 c5 d5)"
  "keeps stays_ok (diffEdgeLocations a6 b6 c6 d6)" "keeps stays_ok (diffStats a7 b7 c7 d7)"
  "keeps stays_ok (config_page a8 b8 c8 d8)" "keeps stays_ok (confirmSnapshot a9 b9)"
  "keeps stays_ok (compare_items a10 b10 c10 d10 e10)" "keeps stays_ok (header_getChangeLogs)"
  "keeps stays_ok (header_logout)" "keeps stays_ok (header_confirmQueueServerUpdates)"
  "keeps stays_ok (header_snapshot)"
  unfolding diff_section_def diffConfig_def diffContentRouters_def diffMonitors_def diffContentServers_def
    diffDeliveryServices_def diffEdgeLocations_def diffStats_def config_page_def
    confirmSnapshot_def compare_items_def header_getChangeLogs_def header_logout_def
    header_confirmQueueServerUpdates_def header_snapshot_def Let_def rest_defs op_defs
  by (intro keeps_intros)+

lemma Sessions_ok [keeps_intros]:
  "keeps stays_ok (LoginController_login a)" "keeps stays_ok (LoginController_resetPassword)"
  "keeps stays_ok (UserController_updateUser a2 b2)"
  "keeps stays_ok (UserController_confirmSave a3 b3)"
  "keeps stays_ok (UserController_viewDeliveryServices a4)"
  unfolding LoginController_login_def LoginController_resetPassword_def UserController_updateUser_def
    UserController_confirmSave_def UserController_viewDeliveryServices_def Let_def rest_defs op_defs
  by (intro keeps_intros)+

section \<open>Sessions of the portal\<close>

text \<open>What the pages let the user do; every action of a page that is modelled is offered with all its
  arguments.\<close>

inductive offered :: "op \<Rightarrow> bool" where
  "offered (createDeliveryServiceDeleteRequest a)" | "offered (assignRequest a b)"
| "offered (editStatus a)" | "offered (rejectRequest a)" | "offered (completeRequest a)"
| "offered (deleteRequest a)" | "offered (createRequest)"
| "offered (editDeliveryServiceRequest a)" | "offered (table_fulfillRequest a)"
| "offered (form_editStatus a)" | "offered (fulfillRequest a b c d)"
| "offered (save_request a b)" | "offered (confirm_delete_request a b c)" | "offered (asn_save a)"
| "offered (asn_confirmDelete a)" | "offered (cacheGroup_save a)"
| "offered (cacheGroup_confirmDelete a)" | "offered (cacheGroup_confirmQueueServerUpdates a)"
| "offered (cacheGroup_confirmClearServerUpdates a)" | "offered (cdn_save a)"
| "offered (cdn_confirmDelete a)" | "offered (division_save a)"
| "offered (division_confirmDelete a)" | "offered (parameter_save a)"
| "offered (parameter_confirmDelete a)" | "offered (parameter_confirmSave a)"
| "offered (physLocation_save a)" | "offered (physLocation_confirmDelete a)"
| "offered (profile_save a)" | "offered (profile_confirmDelete a)" | "offered (region_save a)"
| "offered (region_confirmDelete a)" | "offered (server_save a)"
| "offered (server_confirmDelete a)" | "offered (server_getStatuses)" | "offered (status_save a)"
| "offered (status_confirmDelete a)" | "offered (tenant_save a)"
| "offered (tenant_confirmDelete a)" | "offered (type_save a)" | "offered (type_confirmDelete a)"
| "offered (regex_save a b)" | "offered (regex_confirmDelete a b)" | "offered (target_save a b c)"
| "offered (target_confirmDelete a)" | "offered (user_confirmSave a)"
| "offered (federation_save a)" | "offered (confirmDeleteFederation a b)"
| "offered (confirmDeleteResolver a b)" | "offered (createResolver a)"
| "offered (asn_new_save a)" | "offered (cacheGroup_new_save a)" | "offered (cdn_new_save a)"
| "offered (division_new_save a)" | "offered (parameter_new_confirmSave a)"
| "offered (physLocation_new_save a)" | "offered (profile_new_save a)"
| "offered (server_new_save a)" | "offered (status_new_save a)" | "offered (type_new_save a)"
| "offered (user_new_confirmSave a)" | "offered (regex_new_save a b)"
| "offered (target_new_save a b c)" | "offered (federation_new_save a b)" | "offered (register a)"
| "offered (region_new_save a)" | "offered (tenant_new_save a)" | "offered (job_new_save a)"
| "offered (ds_job_new_save a b)" | "offered (server_new_getStatuses)" | "offered (viewTargets)"
| "offered (viewServers)" | "offered (viewRegexes)" | "offered (viewJobs)"
| "offered (manageSslKeys)" | "offered (manageUrlSigKeys)" | "offered (manageUriSigningKeys)"
| "offered (viewStaticDnsEntries)" | "offered (ds_clone a)" | "offered (ds_save a b)"
| "offered (ds_confirmDelete a b)" | "offered (ds_new_save a b)"
| "offered (servers_confirmQueueServerUpdates)" | "offered (servers_confirmClearServerUpdates)"
| "offered (editServer a)" | "offered (new_server_page)"
| "offered (cdnServers_queueServerUpdates a)" | "offered (cdnServers_clearServerUpdates a)"
| "offered (cgServers_confirmQueueServerUpdates a)"
| "offered (cgServers_confirmClearServerUpdates a)" | "offered (table_createDeliveryService a)"
| "offered (table_editDeliveryService a)" | "offered (selectDSType)" | "offered (compareDSs)"
| "offered (compareProfiles)" | "offered (editProfile a)" | "offered (new_profile_page)"
| "offered (table_importProfile a)" | "offered (confirmRemoveDS a b)"
| "offered (cloneDsAssignments a)" | "offered (server_selectDeliveryServices a b)"
| "offered (confirmRemoveServer a b)" | "offered (selectServers a b)"
| "offered (user_removeDS a b)" | "offered (selectDSs a b)" | "offered (cg_removeParameter a b)"
| "offered (cg_selectParams a)" | "offered (confirmRemoveParam a b)"
| "offered (profile_selectParams a b)" | "offered (confirmRemoveProfile a b)"
| "offered (param_selectProfiles a b)" | "offered (federation_confirmRemoveDS a b)"
| "offered (federation_selectDSs a b c)" | "offered (federation_confirmRemoveUser a b)"
| "offered (federation_selectUsers a b)" | "offered (view_config_file a b)"
| "offered (new_federation_page)" | "offered (editFederation a)" | "offered (view_link a)"
| "offered (FormServer_init a)" | "offered (FormServer_onCDNChange)"
| "offered (FormServer_confirmStatusUpdate a)" | "offered (FormServer_queueServerUpdates a)"
| "offered (FormServer_clearServerUpdates a)" | "offered (FormCDN_queueServerUpdates a)"
| "offered (FormCDN_clearServerUpdates a)" | "offered (FormProfile_init)"
| "offered (FormProfile_cloneProfile a)" | "offered (FormProfile_exportProfile a)"
| "offered (FormCacheGroup_init)" | "offered (FormASN_init)" | "offered (FormRegion_init)"
| "offered (FormPhysLocation_init)" | "offered (FormDeliveryServiceTarget_init)"
| "offered (FormDeliveryServiceRegex_init)" | "offered (FormJob_init)" | "offered (FormUser_init)"
| "offered (FormRegisterUser_init)" | "offered (FormTenant_init)" | "offered (FormISO_generate a)"
| "offered (dnssec_confirmGenerate a b)" | "offered (dnssec_confirm_and_generate a b c)"
| "offered (urlsig_generate a)" | "offered (selectCopyFromDS a)"
| "offered (sslKeys_generateKeys a)" | "offered (sslKeys_save a)"
| "offered (sslKeys_confirmGenerate a b)" | "offered (nav_logout)"
| "offered (nav_releaseVersion)" | "offered (diffConfig a b c d)"
| "offered (diffContentRouters a b c d)" | "offered (diffMonitors a b c d)"
| "offered (diffContentServers a b c d)" | "offered (diffDeliveryServices a b c d)"
| "offered (diffEdgeLocations a b c d)" | "offered (diffStats a b c d)"
| "offered (config_page a b c d)" | "offered (confirmSnapshot a b)"
| "offered (compare_items a b c d e)" | "offered (header_getChangeLogs)"
| "offered (header_logout)" | "offered (header_confirmQueueServerUpdates)"
| "offered (header_snapshot)" | "offered (LoginController_login a)"
| "offered (LoginController_resetPassword)" | "offered (UserController_confirmSave a b)"
| "offered (UserController_viewDeliveryServices a)"

lemma offered_ok: "offered p \<Longrightarrow> keeps stays_ok p"
  by (induction rule: offered.induct) (rule keeps_intros)+

text \<open>One step of a session: the user acts, timeouts fire, answers nobody waits for arrive, the change
  log is polled, a message is removed, or the browser goes to another location.\<close>

inductive portal_step :: "world \<Rightarrow> world \<Rightarrow> bool" where
  acts: "offered p \<Longrightarrow> portal_step w (snd (settle p w))"
| timeouts: "portal_step w (run_timers w)"
| background: "portal_step w (run_backlog w)"
| polls: "portal_step w (poller_step Tick w)"
| removes: "portal_step w (removeMessage i w)"
| goes: "portal_step w (digest (w\<lparr>loc := l\<rparr>))"

lemma stays_ok_fold: "(\<And>x w. stays_ok w (f x w)) \<Longrightarrow> stays_ok w (fold f xs w)"
  by (induction xs arbitrary: w) (auto simp: stays_ok_def)

lemma stays_ok_timer: "stays_ok w (fire_timer t w)"
proof (cases t)
  case (RedirectLater a url)
  have "stays_ok (setMessages a True w) (fire_timer t w)"
    using RedirectLater by (intro stays_ok_same) (simp_all add: set_search_def set_url_def)
  then show ?thesis by (rule stays_ok_trans [OF stays_ok_message])
qed (simp add: stays_ok_message)

lemma stays_ok_run_timers: "stays_ok w (run_timers w)"
proof -
  have "stays_ok w (w\<lparr>timers := []\<rparr>)" by (rule stays_ok_same) simp_all
  then have "stays_ok w (digest (w\<lparr>timers := []\<rparr>))" by (rule stays_ok_trans [OF _ stays_ok_digest])
  then show ?thesis
    unfolding run_timers_def
    by (rule stays_ok_trans) (intro stays_ok_fold stays_ok_trans [OF stays_ok_timer stays_ok_digest])
qed

lemma stays_ok_deliver: "stays_ok w (deliver b w)"
proof (cases b)
  case (LogCount c)
  obtain r w1 where r: "answer_call c w = (r, w1)" by fastforce
  then have "stays_ok w w1" by (rule later_keepsD [OF ok.answer])
  then show ?thesis
    using LogCount r stays_ok_trans [OF _ stays_ok_poller [of w1 "Count (value_of r)"]] by (cases r) auto
qed

lemma stays_ok_backlog: "stays_ok w (run_backlog w)"
proof -
  have "stays_ok w (w\<lparr>backlog := []\<rparr>)" by (rule stays_ok_same) simp_all
  then show ?thesis
    unfolding run_backlog_def by (rule stays_ok_trans) (rule stays_ok_fold, rule stays_ok_deliver)
qed

lemma stays_ok_remove: "stays_ok w (removeMessage i w)"
  by (auto simp: stays_ok_def portal_ok_def board_typed_def poller_inv_def removeMessage_def Let_def
      box_typed_def)

lemma stays_ok_goes: "stays_ok w (digest (w\<lparr>loc := l\<rparr>))"
proof -
  have "stays_ok w (w\<lparr>loc := l\<rparr>)" by (rule stays_ok_same) simp_all
  then show ?thesis by (rule stays_ok_trans [OF _ stays_ok_digest])
qed

lemma stays_ok_settle: "keeps stays_ok p \<Longrightarrow> stays_ok w (snd (settle p w))"
  using ok.of_run [of p w] stays_ok_trans [OF _ stays_ok_digest]
  by (auto simp: settle_def split: prod.splits)

lemma portal_step_ok: "portal_step w w' \<Longrightarrow> stays_ok w w'"
  by (induction rule: portal_step.induct)
    (auto intro: offered_ok stays_ok_settle stays_ok_run_timers stays_ok_backlog stays_ok_poller stays_ok_remove
      stays_ok_goes simp del: poller_step.simps)

text \<open>C3. In every session of the portal, whatever the user does on its pages, the server answers and the
  order of the answers: the content of the message board is a list where there is one, at most one set
  of messages waits for the next page, and at most one interval polls the change log.\<close>

theorem sessions_keep_the_models_in_order:
  assumes "portal_step\<^sup>*\<^sup>* w0 w" "portal_ok w0"
  shows "(displayed w = JUndef \<or> is_array (displayed w)) \<and> length (queue w) \<le> 1 \<and>
    length (intervals w) \<le> 1"
proof -
  have "portal_ok w"
    using assms
  proof (induction rule: rtranclp_induct)
    case (step w w')
    then show ?case using portal_step_ok [of w w'] by (simp add: stays_ok_def)
  qed
  then show ?thesis
    using poller_one [of w] by (auto simp: portal_ok_def board_typed_def box_typed_def)
qed

theorem sessions_keep_the_models_in_order_witness:
  "let w0 = start_world refuse_all close_all;
       w = poller_step Tick (snd (settle (cdn_confirmDelete (JObj [(''id'', JNum 4)])) w0))
   in portal_step\<^sup>*\<^sup>* w0 w \<and> (displayed w = JUndef \<or> is_array (displayed w)) \<and> length (queue w) \<le> 1"
proof -
  let ?w0 = "start_world refuse_all close_all"
  let ?w1 = "snd (settle (cdn_confirmDelete (JObj [(''id'', JNum 4)])) ?w0)"
  have "portal_step ?w0 ?w1" by (intro portal_step.acts offered.intros)
  moreover have "portal_step ?w1 (poller_step Tick ?w1)" by (rule portal_step.polls)
  ultimately have r: "portal_step\<^sup>*\<^sup>* ?w0 (poller_step Tick ?w1)" by simp
  have ok: "portal_ok ?w0"
    by (simp add: portal_ok_def board_typed_def box_typed_def poller_inv_def) (simp add: start_world_def)
  show ?thesis
    using sessions_keep_the_models_in_order [OF r ok] r by (simp only: Let_def simp_thms)
qed

end
