(* ===== verification/Spec2Isabelle.thy ===== *)
theory Spec2Isabelle
  imports Dates Polling Navigation Portal
begin

text \<open>
  Traffic Portal, the web client of Traffic Control (\<open>traffic_portal/app/src/\<close>).

  The program.  Traffic Portal is an AngularJS application: controllers (\<open>common/modules/\<close>,
  \<open>modules/\<close>) act on what the user does, call the services of \<open>common/api/\<close>, and these call Traffic
  Ops through \<open>$http\<close> or Restangular.  What comes back goes through two interceptors
  (\<open>app.js\<close>), then through the handlers the services attach, which post their outcome to the
  message model, and then through the handlers the controllers attach, which navigate, reload or
  open dialogs.  The models of \<open>common/models/\<close> (messages, user, properties, change log) are shared
  by all of them and react to location changes and broadcasts.

  The model.  Everything the client keeps is one record, \<open>world\<close>.  An operation of the code is an
  \<open>op\<close>: its synchronous part, which runs at once, and a \<open>later\<close>, which is the promise it returns.
  What is outside the repository is a field of the world that nothing writes: the server (\<open>srv\<close>, a
  function of the calls made so far), the user in front of a dialog (\<open>ask\<close>), the order in which
  outstanding responses arrive (\<open>pick\<close>), how the router reads and prints URLs (\<open>parseUrl\<close>,
  \<open>urlOf\<close>, \<open>stateUrl\<close>).  Theorems hold for all of these unless they name a hypothesis about them.

  The theories, in the order they build on each other:
    \<^item> \<open>Prelude\<close>: JavaScript values, conversions, loose equality, decimal texts.
    \<^item> \<open>Platform\<close>: the world, promises (\<open>then\<close>, deferreds, \<open>$q.all\<close>), \<open>$location\<close>, \<open>$state\<close>,
      \<open>$interval\<close>, and sample worlds for concrete runs.
    \<^item> \<open>Models\<close>: \<open>MessageModel.js\<close>, \<open>UserModel.js\<close>, \<open>PropertiesModel.js\<close>, \<open>ChangeLogModel.js\<close>, with
      the contract of the message board as the locale \<open>message_board\<close>.
    \<^item> \<open>Uri\<close>, \<open>Http\<close>: \<open>encodeURIComponent\<close>; the interceptors of \<open>app.js\<close>, the timeouts they
      leave, and \<open>HttpService.js\<close>.
    \<^item> \<open>Services\<close>, \<open>PortalServices\<close>, \<open>KeyServices\<close>, \<open>FederationServices\<close>, \<open>UserServices\<close>: the services
      of \<open>common/api/\<close>, one definition per method, under the name of the method.
    \<^item> \<open>Dialogs\<close>: the modal dialogs and what their controllers make of an answer.
    \<^item> \<open>Frames\<close>: what an operation does whatever the server and the user answer.  The locale
      \<open>world_relation\<close> is the contract of a relation between the worlds before and after that every
      primitive keeps; every operation built from them keeps it.  It is interpreted for the log of calls,
      for the calls that are made at all, and for the state of the models.  \<open>makes\<close> says exactly which
      calls an operation makes at once.
    \<^item> \<open>Joins\<close>: reasoning about \<open>$q.all\<close> under every order of arrival.
    \<^item> \<open>DsRequests\<close>: the table and the form of delivery service requests.
    \<^item> \<open>Tenants\<close>, \<open>Utils\<close>: \<open>TenantUtils.js\<close> on a store of shared objects; \<open>NumberUtils.js\<close>,
      \<open>ServerUtils.js\<close>, \<open>FormUtils.js\<close>, \<open>StringUtils.js\<close>, \<open>OffsetFilter.js\<close>.
    \<^item> \<open>ResourceForms\<close>: the edit and new forms of the other resources; the locale \<open>resource\<close> is the
      contract between a form and its service, interpreted for thirteen services.
    \<^item> \<open>DsForms\<close>: the delivery service form, its option tables, and its edit, new and clone
      controllers.
    \<^item> \<open>Assign\<close>: the dialogs that assign resources, as a refinement of a set of ids.
    \<^item> \<open>Tables\<close>: the tables with actions of their own (\<open>common/modules/table/\<close>).
    \<^item> \<open>Snapshots\<close>: the page that compares the configuration of a CDN with a new snapshot, the page that
      compares two items, and the header.  What a difference is, is an argument (the library \<open>jsdiff\<close>).
    \<^item> \<open>Pages\<close>: what the edit and new forms share (their lists, links and further actions), the pages of
      keys, the navigation menu.
    \<^item> \<open>Lifecycle\<close>: the workflow of delivery service requests as Traffic Ops checks it
      (\<open>lib/go-tc/deliveryservice_requests.go\<close>, \<open>deliveryservice/request/requests.go\<close>), what the pages of
      the portal ask of it, and several users at work on one request as the step relation \<open>desk_step\<close>.
    \<^item> \<open>Dates\<close>: \<open>dateFormat\<close> of \<open>DateUtils.js\<close> with the calendar of the language's \<open>Date\<close>; \<open>Numbers\<close>:
      \<open>convertTo\<close> of \<open>NumberUtils.js\<close> on doubles.
    \<^item> \<open>Dashboard\<close>: the dashboard, its widgets and the charts of the CDNs, as a page whose intervals
      fire, whose answers arrive and which is left; \<open>Polling\<close>: what its intervals, its requests and its
      handlers of window resizes do over a life of the page.  The locale \<open>interval_owner\<close> of \<open>Platform\<close>
      is the contract of code that owns an interval; the change log model and every controller of the
      dashboard are instances.
    \<^item> \<open>Routing\<close>: the states of ui-router, their URL patterns and parameters, what a state's resolve
      functions wait for, and the loading of a page as the inductive relation \<open>opens\<close>; \<open>States\<close>: the
      states of the portal, one constant per file of \<open>modules/private/\<close> and \<open>modules/public/\<close>;
      \<open>Lists\<close>: the table controllers that list a resource and link to its form; \<open>Sitemap\<close>: where in
      the hierarchy each state stands; \<open>Visits\<close>: what opening a page does to the world;
      \<open>Navigation\<close>: where the links of tables and forms lead, and what the page behind them shows.
    \<^item> \<open>Sessions\<close>, \<open>Outcomes\<close>, \<open>Portal\<close>, and this theory: what holds of several components together;
      \<open>Portal\<close> has whole sessions, as the step relation \<open>portal_step\<close> over everything the pages offer.

  What the lemmas show.  The message board: what is posted for the next page is shown there, what is
  posted at once is gone there.  Failures: which of them are reported without the caller, what a
  session that has expired does, and that the login leads back.  Forms: one call per action, and what
  the page shows for every answer of the server.  Requests: which calls fulfilling, rejecting and
  completing make, in which order, whatever the order of the answers.  Dialogs, tenants and numbers:
  functional correctness against references.  Workflow: the buttons ask Traffic Ops for nothing its
  workflow refuses, and a completed request has been through review, whatever stale pages do.  Sessions:
  every action keeps the message board, the queue and the poller in order.  Dashboard: one interval
  per controller, silence after the page is left, and the two things that leaving does not undo.
  Pages: no page gets stuck while it opens, in any order of its resolve functions, and opening one only
  reads;
  the link of a row leads to one page, which asks the server for the record of that row; the links of
  forms lead to pages, with one exception that is stated; identifiers the URL patterns do not cover.
  Dates read back from their text, and converted units are accurate to half a hundredth.  Several
  theorems state behaviour that surprises: they describe the code as it is written.

  Assumptions of the model.  Numbers are integers, except in \<open>Numbers\<close> and the charts, where they are
  doubles given as rationals; strings are lists of UTF-8 code units; objects are
  association lists without identity, so two objects never compare equal with \<open>==\<close> (the code
  modelled does not compare objects).  A chain of promises that has started is run to its next
  answer from outside before another chain goes on; the answers joined by \<open>$q.all\<close> arrive in any
  order.  A handler that throws rejects its promise, and leaves a deferred unsettled.  Broadcasts
  reach their listeners at once, as \<open>$rootScope.$broadcast\<close> does.  The walk over the tenant
  hierarchy carries as much fuel as there are tenants, and this is proved to be enough.  The router is
  a library: that it reads a URL by the documented meaning of the patterns is the hypothesis
  \<open>reads_urls\<close>, and the order in which it runs the resolve functions of a state is left open, save
  that what a function injects is there before it runs.

  Not modelled: templates and styling, the tables' rendering (DataTables), what the
  drawing library makes of a chart, the validation patterns of fields, the formatting of fractional
  numbers, relative times, the lists of modules that wire the application together, the build files and
  \<open>server.js\<close> (static file serving), the first version of the portal (\<open>traffic_portal/v1\<close>), and
  the other programs of the repository, which are written in other languages (of Traffic Ops only the
  workflow of requests is modelled).
\<close>

lemma rejection_alerts_reported: "reported f \<Longrightarrow> rejection_alerts f = alerts_of f"
proof -
  assume "reported f"
  then have "fld (fld f ''data'') ''alerts'' \<noteq> JUndef" by (auto simp: reported_def alerts_of_def)
  then show ?thesis by (simp add: rejection_alerts_def getp_fld alerts_of_def)
qed

section \<open>A session that ends while a form is used\<close>



section \<open>Errors of the server while a form is saved\<close>

text \<open>A save the server fails with a status the interceptor reports itself (500 to 599 without
  those ending in 2 or 4): the service shows the alerts of the response, and when the timeout has
  fired they are replaced by the status and its text.\<close>

lemma server_error_replaces_alerts:
  assumes "srv w (sent w @ [RPut x]) (RPut x) = Err f" "reported f"
    and "fld f ''status'' = JNum (int n)" "500 \<le> n" "n < 600" "n mod 10 \<noteq> 2" "n mod 10 \<noteq> 4"
    and "timers w = []"
  shows "displayed (snd (settle (form_save kind x) w)) = alerts_of f \<and>
    displayed (run_timers (snd (settle (form_save kind x) w))) =
      error_alert (show_nat n @ '': '' @ to_str (fld f ''statusText''))"
proof -
  let ?t = "ShowLater (error_alert (show_nat n @ '': '' @ to_str (fld f ''statusText'')))"
  have "run (form_save kind x) w = (Fulfilled JUndef, anchor_scroll (set_scope (form_title kind)
      (fld x (form_field kind)) (setMessages (alerts_of f) False (answered_err (RPut x) f w))))"
    by (rule form_save_refused_run [OF assms(1,2)])
  moreover have "answered_err (RPut x) f w = add_timer ?t (digest (send (RPut x) w))"
    using responseError_status [OF assms(3), of "digest (send (RPut x) w)"] assms(2,4-7)
    by (auto simp: responseError_def answered_err_def reported_def)
  ultimately have s: "settle (form_save kind x) w = (Fulfilled JUndef, anchor_scroll (set_scope
      (form_title kind) (fld x (form_field kind)) (setMessages (alerts_of f) False
        (add_timer ?t (digest (send (RPut x) w))))))"
    by (simp add: settle_def digest_idle anchor_scroll_def set_scope_def)
  show ?thesis
    using assms(2,8)
    by (simp add: s run_timers_def anchor_scroll_def set_scope_def setMessages_def message_box_def
        reported_def digest_idle send_def)
qed

end
